(* ===== verification/Policy.thy ===== *)
theory Policy
  imports Prelude
begin

text \<open>
  Run policies (\<open>src/policy.go\<close>): which tools and which resource kinds a run may
  use, how many children it may spawn, and the subset check that a child policy has
  to pass. A Go map used as a set (\<open>map[string]bool\<close> that only ever holds true) is a
  \<^typ>\<open>string set\<close>; a range over it with an early return is a bounded quantifier.
\<close>

type_synonym ResourceKind = string

record RunPolicy =
  AllowTools :: "string list"
  DenyTools :: "string list"
  ResourceKinds :: "ResourceKind list"
  MaxChildren :: int
  ChildInherit :: bool

definition DefaultRunPolicy :: RunPolicy where
  "DefaultRunPolicy =
    \<lparr>AllowTools = [''*''], DenyTools = [], ResourceKinds = [''*''], MaxChildren = 16,
     ChildInherit = False\<rparr>"

definition stringSet :: "string list \<Rightarrow> string set" where
  "stringSet values = set values"

definition kindSet :: "ResourceKind list \<Rightarrow> ResourceKind set" where
  "kindSet values = set values"

definition AllowsTool :: "RunPolicy \<Rightarrow> string \<Rightarrow> bool" where
  "AllowsTool p name =
    (let deny = stringSet (DenyTools p) in
     if name \<in> deny \<or> ''*'' \<in> deny then False
     else (let allow = stringSet (AllowTools p) in ''*'' \<in> allow \<or> name \<in> allow))"

definition AllowsResourceKind :: "RunPolicy \<Rightarrow> ResourceKind \<Rightarrow> bool" where
  "AllowsResourceKind p kind =
    (if length (ResourceKinds p) = 0 then False
     else (let s = kindSet (ResourceKinds p) in ''*'' \<in> s \<or> kind \<in> s))"

definition effectiveAllow :: "RunPolicy \<Rightarrow> string set" where
  "effectiveAllow p =
    (let allow = stringSet (AllowTools p); deny = stringSet (DenyTools p) in
     if ''*'' \<in> deny then {}
     else if ''*'' \<in> allow then {''*''}
     else Set.filter (\<lambda>t. t \<notin> deny) allow)"

definition allowHasStar :: "RunPolicy \<Rightarrow> bool" where
  "allowHasStar p =
    (if ''*'' \<in> stringSet (DenyTools p) then False else ''*'' \<in> stringSet (AllowTools p))"

definition kindsSubset :: "ResourceKind list \<Rightarrow> ResourceKind list \<Rightarrow> bool" where
  "kindsSubset child parent =
    (if length child = 0 then True
     else (let ps = kindSet parent in
       if ''*'' \<in> ps then True
       else (let cs = kindSet child in
         if ''*'' \<in> cs then False else (\<forall>k\<in>cs. k \<in> ps))))"

definition IsSubset :: "RunPolicy \<Rightarrow> RunPolicy \<Rightarrow> bool" where
  "IsSubset p parent =
    (if MaxChildren p > MaxChildren parent then False
     else if allowHasStar p \<and> \<not> allowHasStar parent then False
     else if \<not> allowHasStar p \<and>
       (let parentAllow = effectiveAllow parent; parentStar = allowHasStar parent;
            parentDeny = stringSet (DenyTools parent) in
        \<exists>t\<in>effectiveAllow p. t \<noteq> ''*'' \<and> (t \<in> parentDeny \<or> (\<not> parentStar \<and> t \<notin> parentAllow)))
       then False
     else if allowHasStar p \<and>
       (let childDeny = stringSet (DenyTools p) in
        \<exists>d\<in>set (DenyTools parent). d \<noteq> ''*'' \<and> d \<notin> childDeny \<and> ''*'' \<notin> childDeny)
       then False
     else if \<not> kindsSubset (ResourceKinds p) (ResourceKinds parent) then False
     else True)"

definition CanonicalTools :: "string list" where
  "CanonicalTools =
    [''ask_user'', ''post_event'',
     ''session_memory_get'', ''session_memory_list'', ''session_memory_set'', ''session_memory_delete'',
     ''spawn_agent'', ''wait_for_agents'', ''run_agent_cohort'',
     ''provision_resource'', ''list_resources'', ''terminate_resource'',
     ''provision_env'', ''list_envs'', ''terminate_env'',
     ''bash'', ''view'', ''write'', ''edit'', ''multiedit'', ''delete'', ''ls'', ''glob'', ''grep'',
     ''job_output'', ''job_kill'', ''download'', ''fetch'', ''web_fetch'',
     ''lsp_diagnostics'', ''lsp_references'', ''lsp_restart'']"

section \<open>What a policy permits\<close>

lemmas policy_defs = AllowsTool_def AllowsResourceKind_def effectiveAllow_def allowHasStar_def
  kindsSubset_def stringSet_def kindSet_def Let_def

lemma AllowsTool_iff:
  "AllowsTool p t \<longleftrightarrow> t \<notin> set (DenyTools p) \<and> ''*'' \<notin> set (DenyTools p) \<and>
    (''*'' \<in> set (AllowTools p) \<or> t \<in> set (AllowTools p))"
  by (auto simp: policy_defs)

lemma AllowsResourceKind_iff:
  "AllowsResourceKind p k \<longleftrightarrow> ''*'' \<in> set (ResourceKinds p) \<or> k \<in> set (ResourceKinds p)"
  by (auto simp: policy_defs)

lemma allowHasStar_iff: "allowHasStar p \<longleftrightarrow> AllowsTool p ''*''"
  by (auto simp: policy_defs)

lemma effectiveAllow_iff:
  "\<not> allowHasStar p \<Longrightarrow> effectiveAllow p = {t. AllowsTool p t}"
  by (auto simp: policy_defs)

lemma tool_blocked_iff:
  "t \<in> stringSet (DenyTools q) \<or> (\<not> allowHasStar q \<and> t \<notin> effectiveAllow q) \<longleftrightarrow> \<not> AllowsTool q t"
  by (auto simp: policy_defs)

lemma kindsSubset_iff:
  "kindsSubset (ResourceKinds p) (ResourceKinds q) \<longleftrightarrow>
    (\<forall>k. AllowsResourceKind p k \<longrightarrow> AllowsResourceKind q k)"
  by (auto simp: policy_defs)

text \<open>The semantic order the subset check decides.\<close>

definition policy_le :: "RunPolicy \<Rightarrow> RunPolicy \<Rightarrow> bool" where
  "policy_le p q \<longleftrightarrow> MaxChildren p \<le> MaxChildren q \<and>
    (\<forall>t. AllowsTool p t \<longrightarrow> AllowsTool q t) \<and>
    (\<forall>k. AllowsResourceKind p k \<longrightarrow> AllowsResourceKind q k)"

lemma IsSubset_policy_le: "IsSubset p q \<longleftrightarrow> policy_le p q"
proof (cases "allowHasStar p")
  case True
  then have "(\<forall>t. AllowsTool p t \<longrightarrow> AllowsTool q t) \<longleftrightarrow>
      allowHasStar q \<and> (\<forall>d\<in>set (DenyTools q). d \<noteq> ''*'' \<longrightarrow> d \<in> set (DenyTools p))"
    by (auto simp: AllowsTool_iff allowHasStar_iff)
  with True show ?thesis
    by (auto simp: IsSubset_def policy_le_def kindsSubset_iff stringSet_def allowHasStar_iff
        AllowsTool_iff Let_def)
next
  case False
  then show ?thesis
    unfolding IsSubset_def policy_le_def Let_def tool_blocked_iff kindsSubset_iff
    by (simp add: effectiveAllow_iff) (auto simp: allowHasStar_iff)
qed

end
