(* ===== verification/Core_Types.thy ===== *)
theory Core_Types
  imports Policy
begin

text \<open>
  The domain types of the root package (\<open>src/ultra.go\<close>, \<open>src/event.go\<close>, \<open>src/run.go\<close>,
  \<open>src/multiplayer.go\<close>, \<open>src/resource.go\<close>, \<open>src/credential.go\<close>, \<open>src/auth.go\<close>,
  \<open>src/automation.go\<close>) and of the loop's envelope (\<open>src/loop/loop.go\<close>). A Go struct is a
  record whose fields carry the struct's abbreviation (\<open>Run_State\<close> for
  \<open>AgentRun.State\<close>); an identifier is a string, a \<open>time.Time\<close> a count of nanoseconds, a
  nil-able pointer an option. Values the program stores as JSON text (event payloads,
  run results, wait outcomes, histories) are represented by the value that is encoded.
\<close>

type_synonym TenantID = string
type_synonym SessionID = string
type_synonym RunID = string
type_synonym ResourceID = string
type_synonym ProviderInstanceID = string
type_synonym APIKeyID = string
type_synonym Time = int
type_synonym Duration = int

record Actor =
  Actor_Kind :: string
  Actor_ID :: string
  Actor_Display :: string

definition ActorSystem :: Actor where
  "ActorSystem = \<lparr>Actor_Kind = ''system'', Actor_ID = ''core'', Actor_Display = ''''\<rparr>"

definition ActorAgent :: "RunID \<Rightarrow> Actor" where
  "ActorAgent rid = \<lparr>Actor_Kind = ''agent'', Actor_ID = rid, Actor_Display = ''''\<rparr>"

section \<open>Tenants, API keys and sessions\<close>

record Tenant =
  Tenant_ID :: TenantID
  Tenant_Name :: string
  Tenant_CreatedAt :: Time

datatype KeyScope = KeyScopeAdmin | KeyScopeSessions

record APIKey =
  Key_ID :: APIKeyID
  Key_TenantID :: TenantID
  Key_Name :: string
  Key_Scope :: KeyScope
  Key_Prefix :: string
  Key_Hash :: string
  Key_Enc :: string
  Key_CreatedAt :: Time
  Key_RevokedAt :: "Time option"

text \<open>A session row: the fields of the Go struct and the column \<open>last_seq\<close>.\<close>

record Session =
  Sess_ID :: SessionID
  Sess_TenantID :: TenantID
  Sess_Title :: string
  Sess_Labels :: "(string \<times> string) list"
  Sess_CreatedAt :: Time
  Sess_ArchivedAt :: "Time option"
  Sess_last_seq :: int

section \<open>Runs\<close>

datatype RunState = RunPending | RunRunning | RunAwaiting | RunCompleted | RunFailed | RunCancelled

fun RunState_Terminal :: "RunState \<Rightarrow> bool" where
  "RunState_Terminal s = (s = RunCompleted \<or> s = RunFailed \<or> s = RunCancelled)"

declare RunState_Terminal.simps [simp del]

datatype ModelConfig =
  ModelConfig (MC_Provider: string) (MC_ModelID: string) (MC_Credential: string)
    (MC_Fallbacks: "ModelConfig list")

text \<open>The JSON object \<open>{"final_text": ...}\<close> a completed run leaves behind.\<close>

datatype RunResult = FinalText string

record WaitMemberResult =
  WMR_Ordinal :: int
  WMR_RunID :: RunID
  WMR_State :: RunState
  WMR_Result :: "RunResult option"
  WMR_FailureReason :: string
  WMR_FailureMessage :: string

datatype WaitState = WaitOpen | WaitResolved | WaitTimedOut | WaitAbandoned

record WaitOutcome =
  WO_WaitID :: string
  WO_Kind :: string
  WO_State :: WaitState
  WO_TimedOut :: bool
  WO_Members :: "WaitMemberResult list"
  WO_Completed :: int
  WO_Failed :: int
  WO_Cancelled :: int
  WO_Pending :: int

text \<open>Text content of a message or an event: plain text, or an encoded outcome.\<close>

datatype content = Text string | EncodedOutcome WaitOutcome

datatype tool_output = OutputText content | OutputError content

datatype Message =
    UserMessage string
  | ToolMessage string tool_output
  | ModelMessage string

record Compaction =
  Comp_AtStep :: int
  Comp_CoveredMessages :: int
  Comp_Summary :: string

record Envelope =
  Env_V :: int
  Env_Messages :: "Message list"
  Env_Compactions :: "Compaction list"

text \<open>The stored history: no bytes, bytes that are not an envelope, or an envelope.\<close>

datatype RawHistory = EmptyHistory | CorruptHistory | EncodedEnvelope Envelope

record AgentRun =
  Run_ID :: RunID
  Run_SessionID :: SessionID
  Run_TenantID :: TenantID
  Run_ParentRunID :: "RunID option"
  Run_SpawnKey :: string
  Run_CohortID :: string
  Run_CohortOrdinal :: int
  Run_Policy :: RunPolicy
  Run_Actor :: Actor
  Run_Result :: "RunResult option"
  Run_State :: RunState
  Run_LoopKind :: string
  Run_LoopVersion :: int
  Run_ModelConfig :: ModelConfig
  Run_Prompt :: string
  Run_History :: RawHistory
  Run_FailureReason :: string
  Run_FailureMessage :: string
  Run_CancelRequestedAt :: "Time option"
  Run_CreatedAt :: Time
  Run_UpdatedAt :: Time

text \<open>Why a model step ended: with tool calls to answer, or another reason of the framework.\<close>

datatype FinishReason = FinishReasonToolCalls | OtherFinishReason string

record RunStep =
  Step_RunID :: RunID
  Step_StepIndex :: int
  Step_Attempt :: int
  Step_TokensIn :: int
  Step_TokensOut :: int
  Step_FinishReason :: FinishReason
  Step_CreatedAt :: Time

section \<open>Waits and session memory\<close>

record RunWait =
  Wait_ID :: string
  Wait_ParentRunID :: RunID
  Wait_StepIndex :: int
  Wait_ToolCallID :: string
  Wait_Kind :: string
  Wait_State :: WaitState
  Wait_TimeoutPolicy :: string
  Wait_Deadline :: Time
  Wait_Result :: "WaitOutcome option"
  Wait_ResumedAt :: "Time option"

definition RunWait_Terminal :: "RunWait \<Rightarrow> bool" where
  "RunWait_Terminal w = (Wait_State w \<noteq> WaitOpen)"

abbreviation WaitKindWait :: string where "WaitKindWait \<equiv> ''wait''"
abbreviation WaitKindCohort :: string where "WaitKindCohort \<equiv> ''cohort''"
abbreviation TimeoutPolicyResolve :: string where "TimeoutPolicyResolve \<equiv> ''resolve''"
abbreviation TimeoutPolicyFail :: string where "TimeoutPolicyFail \<equiv> ''fail''"

record RunWaitMember =
  Member_WaitID :: string
  Member_RunID :: RunID
  Member_Ordinal :: int

record SessionMemoryEntry =
  Mem_SessionID :: SessionID
  Mem_Key :: string
  Mem_Value :: string
  Mem_UpdatedBy :: Actor
  Mem_UpdatedAt :: Time

section \<open>Resources, providers and credentials\<close>

datatype ResourceState =
    ResourceRequested | ResourceProvisioning | ResourceReady | ResourceSuspended
  | ResourceTerminating | ResourceTerminated | ResourceFailed

definition ResourceState_Terminal :: "ResourceState \<Rightarrow> bool" where
  "ResourceState_Terminal s = (s = ResourceTerminated \<or> s = ResourceFailed)"

text \<open>
  A provider handle: the JSON texts that mean that nothing was acquired (no bytes,
  \<open>null\<close>, \<open>{}\<close>), a versioned handle, or any other JSON text.
\<close>

datatype Handle = NoHandle | NullHandle | BareObject | Versioned int string | OtherHandle string

record Resource =
  Res_ID :: ResourceID
  Res_TenantID :: TenantID
  Res_SessionID :: SessionID
  Res_Kind :: ResourceKind
  Res_ProviderInstanceID :: ProviderInstanceID
  Res_State :: ResourceState
  Res_Spec :: string
  Res_Handle :: Handle
  Res_Endpoint :: string
  Res_TokenHash :: string
  Res_TokenEnc :: string
  Res_Epoch :: int
  Res_FailureMessage :: string
  Res_CreatedByRunID :: "RunID option"
  Res_CreatedAt :: Time
  Res_UpdatedAt :: Time
  Res_ReadyAt :: "Time option"
  Res_TerminatedAt :: "Time option"

fun HandlePresent :: "Handle \<Rightarrow> bool" where
  "HandlePresent NoHandle = False"
| "HandlePresent NullHandle = False"
| "HandlePresent BareObject = False"
| "HandlePresent (Versioned v d) = (v > 0)"
| "HandlePresent (OtherHandle t) = True"

type_synonym ProviderCapability = string

abbreviation CapabilityRestartPreservesState :: ProviderCapability where
  "CapabilityRestartPreservesState \<equiv> ''restart_preserves_state''"
abbreviation CapabilityToleratesDisconnect :: ProviderCapability where
  "CapabilityToleratesDisconnect \<equiv> ''tolerates_disconnect''"
abbreviation CapabilityAdoptsOrphans :: ProviderCapability where
  "CapabilityAdoptsOrphans \<equiv> ''adopts_orphans''"
abbreviation CapabilityEnumeratesResources :: ProviderCapability where
  "CapabilityEnumeratesResources \<equiv> ''enumerates_resources''"
abbreviation CapabilityServesToolEndpoint :: ProviderCapability where
  "CapabilityServesToolEndpoint \<equiv> ''serves_tool_endpoint''"

record ProviderCapabilities =
  Cap_Kind :: string
  Cap_Supported :: "ProviderCapability list"
  Cap_Notes :: "(ProviderCapability \<times> string) list"

fun Capabilities_Has :: "ProviderCapability list \<Rightarrow> ProviderCapability \<Rightarrow> bool" where
  "Capabilities_Has [] capability = False"
| "Capabilities_Has (supported # rest) capability =
    (if supported = capability then True else Capabilities_Has rest capability)"

abbreviation Has :: "ProviderCapabilities \<Rightarrow> ProviderCapability \<Rightarrow> bool" where
  "Has c capability \<equiv> Capabilities_Has (Cap_Supported c) capability"

definition Reason :: "ProviderCapabilities \<Rightarrow> ProviderCapability \<Rightarrow> string" where
  "Reason c capability =
    (if Has c capability then []
     else case map_of (Cap_Notes c) capability of
       Some note \<Rightarrow> note
     | None \<Rightarrow> ''the provider does not support this capability'')"

definition OptionalProviderCapabilities :: "ProviderCapability list" where
  "OptionalProviderCapabilities =
    [CapabilityRestartPreservesState, CapabilityToleratesDisconnect, CapabilityAdoptsOrphans,
     CapabilityEnumeratesResources, CapabilityServesToolEndpoint]"

record ProviderInstance =
  Prov_ID :: ProviderInstanceID
  Prov_TenantID :: TenantID
  Prov_Kind :: string
  Prov_Name :: string
  Prov_Config :: string
  Prov_State :: string
  Prov_Capabilities :: ProviderCapabilities
  Prov_LastHealthyAt :: "Time option"
  Prov_CreatedAt :: Time

record Credential =
  Cred_TenantID :: TenantID
  Cred_Kind :: string
  Cred_Name :: string
  Cred_EncPayload :: string
  Cred_CreatedAt :: Time
  Cred_RotatedAt :: Time

record CredentialInfo =
  CredInfo_Kind :: string
  CredInfo_Name :: string
  CredInfo_CreatedAt :: Time
  CredInfo_RotatedAt :: Time

definition InferenceCredentialKind :: "string \<Rightarrow> string" where
  "InferenceCredentialKind provider =
    (if provider = ''openai'' then ''inference:openai''
     else if provider = ''anthropic'' then ''inference:anthropic''
     else if provider = ''bedrock'' then ''inference:bedrock''
     else '''')"

record PeriodicPrompt =
  Per_ID :: string
  Per_TenantID :: TenantID
  Per_SessionID :: SessionID
  Per_RunID :: RunID
  Per_Schedule :: Duration
  Per_Prompt :: string
  Per_Enabled :: bool
  Per_NextAt :: Time
  Per_CreatedAt :: Time

section \<open>Events\<close>

record Question =
  Q_Text :: string
  Q_Choices :: "string list"

record ResourceEvent =
  RE_ResourceID :: ResourceID
  RE_Kind :: ResourceKind
  RE_Name :: string
  RE_ProviderInstanceID :: ProviderInstanceID
  RE_Endpoint :: string
  RE_Message :: string
  RE_Epoch :: int

text \<open>One constructor per payload struct, its arguments in the order of the fields.\<close>

datatype Payload =
    NoPayload
  | UserMessagePayload string
  | AnnotationPayload string
  | RunStartedPayload RunID string
  | StepStartedPayload RunID int int
  | TextDeltaPayload RunID int int int string
  | ReasoningDeltaPayload RunID int int int string
  | ToolCallStartedPayload RunID int string string string
  | ToolResultPayload RunID int string string content bool
  | StepFinishedPayload RunID int int int FinishReason
  | RunAwaitingPayload RunID Question
  | RunCompletedPayload RunID string
  | RunFailedPayload RunID string string
  | RunCancelledPayload RunID
  | ResourceEventPayload ResourceEvent
  | ExecPreviewRanPayload ResourceID string string bool
  | RunSpawnedPayload RunID RunID
  | MemoryEventPayload string string string string
  | SessionLabelsChangedPayload "(string \<times> string) list"
  | HistoryCompactedPayload RunID int int
  | ModelFallbackPayload RunID string string string
  | HookFiredPayload string RunID
  | PeriodicPromptFiredPayload RunID string
  | PermissionDeniedPayload RunID string "ResourceID option" string

definition NewMemoryEventPayload :: "string \<Rightarrow> Actor \<Rightarrow> string \<Rightarrow> Payload" where
  "NewMemoryEventPayload key updatedBy value =
    MemoryEventPayload key (Actor_Kind updatedBy) (Actor_ID updatedBy) value"

datatype EventKind =
    EventKindUserMessage | EventKindAnnotation | EventKindRunStarted | EventKindStepStarted
  | EventKindTextDelta | EventKindReasoningDelta | EventKindToolCallStart | EventKindToolResult
  | EventKindStepFinished | EventKindRunAwaiting | EventKindRunCompleted | EventKindRunFailed
  | EventKindRunCancelled | EventKindResourceRequested | EventKindResourceProvisioning
  | EventKindResourceReady | EventKindResourceFailed | EventKindResourceSuspended
  | EventKindResourceTerminating | EventKindResourceTerminated | EventKindExecPreviewRan
  | EventKindRunSpawned | EventKindMemorySet | EventKindMemoryDeleted | EventKindPermissionDenied
  | EventKindHistoryCompacted | EventKindModelFallback | EventKindHookFired
  | EventKindPeriodicPromptFired | EventKindSessionLabelsChanged

record Event =
  Ev_SessionID :: SessionID
  Ev_Seq :: int
  Ev_TS :: Time
  Ev_Actor :: Actor
  Ev_Kind :: EventKind
  Ev_Payload :: Payload

section \<open>Basic facts\<close>

lemma RunState_Terminal_simps [simp]:
  "RunState_Terminal RunCompleted" "RunState_Terminal RunFailed" "RunState_Terminal RunCancelled"
  "\<not> RunState_Terminal RunPending" "\<not> RunState_Terminal RunRunning" "\<not> RunState_Terminal RunAwaiting"
  by (simp_all add: RunState_Terminal.simps)

lemma Capabilities_Has_iff: "Capabilities_Has cs c \<longleftrightarrow> c \<in> set cs"
  by (induction cs) auto

lemma ResourceState_Terminal_simps [simp]:
  "ResourceState_Terminal ResourceTerminated" "ResourceState_Terminal ResourceFailed"
  "\<not> ResourceState_Terminal ResourceRequested" "\<not> ResourceState_Terminal ResourceProvisioning"
  "\<not> ResourceState_Terminal ResourceReady" "\<not> ResourceState_Terminal ResourceSuspended"
  "\<not> ResourceState_Terminal ResourceTerminating"
  by (simp_all add: ResourceState_Terminal_def)

end
