(* ===== verification/Store_State.thy ===== *)
theory Store_State
  imports Core_Types
begin

text \<open>
  The database: one list of rows per table of
  \<open>src/postgres/migrations/00001_baseline.sql\<close>, in insertion order, the job queue, the
  notifications sent on the event channel, and the clock that \<open>now()\<close> and \<open>time.Now()\<close>
  read. Store calls and handlers are computations over it. Every database transaction
  is one atomic step (\<open>Store.Tx\<close> is \<^const>\<open>tx\<close>; a nested call runs its body directly).
\<close>

datatype Job =
    StepJob (SJ_RunID: RunID) (SJ_TenantID: TenantID) (SJ_SessionID: SessionID) (SJ_StepIndex: int)
  | WaitTimeoutJob TenantID
  | ProvisionJob TenantID ResourceID
  | TerminateJob TenantID ResourceID
  | ReconcileJob TenantID ResourceID
  | RestartJob TenantID ResourceID

text \<open>A queued job and the time it is scheduled at (\<open>None\<close>: at once).\<close>

record QueuedJob =
  Job_Args :: Job
  Job_ScheduledAt :: "Time option"

record db =
  db_now :: Time
  tenants :: "Tenant list"
  api_keys :: "APIKey list"
  sessions :: "Session list"
  session_events :: "Event list"
  credentials :: "Credential list"
  agent_runs :: "AgentRun list"
  agent_run_steps :: "RunStep list"
  provider_instances :: "ProviderInstance list"
  resources :: "Resource list"
  session_memory :: "SessionMemoryEntry list"
  run_waits :: "RunWait list"
  run_wait_members :: "RunWaitMember list"
  periodic_prompts :: "PeriodicPrompt list"
  jobs :: "QueuedJob list"
  notifications :: "(SessionID \<times> int) list"

text \<open>
  The errors of the program: the sentinels of \<open>src/store.go\<close> and of the loop, the typed
  errors handlers branch on, and the errors nobody branches on (a database error, a
  validation message). \<open>errAdoptedChild\<close> carries the run that the spawn transaction stores in
  a captured variable right before it aborts.
\<close>

datatype Err =
    ErrNotFound | ErrAlreadyExists | ErrPermissionDenied
  | errStale | errCancelledCommit | errAdoptedChild AgentRun | errMissingChildPrompt
  | deniedError string
  | CredentialError string string
  | ErrDatabase
  | ErrOther string
  | ErrInvalidArgument string | ErrFailedPrecondition string
  | ErrUnauthenticated | ErrInternal

type_synonym 'a dbm = "(db, Err, 'a) comp"

definition EnqueueInTx :: "Job \<Rightarrow> unit dbm" where
  "EnqueueInTx job =
    modifyM (\<lambda>d. d\<lparr>jobs := jobs d @ [\<lparr>Job_Args = job, Job_ScheduledAt = None\<rparr>]\<rparr>)"

definition EnqueueInTxAt :: "Job \<Rightarrow> Time \<Rightarrow> unit dbm" where
  "EnqueueInTxAt job at =
    modifyM (\<lambda>d. d\<lparr>jobs := jobs d @ [\<lparr>Job_Args = job, Job_ScheduledAt = Some at\<rparr>]\<rparr>)"

text \<open>A query for one row: \<open>pgx.ErrNoRows\<close> becomes \<open>ErrNotFound\<close>.\<close>

definition find_row :: "(db \<Rightarrow> 'r list) \<Rightarrow> ('r \<Rightarrow> bool) \<Rightarrow> 'r dbm" where
  "find_row table p =
    bindM (gets (\<lambda>d. find p (table d)))
      (\<lambda>r. case r of None \<Rightarrow> raise ErrNotFound | Some x \<Rightarrow> ret x)"

definition select_rows :: "(db \<Rightarrow> 'r list) \<Rightarrow> ('r \<Rightarrow> bool) \<Rightarrow> 'r list dbm" where
  "select_rows table p = gets (\<lambda>d. filter p (table d))"

text \<open>The database right after the migrations.\<close>

definition empty_db :: "Time \<Rightarrow> db" where
  "empty_db t =
    \<lparr>db_now = t, tenants = [], api_keys = [], sessions = [], session_events = [],
     credentials = [], agent_runs = [], agent_run_steps = [], provider_instances = [],
     resources = [], session_memory = [], run_waits = [], run_wait_members = [],
     periodic_prompts = [], jobs = [], notifications = []\<rparr>"

section \<open>Rules\<close>

lemma wp_find_row [wp_simps]:
  "wp (find_row table p) Q E d =
    (case find p (table d) of None \<Rightarrow> E ErrNotFound d | Some r \<Rightarrow> Q r d)"
  by (simp add: find_row_def wp_simps split: option.split)

lemma wp_select_rows [wp_simps]:
  "wp (select_rows table p) Q E d = Q (filter p (table d)) d"
  by (simp add: select_rows_def wp_simps)

lemma wp_EnqueueInTx [wp_simps]:
  "wp (EnqueueInTx job) Q E d =
    Q () (d\<lparr>jobs := jobs d @ [\<lparr>Job_Args = job, Job_ScheduledAt = None\<rparr>]\<rparr>)"
  by (simp add: EnqueueInTx_def wp_simps)

lemma wp_EnqueueInTxAt [wp_simps]:
  "wp (EnqueueInTxAt job at) Q E d =
    Q () (d\<lparr>jobs := jobs d @ [\<lparr>Job_Args = job, Job_ScheduledAt = Some at\<rparr>]\<rparr>)"
  by (simp add: EnqueueInTxAt_def wp_simps)

lemma preserves_find_row [pres_intros]: "preserves I (find_row table p)"
  by (simp add: preserves_wp wp_simps split: option.split)

lemma preserves_select_rows [pres_intros]: "preserves I (select_rows table p)"
  by (simp add: preserves_wp wp_simps)

end
