(* ===== verification/Go_Lib.thy ===== *)
theory Go_Lib
  imports Prelude
begin

text \<open>
  What the program uses of Go's standard library on byte strings: decimal formatting,
  \<open>utf8.RuneCountInString\<close>, the blank test by \<open>strings.TrimSpace\<close>, \<open>time.ParseDuration\<close>,
  and splitting at a byte.
\<close>

section \<open>Formatting integers\<close>

definition digit_char :: "nat \<Rightarrow> char" where
  "digit_char n = char_of (48 + n)"

fun utoa :: "nat \<Rightarrow> string" where
  "utoa n = (if n < 10 then [digit_char n] else utoa (n div 10) @ [digit_char (n mod 10)])"

declare utoa.simps [simp del]

text \<open>The verb \<open>%d\<close>.\<close>

definition itoa :: "int \<Rightarrow> string" where
  "itoa i = (if i < 0 then CHR ''-'' # utoa (nat (- i)) else utoa (nat i))"

section \<open>Runes\<close>

text \<open>
  \<open>utf8.RuneCountInString\<close> on a byte string: the width of the first rune, where a byte
  that starts no valid encoding is one rune by itself.
\<close>

fun in_range :: "nat \<Rightarrow> nat \<Rightarrow> char \<Rightarrow> bool" where
  "in_range lo hi c = (lo \<le> (of_char c :: nat) \<and> (of_char c :: nat) \<le> hi)"

fun rune_width :: "string \<Rightarrow> nat" where
  "rune_width (a # b # c # d # r) =
    (if in_range 240 240 a \<and> in_range 144 191 b \<and> in_range 128 191 c \<and> in_range 128 191 d then 4
     else if in_range 241 243 a \<and> in_range 128 191 b \<and> in_range 128 191 c \<and> in_range 128 191 d then 4
     else if in_range 244 244 a \<and> in_range 128 143 b \<and> in_range 128 191 c \<and> in_range 128 191 d then 4
     else rune_width [a, b, c])"
| "rune_width [a, b, c] =
    (if in_range 224 224 a \<and> in_range 160 191 b \<and> in_range 128 191 c then 3
     else if in_range 225 236 a \<and> in_range 128 191 b \<and> in_range 128 191 c then 3
     else if in_range 237 237 a \<and> in_range 128 159 b \<and> in_range 128 191 c then 3
     else if in_range 238 239 a \<and> in_range 128 191 b \<and> in_range 128 191 c then 3
     else rune_width [a, b])"
| "rune_width [a, b] = (if in_range 194 223 a \<and> in_range 128 191 b then 2 else 1)"
| "rune_width [a] = 1"
| "rune_width [] = 0"

lemma rune_width_pos: "s \<noteq> [] \<Longrightarrow> 0 < rune_width s"
  by (cases s rule: rune_width.cases) auto

function RuneCountInString :: "string \<Rightarrow> nat" where
  "RuneCountInString s = (if s = [] then 0 else Suc (RuneCountInString (drop (rune_width s) s)))"
  by pat_completeness auto
termination
  by (relation "measure length") (auto simp: rune_width_pos)

declare RuneCountInString.simps [simp del]

text \<open>
  \<open>strings.TrimSpace(s) == ""\<close>: the string consists of white space, which in UTF-8 is one of
  six ASCII bytes or one of the encodings of the other runes \<open>unicode.IsSpace\<close> accepts.
\<close>

fun is_blank :: "string \<Rightarrow> bool" where
  "is_blank [] = True"
| "is_blank (c # cs) =
    (let b = (of_char c :: nat) in
     if b \<in> {9, 10, 11, 12, 13, 32} then is_blank cs
     else if b = 194 then
       (case cs of d # r \<Rightarrow> (of_char d :: nat) \<in> {133, 160} \<and> is_blank r | [] \<Rightarrow> False)
     else
       (case cs of d # e # r \<Rightarrow>
          (let x = (of_char d :: nat); y = (of_char e :: nat) in
           ((b = 225 \<and> x = 154 \<and> y = 128) \<or>
            (b = 226 \<and> x = 128 \<and> (128 \<le> y \<and> y \<le> 138 \<or> y \<in> {168, 169, 175})) \<or>
            (b = 226 \<and> x = 129 \<and> y = 159) \<or> (b = 227 \<and> x = 128 \<and> y = 128)) \<and> is_blank r)
        | _ \<Rightarrow> False))"

section \<open>Durations\<close>

text \<open>
  \<open>time.ParseDuration\<close>, in nanoseconds; \<open>None\<close> is an error. The value of a fraction is
  computed exactly and rounded down, where Go multiplies in \<open>float64\<close>, so the two may differ
  in the last nanosecond of a fraction.
\<close>

definition is_digit :: "char \<Rightarrow> bool" where
  "is_digit c = (48 \<le> (of_char c :: nat) \<and> (of_char c :: nat) \<le> 57)"

definition digit_val :: "char \<Rightarrow> int" where
  "digit_val c = int (of_char c - 48)"

fun leadingInt :: "int \<Rightarrow> string \<Rightarrow> (int \<times> string) option" where
  "leadingInt x [] = Some (x, [])"
| "leadingInt x (c # cs) =
    (if \<not> is_digit c then Some (x, c # cs)
     else if x > 2 ^ 63 div 10 then None
     else (let y = x * 10 + digit_val c in if y > 2 ^ 63 then None else leadingInt y cs))"

text \<open>Digits that no longer fit are read and ignored.\<close>

fun leadingFraction :: "int \<Rightarrow> int \<Rightarrow> bool \<Rightarrow> string \<Rightarrow> int \<times> int \<times> string" where
  "leadingFraction x scale overflow [] = (x, scale, [])"
| "leadingFraction x scale overflow (c # cs) =
    (if \<not> is_digit c then (x, scale, c # cs)
     else if overflow then leadingFraction x scale True cs
     else if x > (2 ^ 63 - 1) div 10 then leadingFraction x scale True cs
     else (let y = x * 10 + digit_val c in
       if y > 2 ^ 63 then leadingFraction x scale True cs
       else leadingFraction y (scale * 10) False cs))"

definition unit_ns :: "string \<Rightarrow> int option" where
  "unit_ns u =
    (if u = ''ns'' then Some 1
     else if u = ''us'' \<or> u = map char_of [194, 181, 115 :: nat] \<or> u = map char_of [206, 188, 115 :: nat]
       then Some 1000
     else if u = ''ms'' then Some 1000000
     else if u = ''s'' then Some 1000000000
     else if u = ''m'' then Some 60000000000
     else if u = ''h'' then Some 3600000000000
     else None)"

definition unit_end :: "char \<Rightarrow> bool" where
  "unit_end c = (c = CHR ''.'' \<or> is_digit c)"

text \<open>One term of the duration: its value and the rest of the string.\<close>

definition duration_term :: "string \<Rightarrow> (int \<times> string) option" where
  "duration_term s =
    (if s = [] \<or> \<not> (hd s = CHR ''.'' \<or> is_digit (hd s)) then None
     else case leadingInt 0 s of None \<Rightarrow> None
     | Some (v, s1) \<Rightarrow>
       (let pre = length s1 \<noteq> length s;
            (f, scale, s2, post) =
              (if s1 \<noteq> [] \<and> hd s1 = CHR ''.'' then
                 (case leadingFraction 0 1 False (tl s1) of
                    (f, scale, r) \<Rightarrow> (f, scale, r, length r \<noteq> length (tl s1)))
               else (0, 1, s1, False));
            u = takeWhile (\<lambda>c. \<not> unit_end c) s2; r = dropWhile (\<lambda>c. \<not> unit_end c) s2 in
        if \<not> pre \<and> \<not> post then None
        else if u = [] then None
        else case unit_ns u of None \<Rightarrow> None
        | Some unit \<Rightarrow>
          if v > 2 ^ 63 div unit then None
          else (let w = v * unit + (if f > 0 then f * unit div scale else 0) in
            if w > 2 ^ 63 then None else Some (w, r))))"

text \<open>The loop over the terms; a term consumes at least one byte, so the length bounds it.\<close>

fun duration_terms :: "nat \<Rightarrow> int \<Rightarrow> string \<Rightarrow> int option" where
  "duration_terms 0 d s = (if s = [] then Some d else None)"
| "duration_terms (Suc n) d s =
    (if s = [] then Some d
     else case duration_term s of None \<Rightarrow> None
     | Some (v, r) \<Rightarrow> if d + v > 2 ^ 63 then None else duration_terms n (d + v) r)"

definition ParseDuration :: "string \<Rightarrow> int option" where
  "ParseDuration s =
    (let neg = (s \<noteq> [] \<and> hd s = CHR ''-'');
         r = (if s \<noteq> [] \<and> (hd s = CHR ''-'' \<or> hd s = CHR ''+'') then tl s else s) in
     if r = ''0'' then Some 0
     else if r = [] then None
     else case duration_terms (length r) 0 r of None \<Rightarrow> None
       | Some d \<Rightarrow> if neg then Some (- d) else if d > 2 ^ 63 - 1 then None else Some d)"

section \<open>Facts\<close>

lemma of_digit_char: "n < 10 \<Longrightarrow> (of_char (digit_char n) :: nat) = 48 + n"
  by (simp add: digit_char_def of_char_of)

lemma is_digit_digit_char [simp]: "n < 10 \<Longrightarrow> is_digit (digit_char n)"
  by (simp add: is_digit_def of_digit_char)

lemma digit_char_inj: "m < 10 \<Longrightarrow> n < 10 \<Longrightarrow> digit_char m = digit_char n \<longleftrightarrow> m = n"
  by (metis add_left_cancel of_digit_char)

lemma utoa_nonempty [simp]: "utoa n \<noteq> []"
  by (subst utoa.simps) auto

lemma utoa_digits: "c \<in> set (utoa n) \<Longrightarrow> is_digit c"
proof (induction n rule: utoa.induct)
  case (1 n)
  then show ?case by (subst (asm) utoa.simps) (auto split: if_splits)
qed

lemma utoa_inj: "utoa m = utoa n \<Longrightarrow> m = n"
proof (induction m arbitrary: n rule: utoa.induct)
  case (1 m)
  have short: "k < 10 \<Longrightarrow> utoa k = [digit_char k]" for k by (subst utoa.simps) simp
  have long: "\<not> k < 10 \<Longrightarrow> utoa k = utoa (k div 10) @ [digit_char (k mod 10)]" for k
    by (subst utoa.simps) simp
  consider "m < 10" "n < 10" | "\<not> m < 10" "\<not> n < 10" | "m < 10 \<longleftrightarrow> \<not> n < 10" by blast
  then show ?case
  proof cases
    case 1
    with \<open>utoa m = utoa n\<close> show ?thesis by (simp add: short digit_char_inj)
  next
    case 2
    then have "utoa (m div 10) = utoa (n div 10)" "m mod 10 = n mod 10"
      using \<open>utoa m = utoa n\<close> by (simp_all add: long digit_char_inj)
    with 1(1) 2 have "m div 10 = n div 10" by blast
    with \<open>m mod 10 = n mod 10\<close> show ?thesis by (metis div_mult_mod_eq)
  next
    case 3
    with \<open>utoa m = utoa n\<close> show ?thesis
      by (cases "m < 10") (auto simp: short long dest: arg_cong [where f = length])
  qed
qed

lemma itoa_inj: "itoa i = itoa j \<longleftrightarrow> i = j"
proof
  assume e: "itoa i = itoa j"
  have minus: "hd (utoa n) \<noteq> CHR ''-''" for n
    using utoa_digits [of "hd (utoa n)" n] by (auto simp: is_digit_def)
  show "i = j"
  proof (cases "i < 0 \<longleftrightarrow> j < 0")
    case True
    with e have "nat \<bar>i\<bar> = nat \<bar>j\<bar>" by (auto simp: itoa_def dest!: utoa_inj split: if_splits)
    with True show ?thesis by auto
  next
    case False
    with e minus show ?thesis by (auto simp: itoa_def split: if_splits) (metis list.sel(1))+
  qed
qed simp

lemma itoa_no_colon: "CHR '':'' \<notin> set (itoa i)"
proof -
  have "\<not> is_digit (CHR '':'')" by (simp add: is_digit_def)
  then show ?thesis by (auto simp: itoa_def dest: utoa_digits)
qed

text \<open>A string is cut in one way at the first occurrence of a separator.\<close>

lemma cut_unique:
  "c \<notin> set xs \<Longrightarrow> c \<notin> set ys \<Longrightarrow> xs @ c # us = ys @ c # vs \<longleftrightarrow> xs = ys \<and> us = vs"
proof (induction xs arbitrary: ys)
  case Nil
  then show ?case by (cases ys) auto
next
  case (Cons x xs)
  then show ?case by (cases ys) auto
qed

end
