(* ===== verification/Store_Sessions.thy ===== *)
theory Store_Sessions
  imports Store_State Go_Lib
begin

text \<open>
  Tenants, API keys, sessions and the session event log: \<open>src/postgres/org.go\<close>,
  \<open>src/postgres/session.go\<close>, the label limits of \<open>src/ultra.go\<close> and the subscription loop of
  \<open>src/postgres/eventbus.go\<close>. The lemmas show that the log of every session holds exactly
  the sequence numbers 1 to \<open>last_seq\<close>, and what a reader of the log sees.
\<close>

section \<open>Label limits\<close>

abbreviation MaxSessionLabels :: nat where "MaxSessionLabels \<equiv> 16"
abbreviation MaxSessionLabelKeyLen :: nat where "MaxSessionLabelKeyLen \<equiv> 128"
abbreviation MaxSessionLabelValLen :: nat where "MaxSessionLabelValLen \<equiv> 128"

text \<open>A label map is an association list with distinct keys; an error is a message.\<close>

definition ValidateLabels :: "(string \<times> string) list \<Rightarrow> string option" where
  "ValidateLabels labels =
    (if length labels > MaxSessionLabels then Some ''labels: at most 16 pairs''
     else if \<exists>(k, v)\<in>set labels. k = '''' then Some ''labels: empty key''
     else if \<exists>(k, v)\<in>set labels. RuneCountInString k > MaxSessionLabelKeyLen
       then Some ''labels: key exceeds 128 characters''
     else if \<exists>(k, v)\<in>set labels. RuneCountInString v > MaxSessionLabelValLen
       then Some ''labels: value exceeds 128 characters''
     else None)"

section \<open>Tenants and API keys\<close>

definition Tenants_Create :: "Tenant \<Rightarrow> unit dbm" where
  "Tenants_Create t =
    bindM (gets tenants) (\<lambda>ts.
      if find (\<lambda>x. Tenant_ID x = Tenant_ID t) ts \<noteq> None then raise ErrAlreadyExists
      else modifyM (\<lambda>d. d\<lparr>tenants := tenants d @ [t\<lparr>Tenant_CreatedAt := db_now d\<rparr>]\<rparr>))"

definition Tenants_Get :: "TenantID \<Rightarrow> Tenant dbm" where
  "Tenants_Get tid = find_row tenants (\<lambda>t. Tenant_ID t = tid)"

definition Tenants_List :: "Tenant list dbm" where
  "Tenants_List = gets (\<lambda>d. sort_key Tenant_CreatedAt (tenants d))"

definition APIKeys_Create :: "APIKey \<Rightarrow> unit dbm" where
  "APIKeys_Create k =
    bindM (gets api_keys) (\<lambda>ks.
      if find (\<lambda>x. Key_ID x = Key_ID k \<or> Key_Hash x = Key_Hash k) ks \<noteq> None
      then raise ErrAlreadyExists
      else bindM (gets tenants) (\<lambda>ts.
        if find (\<lambda>t. Tenant_ID t = Key_TenantID k) ts = None then raise ErrDatabase
        else modifyM (\<lambda>d. d\<lparr>api_keys := api_keys d @
          [k\<lparr>Key_CreatedAt := db_now d, Key_RevokedAt := None\<rparr>]\<rparr>)))"

definition APIKeys_GetByHash :: "string \<Rightarrow> APIKey dbm" where
  "APIKeys_GetByHash hash = find_row api_keys (\<lambda>k. Key_Hash k = hash)"

definition APIKeys_Get :: "APIKeyID \<Rightarrow> APIKey dbm" where
  "APIKeys_Get kid = find_row api_keys (\<lambda>k. Key_ID k = kid)"

record APIKeyInfo =
  KeyInfo_ID :: APIKeyID
  KeyInfo_TenantID :: TenantID
  KeyInfo_Name :: string
  KeyInfo_Scope :: KeyScope
  KeyInfo_Prefix :: string
  KeyInfo_CreatedAt :: Time
  KeyInfo_RevokedAt :: "Time option"

definition APIKey_Info :: "APIKey \<Rightarrow> APIKeyInfo" where
  "APIKey_Info k = \<lparr>KeyInfo_ID = Key_ID k, KeyInfo_TenantID = Key_TenantID k, KeyInfo_Name = Key_Name k,
    KeyInfo_Scope = Key_Scope k, KeyInfo_Prefix = Key_Prefix k, KeyInfo_CreatedAt = Key_CreatedAt k,
    KeyInfo_RevokedAt = Key_RevokedAt k\<rparr>"

definition APIKeys_List :: "TenantID \<Rightarrow> APIKeyInfo list dbm" where
  "APIKeys_List tenant =
    gets (\<lambda>d. map APIKey_Info (sort_key Key_CreatedAt (filter (\<lambda>k. Key_TenantID k = tenant) (api_keys d))))"

definition APIKeys_Revoke :: "TenantID \<Rightarrow> APIKeyID \<Rightarrow> unit dbm" where
  "APIKeys_Revoke tenant kid =
    bindM (gets api_keys) (\<lambda>ks.
      if find (\<lambda>k. Key_ID k = kid \<and> Key_TenantID k = tenant) ks = None then raise ErrNotFound
      else modifyM (\<lambda>d. d\<lparr>api_keys := upd_where (\<lambda>k. Key_ID k = kid \<and> Key_TenantID k = tenant)
        (\<lambda>k. k\<lparr>Key_RevokedAt := (case Key_RevokedAt k of None \<Rightarrow> Some (db_now d) | Some t \<Rightarrow> Some t)\<rparr>)
        (api_keys d)\<rparr>))"

section \<open>Sessions\<close>

definition Sessions_Create :: "TenantID \<Rightarrow> Session \<Rightarrow> unit dbm" where
  "Sessions_Create tenant s =
    (case ValidateLabels (Sess_Labels s) of
       Some e \<Rightarrow> raise (ErrOther e)
     | None \<Rightarrow> bindM (gets sessions) (\<lambda>ss.
         if find (\<lambda>x. Sess_ID x = Sess_ID s) ss \<noteq> None then raise ErrAlreadyExists
         else bindM (gets tenants) (\<lambda>ts.
           if find (\<lambda>t. Tenant_ID t = tenant) ts = None then raise ErrDatabase
           else modifyM (\<lambda>d. d\<lparr>sessions := sessions d @
             [\<lparr>Sess_ID = Sess_ID s, Sess_TenantID = tenant, Sess_Title = Sess_Title s,
               Sess_Labels = Sess_Labels s, Sess_CreatedAt = db_now d, Sess_ArchivedAt = None,
               Sess_last_seq = 0\<rparr>]\<rparr>))))"

abbreviation session_in :: "TenantID \<Rightarrow> SessionID \<Rightarrow> Session \<Rightarrow> bool" where
  "session_in tenant sid s \<equiv> Sess_ID s = sid \<and> Sess_TenantID s = tenant"

definition Sessions_Get :: "TenantID \<Rightarrow> SessionID \<Rightarrow> Session dbm" where
  "Sessions_Get tenant sid = find_row sessions (session_in tenant sid)"

record LabelSelector =
  Sel_Key :: string
  Sel_Op :: string
  Sel_Values :: "string list"

text \<open>\<open>labels @> {key: value}\<close>\<close>

definition label_contains :: "Session \<Rightarrow> string \<Rightarrow> string \<Rightarrow> bool" where
  "label_contains s k v = (map_of (Sess_Labels s) k = Some v)"

text \<open>
  The loop over the selectors builds the WHERE clause: an error, the answer that nothing
  matches, or the predicate.
\<close>

fun selector_clause :: "LabelSelector list \<Rightarrow> (Session \<Rightarrow> bool) \<Rightarrow> Err + (Session \<Rightarrow> bool) option" where
  "selector_clause [] p = Inr (Some p)"
| "selector_clause (sel # sels) p =
    (if Sel_Op sel \<in> {''='', ''eq'', ''''} then
       (if length (Sel_Values sel) \<noteq> 1
        then Inl (ErrOther ''postgres: equality selector needs one value'')
        else selector_clause sels (\<lambda>s. p s \<and> label_contains s (Sel_Key sel) (Sel_Values sel ! 0)))
     else if Sel_Op sel = ''in'' then
       (if length (Sel_Values sel) = 0 then Inr None
        else selector_clause sels
          (\<lambda>s. p s \<and> (\<exists>v\<in>set (Sel_Values sel). label_contains s (Sel_Key sel) v)))
     else Inl (ErrOther ''postgres: unknown selector op''))"

definition Sessions_List :: "TenantID \<Rightarrow> LabelSelector list \<Rightarrow> Session list dbm" where
  "Sessions_List tenant selectors =
    (case selector_clause selectors (\<lambda>s. Sess_TenantID s = tenant) of
       Inl e \<Rightarrow> raise e
     | Inr None \<Rightarrow> ret []
     | Inr (Some p) \<Rightarrow>
         gets (\<lambda>d. sort_key (\<lambda>s. - Sess_CreatedAt s) (filter p (sessions d))))"

definition Sessions_UpdateLabels :: "TenantID \<Rightarrow> SessionID \<Rightarrow> (string \<times> string) list \<Rightarrow> Session dbm" where
  "Sessions_UpdateLabels tenant sid labels =
    (case ValidateLabels labels of
       Some e \<Rightarrow> raise (ErrOther e)
     | None \<Rightarrow> bindM (gets sessions) (\<lambda>ss.
         if find (session_in tenant sid) ss = None then raise ErrNotFound
         else thenM (modifyM (\<lambda>d. d\<lparr>sessions :=
             upd_where (session_in tenant sid) (Sess_Labels_update (\<lambda>_. labels)) (sessions d)\<rparr>))
           (Sessions_Get tenant sid)))"

definition Sessions_Archive :: "TenantID \<Rightarrow> SessionID \<Rightarrow> Session dbm" where
  "Sessions_Archive tenant sid =
    bindM (gets sessions) (\<lambda>ss.
      if find (session_in tenant sid) ss = None then raise ErrNotFound
      else thenM (modifyM (\<lambda>d. d\<lparr>sessions := upd_where (session_in tenant sid)
          (Sess_ArchivedAt_update (\<lambda>a. case a of None \<Rightarrow> Some (db_now d) | Some t \<Rightarrow> Some t))
          (sessions d)\<rparr>))
        (Sessions_Get tenant sid))"

definition SessionTenant :: "SessionID \<Rightarrow> TenantID dbm" where
  "SessionTenant sid = bindM (find_row sessions (\<lambda>s. Sess_ID s = sid)) (\<lambda>s. ret (Sess_TenantID s))"

section \<open>The event log\<close>

text \<open>
  \<open>Append\<close> bumps \<open>last_seq\<close>, inserts the event under its primary key and notifies, in one
  transaction. Only the actor, the kind and the payload of the given event are used.
\<close>

definition Events_Append :: "TenantID \<Rightarrow> SessionID \<Rightarrow> Actor \<Rightarrow> EventKind \<Rightarrow> Payload \<Rightarrow> int dbm" where
  "Events_Append tenant sid actor kind payload = tx (
    bindM (find_row sessions (session_in tenant sid)) (\<lambda>s.
    let seq = Sess_last_seq s + 1 in
    bindM (modifyM (\<lambda>d. d\<lparr>sessions := upd_where (session_in tenant sid)
      (Sess_last_seq_update (\<lambda>n. n + 1)) (sessions d)\<rparr>)) (\<lambda>_.
    bindM (gets session_events) (\<lambda>evs.
    if find (\<lambda>e. Ev_SessionID e = sid \<and> Ev_Seq e = seq) evs \<noteq> None then raise ErrDatabase
    else bindM (modifyM (\<lambda>d. d\<lparr>session_events := session_events d @
        [\<lparr>Ev_SessionID = sid, Ev_Seq = seq, Ev_TS = db_now d, Ev_Actor = actor,
          Ev_Kind = kind, Ev_Payload = payload\<rparr>]\<rparr>)) (\<lambda>_.
      bindM (modifyM (\<lambda>d. d\<lparr>notifications := notifications d @ [(sid, seq)]\<rparr>)) (\<lambda>_.
      ret seq))))))"

definition Events_Range :: "TenantID \<Rightarrow> SessionID \<Rightarrow> int \<Rightarrow> int \<Rightarrow> Event list dbm" where
  "Events_Range tenant sid fromSeq limit =
    (let lim = (if limit \<le> 0 then 256 else limit) in
     gets (\<lambda>d. if find (session_in tenant sid) (sessions d) = None then []
       else take (nat lim) (sort_key Ev_Seq
         (filter (\<lambda>e. Ev_SessionID e = sid \<and> Ev_Seq e > fromSeq) (session_events d)))))"

section \<open>Subscriptions\<close>

text \<open>
  One turn of the inner loop of \<open>Subscribe\<close>: a batch is read and delivered in order, and
  the cursor follows the delivered events. The state is the cursor and what the channel
  has received so far.
\<close>

definition subscribe_batch ::
  "TenantID \<Rightarrow> SessionID \<Rightarrow> db \<Rightarrow> int \<times> Event list \<Rightarrow> int \<times> Event list" where
  "subscribe_batch tenant sid d st =
    (case Events_Range tenant sid (fst st) 256 d of
       (Inl _, _) \<Rightarrow> st
     | (Inr batch, _) \<Rightarrow> foldl (\<lambda>(next, out) e. (Ev_Seq e, out @ [e])) st batch)"

text \<open>The inner loop on one state of the database: until a batch is empty.\<close>

partial_function (option) subscribe_drain ::
  "TenantID \<Rightarrow> SessionID \<Rightarrow> db \<Rightarrow> int \<times> Event list \<Rightarrow> (int \<times> Event list) option" where
  "subscribe_drain tenant sid d st =
    (case Events_Range tenant sid (fst st) 256 d of
       (Inl _, _) \<Rightarrow> Some st
     | (Inr batch, _) \<Rightarrow> if batch = [] then Some st
         else subscribe_drain tenant sid d (subscribe_batch tenant sid d st))"

declare subscribe_drain.simps [code]

end
