(* ===== verification/Event_Log.thy ===== *)
theory Event_Log
  imports Store_Sessions
begin

text \<open>
  The contract of the session event log and what its readers get from it. The locale
  \<open>event_log\<close> is the interface between the log and its readers: sequence numbers that
  count from 1 without a gap, and a range read that returns the next events. The
  subscription loop and every other reader are verified against it once; the
  interpretation shows that the PostgreSQL log of \<open>Store_Sessions\<close> provides it.
\<close>

section \<open>The interface\<close>

locale event_log =
  fixes inv :: "'d \<Rightarrow> bool"
    and log :: "'d \<Rightarrow> 'k \<Rightarrow> 'e list"
    and visible :: "'d \<Rightarrow> 'k \<Rightarrow> bool"
    and range_read :: "'d \<Rightarrow> 'k \<Rightarrow> int \<Rightarrow> int \<Rightarrow> 'e list"
    and seq :: "'e \<Rightarrow> int"
  assumes seqs: "inv d \<Longrightarrow> visible d k \<Longrightarrow> map seq (log d k) = [1..int (length (log d k))]"
    and range_visible: "inv d \<Longrightarrow> visible d k \<Longrightarrow> 0 < n \<Longrightarrow>
      range_read d k from n = take (nat n) (drop (nat from) (log d k))"
    and range_hidden: "\<not> visible d k \<Longrightarrow> range_read d k from n = []"
begin

lemma seq_nth: "inv d \<Longrightarrow> visible d k \<Longrightarrow> i < length (log d k) \<Longrightarrow> seq (log d k ! i) = int i + 1"
proof -
  assume a: "inv d" "visible d k" "i < length (log d k)"
  have "seq (log d k ! i) = map seq (log d k) ! i" using a(3) by simp
  also have "\<dots> = [1..int (length (log d k))] ! i" using seqs [OF a(1,2)] by simp
  finally show ?thesis using a(3) by (simp add: nth_upto)
qed

lemma seq_last:
  assumes "inv d" "visible d k" "xs = take n (drop m (log d k))" "xs \<noteq> []"
  shows "seq (last xs) = int (m + length xs)"
proof -
  have "last xs = log d k ! (m + length xs - 1)" and "m + length xs - 1 < length (log d k)"
    using assms(3,4) by (auto simp: last_conv_nth min_def)
  then have "seq (last xs) = int (m + length xs - 1) + 1"
    using seq_nth [OF assms(1,2)] by simp
  also have "0 < length xs" using assms(4) by simp
  then have "int (m + length xs - 1) + 1 = int (m + length xs)" by linarith
  finally show ?thesis .
qed

text \<open>
  A batch is the part of the log right after the cursor, and the cursor moves to its
  end: a reader that starts at \<open>from\<close> and reads batch after batch sees the log in order,
  without a gap and without a repetition.
\<close>

lemma batch_advances:
  assumes "inv d" "visible d k" "0 < n" "0 \<le> from"
    and "out = take m (drop (nat from0) (log d k))" "nat from = nat from0 + length out"
  defines "batch \<equiv> range_read d k from n"
  shows "out @ batch = take (length out + length batch) (drop (nat from0) (log d k))"
    and "batch \<noteq> [] \<Longrightarrow> seq (last batch) = from + int (length batch)"
proof -
  have b: "batch = take (nat n) (drop (nat from) (log d k))"
    unfolding batch_def using range_visible assms(1-3) by blast
  have o: "out = take (length out) (drop (nat from0) (log d k))"
    using assms(5) by (simp add: min_def)
  have "batch = take (length batch) (drop (length out) (drop (nat from0) (log d k)))"
    using b assms(6) by (simp add: add.commute min_def)
  with o show "out @ batch = take (length out + length batch) (drop (nat from0) (log d k))"
    by (metis take_add)
  show "seq (last batch) = from + int (length batch)" if "batch \<noteq> []"
    using seq_last [OF assms(1,2) b that] assms(4) by simp
qed

lemma batch_empty_end: "inv d \<Longrightarrow> visible d k \<Longrightarrow> 0 < n \<Longrightarrow> range_read d k from n = [] \<Longrightarrow>
    length (log d k) \<le> nat from"
  by (simp add: range_visible)

end

section \<open>The PostgreSQL log\<close>

definition log_of :: "db \<Rightarrow> SessionID \<Rightarrow> Event list" where
  "log_of d sid = filter (\<lambda>e. Ev_SessionID e = sid) (session_events d)"

definition log_ok :: "db \<Rightarrow> bool" where
  "log_ok d \<longleftrightarrow> key_unique Sess_ID (sessions d) \<and>
    (\<forall>s\<in>set (sessions d). 0 \<le> Sess_last_seq s \<and>
       map Ev_Seq (log_of d (Sess_ID s)) = [1..Sess_last_seq s]) \<and>
    (\<forall>e\<in>set (session_events d). Ev_SessionID e \<in> Sess_ID ` set (sessions d))"

definition session_visible :: "db \<Rightarrow> TenantID \<times> SessionID \<Rightarrow> bool" where
  "session_visible d k \<longleftrightarrow> find (session_in (fst k) (snd k)) (sessions d) \<noteq> None"

definition range_list :: "db \<Rightarrow> TenantID \<times> SessionID \<Rightarrow> int \<Rightarrow> int \<Rightarrow> Event list" where
  "range_list d k from n =
    (case fst (Events_Range (fst k) (snd k) from n d) of Inl _ \<Rightarrow> [] | Inr es \<Rightarrow> es)"

lemma filter_seq_drop:
  "map q xs = [a..b] \<Longrightarrow> filter (\<lambda>x. f < q x) xs = drop (nat (f - a + 1)) xs"
proof (induction xs arbitrary: a)
  case (Cons x xs)
  from Cons.prems have x: "q x = a" and ab: "a \<le> b" and r: "map q xs = [a + 1..b]"
    by (auto simp: upto.simps [of a b] split: if_splits)
  show ?case
  proof (cases "f < a")
    case True
    then have "nat (f - a + 1) = 0" "nat (f - (a + 1) + 1) = 0" by auto
    with Cons.IH [OF r] True x show ?thesis by simp
  next
    case False
    then have "nat (f - a + 1) = Suc (nat (f - (a + 1) + 1))" by auto
    with Cons.IH [OF r] False x show ?thesis by simp
  qed
qed simp

lemma sort_key_upto: "map q xs = [a..b] \<Longrightarrow> sort_key q (drop n xs) = drop n xs"
  by (rule sort_key_id_if_sorted) (metis drop_map sorted_wrt_drop sorted_upto)

lemma session_find: "find (session_in t sid) ss = Some s \<Longrightarrow> s \<in> set ss \<and> Sess_ID s = sid \<and> Sess_TenantID s = t"
  by (auto dest: find_SomeD)

lemma log_ok_seqs:
  assumes "log_ok d" "session_visible d k"
  shows "\<exists>s\<in>set (sessions d). Sess_ID s = snd k \<and> Sess_TenantID s = fst k \<and>
    map Ev_Seq (log_of d (snd k)) = [1..Sess_last_seq s] \<and>
    Sess_last_seq s = int (length (log_of d (snd k)))"
proof -
  from assms(2) obtain s where "find (session_in (fst k) (snd k)) (sessions d) = Some s"
    by (auto simp: session_visible_def)
  then have s: "s \<in> set (sessions d)" "Sess_ID s = snd k" "Sess_TenantID s = fst k"
    by (auto dest: session_find)
  with assms(1) have m: "map Ev_Seq (log_of d (snd k)) = [1..Sess_last_seq s]" and "0 \<le> Sess_last_seq s"
    by (auto simp: log_ok_def)
  then have "Sess_last_seq s = int (length (log_of d (snd k)))"
    by (metis length_map length_upto diff_add_cancel int_nat_eq)
  with s m show ?thesis by blast
qed

interpretation pg_log: event_log log_ok "\<lambda>d k. log_of d (snd k)" session_visible range_list Ev_Seq
proof unfold_locales
  fix d k
  assume "log_ok d" "session_visible d k"
  then show "map Ev_Seq (log_of d (snd k)) = [1..int (length (log_of d (snd k)))]"
    using log_ok_seqs by fastforce
next
  fix d k and n "from" :: int
  assume a: "log_ok d" "session_visible d k" "0 < n"
  then obtain b where m: "map Ev_Seq (log_of d (snd k)) = [1..b]" using log_ok_seqs by blast
  have "filter (\<lambda>e. Ev_SessionID e = snd k \<and> from < Ev_Seq e) (session_events d) =
      filter (\<lambda>e. from < Ev_Seq e) (log_of d (snd k))"
    by (simp add: log_of_def conj_commute)
  also have "\<dots> = drop (nat from) (log_of d (snd k))"
    using filter_seq_drop [OF m, of "from"] by simp
  finally show "range_list d k from n = take (nat n) (drop (nat from) (log_of d (snd k)))"
    using a by (auto simp: range_list_def Events_Range_def gets_def session_visible_def
        sort_key_upto [OF m])
next
  fix d k and n "from" :: int
  assume "\<not> session_visible d k"
  then show "range_list d k from n = []"
    by (simp add: range_list_def Events_Range_def gets_def session_visible_def)
qed

section \<open>Appending\<close>

text \<open>The database after event \<open>seq\<close> of a session has been appended.\<close>

definition logged :: "db \<Rightarrow> TenantID \<Rightarrow> SessionID \<Rightarrow> Actor \<Rightarrow> EventKind \<Rightarrow> Payload \<Rightarrow> int \<Rightarrow> db" where
  "logged d tenant sid actor kind payload seq = d\<lparr>
    sessions := upd_where (session_in tenant sid) (Sess_last_seq_update (\<lambda>n. n + 1)) (sessions d),
    session_events := session_events d @
      [\<lparr>Ev_SessionID = sid, Ev_Seq = seq, Ev_TS = db_now d, Ev_Actor = actor,
        Ev_Kind = kind, Ev_Payload = payload\<rparr>],
    notifications := notifications d @ [(sid, seq)]\<rparr>"

lemma logged_frame [simp]:
  "db_now (logged d t sid a k p n) = db_now d"
  "tenants (logged d t sid a k p n) = tenants d"
  "api_keys (logged d t sid a k p n) = api_keys d"
  "credentials (logged d t sid a k p n) = credentials d"
  "agent_runs (logged d t sid a k p n) = agent_runs d"
  "agent_run_steps (logged d t sid a k p n) = agent_run_steps d"
  "provider_instances (logged d t sid a k p n) = provider_instances d"
  "resources (logged d t sid a k p n) = resources d"
  "session_memory (logged d t sid a k p n) = session_memory d"
  "run_waits (logged d t sid a k p n) = run_waits d"
  "run_wait_members (logged d t sid a k p n) = run_wait_members d"
  "periodic_prompts (logged d t sid a k p n) = periodic_prompts d"
  "jobs (logged d t sid a k p n) = jobs d"
  by (simp_all add: logged_def)

lemma sessions_logged:
  "sessions (logged d t sid a k p n) =
    upd_where (session_in t sid) (Sess_last_seq_update (\<lambda>n. n + 1)) (sessions d)"
  by (simp add: logged_def)

lemma session_ids_logged [simp]: "map Sess_ID (sessions (logged d t sid a k p n)) = map Sess_ID (sessions d)"
  by (simp add: sessions_logged map_upd_where)

lemma session_id_set_logged [simp]: "Sess_ID ` set (sessions (logged d t sid a k p n)) = Sess_ID ` set (sessions d)"
  using session_ids_logged [of d t sid a k p n] by (metis list.set_map)

lemma find_session_logged [simp]:
  "find (session_in t' sid') (sessions (logged d t sid a k p n)) =
    map_option (\<lambda>s. if session_in t sid s then Sess_last_seq_update (\<lambda>n. n + 1) s else s)
      (find (session_in t' sid') (sessions d))"
  by (simp add: sessions_logged find_upd_where)

lemma wp_Events_Append [wp_simps]:
  "wp (Events_Append t sid a k p) Q E d =
    (case find (session_in t sid) (sessions d) of
       None \<Rightarrow> E ErrNotFound d
     | Some s \<Rightarrow>
         if find (\<lambda>e. Ev_SessionID e = sid \<and> Ev_Seq e = Sess_last_seq s + 1) (session_events d) \<noteq> None
         then E ErrDatabase d
         else Q (Sess_last_seq s + 1) (logged d t sid a k p (Sess_last_seq s + 1)))"
  by (auto simp: Events_Append_def wp_simps Let_def logged_def split: option.split)

text \<open>
  In a sound log the next number is free: an append to a visible session returns the next
  number, and the log of that session grows by exactly the new event.
\<close>

lemma log_next_free:
  assumes "log_ok d" "find (session_in t sid) (sessions d) = Some s"
  shows "find (\<lambda>e. Ev_SessionID e = sid \<and> Ev_Seq e = Sess_last_seq s + 1) (session_events d) = None"
proof -
  from assms have "map Ev_Seq (log_of d sid) = [1..Sess_last_seq s]"
    by (auto simp: log_ok_def dest: session_find)
  then have "Ev_Seq ` set (log_of d sid) = set [1..Sess_last_seq s]" by (metis list.set_map)
  then show ?thesis by (force simp: find_None_iff log_of_def)
qed

lemma log_of_logged:
  "log_of (logged d t sid a k p n) sid' = log_of d sid' @
    (if sid = sid' then [\<lparr>Ev_SessionID = sid, Ev_Seq = n, Ev_TS = db_now d, Ev_Actor = a,
      Ev_Kind = k, Ev_Payload = p\<rparr>] else [])"
  by (simp add: log_of_def logged_def)

lemma log_ok_logged:
  assumes "log_ok d" and s: "find (session_in t sid) (sessions d) = Some s"
  shows "log_ok (logged d t sid a k p (Sess_last_seq s + 1))"
proof -
  let ?d = "logged d t sid a k p (Sess_last_seq s + 1)"
  have u: "key_unique Sess_ID (sessions d)" and smem: "s \<in> set (sessions d)" "Sess_ID s = sid"
    "Sess_TenantID s = t"
    using assms by (auto simp: log_ok_def dest: session_find)
  have "0 \<le> Sess_last_seq r \<and> map Ev_Seq (log_of ?d (Sess_ID r)) = [1..Sess_last_seq r]"
    if r: "r \<in> set (sessions ?d)" for r
  proof -
    from r obtain q where q: "q \<in> set (sessions d)"
      and rq: "r = (if session_in t sid q then Sess_last_seq_update (\<lambda>n. n + 1) q else q)"
      by (auto simp: sessions_logged set_upd_where)
    have ok: "0 \<le> Sess_last_seq q" "map Ev_Seq (log_of d (Sess_ID q)) = [1..Sess_last_seq q]"
      using assms(1) q by (auto simp: log_ok_def)
    show ?thesis
    proof (cases "Sess_ID q = sid")
      case True
      then have "q = s" using key_uniqueD [OF u q smem(1)] smem(2) by simp
      with ok rq True smem show ?thesis by (simp add: log_of_logged upto_rec2)
    next
      case False
      with ok rq show ?thesis by (simp add: log_of_logged)
    qed
  qed
  moreover have "Ev_SessionID e \<in> Sess_ID ` set (sessions ?d)" if "e \<in> set (session_events ?d)" for e
    unfolding session_id_set_logged using that assms(1) smem by (auto simp: logged_def log_ok_def)
  moreover have "key_unique Sess_ID (sessions ?d)" using u by simp
  ultimately show ?thesis by (simp add: log_ok_def)
qed

lemma preserves_log_ok_Append: "preserves log_ok (Events_Append t sid a k p)"
  by (auto intro!: preservesI simp: wp_simps log_ok_logged split: option.splits)

lemma Append_ok:
  assumes "log_ok d" "find (session_in t sid) (sessions d) = Some s"
  shows "Events_Append t sid a k p d =
    (Inr (Sess_last_seq s + 1), logged d t sid a k p (Sess_last_seq s + 1))"
proof -
  have "wp (Events_Append t sid a k p)
      (\<lambda>v e. v = Sess_last_seq s + 1 \<and> e = logged d t sid a k p (Sess_last_seq s + 1))
      (\<lambda>_ _. False) d"
    using assms log_next_free [OF assms] by (simp add: wp_simps)
  then show ?thesis by (auto simp: wp_def split: prod.splits sum.splits)
qed

section \<open>Subscribers\<close>

lemma Events_Range_result: "Events_Range t sid from n d = (Inr (range_list d (t, sid) from n), d)"
  by (simp add: range_list_def Events_Range_def gets_def Let_def)

lemma foldl_deliver: "foldl (\<lambda>(next, out) e. (Ev_Seq e, out @ [e])) (n, out) es =
    (if es = [] then n else Ev_Seq (last es), out @ es)"
  by (induction es arbitrary: n out) auto

lemma subscribe_batch_eq:
  "subscribe_batch t sid d (from, out) =
    (let batch = range_list d (t, sid) from 256 in
     (if batch = [] then from else Ev_Seq (last batch), out @ batch))"
  by (simp add: subscribe_batch_def Events_Range_result foldl_deliver Let_def)

text \<open>What a subscriber that started after \<open>from0\<close> has received: a part of the log that
  starts right after \<open>from0\<close>, and its cursor stands at the end of that part.\<close>

definition sub_inv :: "db \<Rightarrow> SessionID \<Rightarrow> int \<Rightarrow> int \<times> Event list \<Rightarrow> bool" where
  "sub_inv d sid from0 st \<longleftrightarrow> fst st = from0 + int (length (snd st)) \<and>
    snd st = take (length (snd st)) (drop (nat from0) (log_of d sid))"

lemma sub_inv_init [simp]: "sub_inv d sid from0 (from0, [])"
  by (simp add: sub_inv_def)

lemma sub_inv_batch:
  assumes "log_ok d" "session_visible d (t, sid)" "0 \<le> from0" "sub_inv d sid from0 st"
  shows "sub_inv d sid from0 (subscribe_batch t sid d st)"
    and "length (snd (subscribe_batch t sid d st)) =
      length (snd st) + length (range_list d (t, sid) (fst st) 256)"
proof -
  obtain f out where st: "st = (f, out)" by (cases st)
  let ?b = "range_list d (t, sid) f 256"
  have f: "f = from0 + int (length out)"
    and o: "out = take (length out) (drop (nat from0) (log_of d (snd (t, sid))))"
    using assms(4) by (simp_all add: sub_inv_def st)
  have n: "nat f = nat from0 + length out" and pos: "0 \<le> f" using f assms(3) by auto
  note adv = pg_log.batch_advances [OF assms(1,2) _ pos o n, of 256]
  have b: "subscribe_batch t sid d st = (f + int (length ?b), out @ ?b)"
    using adv(2) by (auto simp: st subscribe_batch_eq Let_def)
  have t: "out @ ?b = take (length (out @ ?b)) (drop (nat from0) (log_of d sid))"
    using adv(1) by (metis length_append snd_conv zero_less_numeral)
  have "f + int (length ?b) = from0 + int (length (out @ ?b))" using f by simp
  then show "sub_inv d sid from0 (subscribe_batch t sid d st)"
    unfolding sub_inv_def b fst_conv snd_conv using t by blast
  show "length (snd (subscribe_batch t sid d st)) = length (snd st) + length (range_list d (t, sid) (fst st) 256)"
    by (simp add: st subscribe_batch_eq Let_def)
qed

lemma sub_inv_grow:
  assumes "sub_inv d sid from0 st" "log_of d' sid = log_of d sid @ es"
  shows "sub_inv d' sid from0 st"
proof -
  let ?n = "length (snd st)" and ?l = "drop (nat from0) (log_of d sid)"
  have s: "snd st = take ?n ?l" using assms(1) by (simp add: sub_inv_def)
  then have "?n \<le> length ?l" by (metis length_take min.cobounded1)
  then have "take ?n (drop (nat from0) (log_of d' sid)) = take ?n ?l"
    using assms(2) by (simp add: take_append)
  with assms(1) s show ?thesis by (simp add: sub_inv_def)
qed

text \<open>
  Batches read from a growing log, one state of the database per batch: what has been
  delivered at the end is a part of the last log that starts right after \<open>from0\<close>.
\<close>

lemma sub_inv_batches:
  assumes "\<And>d. d \<in> set ds \<Longrightarrow> log_ok d \<and> session_visible d (t, sid)"
    and "sorted_wrt (\<lambda>d d'. \<exists>es. log_of d' sid = log_of d sid @ es) (d0 # ds)"
    and "0 \<le> from0" "sub_inv d0 sid from0 st"
  shows "sub_inv (last (d0 # ds)) sid from0 (foldl (\<lambda>st d. subscribe_batch t sid d st) st ds)"
  using assms
proof (induction ds arbitrary: d0 st)
  case (Cons d ds)
  obtain es where "log_of d sid = log_of d0 sid @ es" using Cons.prems(2) by auto
  then have "sub_inv d sid from0 st" using sub_inv_grow Cons.prems(4) by blast
  then have "sub_inv d sid from0 (subscribe_batch t sid d st)"
    using sub_inv_batch(1) Cons.prems(1,3) by auto
  then show ?case using Cons.IH Cons.prems(1,2,3) by simp
qed simp

text \<open>The inner loop ends and has then delivered the rest of the log.\<close>

lemma drain_complete:
  assumes "log_ok d" "session_visible d (t, sid)" "0 \<le> from0" "sub_inv d sid from0 st"
  shows "\<exists>f. subscribe_drain t sid d st = Some (f, drop (nat from0) (log_of d sid))"
  using assms(4)
proof (induction "length (log_of d sid) - length (snd st)" arbitrary: st rule: less_induct)
  case less
  let ?b = "range_list d (t, sid) (fst st) 256"
  show ?case
  proof (cases "?b = []")
    case True
    then have "length (log_of d sid) \<le> nat (fst st)"
      using pg_log.batch_empty_end [of d "(t, sid)" 256 "fst st"] assms(1,2) by simp
    then have "length (drop (nat from0) (log_of d sid)) \<le> length (snd st)"
      using less.prems assms(3) by (simp add: sub_inv_def nat_add_distrib)
    then have "snd st = drop (nat from0) (log_of d sid)"
      using less.prems unfolding sub_inv_def by (metis take_all)
    with True show ?thesis
      by (subst subscribe_drain.simps) (auto simp: Events_Range_result intro!: exI [of _ "fst st"] prod_eqI)
  next
    case False
    let ?st = "subscribe_batch t sid d st"
    have inv: "sub_inv d sid from0 ?st" and l: "length (snd ?st) = length (snd st) + length ?b"
      using sub_inv_batch [OF assms(1-3) less.prems] by auto
    have "length (snd ?st) \<le> length (log_of d sid)"
      using inv unfolding sub_inv_def by (metis diff_le_self length_drop length_take min.cobounded1 order_trans)
    with l False have "length (log_of d sid) - length (snd ?st) < length (log_of d sid) - length (snd st)"
      by (cases ?b) auto
    from less.hyps [OF this inv] False show ?thesis
      by (subst subscribe_drain.simps) (simp add: Events_Range_result)
  qed
qed

end
