(* ===== verification/Store_Runs.thy ===== *)
theory Store_Runs
  imports Event_Log
begin

text \<open>
  Agent runs, their steps and the tenant's credentials: \<open>src/postgres/run.go\<close> and
  \<open>CountChildren\<close> of \<open>src/postgres/multiplayer.go\<close>. Every statement carries the tenant of
  the scope. A row lock (\<open>FOR UPDATE\<close>) has no effect in the model: a transaction is atomic.
\<close>

section \<open>Stored policies\<close>

text \<open>
  The column \<open>grants\<close>: nothing, a JSON object with the fields of \<open>RunPolicy\<close> and possibly
  the legacy field \<open>tools\<close>, or JSON that is not such an object.
\<close>

datatype StoredPolicy = NullPolicy | PolicyObject RunPolicy "string list" | BadPolicy

definition zero_policy :: RunPolicy where
  "zero_policy = \<lparr>AllowTools = [], DenyTools = [], ResourceKinds = [], MaxChildren = 0, ChildInherit = False\<rparr>"

fun decodePolicy :: "StoredPolicy \<Rightarrow> RunPolicy option" where
  "decodePolicy NullPolicy = Some zero_policy"
| "decodePolicy BadPolicy = None"
| "decodePolicy (PolicyObject p legacy) =
    Some (if length (AllowTools p) = 0 \<and> length legacy > 0 then p\<lparr>AllowTools := legacy\<rparr> else p)"

definition encodePolicy :: "RunPolicy \<Rightarrow> StoredPolicy" where
  "encodePolicy p = PolicyObject p []"

section \<open>Runs\<close>

abbreviation run_in :: "TenantID \<Rightarrow> RunID \<Rightarrow> AgentRun \<Rightarrow> bool" where
  "run_in tenant rid r \<equiv> Run_ID r = rid \<and> Run_TenantID r = tenant"

definition run_conflict :: "TenantID \<Rightarrow> AgentRun \<Rightarrow> AgentRun \<Rightarrow> bool" where
  "run_conflict tenant run r =
    (Run_ID r = Run_ID run \<or>
     (Run_SpawnKey run \<noteq> '''' \<and> Run_SpawnKey r = Run_SpawnKey run \<and> Run_TenantID r = tenant))"

text \<open>
  \<open>Create\<close>: the insert selects the session in the tenant, so a foreign session inserts
  nothing; the unique indexes are the primary key and (tenant, spawn key); the parent is a
  foreign key. The row starts pending, whatever state the argument has.
\<close>

definition Runs_Create :: "TenantID \<Rightarrow> AgentRun \<Rightarrow> unit dbm" where
  "Runs_Create tenant run =
    bindM (gets (\<lambda>d. find (session_in tenant (Run_SessionID run)) (sessions d))) (\<lambda>s.
    if s = None then raise ErrNotFound
    else bindM (gets agent_runs) (\<lambda>rs.
      if find (run_conflict tenant run) rs \<noteq> None then raise ErrAlreadyExists
      else if (case Run_ParentRunID run of None \<Rightarrow> False
               | Some p \<Rightarrow> find (\<lambda>r. Run_ID r = p) rs = None) then raise ErrDatabase
      else modifyM (\<lambda>d. d\<lparr>agent_runs := agent_runs d @
        [run\<lparr>Run_TenantID := tenant, Run_State := RunPending, Run_Result := None,
          Run_History := (if Run_History run = EmptyHistory
            then EncodedEnvelope \<lparr>Env_V = 1, Env_Messages = [], Env_Compactions = []\<rparr>
            else Run_History run),
          Run_FailureReason := '''', Run_FailureMessage := '''', Run_CancelRequestedAt := None,
          Run_CreatedAt := db_now d, Run_UpdatedAt := db_now d\<rparr>]\<rparr>)))"

definition Runs_Get :: "TenantID \<Rightarrow> RunID \<Rightarrow> AgentRun dbm" where
  "Runs_Get tenant rid = find_row agent_runs (run_in tenant rid)"

definition Runs_GetForUpdate :: "TenantID \<Rightarrow> RunID \<Rightarrow> AgentRun dbm" where
  "Runs_GetForUpdate tenant rid = find_row agent_runs (run_in tenant rid)"

definition Runs_List :: "TenantID \<Rightarrow> SessionID \<Rightarrow> AgentRun list dbm" where
  "Runs_List tenant sid =
    gets (\<lambda>d. sort_key Run_CreatedAt
      (filter (\<lambda>r. Run_SessionID r = sid \<and> Run_TenantID r = tenant) (agent_runs d)))"

text \<open>The common update: \<open>f\<close> gets the time of the statement.\<close>

definition Runs_exec :: "TenantID \<Rightarrow> RunID \<Rightarrow> (Time \<Rightarrow> AgentRun \<Rightarrow> AgentRun) \<Rightarrow> unit dbm" where
  "Runs_exec tenant rid f =
    bindM (gets agent_runs) (\<lambda>rs.
      if find (run_in tenant rid) rs = None then raise ErrNotFound
      else modifyM (\<lambda>d. d\<lparr>agent_runs := upd_where (run_in tenant rid) (f (db_now d)) (agent_runs d)\<rparr>))"

definition Runs_SetHistory :: "TenantID \<Rightarrow> RunID \<Rightarrow> RawHistory \<Rightarrow> unit dbm" where
  "Runs_SetHistory tenant rid history =
    Runs_exec tenant rid (\<lambda>t r. r\<lparr>Run_History := history, Run_UpdatedAt := t\<rparr>)"

definition Runs_SetState :: "TenantID \<Rightarrow> RunID \<Rightarrow> RunState \<Rightarrow> string \<Rightarrow> string \<Rightarrow> unit dbm" where
  "Runs_SetState tenant rid state failureReason failureMessage =
    Runs_exec tenant rid (\<lambda>t r. r\<lparr>Run_State := state, Run_FailureReason := failureReason,
      Run_FailureMessage := failureMessage, Run_UpdatedAt := t\<rparr>)"

definition Runs_SetResult :: "TenantID \<Rightarrow> RunID \<Rightarrow> RunResult \<Rightarrow> unit dbm" where
  "Runs_SetResult tenant rid result =
    Runs_exec tenant rid (\<lambda>t r. r\<lparr>Run_Result := Some result, Run_UpdatedAt := t\<rparr>)"

definition Runs_GetBySpawnKey :: "TenantID \<Rightarrow> string \<Rightarrow> AgentRun dbm" where
  "Runs_GetBySpawnKey tenant key =
    find_row agent_runs (\<lambda>r. Run_SpawnKey r = key \<and> Run_SpawnKey r \<noteq> '''' \<and> Run_TenantID r = tenant)"

definition Runs_Children :: "TenantID \<Rightarrow> RunID \<Rightarrow> AgentRun list dbm" where
  "Runs_Children tenant rid =
    gets (\<lambda>d. sort_key Run_CohortOrdinal (sort_key Run_CreatedAt
      (filter (\<lambda>r. Run_ParentRunID r = Some rid \<and> Run_TenantID r = tenant) (agent_runs d))))"

definition Runs_RequestCancel :: "TenantID \<Rightarrow> RunID \<Rightarrow> unit dbm" where
  "Runs_RequestCancel tenant rid =
    Runs_exec tenant rid (\<lambda>t r. r\<lparr>Run_CancelRequestedAt :=
      (case Run_CancelRequestedAt r of None \<Rightarrow> Some t | Some c \<Rightarrow> Some c), Run_UpdatedAt := t\<rparr>)"

definition children_of :: "db \<Rightarrow> TenantID \<Rightarrow> RunID \<Rightarrow> AgentRun list" where
  "children_of d tenant rid =
    filter (\<lambda>r. Run_ParentRunID r = Some rid \<and> Run_TenantID r = tenant) (agent_runs d)"

definition Runs_CountChildren :: "TenantID \<Rightarrow> RunID \<Rightarrow> int dbm" where
  "Runs_CountChildren tenant rid = gets (\<lambda>d. int (length (children_of d tenant rid)))"

section \<open>Steps\<close>

text \<open>A run outside the tenant inserts no row, and that is not an error.\<close>

definition Runs_InsertStep :: "TenantID \<Rightarrow> RunStep \<Rightarrow> unit dbm" where
  "Runs_InsertStep tenant st =
    bindM (gets (\<lambda>d. find (run_in tenant (Step_RunID st)) (agent_runs d))) (\<lambda>r.
    if r = None then ret ()
    else bindM (gets agent_run_steps) (\<lambda>sts.
      if find (\<lambda>x. Step_RunID x = Step_RunID st \<and> Step_StepIndex x = Step_StepIndex st) sts \<noteq> None
      then raise ErrAlreadyExists
      else modifyM (\<lambda>d. d\<lparr>agent_run_steps := agent_run_steps d @ [st\<lparr>Step_CreatedAt := db_now d\<rparr>]\<rparr>)))"

definition Runs_Steps :: "TenantID \<Rightarrow> RunID \<Rightarrow> RunStep list dbm" where
  "Runs_Steps tenant rid =
    gets (\<lambda>d. if find (run_in tenant rid) (agent_runs d) = None then []
      else sort_key Step_StepIndex (filter (\<lambda>x. Step_RunID x = rid) (agent_run_steps d)))"

section \<open>Credentials\<close>

abbreviation cred_key :: "TenantID \<Rightarrow> string \<Rightarrow> string \<Rightarrow> Credential \<Rightarrow> bool" where
  "cred_key tenant kind name c \<equiv> Cred_TenantID c = tenant \<and> Cred_Kind c = kind \<and> Cred_Name c = name"

definition Credentials_Put :: "TenantID \<Rightarrow> Credential \<Rightarrow> unit dbm" where
  "Credentials_Put tenant cred =
    bindM (gets credentials) (\<lambda>cs.
      if find (cred_key tenant (Cred_Kind cred) (Cred_Name cred)) cs \<noteq> None
      then modifyM (\<lambda>d. d\<lparr>credentials := upd_where (cred_key tenant (Cred_Kind cred) (Cred_Name cred))
        (\<lambda>c. c\<lparr>Cred_EncPayload := Cred_EncPayload cred, Cred_RotatedAt := db_now d\<rparr>) (credentials d)\<rparr>)
      else bindM (gets tenants) (\<lambda>ts.
        if find (\<lambda>t. Tenant_ID t = tenant) ts = None then raise ErrDatabase
        else modifyM (\<lambda>d. d\<lparr>credentials := credentials d @
          [cred\<lparr>Cred_TenantID := tenant, Cred_CreatedAt := db_now d, Cred_RotatedAt := db_now d\<rparr>]\<rparr>)))"

text \<open>The listing carries no payload; SQL orders it by kind and name, the model by insertion.\<close>

definition Credentials_List :: "TenantID \<Rightarrow> CredentialInfo list dbm" where
  "Credentials_List tenant =
    gets (\<lambda>d. map (\<lambda>c. \<lparr>CredInfo_Kind = Cred_Kind c, CredInfo_Name = Cred_Name c,
      CredInfo_CreatedAt = Cred_CreatedAt c, CredInfo_RotatedAt = Cred_RotatedAt c\<rparr>)
      (filter (\<lambda>c. Cred_TenantID c = tenant) (credentials d)))"

definition Credentials_Get :: "TenantID \<Rightarrow> string \<Rightarrow> string \<Rightarrow> Credential dbm" where
  "Credentials_Get tenant kind name = find_row credentials (cred_key tenant kind name)"

definition Credentials_Delete :: "TenantID \<Rightarrow> string \<Rightarrow> string \<Rightarrow> unit dbm" where
  "Credentials_Delete tenant kind name =
    bindM (gets credentials) (\<lambda>cs.
      if find (cred_key tenant kind name) cs = None then raise ErrNotFound
      else modifyM (\<lambda>d. d\<lparr>credentials := filter (\<lambda>c. \<not> cred_key tenant kind name c) (credentials d)\<rparr>))"

section \<open>Rules\<close>

text \<open>The row \<open>Create\<close> inserts.\<close>

definition created_run :: "Time \<Rightarrow> TenantID \<Rightarrow> AgentRun \<Rightarrow> AgentRun" where
  "created_run now tenant run = run\<lparr>Run_TenantID := tenant, Run_State := RunPending, Run_Result := None,
    Run_History := (if Run_History run = EmptyHistory
      then EncodedEnvelope \<lparr>Env_V = 1, Env_Messages = [], Env_Compactions = []\<rparr>
      else Run_History run),
    Run_FailureReason := '''', Run_FailureMessage := '''', Run_CancelRequestedAt := None,
    Run_CreatedAt := now, Run_UpdatedAt := now\<rparr>"

lemma created_run_simps [simp]:
  "Run_ID (created_run n t r) = Run_ID r"
  "Run_SessionID (created_run n t r) = Run_SessionID r"
  "Run_TenantID (created_run n t r) = t"
  "Run_ParentRunID (created_run n t r) = Run_ParentRunID r"
  "Run_SpawnKey (created_run n t r) = Run_SpawnKey r"
  "Run_Policy (created_run n t r) = Run_Policy r"
  "Run_State (created_run n t r) = RunPending"
  "Run_CancelRequestedAt (created_run n t r) = None"
  by (simp_all add: created_run_def)

definition parent_exists :: "AgentRun \<Rightarrow> AgentRun list \<Rightarrow> bool" where
  "parent_exists run rs = (case Run_ParentRunID run of None \<Rightarrow> True | Some p \<Rightarrow> p \<in> Run_ID ` set rs)"

lemma wp_Runs_Create [wp_simps]:
  "wp (Runs_Create t run) Q E d =
    (if find (session_in t (Run_SessionID run)) (sessions d) = None then E ErrNotFound d
     else if find (run_conflict t run) (agent_runs d) \<noteq> None then E ErrAlreadyExists d
     else if \<not> parent_exists run (agent_runs d) then E ErrDatabase d
     else Q () (d\<lparr>agent_runs := agent_runs d @ [created_run (db_now d) t run]\<rparr>))"
proof -
  have *: "(find (\<lambda>r. Run_ID r = p) rs = None) = (p \<notin> Run_ID ` set rs)" for p and rs :: "AgentRun list"
    by (auto simp: find_None_iff)
  show ?thesis
    by (auto simp: Runs_Create_def wp_simps parent_exists_def created_run_def * split: option.split)
qed

lemma wp_Runs_Get [wp_simps]:
  "wp (Runs_Get t rid) Q E d =
    (case find (run_in t rid) (agent_runs d) of None \<Rightarrow> E ErrNotFound d | Some r \<Rightarrow> Q r d)"
  by (simp add: Runs_Get_def wp_simps)

lemma wp_Runs_GetForUpdate [wp_simps]:
  "wp (Runs_GetForUpdate t rid) Q E d =
    (case find (run_in t rid) (agent_runs d) of None \<Rightarrow> E ErrNotFound d | Some r \<Rightarrow> Q r d)"
  by (simp add: Runs_GetForUpdate_def wp_simps)

lemma wp_Runs_exec [wp_simps]:
  "wp (Runs_exec t rid f) Q E d =
    (if find (run_in t rid) (agent_runs d) = None then E ErrNotFound d
     else Q () (d\<lparr>agent_runs := upd_where (run_in t rid) (f (db_now d)) (agent_runs d)\<rparr>))"
  by (simp add: Runs_exec_def wp_simps)

lemma wp_Runs_GetBySpawnKey [wp_simps]:
  "wp (Runs_GetBySpawnKey t key) Q E d =
    (case find (\<lambda>r. Run_SpawnKey r = key \<and> Run_SpawnKey r \<noteq> '''' \<and> Run_TenantID r = t) (agent_runs d) of
       None \<Rightarrow> E ErrNotFound d | Some r \<Rightarrow> Q r d)"
  by (simp add: Runs_GetBySpawnKey_def wp_simps)

lemma wp_Runs_CountChildren [wp_simps]:
  "wp (Runs_CountChildren t rid) Q E d = Q (int (length (children_of d t rid))) d"
  by (simp add: Runs_CountChildren_def wp_simps)

lemma wp_Runs_InsertStep [wp_simps]:
  "wp (Runs_InsertStep t st) Q E d =
    (if find (run_in t (Step_RunID st)) (agent_runs d) = None then Q () d
     else if find (\<lambda>x. Step_RunID x = Step_RunID st \<and> Step_StepIndex x = Step_StepIndex st)
       (agent_run_steps d) \<noteq> None then E ErrAlreadyExists d
     else Q () (d\<lparr>agent_run_steps := agent_run_steps d @ [st\<lparr>Step_CreatedAt := db_now d\<rparr>]\<rparr>))"
  by (auto simp: Runs_InsertStep_def wp_simps)

definition steps_of :: "db \<Rightarrow> TenantID \<Rightarrow> RunID \<Rightarrow> RunStep list" where
  "steps_of d t rid = (if find (run_in t rid) (agent_runs d) = None then []
    else sort_key Step_StepIndex (filter (\<lambda>x. Step_RunID x = rid) (agent_run_steps d)))"

lemma wp_Runs_Steps [wp_simps]: "wp (Runs_Steps t rid) Q E d = Q (steps_of d t rid) d"
  by (simp add: Runs_Steps_def steps_of_def wp_simps)

text \<open>A policy written with the current encoder is read back unchanged.\<close>

lemma decode_encode_policy: "decodePolicy (encodePolicy p) = Some p"
  by (simp add: encodePolicy_def)

end
