(* ===== verification/Store_Memory.thy ===== *)
theory Store_Memory
  imports Event_Log
begin

text \<open>
  Session memory: the key convention and the limits of \<open>src/multiplayer.go\<close> and the
  \<open>memoryStore\<close> of \<open>src/postgres/multiplayer.go\<close>. The lemmas show that the byte loop of
  \<open>ValidMemoryKey\<close> decides the dotted-namespace convention and that no sequence of writes
  exceeds the limits.
\<close>

section \<open>Definitions\<close>

abbreviation MaxMemoryKeys :: nat where "MaxMemoryKeys \<equiv> 200"
abbreviation MaxMemoryValue :: nat where "MaxMemoryValue \<equiv> 65536"
abbreviation MaxMemoryKeyBytes :: nat where "MaxMemoryKeyBytes \<equiv> 256"

definition key_char :: "char \<Rightarrow> bool" where
  "key_char c =
    (let b = (of_char c :: nat) in
     (97 \<le> b \<and> b \<le> 122) \<or> (65 \<le> b \<and> b \<le> 90) \<or> (48 \<le> b \<and> b \<le> 57) \<or> c = CHR ''_'' \<or> c = CHR ''-'')"

text \<open>The loop over the bytes; \<open>segment\<close> counts the characters since the last dot.\<close>

fun valid_key_loop :: "nat \<Rightarrow> string \<Rightarrow> bool" where
  "valid_key_loop segment [] = (segment > 0)"
| "valid_key_loop segment (c # cs) =
    (if c = CHR ''.'' then (if segment = 0 then False else valid_key_loop 0 cs)
     else if key_char c then valid_key_loop (segment + 1) cs
     else False)"

definition ValidMemoryKey :: "string \<Rightarrow> bool" where
  "ValidMemoryKey key =
    (if key = '''' \<or> length key > MaxMemoryKeyBytes then False else valid_key_loop 0 key)"

abbreviation mem_key :: "SessionID \<Rightarrow> string \<Rightarrow> SessionMemoryEntry \<Rightarrow> bool" where
  "mem_key sid key m \<equiv> Mem_SessionID m = sid \<and> Mem_Key m = key"

definition Memory_Get :: "TenantID \<Rightarrow> SessionID \<Rightarrow> string \<Rightarrow> SessionMemoryEntry dbm" where
  "Memory_Get tenant sid key =
    bindM (gets (\<lambda>d. if find (session_in tenant sid) (sessions d) = None then None
      else find (mem_key sid key) (session_memory d)))
      (\<lambda>m. case m of None \<Rightarrow> raise ErrNotFound | Some e \<Rightarrow> ret e)"

text \<open>SQL orders the listing by key, the model by insertion.\<close>

definition Memory_List :: "TenantID \<Rightarrow> SessionID \<Rightarrow> SessionMemoryEntry list dbm" where
  "Memory_List tenant sid =
    gets (\<lambda>d. if find (session_in tenant sid) (sessions d) = None then []
      else filter (\<lambda>m. Mem_SessionID m = sid) (session_memory d))"

text \<open>
  \<open>Set\<close>: the advisory lock makes the count and the write one step. The columns keep the
  kind and the id of the actor, not its display name.
\<close>

definition Memory_Set :: "TenantID \<Rightarrow> SessionMemoryEntry \<Rightarrow> unit dbm" where
  "Memory_Set tenant e =
    (if \<not> ValidMemoryKey (Mem_Key e)
     then raise (ErrOther ''memory key must be dot-separated alphanumeric segments'')
     else if length (Mem_Value e) > MaxMemoryValue then raise (ErrOther ''memory value exceeds 64KiB'')
     else bindM (gets (\<lambda>d. find (mem_key (Mem_SessionID e) (Mem_Key e)) (session_memory d) \<noteq> None)) (\<lambda>exists.
       bindM (gets (\<lambda>d. length (filter (\<lambda>m. Mem_SessionID m = Mem_SessionID e) (session_memory d)))) (\<lambda>count.
       if \<not> exists \<and> count \<ge> MaxMemoryKeys then raise (ErrOther ''session memory limit reached'')
       else bindM (gets (\<lambda>d. find (session_in tenant (Mem_SessionID e)) (sessions d) = None)) (\<lambda>missing.
         if missing then raise ErrNotFound
         else if exists then
           modifyM (\<lambda>d. d\<lparr>session_memory := upd_where (mem_key (Mem_SessionID e) (Mem_Key e))
             (\<lambda>m. m\<lparr>Mem_Value := Mem_Value e,
                Mem_UpdatedBy := (Mem_UpdatedBy e)\<lparr>Actor_Display := ''''\<rparr>,
                Mem_UpdatedAt := db_now d\<rparr>) (session_memory d)\<rparr>)
         else
           modifyM (\<lambda>d. d\<lparr>session_memory := session_memory d @
             [\<lparr>Mem_SessionID = Mem_SessionID e, Mem_Key = Mem_Key e, Mem_Value = Mem_Value e,
               Mem_UpdatedBy = (Mem_UpdatedBy e)\<lparr>Actor_Display := ''''\<rparr>,
               Mem_UpdatedAt = db_now d\<rparr>]\<rparr>)))))"

definition Memory_Delete :: "TenantID \<Rightarrow> SessionID \<Rightarrow> string \<Rightarrow> unit dbm" where
  "Memory_Delete tenant sid key =
    bindM (gets (\<lambda>d. find (session_in tenant sid) (sessions d) = None \<or>
        find (mem_key sid key) (session_memory d) = None)) (\<lambda>missing.
    if missing then raise ErrNotFound
    else modifyM (\<lambda>d. d\<lparr>session_memory := filter (\<lambda>m. \<not> mem_key sid key m) (session_memory d)\<rparr>))"

section \<open>The key convention\<close>

text \<open>A key as its segments: the parts between the dots.\<close>

fun segments :: "string \<Rightarrow> string list" where
  "segments [] = [[]]"
| "segments (c # cs) = (if c = CHR ''.'' then [] # segments cs
    else (case segments cs of [] \<Rightarrow> [[c]] | s # ss \<Rightarrow> (c # s) # ss))"

lemma segments_nonempty [simp]: "segments cs \<noteq> []"
  by (cases cs) (auto split: list.splits)

lemma segments_Cons: "c \<noteq> CHR ''.'' \<Longrightarrow> segments (c # cs) = (c # hd (segments cs)) # tl (segments cs)"
  by (auto split: list.splits)

lemma valid_key_loop_segments:
  "valid_key_loop n key \<longleftrightarrow>
    (0 < n \<or> hd (segments key) \<noteq> []) \<and> list_all key_char (hd (segments key)) \<and>
    (\<forall>s\<in>set (tl (segments key)). s \<noteq> [] \<and> list_all key_char s)"
proof (induction n key rule: valid_key_loop.induct)
  case (2 segment c cs)
  have split: "(\<forall>s\<in>set (segments cs). P s) \<longleftrightarrow> P (hd (segments cs)) \<and> (\<forall>s\<in>set (tl (segments cs)). P s)" for P
    by (cases "segments cs") auto
  show ?case
  proof (cases "c = CHR ''.''")
    case True
    then show ?thesis using 2 by (auto simp: split)
  next
    case False
    then show ?thesis using 2 by (auto simp: segments_Cons simp del: segments.simps)
  qed
qed simp

lemma ValidMemoryKey_segments:
  "ValidMemoryKey key \<longleftrightarrow> length key \<le> MaxMemoryKeyBytes \<and>
    (\<forall>s\<in>set (segments key). s \<noteq> [] \<and> list_all key_char s)"
proof (cases "key = ''''")
  case False
  have "(\<forall>s\<in>set (segments key). P s) \<longleftrightarrow> P (hd (segments key)) \<and> (\<forall>s\<in>set (tl (segments key)). P s)" for P
    by (cases "segments key") auto
  with False show ?thesis by (auto simp: ValidMemoryKey_def valid_key_loop_segments)
qed (simp add: ValidMemoryKey_def)

section \<open>The limits\<close>

definition memory_ok :: "db \<Rightarrow> bool" where
  "memory_ok d \<longleftrightarrow>
    key_unique (\<lambda>m. (Mem_SessionID m, Mem_Key m)) (session_memory d) \<and>
    (\<forall>m\<in>set (session_memory d). ValidMemoryKey (Mem_Key m) \<and> length (Mem_Value m) \<le> MaxMemoryValue) \<and>
    (\<forall>sid. length (filter (\<lambda>m. Mem_SessionID m = sid) (session_memory d)) \<le> MaxMemoryKeys)"

lemma wp_Memory_Get [wp_simps]:
  "wp (Memory_Get t sid key) Q E d =
    (if find (session_in t sid) (sessions d) = None then E ErrNotFound d
     else case find (mem_key sid key) (session_memory d) of None \<Rightarrow> E ErrNotFound d | Some m \<Rightarrow> Q m d)"
  by (auto simp: Memory_Get_def wp_simps split: option.split)

definition stored_entry :: "Time \<Rightarrow> SessionMemoryEntry \<Rightarrow> SessionMemoryEntry" where
  "stored_entry now e = \<lparr>Mem_SessionID = Mem_SessionID e, Mem_Key = Mem_Key e, Mem_Value = Mem_Value e,
    Mem_UpdatedBy = (Mem_UpdatedBy e)\<lparr>Actor_Display := []\<rparr>, Mem_UpdatedAt = now\<rparr>"

lemma stored_entry_simps [simp]:
  "Mem_SessionID (stored_entry n e) = Mem_SessionID e" "Mem_Key (stored_entry n e) = Mem_Key e"
  "Mem_Value (stored_entry n e) = Mem_Value e"
  "Actor_Kind (Mem_UpdatedBy (stored_entry n e)) = Actor_Kind (Mem_UpdatedBy e)"
  "Actor_ID (Mem_UpdatedBy (stored_entry n e)) = Actor_ID (Mem_UpdatedBy e)"
  by (simp_all add: stored_entry_def)

abbreviation mem_count :: "SessionID \<Rightarrow> SessionMemoryEntry list \<Rightarrow> nat" where
  "mem_count sid ms \<equiv> length (filter (\<lambda>m. Mem_SessionID m = sid) ms)"

lemma wp_Memory_Set [wp_simps]:
  "wp (Memory_Set t e) Q E d =
    (if \<not> ValidMemoryKey (Mem_Key e)
     then E (ErrOther ''memory key must be dot-separated alphanumeric segments'') d
     else if length (Mem_Value e) > MaxMemoryValue then E (ErrOther ''memory value exceeds 64KiB'') d
     else if find (mem_key (Mem_SessionID e) (Mem_Key e)) (session_memory d) = None \<and>
       mem_count (Mem_SessionID e) (session_memory d) \<ge> MaxMemoryKeys
     then E (ErrOther ''session memory limit reached'') d
     else if find (session_in t (Mem_SessionID e)) (sessions d) = None then E ErrNotFound d
     else if find (mem_key (Mem_SessionID e) (Mem_Key e)) (session_memory d) = None
     then Q () (d\<lparr>session_memory := session_memory d @ [stored_entry (db_now d) e]\<rparr>)
     else Q () (d\<lparr>session_memory := upd_where (mem_key (Mem_SessionID e) (Mem_Key e))
         (\<lambda>m. m\<lparr>Mem_Value := Mem_Value e, Mem_UpdatedBy := (Mem_UpdatedBy e)\<lparr>Actor_Display := []\<rparr>,
           Mem_UpdatedAt := db_now d\<rparr>) (session_memory d)\<rparr>))"
  by (cases "find (mem_key (Mem_SessionID e) (Mem_Key e)) (session_memory d)";
      cases "find (session_in t (Mem_SessionID e)) (sessions d)")
     (simp_all add: Memory_Set_def wp_simps stored_entry_def)

lemma memory_ok_insert:
  assumes "memory_ok d" "find (mem_key (Mem_SessionID e) (Mem_Key e)) (session_memory d) = None"
    "ValidMemoryKey (Mem_Key e)" "length (Mem_Value e) \<le> MaxMemoryValue"
    "mem_count (Mem_SessionID e) (session_memory d) < MaxMemoryKeys"
  shows "memory_ok (d\<lparr>session_memory := session_memory d @ [stored_entry n e]\<rparr>)"
  using assms by (auto simp: memory_ok_def find_None_iff)

lemma memory_ok_update:
  assumes "memory_ok d" "length v \<le> MaxMemoryValue"
  shows "memory_ok (d\<lparr>session_memory := upd_where (mem_key sid key)
    (\<lambda>m. m\<lparr>Mem_Value := v, Mem_UpdatedBy := a, Mem_UpdatedAt := n\<rparr>) (session_memory d)\<rparr>)"
  using assms by (auto simp: memory_ok_def map_upd_where filter_upd_where ball_upd_where)

lemma preserves_memory_ok_Set: "preserves memory_ok (Memory_Set t e)"
  by (rule preservesI) (simp add: wp_simps memory_ok_insert memory_ok_update)

lemma mem_count_filter_le: "mem_count sid (filter p ms) \<le> mem_count sid ms"
  by (induction ms) auto

lemma preserves_memory_ok_Delete: "preserves memory_ok (Memory_Delete t sid key)"
proof (rule preservesI)
  fix d assume ok: "memory_ok d"
  have "mem_count s (filter (\<lambda>m. \<not> mem_key sid key m) (session_memory d)) \<le> MaxMemoryKeys" for s
    using ok mem_count_filter_le [of s _ "session_memory d"] order_trans unfolding memory_ok_def by blast
  with ok show "wp (Memory_Delete t sid key) (\<lambda>_. memory_ok) (\<lambda>_. memory_ok) d"
    by (simp add: Memory_Delete_def wp_simps memory_ok_def distinct_map_filter)
qed

text \<open>A value that was set is read back, with the writer's kind and id.\<close>

lemma Memory_Set_Get:
  assumes "Memory_Set t e d = (Inr (), d')"
  shows "\<exists>m. Memory_Get t (Mem_SessionID e) (Mem_Key e) d' = (Inr m, d') \<and> Mem_Value m = Mem_Value e \<and>
    Actor_Kind (Mem_UpdatedBy m) = Actor_Kind (Mem_UpdatedBy e) \<and>
    Actor_ID (Mem_UpdatedBy m) = Actor_ID (Mem_UpdatedBy e)"
proof -
  let ?P = "\<lambda>d'. find (session_in t (Mem_SessionID e)) (sessions d') \<noteq> None \<and>
    (\<exists>m. find (mem_key (Mem_SessionID e) (Mem_Key e)) (session_memory d') = Some m \<and>
      Mem_Value m = Mem_Value e \<and> Actor_Kind (Mem_UpdatedBy m) = Actor_Kind (Mem_UpdatedBy e) \<and>
      Actor_ID (Mem_UpdatedBy m) = Actor_ID (Mem_UpdatedBy e))"
  have "wp (Memory_Set t e) (\<lambda>_. ?P) (\<lambda>_ _. True) d"
  proof (cases "find (mem_key (Mem_SessionID e) (Mem_Key e)) (session_memory d)")
    case None
    then show ?thesis by (simp add: wp_simps find_append)
  next
    case (Some m)
    then have "mem_key (Mem_SessionID e) (Mem_Key e) m" by (auto dest: find_SomeD)
    with Some show ?thesis by (simp add: wp_simps find_upd_where)
  qed
  then have "?P d'" using assms wp_ok by fastforce
  then show ?thesis by (auto simp: Memory_Get_def bindM_def gets_def ret_def)
qed

end
