(* ===== verification/Loop_Spawn.thy ===== *)
theory Loop_Spawn
  imports Store_Runs Store_Memory
begin

text \<open>
  The versioned history envelope and the registry (\<open>src/loop/loop.go\<close>) and spawning of
  child runs (\<open>src/loop/spawn.go\<close>). \<open>uuid.NewString\<close> is an argument of the definitions
  that use it (the fresh identifier).
\<close>

section \<open>The history envelope\<close>

definition DecodeEnvelope :: "RawHistory \<Rightarrow> Err + Envelope" where
  "DecodeEnvelope raw =
    (case raw of
       EmptyHistory \<Rightarrow> Inr \<lparr>Env_V = 1, Env_Messages = [], Env_Compactions = []\<rparr>
     | CorruptHistory \<Rightarrow> Inl (ErrOther ''loop: decode envelope'')
     | EncodedEnvelope env \<Rightarrow>
         if Env_V env \<noteq> 1 \<and> Env_V env \<noteq> 2 then Inl (ErrOther ''loop: unsupported envelope version'')
         else Inr env)"

definition Encode :: "Envelope \<Rightarrow> RawHistory" where
  "Encode e =
    EncodedEnvelope (if length (Env_Compactions e) > 0 then e\<lparr>Env_V := 2\<rparr>
      else if Env_V e = 0 then e\<lparr>Env_V := 1\<rparr> else e)"

definition InitialEnvelope :: "string \<Rightarrow> RawHistory" where
  "InitialEnvelope prompt =
    Encode \<lparr>Env_V = 1, Env_Messages = [UserMessage prompt], Env_Compactions = []\<rparr>"

definition AppendUserMessage :: "RawHistory \<Rightarrow> string \<Rightarrow> Err + RawHistory" where
  "AppendUserMessage raw text =
    (case DecodeEnvelope raw of
       Inl e \<Rightarrow> Inl e
     | Inr env \<Rightarrow> Inr (Encode (env\<lparr>Env_Messages := Env_Messages env @ [UserMessage text]\<rparr>)))"

record Definition =
  Def_Kind :: string
  Def_Version :: int
  Def_SystemPrompt :: string

abbreviation DefaultLoopKind :: string where "DefaultLoopKind \<equiv> ''default''"
abbreviation DefaultLoopVersion :: int where "DefaultLoopVersion \<equiv> 1"

definition DefaultSystemPrompt :: string where
  "DefaultSystemPrompt =
    ''You are an agent working inside an ultracore session.'' @ [CHR 0x0A] @
    ''Be concise. Use the ask_user tool when you need human input; use the'' @ [CHR 0x0A] @
    ''post_event tool to leave notes in the session log.''"

text \<open>The registry: a map from \<open>kind@version\<close> to the definition.\<close>

definition registry_key :: "string \<Rightarrow> int \<Rightarrow> string" where
  "registry_key kind version = kind @ ''@'' @ itoa version"

definition register :: "(string \<times> Definition) list \<Rightarrow> Definition \<Rightarrow> (string \<times> Definition) list" where
  "register defs d = (registry_key (Def_Kind d) (Def_Version d), d) # defs"

definition NewRegistry :: "(string \<times> Definition) list" where
  "NewRegistry = register [] \<lparr>Def_Kind = DefaultLoopKind, Def_Version = DefaultLoopVersion,
    Def_SystemPrompt = DefaultSystemPrompt\<rparr>"

definition Registry_Resolve :: "(string \<times> Definition) list \<Rightarrow> string \<Rightarrow> int \<Rightarrow> Definition option" where
  "Registry_Resolve defs kind version = map_of defs (registry_key kind version)"

section \<open>Tools\<close>

text \<open>What a tool answers to the model; \<open>StopTurnResponse\<close> is a text with \<open>StopTurn\<close> set.\<close>

datatype ToolResponse =
    TextResponse string
  | StopTurnResponse string
  | TextErrorResponse string
  | SpawnedResponse RunID bool
  | MemoryListResponse "SessionMemoryEntry list"

text \<open>What the tools of a step record for the classification of its outcome.\<close>

record stepRecorder =
  rec_question :: "Question option"
  rec_waitRunIDs :: "RunID list"
  rec_waitToolCallID :: string
  rec_waitTimeout :: Duration
  rec_waitKind :: string
  rec_waitPolicy :: string
  rec_toolsCalled :: int

definition new_recorder :: stepRecorder where
  "new_recorder = \<lparr>rec_question = None, rec_waitRunIDs = [], rec_waitToolCallID = '''', rec_waitTimeout = 0,
    rec_waitKind = '''', rec_waitPolicy = '''', rec_toolsCalled = 0\<rparr>"

definition askUserTool :: "string \<Rightarrow> string list \<Rightarrow> stepRecorder \<Rightarrow> ToolResponse \<times> stepRecorder" where
  "askUserTool question choices rec =
    (StopTurnResponse ''Question posed to the user; their answer will arrive as the next user message.'',
     rec\<lparr>rec_question := Some \<lparr>Q_Text = question, Q_Choices = choices\<rparr>\<rparr>)"

definition postEventTool :: "TenantID \<Rightarrow> SessionID \<Rightarrow> RunID \<Rightarrow> string \<Rightarrow> ToolResponse dbm" where
  "postEventTool tenant sid rid text =
    tryM (Events_Append tenant sid (ActorAgent rid) EventKindAnnotation (AnnotationPayload text))
      (\<lambda>r. case r of Inl _ \<Rightarrow> ret (TextErrorResponse ''failed to post note'') | Inr _ \<Rightarrow> ret (TextResponse ''posted''))"

text \<open>A denial records an event and answers every caller with the same text.\<close>

definition permissionDenied :: "AgentRun \<Rightarrow> string \<Rightarrow> string \<Rightarrow> ToolResponse dbm" where
  "permissionDenied run tool reason =
    tryM (Events_Append (Run_TenantID run) (Run_SessionID run) ActorSystem EventKindPermissionDenied
        (PermissionDeniedPayload (Run_ID run) tool None reason))
      (\<lambda>_. ret (TextErrorResponse ''permission denied''))"

section \<open>Spawning\<close>

abbreviation defaultWaitTimeout :: Duration where "defaultWaitTimeout \<equiv> 300000000000"
abbreviation maxCohortSize :: nat where "maxCohortSize \<equiv> 16"

definition spawnKey :: "RunID \<Rightarrow> int \<Rightarrow> string \<Rightarrow> string" where
  "spawnKey parent stepIndex toolCallID = parent @ '':'' @ itoa stepIndex @ '':'' @ toolCallID"

record childSpec =
  Spec_Prompt :: string
  Spec_Tools :: "string list option"
  Spec_Policy :: "RunPolicy option"

definition resolvePolicy :: "childSpec \<Rightarrow> RunPolicy \<Rightarrow> Err + RunPolicy" where
  "resolvePolicy s parent =
    (if ChildInherit parent then Inr parent
     else
       (let child = (case Spec_Policy s of
            Some p \<Rightarrow> p
          | None \<Rightarrow> (case Spec_Tools s of
              Some ts \<Rightarrow> parent\<lparr>AllowTools := ts\<rparr>
            | None \<Rightarrow> parent\<lparr>AllowTools := AllowTools parent\<rparr>)) in
        if \<not> IsSubset child parent then Inl (deniedError ''child policy escapes parent'')
        else Inr child))"

record spawnRequest =
  Req_spec :: childSpec
  Req_toolCallID :: string
  Req_cohortID :: string
  Req_ordinal :: int

text \<open>The row a spawn asks for. The Go literal leaves the state unset; \<open>Create\<close> inserts pending.\<close>

definition new_child :: "AgentRun \<Rightarrow> Job \<Rightarrow> spawnRequest \<Rightarrow> RunPolicy \<Rightarrow> RunID \<Rightarrow> AgentRun" where
  "new_child run job req policy newID =
    \<lparr>Run_ID = newID, Run_SessionID = Run_SessionID run, Run_TenantID = Run_TenantID run,
     Run_ParentRunID = Some (Run_ID run),
     Run_SpawnKey = spawnKey (Run_ID run) (SJ_StepIndex job) (Req_toolCallID req),
     Run_CohortID = Req_cohortID req, Run_CohortOrdinal = Req_ordinal req,
     Run_Policy = policy, Run_Actor = Run_Actor run, Run_Result = None, Run_State = RunPending,
     Run_LoopKind = Run_LoopKind run, Run_LoopVersion = Run_LoopVersion run,
     Run_ModelConfig = Run_ModelConfig run, Run_Prompt = Spec_Prompt (Req_spec req),
     Run_History = InitialEnvelope (Spec_Prompt (Req_spec req)),
     Run_FailureReason = '''', Run_FailureMessage = '''', Run_CancelRequestedAt = None,
     Run_CreatedAt = 0, Run_UpdatedAt = 0\<rparr>"

text \<open>The transaction of \<open>spawnChild\<close>: lock the parent, check the cap, adopt or create.\<close>

definition spawn_tx :: "AgentRun \<Rightarrow> Job \<Rightarrow> AgentRun \<Rightarrow> unit dbm" where
  "spawn_tx run job child = tx (
    bindM (Runs_GetForUpdate (Run_TenantID run) (Run_ID run)) (\<lambda>_.
    bindM (Runs_CountChildren (Run_TenantID run) (Run_ID run)) (\<lambda>n.
    if n \<ge> MaxChildren (Run_Policy run) then raise (deniedError ''max children reached'')
    else tryM (Runs_GetBySpawnKey (Run_TenantID run) (Run_SpawnKey child)) (\<lambda>r. case r of
      Inr existing \<Rightarrow> raise (errAdoptedChild existing)
    | Inl e \<Rightarrow>
        if e \<noteq> ErrNotFound then raise e
        else bindM (Runs_Create (Run_TenantID run) child) (\<lambda>_.
          bindM (Events_Append (Run_TenantID run) (Run_SessionID run) (ActorAgent (Run_ID run))
            EventKindRunSpawned (RunSpawnedPayload (Run_ID run) (Run_ID child))) (\<lambda>_.
          EnqueueInTx (StepJob (Run_ID child) (SJ_TenantID job) (SJ_SessionID job) 0)))))))"

definition spawnChild :: "AgentRun \<Rightarrow> Job \<Rightarrow> spawnRequest \<Rightarrow> RunID \<Rightarrow> (AgentRun \<times> bool) dbm" where
  "spawnChild run job req newID =
    (if is_blank (Spec_Prompt (Req_spec req)) then raise errMissingChildPrompt
     else case resolvePolicy (Req_spec req) (Run_Policy run) of
       Inl e \<Rightarrow> raise e
     | Inr policy \<Rightarrow>
       if MaxChildren (Run_Policy run) \<le> 0 then raise (deniedError ''spawning not permitted'')
       else
         (let child = new_child run job req policy newID in
          tryM (Runs_GetBySpawnKey (Run_TenantID run) (Run_SpawnKey child)) (\<lambda>r. case r of
            Inr existing \<Rightarrow> ret (existing, True)
          | Inl e \<Rightarrow>
              if e \<noteq> ErrNotFound then raise e
              else tryM (spawn_tx run job child) (\<lambda>r. case r of
                Inr _ \<Rightarrow> ret (child, False)
              | Inl (errAdoptedChild existing) \<Rightarrow> ret (existing, True)
              | Inl e \<Rightarrow> raise e))))"

definition spawn_error :: "AgentRun \<Rightarrow> string \<Rightarrow> string \<Rightarrow> Err \<Rightarrow> ToolResponse dbm" where
  "spawn_error run tool failed e =
    (case e of
       deniedError reason \<Rightarrow> permissionDenied run tool reason
     | errMissingChildPrompt \<Rightarrow>
         ret (TextErrorResponse ''loop: a spawn requires either a prompt or an agent_ref'')
     | _ \<Rightarrow> ret (TextErrorResponse failed))"

definition spawnAgentTool :: "AgentRun \<Rightarrow> Job \<Rightarrow> childSpec \<Rightarrow> string \<Rightarrow> RunID \<Rightarrow> ToolResponse dbm" where
  "spawnAgentTool run job spec callID newID =
    (if \<not> AllowsTool (Run_Policy run) ''spawn_agent''
     then permissionDenied run ''spawn_agent'' ''tool not granted''
     else tryM (spawnChild run job
         \<lparr>Req_spec = spec, Req_toolCallID = callID, Req_cohortID = '''', Req_ordinal = 0\<rparr> newID)
       (\<lambda>r. case r of
          Inl e \<Rightarrow> spawn_error run ''spawn_agent'' ''spawn failed'' e
        | Inr (child, adopted) \<Rightarrow> ret (SpawnedResponse (Run_ID child) adopted)))"

definition parseWaitTimeout :: "string \<Rightarrow> Duration" where
  "parseWaitTimeout raw =
    (case ParseDuration raw of Some d \<Rightarrow> if d > 0 then d else defaultWaitTimeout | None \<Rightarrow> defaultWaitTimeout)"

definition normalizeTimeoutPolicy :: "string \<Rightarrow> string" where
  "normalizeTimeoutPolicy raw = (if raw = TimeoutPolicyFail then TimeoutPolicyFail else TimeoutPolicyResolve)"

text \<open>The names in a wait call: \<open>*\<close> stands for every child; a run that is no child is refused.\<close>

fun wait_ids :: "RunID list \<Rightarrow> string list \<Rightarrow> RunID list \<Rightarrow> RunID list option" where
  "wait_ids children [] ids = Some ids"
| "wait_ids children (raw # raws) ids =
    (if raw = ''*'' then wait_ids children raws (ids @ children)
     else if raw \<notin> set children then None
     else wait_ids children raws (ids @ [raw]))"

fun dedup :: "RunID list \<Rightarrow> RunID set \<Rightarrow> RunID list" where
  "dedup [] seen = []"
| "dedup (i # is) seen = (if i \<in> seen then dedup is seen else i # dedup is (insert i seen))"

definition waitForAgentsTool ::
  "AgentRun \<Rightarrow> string list \<Rightarrow> string \<Rightarrow> string \<Rightarrow> string \<Rightarrow> stepRecorder \<Rightarrow> (ToolResponse \<times> stepRecorder) dbm" where
  "waitForAgentsTool run runIDs timeout timeoutPolicy callID rec =
    (if length runIDs = 0 then ret (TextErrorResponse ''wait_for_agents requires at least one run id'', rec)
     else bindM (Runs_Children (Run_TenantID run) (Run_ID run)) (\<lambda>children.
       case wait_ids (map Run_ID children) runIDs [] of
         None \<Rightarrow> bindM (permissionDenied run ''wait_for_agents'' ''run is not a child of this agent'')
           (\<lambda>resp. ret (resp, rec))
       | Some ids \<Rightarrow>
           if length ids = 0 then ret (TextErrorResponse ''wait_for_agents matched no child agents'', rec)
           else ret (StopTurnResponse ''waiting for child agents'',
             rec\<lparr>rec_waitRunIDs := dedup ids {}, rec_waitToolCallID := callID,
               rec_waitTimeout := parseWaitTimeout timeout, rec_waitKind := WaitKindWait,
               rec_waitPolicy := normalizeTimeoutPolicy timeoutPolicy\<rparr>)))"

text \<open>
  The loop of a cohort call over its specs; \<open>newIDs\<close> are the fresh identifiers. It ends
  with the children's ids or with the answer to the failed spawn.
\<close>

fun cohort_loop ::
  "AgentRun \<Rightarrow> Job \<Rightarrow> string \<Rightarrow> string \<Rightarrow> int \<Rightarrow> (childSpec \<times> RunID) list \<Rightarrow> RunID list
    \<Rightarrow> (ToolResponse + RunID list) dbm" where
  "cohort_loop run job callID cohortID i [] ids = ret (Inr ids)"
| "cohort_loop run job callID cohortID i ((spec, newID) # specs) ids =
    tryM (spawnChild run job
        \<lparr>Req_spec = spec, Req_toolCallID = callID @ ''#'' @ itoa i, Req_cohortID = cohortID, Req_ordinal = i\<rparr> newID)
      (\<lambda>r. case r of
         Inl e \<Rightarrow> bindM (spawn_error run ''run_agent_cohort'' ''cohort spawn failed'' e) (\<lambda>resp. ret (Inl resp))
       | Inr (child, _) \<Rightarrow> cohort_loop run job callID cohortID (i + 1) specs (ids @ [Run_ID child]))"

text \<open>\<open>uuid.NewSHA1\<close> is a parameter: the name-based identifier of a namespace and a name.\<close>

definition cohortNamespace :: string where
  "cohortNamespace = ''6f2b1a54-6a1b-4b7f-9a1a-6d0f1b2c3d4e''"

definition runAgentCohortTool ::
  "(string \<Rightarrow> string \<Rightarrow> string) \<Rightarrow> AgentRun \<Rightarrow> Job \<Rightarrow> (childSpec \<times> RunID) list \<Rightarrow> string \<Rightarrow> string \<Rightarrow> string
    \<Rightarrow> stepRecorder \<Rightarrow> (ToolResponse \<times> stepRecorder) dbm" where
  "runAgentCohortTool NewSHA1 run job specs timeout timeoutPolicy callID rec =
    (if \<not> AllowsTool (Run_Policy run) ''run_agent_cohort'' then
       bindM (permissionDenied run ''run_agent_cohort'' ''tool not granted'') (\<lambda>resp. ret (resp, rec))
     else if length specs = 0 then
       ret (TextErrorResponse ''run_agent_cohort requires at least one spec'', rec)
     else if length specs > maxCohortSize then
       ret (TextErrorResponse (''cohort size '' @ utoa (length specs) @ '' exceeds the limit of 16''), rec)
     else
       (let cohortID = NewSHA1 cohortNamespace (spawnKey (Run_ID run) (SJ_StepIndex job) callID) in
        bindM (cohort_loop run job callID cohortID 0 specs []) (\<lambda>r. case r of
          Inl resp \<Rightarrow> ret (resp, rec)
        | Inr ids \<Rightarrow> ret (StopTurnResponse ''cohort launched; waiting for members'',
            rec\<lparr>rec_waitRunIDs := ids, rec_waitToolCallID := callID,
              rec_waitTimeout := parseWaitTimeout timeout, rec_waitKind := WaitKindCohort,
              rec_waitPolicy := normalizeTimeoutPolicy timeoutPolicy\<rparr>))))"

text \<open>The names of the spawn tools a run is offered, and of its denial stubs.\<close>

definition spawnTools :: "AgentRun \<Rightarrow> string list" where
  "spawnTools run =
    (if \<not> AllowsTool (Run_Policy run) ''spawn_agent'' then []
     else [''spawn_agent'', ''wait_for_agents''] @
       (if AllowsTool (Run_Policy run) ''run_agent_cohort'' then [''run_agent_cohort''] else []))"

definition denialStubs :: "string list \<Rightarrow> string list" where
  "denialStubs offered = filter (\<lambda>name. name \<notin> set offered) CanonicalTools"

end
