(* ===== verification/Store_Waits.thy ===== *)
theory Store_Waits
  imports Store_Runs
begin

text \<open>
  Durable waits and their members: the \<open>waitStore\<close> of \<open>src/postgres/multiplayer.go\<close>. A wait
  belongs to the tenant of its parent run. A query without \<open>ORDER BY\<close> returns the rows in
  insertion order.
\<close>

definition wait_tenant :: "db \<Rightarrow> TenantID \<Rightarrow> RunWait \<Rightarrow> bool" where
  "wait_tenant d tenant w = (find (run_in tenant (Wait_ParentRunID w)) (agent_runs d) \<noteq> None)"

abbreviation wait_in :: "db \<Rightarrow> TenantID \<Rightarrow> string \<Rightarrow> RunWait \<Rightarrow> bool" where
  "wait_in d tenant wid w \<equiv> Wait_ID w = wid \<and> wait_tenant d tenant w"

definition Waits_Get :: "TenantID \<Rightarrow> string \<Rightarrow> RunWait dbm" where
  "Waits_Get tenant wid =
    bindM (gets (\<lambda>d. find (wait_in d tenant wid) (run_waits d)))
      (\<lambda>w. case w of None \<Rightarrow> raise ErrNotFound | Some x \<Rightarrow> ret x)"

definition Waits_GetForUpdate :: "TenantID \<Rightarrow> string \<Rightarrow> RunWait dbm" where
  "Waits_GetForUpdate tenant wid =
    bindM (gets (\<lambda>d. find (wait_in d tenant wid) (run_waits d)))
      (\<lambda>w. case w of None \<Rightarrow> raise ErrNotFound | Some x \<Rightarrow> ret x)"

text \<open>
  The unique keys of \<open>run_waits\<close>: the id, the originating tool call, and the parent among
  the open waits. \<open>ON CONFLICT DO NOTHING\<close> skips the insert on any of them.
\<close>

definition wait_conflict :: "RunWait \<Rightarrow> RunWait \<Rightarrow> bool" where
  "wait_conflict w x =
    (Wait_ID x = Wait_ID w \<or>
     (Wait_ParentRunID x = Wait_ParentRunID w \<and> Wait_StepIndex x = Wait_StepIndex w \<and>
      Wait_ToolCallID x = Wait_ToolCallID w) \<or>
     (Wait_ParentRunID x = Wait_ParentRunID w \<and> Wait_State x = WaitOpen))"

definition Waits_insert_member :: "string \<Rightarrow> RunWaitMember \<Rightarrow> unit dbm" where
  "Waits_insert_member wid m =
    bindM (gets run_wait_members) (\<lambda>ms.
      if find (\<lambda>x. Member_WaitID x = wid \<and>
           (Member_RunID x = Member_RunID m \<or> Member_Ordinal x = Member_Ordinal m)) ms \<noteq> None
      then ret ()
      else bindM (gets agent_runs) (\<lambda>rs.
        if find (\<lambda>r. Run_ID r = Member_RunID m) rs = None then raise ErrDatabase
        else modifyM (\<lambda>d. d\<lparr>run_wait_members := run_wait_members d @ [m\<lparr>Member_WaitID := wid\<rparr>]\<rparr>)))"

definition Waits_Create :: "TenantID \<Rightarrow> RunWait \<Rightarrow> RunWaitMember list \<Rightarrow> unit dbm" where
  "Waits_Create tenant w0 members =
    (let w1 = (if Wait_Kind w0 = '''' then w0\<lparr>Wait_Kind := WaitKindWait\<rparr> else w0);
         w = (if Wait_TimeoutPolicy w1 = '''' then w1\<lparr>Wait_TimeoutPolicy := TimeoutPolicyResolve\<rparr> else w1) in
     bindM (gets (\<lambda>d. find (run_in tenant (Wait_ParentRunID w)) (agent_runs d) \<noteq> None \<and>
        find (wait_conflict w) (run_waits d) = None)) (\<lambda>inserted.
     if \<not> inserted then
       tryM (Waits_Get tenant (Wait_ID w))
         (\<lambda>r. case r of Inr _ \<Rightarrow> ret () | Inl _ \<Rightarrow> raise ErrNotFound)
     else
       bindM (modifyM (\<lambda>d. d\<lparr>run_waits := run_waits d @
         [w\<lparr>Wait_State := WaitOpen, Wait_Result := None, Wait_ResumedAt := None\<rparr>]\<rparr>)) (\<lambda>_.
       forM members (Waits_insert_member (Wait_ID w)))))"

definition Waits_ListOpenForChild :: "TenantID \<Rightarrow> RunID \<Rightarrow> RunWait list dbm" where
  "Waits_ListOpenForChild tenant rid =
    gets (\<lambda>d. filter (\<lambda>w. Wait_State w = WaitOpen \<and> wait_tenant d tenant w \<and>
      (\<exists>m\<in>set (run_wait_members d). Member_WaitID m = Wait_ID w \<and> Member_RunID m = rid)) (run_waits d))"

definition Waits_ListOpenForParent :: "TenantID \<Rightarrow> RunID \<Rightarrow> RunWait list dbm" where
  "Waits_ListOpenForParent tenant rid =
    gets (\<lambda>d. filter (\<lambda>w. Wait_ParentRunID w = rid \<and> wait_tenant d tenant w \<and>
      Wait_State w = WaitOpen) (run_waits d))"

definition Waits_ListForParent :: "TenantID \<Rightarrow> RunID \<Rightarrow> RunWait list dbm" where
  "Waits_ListForParent tenant rid =
    gets (\<lambda>d. sort_key Wait_StepIndex
      (filter (\<lambda>w. Wait_ParentRunID w = rid \<and> wait_tenant d tenant w) (run_waits d)))"

definition Waits_due :: "db \<Rightarrow> TenantID \<Rightarrow> Time \<Rightarrow> int \<Rightarrow> RunWait list" where
  "Waits_due d tenant now limit =
    take (nat limit) (sort_key Wait_Deadline
      (filter (\<lambda>w. wait_tenant d tenant w \<and> Wait_State w = WaitOpen \<and> Wait_Deadline w \<le> now) (run_waits d)))"

text \<open>\<open>ClaimDue\<close> closes the due waits as timed out and returns them as they are then.\<close>

definition Waits_ClaimDue :: "TenantID \<Rightarrow> Time \<Rightarrow> int \<Rightarrow> RunWait list dbm" where
  "Waits_ClaimDue tenant now limit =
    bindM (gets (\<lambda>d. Waits_due d tenant now limit)) (\<lambda>due.
    bindM (modifyM (\<lambda>d. d\<lparr>run_waits := upd_where (\<lambda>w. Wait_ID w \<in> Wait_ID ` set due)
      (Wait_State_update (\<lambda>_. WaitTimedOut)) (run_waits d)\<rparr>)) (\<lambda>_.
    ret (map (Wait_State_update (\<lambda>_. WaitTimedOut)) due)))"

definition Waits_Members :: "string \<Rightarrow> RunWaitMember list dbm" where
  "Waits_Members wid =
    gets (\<lambda>d. sort_key Member_Ordinal (filter (\<lambda>m. Member_WaitID m = wid) (run_wait_members d)))"

text \<open>An update of waits that reports whether a row was affected.\<close>

definition Waits_exec :: "(db \<Rightarrow> RunWait \<Rightarrow> bool) \<Rightarrow> (Time \<Rightarrow> RunWait \<Rightarrow> RunWait) \<Rightarrow> bool dbm" where
  "Waits_exec p f =
    bindM (gets (\<lambda>d. find (p d) (run_waits d) \<noteq> None)) (\<lambda>hit.
    bindM (modifyM (\<lambda>d. d\<lparr>run_waits := upd_where (p d) (f (db_now d)) (run_waits d)\<rparr>)) (\<lambda>_.
    ret hit))"

definition Waits_Close :: "TenantID \<Rightarrow> string \<Rightarrow> WaitState \<Rightarrow> WaitOutcome \<Rightarrow> bool dbm" where
  "Waits_Close tenant wid state result =
    Waits_exec (\<lambda>d w. wait_in d tenant wid w \<and> Wait_State w = WaitOpen)
      (\<lambda>_ w. w\<lparr>Wait_State := state, Wait_Result := Some result\<rparr>)"

definition Waits_SetResult :: "TenantID \<Rightarrow> string \<Rightarrow> WaitOutcome \<Rightarrow> unit dbm" where
  "Waits_SetResult tenant wid result =
    bindM (Waits_exec (\<lambda>d w. wait_in d tenant wid w) (\<lambda>_ w. w\<lparr>Wait_Result := Some result\<rparr>)) (\<lambda>hit.
    if hit then ret () else raise ErrNotFound)"

definition Waits_MarkResumed :: "TenantID \<Rightarrow> string \<Rightarrow> bool dbm" where
  "Waits_MarkResumed tenant wid =
    Waits_exec (\<lambda>d w. wait_in d tenant wid w \<and> Wait_ResumedAt w = None)
      (\<lambda>t w. w\<lparr>Wait_ResumedAt := Some t\<rparr>)"

section \<open>Rules\<close>

lemma wait_tenant_frame:
  "agent_runs d = agent_runs d' \<Longrightarrow> wait_tenant d t w = wait_tenant d' t w"
  by (simp add: wait_tenant_def)

lemma wait_tenant_upd [simp]:
  "wait_tenant (d\<lparr>run_waits := ws\<rparr>) = wait_tenant d"
  "wait_tenant (d\<lparr>run_wait_members := ms\<rparr>) = wait_tenant d"
  "wait_tenant (d\<lparr>jobs := js\<rparr>) = wait_tenant d"
  "wait_tenant (logged d t sid a k p n) = wait_tenant d"
  by (simp_all add: wait_tenant_def fun_eq_iff)

lemma wait_tenant_Wait [simp]:
  "wait_tenant d t (w\<lparr>Wait_State := st\<rparr>) = wait_tenant d t w"
  "wait_tenant d t (w\<lparr>Wait_Result := r\<rparr>) = wait_tenant d t w"
  "wait_tenant d t (w\<lparr>Wait_ResumedAt := ra\<rparr>) = wait_tenant d t w"
  by (simp_all add: wait_tenant_def)

lemma wp_Waits_Get [wp_simps]:
  "wp (Waits_Get t wid) Q E d =
    (case find (wait_in d t wid) (run_waits d) of None \<Rightarrow> E ErrNotFound d | Some w \<Rightarrow> Q w d)"
  by (simp add: Waits_Get_def wp_simps split: option.split)

lemma wp_Waits_GetForUpdate [wp_simps]:
  "wp (Waits_GetForUpdate t wid) Q E d =
    (case find (wait_in d t wid) (run_waits d) of None \<Rightarrow> E ErrNotFound d | Some w \<Rightarrow> Q w d)"
  by (simp add: Waits_GetForUpdate_def wp_simps split: option.split)

lemma wp_Waits_exec [wp_simps]:
  "wp (Waits_exec p f) Q E d =
    Q (find (p d) (run_waits d) \<noteq> None) (d\<lparr>run_waits := upd_where (p d) (f (db_now d)) (run_waits d)\<rparr>)"
  by (simp add: Waits_exec_def wp_simps)

lemma wp_Waits_Members [wp_simps]:
  "wp (Waits_Members wid) Q E d =
    Q (sort_key Member_Ordinal (filter (\<lambda>m. Member_WaitID m = wid) (run_wait_members d))) d"
  by (simp add: Waits_Members_def wp_simps)

lemma wp_Waits_insert_member [wp_simps]:
  "wp (Waits_insert_member wid m) Q E d =
    (if find (\<lambda>x. Member_WaitID x = wid \<and>
        (Member_RunID x = Member_RunID m \<or> Member_Ordinal x = Member_Ordinal m)) (run_wait_members d) \<noteq> None
     then Q () d
     else if find (\<lambda>r. Run_ID r = Member_RunID m) (agent_runs d) = None then E ErrDatabase d
     else Q () (d\<lparr>run_wait_members := run_wait_members d @ [m\<lparr>Member_WaitID := wid\<rparr>]\<rparr>))"
  by (auto simp: Waits_insert_member_def wp_simps)

end
