(* ===== verification/Loop_Waits.thy ===== *)
theory Loop_Waits
  imports Loop_Spawn Store_Waits
begin

text \<open>
  Fan-in waits: \<open>src/loop/waits.go\<close> and the timeout sweeper \<open>src/loop/waittimeout.go\<close>.
  \<open>uuid.NewSHA1\<close> is the parameter \<open>NewSHA1\<close>.
\<close>

definition waitNamespace :: string where
  "waitNamespace = ''2c4d6e80-9a3b-4c5d-8e7f-1a2b3c4d5e6f''"

definition waitToolName :: "string \<Rightarrow> string" where
  "waitToolName kind = (if kind = WaitKindCohort then ''run_agent_cohort'' else ''wait_for_agents'')"

definition deterministicWaitID :: "(string \<Rightarrow> string \<Rightarrow> string) \<Rightarrow> RunID \<Rightarrow> int \<Rightarrow> string \<Rightarrow> string" where
  "deterministicWaitID NewSHA1 parent stepIndex toolCallID =
    NewSHA1 waitNamespace (spawnKey parent stepIndex toolCallID)"

section \<open>Closing a wait and resuming its parent\<close>

datatype closeReason = closeReasonChild | closeReasonTimeout

text \<open>
  The loop over the members: a terminal member adds its result and bumps its counter, any
  other member counts as pending.
\<close>

fun collect_members :: "TenantID \<Rightarrow> RunWaitMember list \<Rightarrow> WaitOutcome \<Rightarrow> int \<Rightarrow> (WaitOutcome \<times> int) dbm" where
  "collect_members org [] outcome pending = ret (outcome, pending)"
| "collect_members org (member # members) outcome pending =
    bindM (Runs_Get org (Member_RunID member)) (\<lambda>child.
      if \<not> RunState_Terminal (Run_State child) then collect_members org members outcome (pending + 1)
      else
        (let o1 = outcome\<lparr>WO_Members := WO_Members outcome @
            [\<lparr>WMR_Ordinal = Member_Ordinal member, WMR_RunID = Run_ID child, WMR_State = Run_State child,
              WMR_Result = Run_Result child, WMR_FailureReason = Run_FailureReason child,
              WMR_FailureMessage = Run_FailureMessage child\<rparr>]\<rparr>;
             o2 = (case Run_State child of
                RunCompleted \<Rightarrow> o1\<lparr>WO_Completed := WO_Completed o1 + 1\<rparr>
              | RunFailed \<Rightarrow> o1\<lparr>WO_Failed := WO_Failed o1 + 1\<rparr>
              | RunCancelled \<Rightarrow> o1\<lparr>WO_Cancelled := WO_Cancelled o1 + 1\<rparr>
              | _ \<Rightarrow> o1) in
         collect_members org members o2 pending))"

definition appendWaitResult :: "RawHistory \<Rightarrow> RunWait \<Rightarrow> WaitOutcome \<Rightarrow> Err + RawHistory" where
  "appendWaitResult raw wait outcome =
    (case DecodeEnvelope raw of
       Inl e \<Rightarrow> Inl e
     | Inr env \<Rightarrow>
         (let output = (if WO_TimedOut outcome \<and> Wait_TimeoutPolicy wait = TimeoutPolicyFail
              then OutputError (EncodedOutcome outcome) else OutputText (EncodedOutcome outcome)) in
          Inr (Encode (env\<lparr>Env_Messages := Env_Messages env @ [ToolMessage (Wait_ToolCallID wait) output]\<rparr>))))"

text \<open>The next step index: one more than the largest recorded step.\<close>

fun next_index :: "RunStep list \<Rightarrow> int \<Rightarrow> int" where
  "next_index [] next = next"
| "next_index (s # ss) next = next_index ss (if Step_StepIndex s \<ge> next then Step_StepIndex s + 1 else next)"

definition resumeParent :: "TenantID \<Rightarrow> RunWait \<Rightarrow> WaitOutcome \<Rightarrow> bool dbm" where
  "resumeParent org wait outcome =
    bindM (Waits_MarkResumed org (Wait_ID wait)) (\<lambda>first.
    if \<not> first then ret False
    else bindM (Runs_GetForUpdate org (Wait_ParentRunID wait)) (\<lambda>parent.
      if RunState_Terminal (Run_State parent) then ret False
      else case appendWaitResult (Run_History parent) wait outcome of
        Inl e \<Rightarrow> raise e
      | Inr history \<Rightarrow>
        bindM (Runs_SetHistory org (Run_ID parent) history) (\<lambda>_.
        bindM (Runs_SetState org (Run_ID parent) RunRunning '''' '''') (\<lambda>_.
        bindM (Events_Append org (Run_SessionID parent) ActorSystem EventKindToolResult
          (ToolResultPayload (Run_ID parent) (Wait_StepIndex wait) (Wait_ToolCallID wait)
            (waitToolName (Wait_Kind wait)) (EncodedOutcome outcome)
            (WO_TimedOut outcome \<and> Wait_TimeoutPolicy wait = TimeoutPolicyFail))) (\<lambda>_.
        bindM (Runs_Steps org (Run_ID parent)) (\<lambda>steps.
        bindM (EnqueueInTx (StepJob (Run_ID parent) (Run_TenantID parent) (Run_SessionID parent)
          (next_index steps 0))) (\<lambda>_.
        ret True)))))))"

definition tryCloseWait :: "TenantID \<Rightarrow> string \<Rightarrow> closeReason \<Rightarrow> bool dbm" where
  "tryCloseWait org waitID reason =
    tryM (Waits_GetForUpdate org waitID) (\<lambda>r. case r of
      Inl e \<Rightarrow> if e = ErrNotFound then ret False else raise e
    | Inr wait \<Rightarrow>
      bindM (Waits_Members waitID) (\<lambda>members.
      bindM (collect_members org members
        \<lparr>WO_WaitID = waitID, WO_Kind = Wait_Kind wait, WO_State = WaitOpen, WO_TimedOut = False,
         WO_Members = [], WO_Completed = 0, WO_Failed = 0, WO_Cancelled = 0, WO_Pending = 0\<rparr> 0)
      (\<lambda>(outcome0, pending).
      if pending > 0 \<and> reason \<noteq> closeReasonTimeout then ret False
      else
        (let timedOut = (reason = closeReasonTimeout \<and> pending > 0);
             state = (if timedOut then WaitTimedOut else WaitResolved);
             outcome = outcome0\<lparr>WO_Pending := pending, WO_TimedOut := timedOut, WO_State := state\<rparr> in
         if Wait_State wait = WaitOpen then
           bindM (Waits_Close org waitID state outcome) (\<lambda>closed.
           if \<not> closed then ret False else resumeParent org wait outcome)
         else
           bindM (Waits_SetResult org waitID outcome) (\<lambda>_. resumeParent org wait outcome)))))"

section \<open>Both sides of a terminal run\<close>

definition resolveChildWaits :: "AgentRun \<Rightarrow> unit dbm" where
  "resolveChildWaits child =
    bindM (Waits_ListOpenForChild (Run_TenantID child) (Run_ID child)) (\<lambda>waits.
    forM waits (\<lambda>wait. bindM (tryCloseWait (Run_TenantID child) (Wait_ID wait) closeReasonChild)
      (\<lambda>_. ret ())))"

definition abandonParentWaits :: "TenantID \<Rightarrow> RunID \<Rightarrow> unit dbm" where
  "abandonParentWaits org parent =
    bindM (Waits_ListOpenForParent org parent) (\<lambda>waits.
    forM waits (\<lambda>wait.
      bindM (Waits_Close org (Wait_ID wait) WaitAbandoned
        \<lparr>WO_WaitID = Wait_ID wait, WO_Kind = Wait_Kind wait, WO_State = WaitAbandoned, WO_TimedOut = False,
         WO_Members = [], WO_Completed = 0, WO_Failed = 0, WO_Cancelled = 0, WO_Pending = 0\<rparr>) (\<lambda>_.
      bindM (Waits_MarkResumed org (Wait_ID wait)) (\<lambda>_. ret ()))))"

section \<open>Creating a wait\<close>

abbreviation waitTimeoutSlack :: Duration where "waitTimeoutSlack \<equiv> 250000000"

fun number_members :: "string \<Rightarrow> int \<Rightarrow> RunID list \<Rightarrow> RunWaitMember list" where
  "number_members waitID i [] = []"
| "number_members waitID i (rid # rids) =
    \<lparr>Member_WaitID = waitID, Member_RunID = rid, Member_Ordinal = i\<rparr> # number_members waitID (i + 1) rids"

definition createWait ::
  "(string \<Rightarrow> string \<Rightarrow> string) \<Rightarrow> AgentRun \<Rightarrow> Job \<Rightarrow> stepRecorder \<Rightarrow> bool dbm" where
  "createWait NewSHA1 run job rec =
    (let waitID = deterministicWaitID NewSHA1 (Run_ID run) (SJ_StepIndex job) (rec_waitToolCallID rec) in
     bindM (gets db_now) (\<lambda>now.
     let wait = \<lparr>Wait_ID = waitID, Wait_ParentRunID = Run_ID run, Wait_StepIndex = SJ_StepIndex job,
           Wait_ToolCallID = rec_waitToolCallID rec, Wait_Kind = rec_waitKind rec, Wait_State = WaitOpen,
           Wait_TimeoutPolicy = rec_waitPolicy rec, Wait_Deadline = now + rec_waitTimeout rec,
           Wait_Result = None, Wait_ResumedAt = None\<rparr> in
     bindM (Waits_Create (Run_TenantID run) wait (number_members waitID 0 (rec_waitRunIDs rec))) (\<lambda>_.
     bindM (tryCloseWait (Run_TenantID run) waitID closeReasonChild) (\<lambda>resumed.
     if resumed then ret False
     else bindM (EnqueueInTxAt (WaitTimeoutJob (Run_TenantID run)) (Wait_Deadline wait + waitTimeoutSlack))
       (\<lambda>_. ret True)))))"

section \<open>The timeout sweeper\<close>

record WaitSweeper =
  Sweeper_Batch :: int
  Sweeper_Retry :: Duration

definition sweeper_batch :: "WaitSweeper \<Rightarrow> int" where
  "sweeper_batch s = (if Sweeper_Batch s > 0 then Sweeper_Batch s else 32)"

definition sweeper_retry :: "WaitSweeper \<Rightarrow> Duration" where
  "sweeper_retry s = (if Sweeper_Retry s > 0 then Sweeper_Retry s else 2000000000)"

definition rearm :: "WaitSweeper \<Rightarrow> TenantID \<Rightarrow> unit dbm" where
  "rearm s org = tx (
    bindM (gets db_now) (\<lambda>now. EnqueueInTxAt (WaitTimeoutJob org) (now + sweeper_retry s)))"

text \<open>The loop over the claimed waits; it ends early, with a rearm, at the first failure.\<close>

fun sweep_loop :: "WaitSweeper \<Rightarrow> TenantID \<Rightarrow> RunWait list \<Rightarrow> bool dbm" where
  "sweep_loop s org [] = ret True"
| "sweep_loop s org (wait # waits) =
    tryM (tx (tryCloseWait org (Wait_ID wait) closeReasonTimeout)) (\<lambda>r. case r of
      Inl _ \<Rightarrow> bindM (rearm s org) (\<lambda>_. ret False)
    | Inr _ \<Rightarrow> sweep_loop s org waits)"

definition Sweep :: "WaitSweeper \<Rightarrow> TenantID \<Rightarrow> unit dbm" where
  "Sweep s org =
    bindM (gets db_now) (\<lambda>now.
    bindM (Waits_ClaimDue org now (sweeper_batch s)) (\<lambda>due.
    bindM (sweep_loop s org due) (\<lambda>finished.
    if finished \<and> int (length due) = sweeper_batch s then rearm s org else ret ())))"

end
