(* ===== verification/Loop_Delta.thy ===== *)
theory Loop_Delta
  imports Core_Types
begin

text \<open>
  The delta batcher of \<open>src/loop/step.go\<close>: streamed text and reasoning are collected and
  flushed as batched events on size, on a timer or on demand. Every operation holds the
  mutex, so it is one step; \<open>emit\<close> is the list of events an operation emits. The lemmas show
  that the emitted batches and what is still buffered are together exactly what was
  streamed, that batches are numbered consecutively, and that the buffers stay bounded.
\<close>

record deltaBatcher =
  b_runID :: RunID
  b_stepIndex :: int
  b_attempt :: int
  b_interval :: Duration
  b_maxBytes :: int
  b_textBuf :: string
  b_reasonBuf :: string
  b_deltaIndex :: int
  b_timer :: bool

type_synonym emitted = "(EventKind \<times> Payload) list"

definition newDeltaBatcher :: "RunID \<Rightarrow> int \<Rightarrow> int \<Rightarrow> Duration \<Rightarrow> int \<Rightarrow> deltaBatcher" where
  "newDeltaBatcher runID stepIndex attempt interval maxBytes =
    \<lparr>b_runID = runID, b_stepIndex = stepIndex, b_attempt = attempt,
     b_interval = (if interval \<le> 0 then 100000000 else interval),
     b_maxBytes = (if maxBytes \<le> 0 then 512 else maxBytes),
     b_textBuf = [], b_reasonBuf = [], b_deltaIndex = 0, b_timer = False\<rparr>"

definition flush_reason :: "deltaBatcher \<Rightarrow> deltaBatcher \<times> emitted" where
  "flush_reason b =
    (if length (b_reasonBuf b) > 0 then
       (b\<lparr>b_deltaIndex := b_deltaIndex b + 1, b_reasonBuf := []\<rparr>,
        [(EventKindReasoningDelta, ReasoningDeltaPayload (b_runID b) (b_stepIndex b) (b_attempt b)
           (b_deltaIndex b) (b_reasonBuf b))])
     else (b, []))"

definition flush_text :: "deltaBatcher \<Rightarrow> deltaBatcher \<times> emitted" where
  "flush_text b =
    (if length (b_textBuf b) > 0 then
       (b\<lparr>b_deltaIndex := b_deltaIndex b + 1, b_textBuf := []\<rparr>,
        [(EventKindTextDelta, TextDeltaPayload (b_runID b) (b_stepIndex b) (b_attempt b)
           (b_deltaIndex b) (b_textBuf b))])
     else (b, []))"

definition flushLocked :: "deltaBatcher \<Rightarrow> deltaBatcher \<times> emitted" where
  "flushLocked b =
    (let (b1, e1) = flush_reason (b\<lparr>b_timer := False\<rparr>); (b2, e2) = flush_text b1 in (b2, e1 @ e2))"

text \<open>What \<open>add\<close> does after the delta was appended to its buffer.\<close>

definition add_done :: "deltaBatcher \<Rightarrow> deltaBatcher \<times> emitted" where
  "add_done b =
    (if int (length (b_textBuf b) + length (b_reasonBuf b)) \<ge> b_maxBytes b then flushLocked b
     else if \<not> b_timer b then (b\<lparr>b_timer := True\<rparr>, [])
     else (b, []))"

definition addText :: "string \<Rightarrow> deltaBatcher \<Rightarrow> deltaBatcher \<times> emitted" where
  "addText delta b = add_done (b\<lparr>b_textBuf := b_textBuf b @ delta\<rparr>)"

definition addReasoning :: "string \<Rightarrow> deltaBatcher \<Rightarrow> deltaBatcher \<times> emitted" where
  "addReasoning delta b = add_done (b\<lparr>b_reasonBuf := b_reasonBuf b @ delta\<rparr>)"

definition flushAll :: "deltaBatcher \<Rightarrow> deltaBatcher \<times> emitted" where
  "flushAll b = flushLocked b"

text \<open>A use of the batcher: deltas, timer flushes and explicit flushes, in any order.\<close>

datatype batch_op = AddText string | AddReasoning string | TimerFires | FlushAll

fun batch_step :: "batch_op \<Rightarrow> deltaBatcher \<Rightarrow> deltaBatcher \<times> emitted" where
  "batch_step (AddText t) b = addText t b"
| "batch_step (AddReasoning t) b = addReasoning t b"
| "batch_step TimerFires b = flushLocked b"
| "batch_step FlushAll b = flushAll b"

fun batch_run :: "batch_op list \<Rightarrow> deltaBatcher \<Rightarrow> deltaBatcher \<times> emitted" where
  "batch_run [] b = (b, [])"
| "batch_run (x # xs) b = (let (b1, e1) = batch_step x b; (b2, e2) = batch_run xs b1 in (b2, e1 @ e2))"

section \<open>What was streamed and what was emitted\<close>

fun op_text :: "batch_op \<Rightarrow> string" where
  "op_text (AddText t) = t" | "op_text _ = []"

fun op_reason :: "batch_op \<Rightarrow> string" where
  "op_reason (AddReasoning t) = t" | "op_reason _ = []"

fun payload_text :: "Payload \<Rightarrow> string" where
  "payload_text (TextDeltaPayload r i a n t) = t" | "payload_text _ = []"

fun payload_reason :: "Payload \<Rightarrow> string" where
  "payload_reason (ReasoningDeltaPayload r i a n t) = t" | "payload_reason _ = []"

fun payload_index :: "Payload \<Rightarrow> int" where
  "payload_index (TextDeltaPayload r i a n t) = n"
| "payload_index (ReasoningDeltaPayload r i a n t) = n"
| "payload_index _ = 0"

definition emitted_text :: "emitted \<Rightarrow> string" where
  "emitted_text es = concat (map (payload_text \<circ> snd) es)"

definition emitted_reason :: "emitted \<Rightarrow> string" where
  "emitted_reason es = concat (map (payload_reason \<circ> snd) es)"

definition emitted_indices :: "emitted \<Rightarrow> int list" where
  "emitted_indices es = map (payload_index \<circ> snd) es"

lemma emitted_append [simp]:
  "emitted_text (xs @ ys) = emitted_text xs @ emitted_text ys"
  "emitted_reason (xs @ ys) = emitted_reason xs @ emitted_reason ys"
  "emitted_indices (xs @ ys) = emitted_indices xs @ emitted_indices ys"
  by (simp_all add: emitted_text_def emitted_reason_def emitted_indices_def)

lemma emitted_Nil [simp]: "emitted_text [] = []" "emitted_reason [] = []" "emitted_indices [] = []"
  by (simp_all add: emitted_text_def emitted_reason_def emitted_indices_def)

lemmas batcher_defs = flush_reason_def flush_text_def flushLocked_def add_done_def addText_def
  addReasoning_def flushAll_def emitted_text_def emitted_reason_def emitted_indices_def Let_def

lemma upto_pair: "[n..1 + n] = [n, n + 1 :: int]"
  by (simp add: upto_rec1)

lemma upto_append: "a \<le> b \<Longrightarrow> b \<le> c \<Longrightarrow> [a..b - 1] @ [b..c - 1] = [a..c - 1 :: int]"
  by (cases "b = c") (simp_all add: upto_split1 [of a b "c - 1"])

text \<open>One operation: its text and reasoning go to the end of what is emitted and buffered,
  the emitted batches take the next numbers, and the size limit holds afterwards.\<close>

definition step_ok :: "string \<Rightarrow> string \<Rightarrow> deltaBatcher \<Rightarrow> deltaBatcher \<times> emitted \<Rightarrow> bool" where
  "step_ok text reason b r \<longleftrightarrow>
    b_textBuf b @ text = emitted_text (snd r) @ b_textBuf (fst r) \<and>
    b_reasonBuf b @ reason = emitted_reason (snd r) @ b_reasonBuf (fst r) \<and>
    emitted_indices (snd r) = [b_deltaIndex b..b_deltaIndex (fst r) - 1] \<and>
    b_deltaIndex b \<le> b_deltaIndex (fst r) \<and> b_maxBytes (fst r) = b_maxBytes b"

lemma flushLocked_ok: "step_ok [] [] b (flushLocked b)"
  by (cases "b_textBuf b"; cases "b_reasonBuf b") (simp_all add: step_ok_def batcher_defs upto_pair)

lemma flushLocked_empty:
  "b_textBuf (fst (flushLocked b)) = []" "b_reasonBuf (fst (flushLocked b)) = []"
  "b_maxBytes (fst (flushLocked b)) = b_maxBytes b"
  by (cases "b_textBuf b"; cases "b_reasonBuf b"; simp add: batcher_defs)+

lemma add_done_ok: "step_ok [] [] b (add_done b)"
  using flushLocked_ok [of b] by (simp add: add_done_def) (simp add: step_ok_def)

lemma batch_step_ok: "step_ok (op_text x) (op_reason x) b (batch_step x b)"
proof (cases x)
  case (AddText t)
  then show ?thesis using add_done_ok [of "b\<lparr>b_textBuf := b_textBuf b @ t\<rparr>"]
    by (simp add: step_ok_def addText_def)
next
  case (AddReasoning t)
  then show ?thesis using add_done_ok [of "b\<lparr>b_reasonBuf := b_reasonBuf b @ t\<rparr>"]
    by (simp add: step_ok_def addReasoning_def)
qed (simp_all add: flushAll_def flushLocked_ok)

definition buffered :: "deltaBatcher \<Rightarrow> int" where
  "buffered b = int (length (b_textBuf b) + length (b_reasonBuf b))"

lemma add_done_bound: "0 < b_maxBytes b \<Longrightarrow> buffered (fst (add_done b)) < b_maxBytes (fst (add_done b))"
  by (simp add: add_done_def buffered_def flushLocked_empty)

lemma batch_step_bound:
  "0 < b_maxBytes b \<Longrightarrow> buffered (fst (batch_step x b)) < b_maxBytes (fst (batch_step x b))"
  by (cases x) (simp_all add: addText_def addReasoning_def flushAll_def add_done_bound
      buffered_def [of "fst (flushLocked b)"] flushLocked_empty)

lemma step_ok_trans:
  assumes "step_ok t r b (b1, e1)" "step_ok t' r' b1 (b2, e2)"
  shows "step_ok (t @ t') (r @ r') b (b2, e1 @ e2)"
proof -
  have "b_textBuf b @ t @ t' = (emitted_text e1 @ emitted_text e2) @ b_textBuf b2"
    using assms unfolding step_ok_def by (metis append.assoc fst_conv snd_conv)
  moreover have "b_reasonBuf b @ r @ r' = (emitted_reason e1 @ emitted_reason e2) @ b_reasonBuf b2"
    using assms unfolding step_ok_def by (metis append.assoc fst_conv snd_conv)
  ultimately show ?thesis
    using assms upto_append [of "b_deltaIndex b" "b_deltaIndex b1" "b_deltaIndex b2"]
    by (simp add: step_ok_def)
qed

lemma batch_run_ok: "step_ok (concat (map op_text xs)) (concat (map op_reason xs)) b (batch_run xs b)"
proof (induction xs arbitrary: b)
  case (Cons x xs)
  obtain b1 e1 where 1: "batch_step x b = (b1, e1)" by (cases "batch_step x b")
  obtain b2 e2 where 2: "batch_run xs b1 = (b2, e2)" by (cases "batch_run xs b1")
  show ?case
    using step_ok_trans batch_step_ok [of x b] Cons.IH [of b1] by (simp add: 1 2)
qed (simp add: step_ok_def)

lemma batch_run_bound:
  "0 < b_maxBytes b \<Longrightarrow> buffered b < b_maxBytes b \<Longrightarrow>
    buffered (fst (batch_run xs b)) < b_maxBytes (fst (batch_run xs b))"
proof (induction xs arbitrary: b)
  case (Cons x xs)
  obtain b1 e1 where 1: "batch_step x b = (b1, e1)" by (cases "batch_step x b")
  have "b_maxBytes b1 = b_maxBytes b" using batch_step_ok [of x b] by (simp add: 1 step_ok_def)
  with Cons batch_step_bound [of b x] show ?case by (simp add: 1 Let_def case_prod_beta)
qed simp

end
