(* ===== verification/Loop_Step.thy ===== *)
theory Loop_Step
  imports Loop_Waits Loop_Delta
begin

text \<open>
  The step worker: \<open>src/loop/step.go\<close>, the memory tools \<open>src/loop/memorytools.go\<close>, the cost
  hook \<open>src/loop/automation.go\<close> and the model resolution of \<open>src/loop/model.go\<close>. The agent
  framework is not under \<open>src/\<close>: a stream is the sequence of callbacks and tool executions
  it makes, followed by its result, and both are arguments. The keyring and the
  construction of a provider client are parameters too.
\<close>

section \<open>Memory tools and the cost hook\<close>

definition appendMemoryEvent :: "AgentRun \<Rightarrow> EventKind \<Rightarrow> string \<Rightarrow> string \<Rightarrow> Actor \<Rightarrow> unit dbm" where
  "appendMemoryEvent run kind key value actor =
    (let inline = (if length value > 1024 then [] else value) in
     bindM (Events_Append (Run_TenantID run) (Run_SessionID run) actor kind
       (NewMemoryEventPayload key actor inline)) (\<lambda>_. ret ()))"

definition memoryGetTool :: "AgentRun \<Rightarrow> string \<Rightarrow> ToolResponse dbm" where
  "memoryGetTool run key =
    tryM (Memory_Get (Run_TenantID run) (Run_SessionID run) key)
      (\<lambda>r. case r of Inl _ \<Rightarrow> ret (TextErrorResponse ''memory not found'') | Inr e \<Rightarrow> ret (TextResponse (Mem_Value e)))"

definition memoryListTool :: "AgentRun \<Rightarrow> ToolResponse dbm" where
  "memoryListTool run =
    tryM (Memory_List (Run_TenantID run) (Run_SessionID run))
      (\<lambda>r. case r of Inl _ \<Rightarrow> ret (TextErrorResponse ''memory list failed'') | Inr es \<Rightarrow> ret (MemoryListResponse es))"

fun err_text :: "Err \<Rightarrow> string" where
  "err_text ErrNotFound = ''not found''"
| "err_text ErrAlreadyExists = ''already exists''"
| "err_text ErrPermissionDenied = ''permission denied''"
| "err_text (ErrOther m) = m"
| "err_text _ = ''postgres error''"

definition memorySetTool :: "AgentRun \<Rightarrow> string \<Rightarrow> string \<Rightarrow> ToolResponse dbm" where
  "memorySetTool run key value =
    (let actor = ActorAgent (Run_ID run) in
     tryM (tx (bindM (Memory_Set (Run_TenantID run)
         \<lparr>Mem_SessionID = Run_SessionID run, Mem_Key = key, Mem_Value = value, Mem_UpdatedBy = actor,
          Mem_UpdatedAt = 0\<rparr>) (\<lambda>_.
       appendMemoryEvent run EventKindMemorySet key value actor)))
     (\<lambda>r. case r of Inl e \<Rightarrow> ret (TextErrorResponse (err_text e)) | Inr _ \<Rightarrow> ret (TextResponse ''stored'')))"

definition memoryDeleteTool :: "AgentRun \<Rightarrow> string \<Rightarrow> ToolResponse dbm" where
  "memoryDeleteTool run key =
    (let actor = ActorAgent (Run_ID run) in
     tryM (tx (bindM (Memory_Delete (Run_TenantID run) (Run_SessionID run) key) (\<lambda>_.
       appendMemoryEvent run EventKindMemoryDeleted key [] actor)))
     (\<lambda>r. case r of Inl _ \<Rightarrow> ret (TextErrorResponse ''delete failed'') | Inr _ \<Rightarrow> ret (TextResponse ''deleted'')))"

definition memoryTools :: "AgentRun \<Rightarrow> string list" where
  "memoryTools run = filter (AllowsTool (Run_Policy run))
    [''session_memory_get'', ''session_memory_list'', ''session_memory_set'', ''session_memory_delete'']"

text \<open>The JSON object with the two counters, keys in alphabetical order.\<close>

definition cost_json :: "int \<Rightarrow> int \<Rightarrow> string" where
  "cost_json tokensIn tokensOut =
    (let q = [CHR 0x22] in
     ''{'' @ q @ ''input_tokens'' @ q @ '':'' @ itoa tokensIn @ '','' @ q @ ''output_tokens'' @ q @ '':'' @
     itoa tokensOut @ ''}'')"

definition AccountStepCost :: "AgentRun \<Rightarrow> RunStep \<Rightarrow> unit dbm" where
  "AccountStepCost run step =
    bindM (Memory_Set (Run_TenantID run)
      \<lparr>Mem_SessionID = Run_SessionID run, Mem_Key = ''system.cost.latest'',
       Mem_Value = cost_json (Step_TokensIn step) (Step_TokensOut step),
       Mem_UpdatedBy = ActorSystem, Mem_UpdatedAt = 0\<rparr>) (\<lambda>_.
    bindM (Events_Append (Run_TenantID run) (Run_SessionID run) ActorSystem EventKindHookFired
      (HookFiredPayload ''cost-accounting'' (Run_ID run))) (\<lambda>_. ret ()))"

section \<open>Terminal transitions\<close>

text \<open>
  \<open>txStale\<close>: a body that ends with the cancelled-commit signal is committed, and the caller
  is told that the delivery is stale.
\<close>

definition txStale :: "'a dbm \<Rightarrow> 'a dbm" where
  "txStale fn =
    bindM (tx (tryM fn (\<lambda>r. case r of
        Inr a \<Rightarrow> ret (Some a)
      | Inl e \<Rightarrow> if e = errCancelledCommit then ret None else raise e)))
    (\<lambda>r. case r of None \<Rightarrow> raise errStale | Some a \<Rightarrow> ret a)"

definition settleTerminalRun :: "TenantID \<Rightarrow> RunID \<Rightarrow> unit dbm" where
  "settleTerminalRun org runID =
    bindM (abandonParentWaits org runID) (\<lambda>_.
    bindM (Runs_Get org runID) (\<lambda>run. resolveChildWaits run))"

definition markCancelledTx :: "Job \<Rightarrow> 'a dbm" where
  "markCancelledTx job =
    bindM (Runs_SetState (SJ_TenantID job) (SJ_RunID job) RunCancelled '''' '''') (\<lambda>_.
    bindM (Events_Append (SJ_TenantID job) (SJ_SessionID job) ActorSystem EventKindRunCancelled
      (RunCancelledPayload (SJ_RunID job))) (\<lambda>_.
    bindM (settleTerminalRun (SJ_TenantID job) (SJ_RunID job)) (\<lambda>_.
    raise errCancelledCommit)))"

definition failRun :: "Job \<Rightarrow> string \<Rightarrow> string \<Rightarrow> unit dbm" where
  "failRun job reason message = tx (
    tryM (Runs_GetForUpdate (SJ_TenantID job) (SJ_RunID job)) (\<lambda>r. case r of
      Inl _ \<Rightarrow> ret ()
    | Inr run \<Rightarrow>
        if RunState_Terminal (Run_State run) then ret ()
        else bindM (Runs_SetState (SJ_TenantID job) (Run_ID run) RunFailed reason message) (\<lambda>_.
          bindM (Events_Append (SJ_TenantID job) (SJ_SessionID job) ActorSystem EventKindRunFailed
            (RunFailedPayload (Run_ID run) reason message)) (\<lambda>_.
          settleTerminalRun (SJ_TenantID job) (Run_ID run)))))"

section \<open>Claiming a step\<close>

definition attempt_event :: "Job \<Rightarrow> Event \<Rightarrow> bool" where
  "attempt_event job e =
    (Ev_Kind e = EventKindStepStarted \<and>
     (case Ev_Payload e of StepStartedPayload r i _ \<Rightarrow> r = SJ_RunID job \<and> i = SJ_StepIndex job | _ \<Rightarrow> False))"

lemma range_list_later:
  "e \<in> set (range_list d k from n) \<Longrightarrow> e \<in> set (session_events d) \<and> from < Ev_Seq e"
  by (auto simp: range_list_def Events_Range_def gets_def Let_def dest!: in_set_takeD split: if_splits)

text \<open>The loop of \<open>countAttempts\<close> over batches of 512 events.\<close>

function count_loop :: "db \<Rightarrow> Job \<Rightarrow> int \<Rightarrow> int \<Rightarrow> int" where
  "count_loop d job from count =
    (let batch = range_list d (SJ_TenantID job, SJ_SessionID job) from 512 in
     if batch = [] then count
     else count_loop d job (Ev_Seq (last batch)) (count + int (length (filter (attempt_event job) batch))))"
  by pat_completeness auto
termination
proof (relation "measure (\<lambda>(d, job, from, count). length (filter (\<lambda>e. from < Ev_Seq e) (session_events d)))")
  fix d :: db and job "from" count batch
  assume b: "batch = range_list d (SJ_TenantID job, SJ_SessionID job) from 512" and "batch \<noteq> []"
  then have l: "last batch \<in> set (session_events d)" "from < Ev_Seq (last batch)"
    using range_list_later last_in_set by metis+
  let ?later = "\<lambda>s e. s < Ev_Seq e"
  have "filter (?later (Ev_Seq (last batch))) (session_events d) =
      filter (?later (Ev_Seq (last batch))) (filter (?later from) (session_events d))"
    using l(2) by (auto intro: filter_cong)
  moreover have "length (filter (?later (Ev_Seq (last batch))) (filter (?later from) (session_events d))) <
      length (filter (?later from) (session_events d))"
    by (rule length_filter_less [of "last batch"]) (use l in auto)
  ultimately
  show "((d, job, Ev_Seq (last batch), count + int (length (filter (attempt_event job) batch))),
      d, job, from, count) \<in> measure (\<lambda>(d, job, from, count). length (filter (\<lambda>e. from < Ev_Seq e) (session_events d)))"
    by simp
qed auto

declare count_loop.simps [simp del]

definition countAttempts :: "Job \<Rightarrow> int dbm" where
  "countAttempts job = gets (\<lambda>d. count_loop d job 0 0)"

definition claim :: "Job \<Rightarrow> (AgentRun \<times> int) dbm" where
  "claim job =
    tryM (txStale (
      bindM (Runs_GetForUpdate (SJ_TenantID job) (SJ_RunID job)) (\<lambda>run.
      if Run_State run \<noteq> RunPending \<and> Run_State run \<noteq> RunRunning then raise errStale
      else if Run_CancelRequestedAt run \<noteq> None then markCancelledTx job
      else bindM (Runs_Steps (SJ_TenantID job) (Run_ID run)) (\<lambda>steps.
        if \<exists>s\<in>set steps. Step_StepIndex s = SJ_StepIndex job then raise errStale
        else bindM (countAttempts job) (\<lambda>n.
          bindM (whenM (Run_State run = RunPending)
            (Runs_SetState (SJ_TenantID job) (Run_ID run) RunRunning '''' '''')) (\<lambda>_.
          ret (run, n + 1)))))))
    (\<lambda>r. case r of
       Inr x \<Rightarrow> ret x
     | Inl e \<Rightarrow> if e = ErrNotFound then raise errStale else raise e)"

section \<open>Committing a step\<close>

text \<open>The result of a stream: its steps and the parts of the final response.\<close>

record StepResult =
  SR_Messages :: "Message list"
  SR_InputTokens :: int
  SR_OutputTokens :: int
  SR_FinishReason :: FinishReason

datatype ContentPart = TextContent string | OtherContent

record AgentResult =
  AR_Steps :: "StepResult list"
  AR_Content :: "ContentPart list"

fun finalText :: "ContentPart list \<Rightarrow> string" where
  "finalText [] = []"
| "finalText (TextContent t # ps) = t"
| "finalText (OtherContent # ps) = finalText ps"

definition waitAwaitingText :: "stepRecorder \<Rightarrow> string" where
  "waitAwaitingText rec =
    (if rec_waitKind rec = WaitKindCohort then ''Waiting for agent cohort'' else ''Waiting for child agents'')"

definition appendTx :: "Job \<Rightarrow> EventKind \<Rightarrow> Payload \<Rightarrow> unit dbm" where
  "appendTx job kind payload =
    bindM (Events_Append (SJ_TenantID job) (SJ_SessionID job) (ActorAgent (SJ_RunID job)) kind payload)
      (\<lambda>_. ret ())"

text \<open>The classification of what happens after a recorded step, inside its transaction.\<close>

definition classify_outcome ::
  "(string \<Rightarrow> string \<Rightarrow> string) \<Rightarrow> Job \<Rightarrow> AgentRun \<Rightarrow> StepResult \<Rightarrow> AgentResult \<Rightarrow> stepRecorder \<Rightarrow> unit dbm" where
  "classify_outcome NewSHA1 job run step result rec =
    (let org = SJ_TenantID job; runID = SJ_RunID job in
     if length (rec_waitRunIDs rec) > 0 then
       bindM (createWait NewSHA1 run job rec) (\<lambda>park.
       if \<not> park then ret ()
       else bindM (Runs_SetState org runID RunAwaiting '''' '''') (\<lambda>_.
         appendTx job EventKindRunAwaiting
           (RunAwaitingPayload runID \<lparr>Q_Text = waitAwaitingText rec, Q_Choices = []\<rparr>)))
     else case rec_question rec of
       Some q \<Rightarrow>
         bindM (Runs_SetState org runID RunAwaiting '''' '''') (\<lambda>_.
         appendTx job EventKindRunAwaiting (RunAwaitingPayload runID q))
     | None \<Rightarrow>
       if SR_FinishReason step = FinishReasonToolCalls then
         EnqueueInTx (StepJob runID org (SJ_SessionID job) (SJ_StepIndex job + 1))
       else
         bindM (Runs_SetState org runID RunCompleted '''' '''') (\<lambda>_.
         let final = finalText (AR_Content result) in
         bindM (Runs_SetResult org runID (FinalText final)) (\<lambda>_.
         bindM (appendTx job EventKindRunCompleted (RunCompletedPayload runID final)) (\<lambda>_.
         bindM (abandonParentWaits (Run_TenantID run) runID) (\<lambda>_.
         resolveChildWaits (run\<lparr>Run_State := RunCompleted, Run_Result := Some (FinalText final)\<rparr>))))))"

definition commit_tx ::
  "(string \<Rightarrow> string \<Rightarrow> string) \<Rightarrow> Job \<Rightarrow> int \<Rightarrow> RawHistory \<Rightarrow> StepResult \<Rightarrow> AgentResult \<Rightarrow> stepRecorder \<Rightarrow> unit dbm" where
  "commit_tx NewSHA1 job attempt encoded step result rec = txStale (
    let org = SJ_TenantID job; runID = SJ_RunID job in
    bindM (Runs_GetForUpdate org runID) (\<lambda>run.
    if Run_State run \<noteq> RunRunning then raise errStale
    else if Run_CancelRequestedAt run \<noteq> None then markCancelledTx job
    else bindM (Runs_SetHistory org runID encoded) (\<lambda>_.
      let stepRecord = \<lparr>Step_RunID = runID, Step_StepIndex = SJ_StepIndex job, Step_Attempt = attempt,
            Step_TokensIn = SR_InputTokens step, Step_TokensOut = SR_OutputTokens step,
            Step_FinishReason = SR_FinishReason step, Step_CreatedAt = 0\<rparr> in
      bindM (tryM (Runs_InsertStep org stepRecord) (\<lambda>r. case r of
          Inr _ \<Rightarrow> ret ()
        | Inl e \<Rightarrow> if e = ErrAlreadyExists then raise errStale else raise e)) (\<lambda>_.
      bindM (tryM (AccountStepCost run stepRecord) (\<lambda>_. ret ())) (\<lambda>_.
      bindM (appendTx job EventKindStepFinished
        (StepFinishedPayload runID (SJ_StepIndex job) (SR_InputTokens step) (SR_OutputTokens step)
          (SR_FinishReason step))) (\<lambda>_.
      classify_outcome NewSHA1 job run step result rec))))))"

definition commitOutcome ::
  "(string \<Rightarrow> string \<Rightarrow> string) \<Rightarrow> Job \<Rightarrow> int \<Rightarrow> Envelope \<Rightarrow> AgentResult \<Rightarrow> stepRecorder \<Rightarrow> unit dbm" where
  "commitOutcome NewSHA1 job attempt env result rec =
    (case AR_Steps result of
       [] \<Rightarrow> failRun job ''provider_error'' ''model returned no step''
     | step # _ \<Rightarrow>
         (let encoded = Encode (env\<lparr>Env_Messages := Env_Messages env @ SR_Messages step\<rparr>) in
          tryM (commit_tx NewSHA1 job attempt encoded step result rec)
            (\<lambda>r. case r of Inr _ \<Rightarrow> ret () | Inl e \<Rightarrow> if e = errStale then ret () else raise e)))"

section \<open>Model resolution and stream errors\<close>

definition go_quote :: "string \<Rightarrow> string" where
  "go_quote s = [CHR 0x22] @ s @ [CHR 0x22]"

text \<open>
  \<open>decrypt\<close> is the keyring, \<open>build\<close> tells whether the payload decodes and the provider client
  and the model can be constructed from it.
\<close>

definition ResolveModel ::
  "(string \<Rightarrow> string option) \<Rightarrow> (string \<Rightarrow> string \<Rightarrow> string \<Rightarrow> bool) \<Rightarrow> TenantID \<Rightarrow> ModelConfig \<Rightarrow> unit dbm" where
  "ResolveModel decrypt build tenant cfg =
    (let kind = InferenceCredentialKind (MC_Provider cfg) in
     if kind = [] then
       raise (CredentialError ''credential_missing'' (''unknown inference provider '' @ go_quote (MC_Provider cfg)))
     else
       (let name = (if MC_Credential cfg = [] then ''default'' else MC_Credential cfg) in
        tryM (Credentials_Get tenant kind name) (\<lambda>r. case r of
          Inl e \<Rightarrow> if e = ErrNotFound then
              raise (CredentialError ''credential_missing''
                (''no '' @ kind @ '' credential named '' @ go_quote name @
                 [CHR '' '', CHR 0xE2, CHR 0x80, CHR 0x94, CHR '' ''] @ ''add one in org settings''))
            else raise (ErrOther ''loop: load credential'')
        | Inr cred \<Rightarrow>
          (case decrypt (Cred_EncPayload cred) of
             None \<Rightarrow> raise (ErrOther ''loop: decrypt credential'')
           | Some plaintext \<Rightarrow>
               if build (MC_Provider cfg) plaintext (MC_ModelID cfg) then ret ()
               else raise (ErrOther ''loop: language model'')))))"

text \<open>
  How a stream failed: what the loop reads of the framework's provider error (its HTTP
  status, its authentication flag, whether it is retryable), or any other error.
\<close>

datatype StreamError =
    ProviderError (SE_StatusCode: int) (SE_AuthError: bool) (SE_Retryable: bool)
  | OtherStreamError

fun ClassifyProviderError :: "StreamError \<Rightarrow> string \<times> string" where
  "ClassifyProviderError (ProviderError code auth retry) =
    (if code = 401 \<or> code = 403 \<or> auth
     then (''credential_invalid'',
       ''the inference credential was rejected by the provider'' @
       [CHR '' '', CHR 0xE2, CHR 0x80, CHR 0x94, CHR '' ''] @ ''rotate it in org settings'')
     else (''provider_error'', ''provider error (HTTP '' @ itoa code @ '')''))"
| "ClassifyProviderError OtherStreamError = (''provider_error'', ''provider error'')"

text \<open>
  \<open>cancelRequested\<close>: the step context was cancelled because the poll saw a cancel request;
  \<open>interrupted\<close>: the job context itself is done.
\<close>

definition handleStreamError :: "Job \<Rightarrow> bool \<Rightarrow> bool \<Rightarrow> StreamError \<Rightarrow> unit dbm" where
  "handleStreamError job cancelRequested interrupted streamErr =
    (if cancelRequested then
       tryM (txStale (markCancelledTx job :: unit dbm)) (\<lambda>r. case r of
         Inr _ \<Rightarrow> ret () | Inl e \<Rightarrow> if e = errStale then ret () else raise e)
     else if interrupted then raise (ErrOther ''loop: step interrupted'')
     else (case ClassifyProviderError streamErr of (reason, message) \<Rightarrow> failRun job reason message))"

section \<open>Executing a step\<close>

text \<open>A tool call with its decoded input; fresh identifiers ride along where one is drawn.\<close>

datatype ToolCall =
    AskUser string "string list"
  | PostEvent string
  | MemoryGet string
  | MemoryList
  | MemorySet string string
  | MemoryDelete string
  | SpawnAgent childSpec string RunID
  | WaitForAgents "string list" string string string
  | RunAgentCohort "(childSpec \<times> RunID) list" string string string
  | NamedTool string

fun tool_name :: "ToolCall \<Rightarrow> string" where
  "tool_name (AskUser _ _) = ''ask_user''"
| "tool_name (PostEvent _) = ''post_event''"
| "tool_name (MemoryGet _) = ''session_memory_get''"
| "tool_name MemoryList = ''session_memory_list''"
| "tool_name (MemorySet _ _) = ''session_memory_set''"
| "tool_name (MemoryDelete _) = ''session_memory_delete''"
| "tool_name (SpawnAgent _ _ _) = ''spawn_agent''"
| "tool_name (WaitForAgents _ _ _ _) = ''wait_for_agents''"
| "tool_name (RunAgentCohort _ _ _ _) = ''run_agent_cohort''"
| "tool_name (NamedTool n) = n"

text \<open>The native tools a run is offered, by name.\<close>

definition native_tools :: "AgentRun \<Rightarrow> string list" where
  "native_tools run =
    (if AllowsTool (Run_Policy run) ''ask_user'' then [''ask_user''] else []) @
    (if AllowsTool (Run_Policy run) ''post_event'' then [''post_event''] else []) @
    memoryTools run @ spawnTools run"

text \<open>
  The framework executes a call only of a tool that was offered. A native tool runs its
  handler, a denial stub refuses, and a dynamic tool does not touch the loop's tables
  itself.
\<close>

fun native_handler ::
  "(string \<Rightarrow> string \<Rightarrow> string) \<Rightarrow> AgentRun \<Rightarrow> Job \<Rightarrow> ToolCall \<Rightarrow> stepRecorder \<Rightarrow> (ToolResponse \<times> stepRecorder) dbm" where
  "native_handler NewSHA1 run job (AskUser q cs) rec = ret (askUserTool q cs rec)"
| "native_handler NewSHA1 run job (PostEvent t) rec =
    bindM (postEventTool (SJ_TenantID job) (SJ_SessionID job) (SJ_RunID job) t) (\<lambda>r. ret (r, rec))"
| "native_handler NewSHA1 run job (MemoryGet k) rec = bindM (memoryGetTool run k) (\<lambda>r. ret (r, rec))"
| "native_handler NewSHA1 run job MemoryList rec = bindM (memoryListTool run) (\<lambda>r. ret (r, rec))"
| "native_handler NewSHA1 run job (MemorySet k v) rec = bindM (memorySetTool run k v) (\<lambda>r. ret (r, rec))"
| "native_handler NewSHA1 run job (MemoryDelete k) rec = bindM (memoryDeleteTool run k) (\<lambda>r. ret (r, rec))"
| "native_handler NewSHA1 run job (SpawnAgent spec callID newID) rec =
    bindM (spawnAgentTool run job spec callID newID) (\<lambda>r. ret (r, rec))"
| "native_handler NewSHA1 run job (WaitForAgents rids timeout policy callID) rec =
    waitForAgentsTool run rids timeout policy callID rec"
| "native_handler NewSHA1 run job (RunAgentCohort specs timeout policy callID) rec =
    runAgentCohortTool NewSHA1 run job specs timeout policy callID rec"
| "native_handler NewSHA1 run job (NamedTool n) rec = ret (TextErrorResponse [], rec)"

definition execute_tool ::
  "(string \<Rightarrow> string \<Rightarrow> string) \<Rightarrow> AgentRun \<Rightarrow> Job \<Rightarrow> string list \<Rightarrow> ToolCall \<Rightarrow> stepRecorder \<Rightarrow> stepRecorder dbm" where
  "execute_tool NewSHA1 run job dynamic call rec =
    (if tool_name call \<in> set (native_tools run) then
       bindM (native_handler NewSHA1 run job call rec) (\<lambda>(_, rec'). ret rec')
     else if tool_name call \<in> set (denialStubs (native_tools run @ dynamic)) then
       bindM (permissionDenied run (tool_name call) ''tool not granted'') (\<lambda>_. ret rec)
     else ret rec)"

text \<open>An event whose failure is only logged.\<close>

definition appendEvent :: "Job \<Rightarrow> EventKind \<Rightarrow> Payload \<Rightarrow> unit dbm" where
  "appendEvent job kind payload =
    tryM (Events_Append (SJ_TenantID job) (SJ_SessionID job) (ActorAgent (SJ_RunID job)) kind payload)
      (\<lambda>_. ret ())"

definition emit_all :: "Job \<Rightarrow> emitted \<Rightarrow> unit dbm" where
  "emit_all job es = forM es (\<lambda>(kind, payload). appendEvent job kind payload)"

text \<open>What the framework does during a stream, in order.\<close>

datatype StreamEvent =
    OnTextDelta string
  | OnReasoningDelta string
  | DeltaTimer
  | OnToolCall string string string
  | ExecuteTool ToolCall
  | OnToolResult string string tool_output

fun stream_event ::
  "(string \<Rightarrow> string \<Rightarrow> string) \<Rightarrow> AgentRun \<Rightarrow> Job \<Rightarrow> string list \<Rightarrow> StreamEvent \<Rightarrow> deltaBatcher \<times> stepRecorder
    \<Rightarrow> (deltaBatcher \<times> stepRecorder) dbm" where
  "stream_event NewSHA1 run job dynamic (OnTextDelta t) (b, rec) =
    (case addText t b of (b', es) \<Rightarrow> bindM (emit_all job es) (\<lambda>_. ret (b', rec)))"
| "stream_event NewSHA1 run job dynamic (OnReasoningDelta t) (b, rec) =
    (case addReasoning t b of (b', es) \<Rightarrow> bindM (emit_all job es) (\<lambda>_. ret (b', rec)))"
| "stream_event NewSHA1 run job dynamic DeltaTimer (b, rec) =
    (case flushLocked b of (b', es) \<Rightarrow> bindM (emit_all job es) (\<lambda>_. ret (b', rec)))"
| "stream_event NewSHA1 run job dynamic (OnToolCall callID name input) (b, rec) =
    (case flushAll b of (b', es) \<Rightarrow> bindM (emit_all job es) (\<lambda>_.
       bindM (appendEvent job EventKindToolCallStart
         (ToolCallStartedPayload (SJ_RunID job) (SJ_StepIndex job) callID name input)) (\<lambda>_.
       ret (b', rec\<lparr>rec_toolsCalled := rec_toolsCalled rec + 1\<rparr>))))"
| "stream_event NewSHA1 run job dynamic (ExecuteTool call) (b, rec) =
    bindM (execute_tool NewSHA1 run job dynamic call rec) (\<lambda>rec'. ret (b, rec'))"
| "stream_event NewSHA1 run job dynamic (OnToolResult callID name out) (b, rec) =
    bindM (appendEvent job EventKindToolResult
      (ToolResultPayload (SJ_RunID job) (SJ_StepIndex job) callID name
        (case out of OutputText c \<Rightarrow> c | OutputError c \<Rightarrow> c)
        (case out of OutputText _ \<Rightarrow> False | OutputError _ \<Rightarrow> True))) (\<lambda>_. ret (b, rec))"

fun stream_events ::
  "(string \<Rightarrow> string \<Rightarrow> string) \<Rightarrow> AgentRun \<Rightarrow> Job \<Rightarrow> string list \<Rightarrow> StreamEvent list \<Rightarrow> deltaBatcher \<times> stepRecorder
    \<Rightarrow> (deltaBatcher \<times> stepRecorder) dbm" where
  "stream_events NewSHA1 run job dynamic [] st = ret st"
| "stream_events NewSHA1 run job dynamic (e # es) st =
    bindM (stream_event NewSHA1 run job dynamic e st) (\<lambda>st'. stream_events NewSHA1 run job dynamic es st')"

definition flush_emit :: "Job \<Rightarrow> deltaBatcher \<times> stepRecorder \<Rightarrow> (deltaBatcher \<times> stepRecorder) dbm" where
  "flush_emit job st =
    (case flushAll (fst st) of (b', es) \<Rightarrow> bindM (emit_all job es) (\<lambda>_. ret (b', snd st)))"

text \<open>
  The surroundings of one execution: the keyring, the client constructor, the name-based
  identifiers, the length of a stored history, the dynamic tools or the resolver's error,
  the callbacks and the outcome of the stream and of the fallback stream, and the state of
  the two contexts.
\<close>

record StepWorld =
  W_decrypt :: "string \<Rightarrow> string option"
  W_build :: "string \<Rightarrow> string \<Rightarrow> string \<Rightarrow> bool"
  W_NewSHA1 :: "string \<Rightarrow> string \<Rightarrow> string"
  W_history_len :: "RawHistory \<Rightarrow> nat"
  W_dynamic :: "string list option"
  W_stream :: "StreamEvent list"
  W_result :: "StreamError + AgentResult"
  W_fallback_stream :: "StreamEvent list"
  W_fallback_result :: "StreamError + AgentResult"
  W_cancelled :: bool
  W_interrupted :: bool
  W_flush_interval :: Duration
  W_flush_bytes :: int

text \<open>The compaction marker: written once, when the stored history exceeds 32 KiB.\<close>

definition compact_history :: "StepWorld \<Rightarrow> Job \<Rightarrow> AgentRun \<Rightarrow> Envelope \<Rightarrow> Envelope dbm" where
  "compact_history w job run env =
    (if W_history_len w (Run_History run) > 32768 \<and> length (Env_Compactions env) = 0 then
       (let covered = max 0 (int (length (Env_Messages env)) - 8);
            env' = env\<lparr>Env_Compactions := Env_Compactions env @
              [\<lparr>Comp_AtStep = SJ_StepIndex job, Comp_CoveredMessages = covered,
                Comp_Summary = ''Earlier conversation compacted; full history retained.''\<rparr>]\<rparr> in
        bindM (tryM (Runs_SetHistory (SJ_TenantID job) (SJ_RunID job) (Encode env')) (\<lambda>_. ret ())) (\<lambda>_.
        bindM (appendEvent job EventKindHistoryCompacted
          (HistoryCompactedPayload (SJ_RunID job) covered 8)) (\<lambda>_. ret env')))
     else ret env)"

text \<open>The fallback call registers the text callback only; its tools still execute.\<close>

fun fallback_event :: "StreamEvent \<Rightarrow> bool" where
  "fallback_event (OnTextDelta t) = True"
| "fallback_event DeltaTimer = True"
| "fallback_event (ExecuteTool c) = True"
| "fallback_event e = False"

text \<open>The stream and, after a retryable provider error, the first fallback model.\<close>

definition run_stream ::
  "StepWorld \<Rightarrow> Job \<Rightarrow> AgentRun \<Rightarrow> string list \<Rightarrow> deltaBatcher \<times> stepRecorder
    \<Rightarrow> ((StreamError + AgentResult) \<times> stepRecorder) dbm" where
  "run_stream w job run dynamic st0 =
    bindM (stream_events (W_NewSHA1 w) run job dynamic (W_stream w) st0) (\<lambda>st1.
    bindM (flush_emit job st1) (\<lambda>st2.
    case W_result w of
      Inr result \<Rightarrow> ret (Inr result, snd st2)
    | Inl err \<Rightarrow>
      (case (err, MC_Fallbacks (Run_ModelConfig run)) of
         (ProviderError code auth True, fallback # _) \<Rightarrow>
           (let cfg = Run_ModelConfig run in
            bindM (appendEvent job EventKindModelFallback
              (ModelFallbackPayload (SJ_RunID job) (MC_Provider cfg @ ''/'' @ MC_ModelID cfg)
                (MC_Provider fallback @ ''/'' @ MC_ModelID fallback) ''retryable provider error'')) (\<lambda>_.
            tryM (ResolveModel (W_decrypt w) (W_build w) (SJ_TenantID job) fallback) (\<lambda>r. case r of
              Inl _ \<Rightarrow> ret (Inl err, snd st2)
            | Inr _ \<Rightarrow>
                bindM (stream_events (W_NewSHA1 w) run job dynamic
                  (filter fallback_event (W_fallback_stream w)) st2) (\<lambda>st3.
                bindM (flush_emit job st3) (\<lambda>st4. ret (W_fallback_result w, snd st4))))))
       | _ \<Rightarrow> ret (Inl err, snd st2))))"

definition Work :: "StepWorld \<Rightarrow> Job \<Rightarrow> unit dbm" where
  "Work w job =
    tryM (claim job) (\<lambda>c. case c of
      Inl e \<Rightarrow> if e = errStale then ret () else raise e
    | Inr (run, attempt) \<Rightarrow>
      bindM (appendEvent job EventKindStepStarted
        (StepStartedPayload (SJ_RunID job) (SJ_StepIndex job) attempt)) (\<lambda>_.
      tryM (ResolveModel (W_decrypt w) (W_build w) (SJ_TenantID job) (Run_ModelConfig run)) (\<lambda>m. case m of
        Inl (CredentialError reason message) \<Rightarrow> failRun job reason message
      | Inl e \<Rightarrow> raise e
      | Inr _ \<Rightarrow>
        (case Registry_Resolve NewRegistry (Run_LoopKind run) (Run_LoopVersion run) of
           None \<Rightarrow> failRun job ''internal''
             (''unknown loop version'' @ [CHR '' '', CHR 0xE2, CHR 0x80, CHR 0x94, CHR '' ''] @ ''contact support'')
         | Some def \<Rightarrow>
           (case DecodeEnvelope (Run_History run) of
              Inl _ \<Rightarrow> failRun job ''internal'' ''corrupt run history''
            | Inr env0 \<Rightarrow>
              bindM (compact_history w job run env0) (\<lambda>env.
              case W_dynamic w of
                None \<Rightarrow> raise (ErrOther ''tool resolver'')
              | Some dynamic \<Rightarrow>
                bindM (run_stream w job run dynamic
                  (newDeltaBatcher (SJ_RunID job) (SJ_StepIndex job) attempt (W_flush_interval w)
                    (W_flush_bytes w), new_recorder)) (\<lambda>(res, rec).
                case res of
                  Inl err \<Rightarrow> handleStreamError job (W_cancelled w) (W_interrupted w) err
                | Inr result \<Rightarrow> commitOutcome (W_NewSHA1 w) job attempt env result rec)))))))"

end
