(* ===== verification/Auth.thy ===== *)
theory Auth
  imports Store_Sessions
begin

text \<open>
  Authentication and attribution: \<open>src/auth.go\<close> and \<open>src/http/auth.go\<close>. The digest
  \<open>sha256\<close> is a parameter. The lemmas show that the actor header is read back as it was
  written, through the unpadded URL-safe base64 of the standard library, and what a
  successful authentication proves.
\<close>

section \<open>Base64\<close>

text \<open>The URL-safe alphabet: upper case, lower case, digits, \<open>-\<close> and \<open>_\<close>.\<close>

definition b64_char :: "nat \<Rightarrow> char" where
  "b64_char n =
    char_of (if n < 26 then 65 + n else if n < 52 then 71 + n else if n < 62 then n - 4
      else if n = 62 then 45 else 95 :: nat)"

definition b64_val :: "char \<Rightarrow> nat option" where
  "b64_val c =
    (let b = (of_char c :: nat) in
     if 65 \<le> b \<and> b \<le> 90 then Some (b - 65)
     else if 97 \<le> b \<and> b \<le> 122 then Some (b - 71)
     else if 48 \<le> b \<and> b \<le> 57 then Some (b + 4)
     else if b = 45 then Some 62
     else if b = 95 then Some 63
     else None)"

text \<open>\<open>RawURLEncoding.EncodeToString\<close>, on byte values.\<close>

fun b64_sextets :: "nat list \<Rightarrow> nat list" where
  "b64_sextets (a # b # c # r) =
    (let n = a * 65536 + b * 256 + c in
     [n div 262144, n div 4096 mod 64, n div 64 mod 64, n mod 64] @ b64_sextets r)"
| "b64_sextets [a, b] =
    (let n = a * 65536 + b * 256 in [n div 262144, n div 4096 mod 64, n div 64 mod 64])"
| "b64_sextets [a] = (let n = a * 65536 in [n div 262144, n div 4096 mod 64])"
| "b64_sextets [] = []"

definition b64_encode :: "string \<Rightarrow> string" where
  "b64_encode s = map b64_char (b64_sextets (map of_char s))"

text \<open>
  \<open>RawURLEncoding.DecodeString\<close>: carriage returns and newlines are skipped, every other
  byte outside the alphabet is an error, and so is a last group of one character. The
  unused low bits of a short last group are ignored.
\<close>

fun b64_bytes :: "nat list \<Rightarrow> nat list option" where
  "b64_bytes (w # x # y # z # r) =
    (let n = w * 262144 + x * 4096 + y * 64 + z in
     map_option (\<lambda>bs. [n div 65536, n div 256 mod 256, n mod 256] @ bs) (b64_bytes r))"
| "b64_bytes [w, x, y] =
    (let n = w * 262144 + x * 4096 + y * 64 in Some [n div 65536, n div 256 mod 256])"
| "b64_bytes [w, x] = (let n = w * 262144 + x * 4096 in Some [n div 65536])"
| "b64_bytes [w] = None"
| "b64_bytes [] = Some []"

fun b64_vals :: "string \<Rightarrow> nat list option" where
  "b64_vals [] = Some []"
| "b64_vals (c # cs) =
    (if c = CHR 0x0A \<or> c = CHR 0x0D then b64_vals cs
     else case b64_val c of None \<Rightarrow> None | Some v \<Rightarrow> map_option (\<lambda>vs. v # vs) (b64_vals cs))"

definition b64_decode :: "string \<Rightarrow> string option" where
  "b64_decode s =
    (case b64_vals s of None \<Rightarrow> None | Some vs \<Rightarrow> map_option (map char_of) (b64_bytes vs))"

section \<open>The actor header\<close>

fun split2 :: "string \<Rightarrow> char \<Rightarrow> string \<times> string \<times> bool" where
  "split2 [] sep = ([], [], False)"
| "split2 (c # cs) sep =
    (if c = sep then ([], cs, True)
     else (case split2 cs sep of (l, r, ok) \<Rightarrow> (c # l, r, ok)))"

definition EncodeActorHeader :: "Actor \<Rightarrow> string" where
  "EncodeActorHeader a =
    (if Actor_Display a = [] then Actor_Kind a @ ''/'' @ Actor_ID a
     else Actor_Kind a @ ''/'' @ Actor_ID a @ ''/'' @ b64_encode (Actor_Display a))"

definition ParseActorHeader :: "string \<Rightarrow> Actor" where
  "ParseActorHeader s =
    (if s = [] then \<lparr>Actor_Kind = [], Actor_ID = [], Actor_Display = []\<rparr>
     else (case split2 s (CHR ''/'') of (kind, rest, ok) \<Rightarrow>
       if \<not> ok then \<lparr>Actor_Kind = s, Actor_ID = [], Actor_Display = []\<rparr>
       else (case split2 rest (CHR ''/'') of (ident, enc, ok2) \<Rightarrow>
         if \<not> ok2 then \<lparr>Actor_Kind = kind, Actor_ID = rest, Actor_Display = []\<rparr>
         else (case b64_decode enc of
             None \<Rightarrow> \<lparr>Actor_Kind = kind, Actor_ID = ident, Actor_Display = enc\<rparr>
           | Some display \<Rightarrow> \<lparr>Actor_Kind = kind, Actor_ID = ident, Actor_Display = display\<rparr>))))"

section \<open>Authentication\<close>

record AuthIdentity =
  Auth_TenantID :: TenantID
  Auth_KeyID :: APIKeyID
  Auth_Scope :: KeyScope

definition HashAPIKey :: "(string \<Rightarrow> string) \<Rightarrow> string \<Rightarrow> string" where
  "HashAPIKey sha256 raw = sha256 raw"

definition Authenticate :: "(string \<Rightarrow> string) \<Rightarrow> string \<Rightarrow> AuthIdentity dbm" where
  "Authenticate sha256 token =
    (if token = [] then raise ErrPermissionDenied
     else tryM (APIKeys_GetByHash (HashAPIKey sha256 token)) (\<lambda>r. case r of
       Inl _ \<Rightarrow> raise ErrPermissionDenied
     | Inr key \<Rightarrow>
         if Key_RevokedAt key \<noteq> None then raise ErrPermissionDenied
         else ret \<lparr>Auth_TenantID = Key_TenantID key, Auth_KeyID = Key_ID key, Auth_Scope = Key_Scope key\<rparr>))"

text \<open>A raw key is \<open>uck_\<close> and the hex text of 32 random bytes; the prefix is its first 12 bytes.\<close>

definition hex_digit :: "nat \<Rightarrow> char" where
  "hex_digit n = ''0123456789abcdef'' ! n"

definition hex_encode :: "nat list \<Rightarrow> string" where
  "hex_encode bs = concat (map (\<lambda>b. [hex_digit (b div 16), hex_digit (b mod 16)]) bs)"

definition GenerateAPIKey :: "nat list \<Rightarrow> string \<times> string" where
  "GenerateAPIKey random = (let raw = ''uck_'' @ hex_encode random in (raw, take 12 raw))"

record authContext =
  Ctx_Identity :: AuthIdentity
  Ctx_Actor :: Actor

definition bearer :: "string \<Rightarrow> string" where
  "bearer header = (if take 7 header = ''Bearer '' then drop 7 header else [])"

definition authenticate :: "(string \<Rightarrow> string) \<Rightarrow> string \<Rightarrow> string \<Rightarrow> authContext dbm" where
  "authenticate sha256 authorization actorHeader =
    (let token = bearer authorization in
     if token = [] then raise ErrUnauthenticated
     else tryM (Authenticate sha256 token) (\<lambda>r. case r of
       Inl _ \<Rightarrow> raise ErrUnauthenticated
     | Inr ident \<Rightarrow>
         (let actor = ParseActorHeader actorHeader in
          ret \<lparr>Ctx_Identity = ident,
            Ctx_Actor = (if Actor_Kind actor = [] \<and> Actor_ID actor = []
              then \<lparr>Actor_Kind = ''service'', Actor_ID = Auth_KeyID ident, Actor_Display = []\<rparr>
              else actor)\<rparr>)))"

definition requireTenant :: "authContext option \<Rightarrow> TenantID \<Rightarrow> authContext dbm" where
  "requireTenant ctx tenant =
    (case ctx of
       None \<Rightarrow> raise ErrUnauthenticated
     | Some a \<Rightarrow> if Auth_TenantID (Ctx_Identity a) \<noteq> tenant then raise ErrNotFound else ret a)"

definition requireAdmin :: "authContext option \<Rightarrow> TenantID \<Rightarrow> unit dbm" where
  "requireAdmin ctx tenant =
    bindM (requireTenant ctx tenant) (\<lambda>a.
    if Auth_Scope (Ctx_Identity a) \<noteq> KeyScopeAdmin then raise ErrPermissionDenied else ret ())"

section \<open>The header is reversible\<close>

lemma sextets_recombine:
  "(n :: nat) div 262144 * 262144 + n div 4096 mod 64 * 4096 + n div 64 mod 64 * 64 + n mod 64 = n"
proof -
  have "n div 64 * 64 + n mod 64 = n" by (rule div_mult_mod_eq)
  moreover have "n div 4096 * 64 + n div 64 mod 64 = n div 64"
    using div_mult_mod_eq [of "n div 64" 64] by (simp add: div_mult2_eq [symmetric])
  moreover have "n div 262144 * 64 + n div 4096 mod 64 = n div 4096"
    using div_mult_mod_eq [of "n div 4096" 64] by (simp add: div_mult2_eq [symmetric])
  ultimately show ?thesis by linarith
qed

lemma bytes_split:
  assumes "(b :: nat) < 256" "c < 256"
  shows "(a * 65536 + b * 256 + c) div 65536 = a" "(a * 65536 + b * 256 + c) div 256 mod 256 = b"
    "(a * 65536 + b * 256 + c) mod 256 = c"
proof -
  show "(a * 65536 + b * 256 + c) div 65536 = a" by (rule div_nat_eqI) (use assms in simp_all)
  have "(a * 65536 + b * 256 + c) div 256 = a * 256 + b" by (rule div_nat_eqI) (use assms in simp_all)
  then show "(a * 65536 + b * 256 + c) div 256 mod 256 = b" using assms by simp
  have "a * 65536 + b * 256 + c = c + (a * 256 + b) * 256" by simp
  then show "(a * 65536 + b * 256 + c) mod 256 = c" using assms by (metis mod_mult_self1 mod_less)
qed

lemma sextets_bytes: "\<forall>b\<in>set bs. b < 256 \<Longrightarrow> b64_bytes (b64_sextets bs) = Some bs"
proof (induction bs rule: b64_sextets.induct)
  case (1 a b c r)
  then show ?case
    by (simp only: b64_sextets.simps b64_bytes.simps Let_def append.simps sextets_recombine)
       (simp add: bytes_split)
next
  case (2 a b)
  let ?n = "a * 65536 + b * 256"
  have "?n mod 64 = 0" by (simp add: mod_add_eq [symmetric])
  then have n: "?n div 262144 * 262144 + ?n div 4096 mod 64 * 4096 + ?n div 64 mod 64 * 64 = ?n"
    using sextets_recombine [of ?n] by linarith
  have "?n div 65536 = a" "?n div 256 mod 256 = b" using 2 bytes_split [of b 0 a] by simp_all
  with n show ?case by (simp only: b64_sextets.simps b64_bytes.simps Let_def)
next
  case (3 a)
  let ?n = "a * 65536"
  have "?n div 64 = a * 16 * 64" by simp
  then have "?n div 64 mod 64 = 0" by (metis mod_mult_self2_is_0)
  moreover have "?n mod 64 = 0" by simp
  ultimately have "?n div 262144 * 262144 + ?n div 4096 mod 64 * 4096 = ?n"
    using sextets_recombine [of ?n] by linarith
  moreover have "?n div 65536 = a" by simp
  ultimately show ?case by (simp only: b64_sextets.simps b64_bytes.simps Let_def)
qed simp

lemma sextets_small: "\<forall>b\<in>set bs. b < 256 \<Longrightarrow> \<forall>v\<in>set (b64_sextets bs). v < 64"
  by (induction bs rule: b64_sextets.induct) (auto simp: Let_def less_mult_imp_div_less)

lemma b64_val_char: "v < 64 \<Longrightarrow> b64_val (b64_char v) = Some v"
  by (auto simp: b64_val_def b64_char_def of_char_of Let_def)

lemma b64_val_newline [simp]: "b64_val (CHR 0x0A) = None" "b64_val (CHR 0x0D) = None"
  by (simp_all add: b64_val_def)

lemma b64_vals_map: "\<forall>v\<in>set vs. v < 64 \<Longrightarrow> b64_vals (map b64_char vs) = Some vs"
proof (induction vs)
  case (Cons v vs)
  then have "b64_val (b64_char v) = Some v" by (simp add: b64_val_char)
  then have "b64_char v \<noteq> CHR 0x0A" "b64_char v \<noteq> CHR 0x0D" by (metis b64_val_newline option.discI)+
  with Cons show ?case by (simp add: b64_val_char)
qed simp

lemma b64_round_trip: "b64_decode (b64_encode s) = Some s"
proof -
  let ?bs = "map of_char s :: nat list"
  have small: "\<forall>b\<in>set ?bs. b < 256" by auto
  have "b64_vals (map b64_char (b64_sextets ?bs)) = Some (b64_sextets ?bs)"
    using b64_vals_map sextets_small [OF small] by blast
  then show ?thesis
    using sextets_bytes [OF small] by (simp add: b64_decode_def b64_encode_def comp_def)
qed

lemma split2_first: "sep \<notin> set l \<Longrightarrow> split2 (l @ sep # r) sep = (l, r, True)"
  by (induction l) auto

lemma split2_none: "sep \<notin> set s \<Longrightarrow> split2 s sep = (s, [], False)"
  by (induction s) auto

lemma actor_header_round_trip:
  assumes "CHR ''/'' \<notin> set (Actor_Kind a)" "CHR ''/'' \<notin> set (Actor_ID a)"
  shows "ParseActorHeader (EncodeActorHeader a) = a"
  using assms
  by (simp add: EncodeActorHeader_def ParseActorHeader_def split2_first split2_none b64_round_trip)

section \<open>What authentication proves\<close>

lemma Authenticate_ok:
  assumes "Authenticate sha256 token d = (Inr ident, d')"
  shows "d' = d \<and> token \<noteq> [] \<and> (\<exists>k\<in>set (api_keys d). Key_Hash k = sha256 token \<and> Key_RevokedAt k = None \<and>
    Auth_TenantID ident = Key_TenantID k \<and> Auth_KeyID ident = Key_ID k \<and> Auth_Scope ident = Key_Scope k)"
proof -
  have "wp (Authenticate sha256 token) (\<lambda>i e. e = d \<and> token \<noteq> [] \<and>
      (\<exists>k\<in>set (api_keys d). Key_Hash k = sha256 token \<and> Key_RevokedAt k = None \<and>
        Auth_TenantID i = Key_TenantID k \<and> Auth_KeyID i = Key_ID k \<and> Auth_Scope i = Key_Scope k)) (\<lambda>_ _. True) d"
    by (auto simp: Authenticate_def APIKeys_GetByHash_def HashAPIKey_def wp_simps dest!: find_SomeD
        split: option.split)
  with assms show ?thesis by (auto dest: wp_ok)
qed

end
