(* ===== verification/Http_Handlers.thy ===== *)
theory Http_Handlers
  imports Loop_Step Auth
begin

text \<open>
  The API handlers for runs, sessions, events and memory: \<open>src/http/agent_handler.go\<close>,
  \<open>src/http/session_handler.go\<close> and the conversions of \<open>src/http/convert.go\<close> they depend on. A
  handler gets the authenticated context of the request and its decoded message, and
  returns the domain value that the response encodes.
\<close>

definition mapStoreErr :: "Err \<Rightarrow> Err" where
  "mapStoreErr e =
    (case e of
       ErrNotFound \<Rightarrow> ErrNotFound
     | ErrAlreadyExists \<Rightarrow> ErrAlreadyExists
     | ErrPermissionDenied \<Rightarrow> ErrPermissionDenied
     | _ \<Rightarrow> ErrInternal)"

definition mapping_errors :: "'a dbm \<Rightarrow> 'a dbm" where
  "mapping_errors m = tryM m (\<lambda>r. case r of Inr a \<Rightarrow> ret a | Inl e \<Rightarrow> raise (mapStoreErr e))"

text \<open>Handlers whose transaction may itself return an API error keep that error.\<close>

fun api_error :: "Err \<Rightarrow> bool" where
  "api_error (ErrFailedPrecondition _) = True"
| "api_error (ErrInvalidArgument _) = True"
| "api_error ErrUnauthenticated = True"
| "api_error ErrInternal = True"
| "api_error _ = False"

definition mapping_store_errors :: "'a dbm \<Rightarrow> 'a dbm" where
  "mapping_store_errors m = tryM m (\<lambda>r. case r of
     Inr a \<Rightarrow> ret a | Inl e \<Rightarrow> raise (if api_error e then e else mapStoreErr e))"

definition resolveSessionTenant :: "authContext option \<Rightarrow> SessionID \<Rightarrow> (TenantID \<times> authContext) dbm" where
  "resolveSessionTenant ctx sid =
    (case ctx of
       None \<Rightarrow> raise ErrUnauthenticated
     | Some a \<Rightarrow>
         tryM (SessionTenant sid) (\<lambda>r. case r of
           Inl _ \<Rightarrow> raise ErrNotFound
         | Inr tenant \<Rightarrow>
             if Auth_TenantID (Ctx_Identity a) \<noteq> tenant then raise ErrNotFound else ret (tenant, a)))"

definition actorFrom :: "authContext option \<Rightarrow> Actor" where
  "actorFrom ctx =
    (case ctx of None \<Rightarrow> \<lparr>Actor_Kind = [], Actor_ID = [], Actor_Display = []\<rparr> | Some a \<Rightarrow> Ctx_Actor a)"

section \<open>Runs\<close>

text \<open>A policy of a request: the five fields of the message.\<close>

definition policyFromProto :: "RunPolicy option \<Rightarrow> RunPolicy" where
  "policyFromProto g =
    (case g of
       None \<Rightarrow> DefaultRunPolicy
     | Some p \<Rightarrow>
         if length (AllowTools p) = 0 then p
         else if MaxChildren p = 0 then p\<lparr>MaxChildren := MaxChildren DefaultRunPolicy\<rparr>
         else p)"

definition resolveRun :: "authContext option \<Rightarrow> RunID \<Rightarrow> AgentRun dbm" where
  "resolveRun ctx runID =
    (case ctx of
       None \<Rightarrow> raise ErrUnauthenticated
     | Some a \<Rightarrow> mapping_errors (Runs_Get (Auth_TenantID (Ctx_Identity a)) runID))"

record StartRunRequest =
  SRR_SessionID :: SessionID
  SRR_Prompt :: string
  SRR_ModelConfig :: "(string \<times> string \<times> string) option"
  SRR_Policy :: "RunPolicy option"

text \<open>The default model with the non-empty fields of the request laid over it.\<close>

definition request_model :: "ModelConfig \<Rightarrow> (string \<times> string \<times> string) option \<Rightarrow> ModelConfig" where
  "request_model dflt mc =
    (case mc of
       None \<Rightarrow> dflt
     | Some (provider, modelID, credential) \<Rightarrow>
         ModelConfig (if provider \<noteq> [] then provider else MC_Provider dflt)
           (if modelID \<noteq> [] then modelID else MC_ModelID dflt)
           (if credential \<noteq> [] then credential else MC_Credential dflt) (MC_Fallbacks dflt))"

definition start_run_row ::
  "authContext option \<Rightarrow> ModelConfig \<Rightarrow> StartRunRequest \<Rightarrow> TenantID \<Rightarrow> RunID \<Rightarrow> AgentRun" where
  "start_run_row ctx defaultModel req org newID =
    \<lparr>Run_ID = newID, Run_SessionID = SRR_SessionID req, Run_TenantID = org, Run_ParentRunID = None,
     Run_SpawnKey = [], Run_CohortID = [], Run_CohortOrdinal = 0,
     Run_Policy = (case SRR_Policy req of None \<Rightarrow> DefaultRunPolicy | Some p \<Rightarrow> policyFromProto (Some p)),
     Run_Actor = actorFrom ctx, Run_Result = None, Run_State = RunPending,
     Run_LoopKind = DefaultLoopKind, Run_LoopVersion = DefaultLoopVersion,
     Run_ModelConfig = request_model defaultModel (SRR_ModelConfig req), Run_Prompt = SRR_Prompt req,
     Run_History = InitialEnvelope (SRR_Prompt req), Run_FailureReason = [], Run_FailureMessage = [],
     Run_CancelRequestedAt = None, Run_CreatedAt = 0, Run_UpdatedAt = 0\<rparr>"

definition start_run_tx :: "TenantID \<Rightarrow> AgentRun \<Rightarrow> int dbm" where
  "start_run_tx org run = tx (
    bindM (Runs_Create org run) (\<lambda>_.
    bindM (Events_Append org (Run_SessionID run) (ActorAgent (Run_ID run)) EventKindRunStarted
      (RunStartedPayload (Run_ID run) (Run_Prompt run))) (\<lambda>seq.
    bindM (EnqueueInTx (StepJob (Run_ID run) org (Run_SessionID run) 0)) (\<lambda>_. ret seq))))"

definition StartRun ::
  "ModelConfig \<Rightarrow> authContext option \<Rightarrow> StartRunRequest \<Rightarrow> RunID \<Rightarrow> (AgentRun \<times> int) dbm" where
  "StartRun defaultModel ctx req newID =
    bindM (resolveSessionTenant ctx (SRR_SessionID req)) (\<lambda>(org, _).
    if SRR_Prompt req = [] then raise (ErrInvalidArgument ''prompt is required'')
    else mapping_errors (
      bindM (start_run_tx org (start_run_row ctx defaultModel req org newID)) (\<lambda>seq.
      bindM (Runs_Get org newID) (\<lambda>created. ret (created, seq)))))"

definition answer_tx :: "AgentRun \<Rightarrow> string \<Rightarrow> Actor \<Rightarrow> int dbm" where
  "answer_tx run message caller = tx (
    let org = Run_TenantID run; rid = Run_ID run in
    bindM (Runs_GetForUpdate org rid) (\<lambda>locked.
    if Run_State locked \<noteq> RunAwaiting \<and> Run_State locked \<noteq> RunCompleted
    then raise (ErrFailedPrecondition ''run is not awaiting input or completed'')
    else case AppendUserMessage (Run_History locked) message of
      Inl e \<Rightarrow> raise e
    | Inr history \<Rightarrow>
      bindM (Runs_SetHistory org rid history) (\<lambda>_.
      bindM (Runs_SetState org rid RunRunning '''' '''') (\<lambda>_.
      bindM (Events_Append org (Run_SessionID run) caller EventKindUserMessage (UserMessagePayload message)) (\<lambda>seq.
      bindM (Runs_Steps org rid) (\<lambda>steps.
      bindM (EnqueueInTx (StepJob rid org (Run_SessionID run) (next_index steps 0))) (\<lambda>_. ret seq)))))))"

definition AnswerRun :: "authContext option \<Rightarrow> RunID \<Rightarrow> string \<Rightarrow> int dbm" where
  "AnswerRun ctx runID message =
    bindM (resolveRun ctx runID) (\<lambda>run.
    if message = [] then raise (ErrInvalidArgument ''message is required'')
    else mapping_store_errors (answer_tx run message (actorFrom ctx)))"

definition cancel_tx :: "AgentRun \<Rightarrow> unit dbm" where
  "cancel_tx run = tx (
    let org = Run_TenantID run; rid = Run_ID run in
    bindM (Runs_GetForUpdate org rid) (\<lambda>locked.
    if RunState_Terminal (Run_State locked) then raise (ErrFailedPrecondition ''run already finished'')
    else bindM (Runs_RequestCancel org rid) (\<lambda>_.
      if Run_State locked = RunAwaiting then
        bindM (Runs_SetState org rid RunCancelled '''' '''') (\<lambda>_.
        bindM (abandonParentWaits org rid) (\<lambda>_.
        bindM (Events_Append org (Run_SessionID run) ActorSystem EventKindRunCancelled
          (RunCancelledPayload rid)) (\<lambda>_. ret ())))
      else ret ())))"

definition CancelRun :: "authContext option \<Rightarrow> RunID \<Rightarrow> unit dbm" where
  "CancelRun ctx runID =
    bindM (resolveRun ctx runID) (\<lambda>run. mapping_store_errors (cancel_tx run))"

definition GetRun :: "authContext option \<Rightarrow> RunID \<Rightarrow> AgentRun dbm" where
  "GetRun ctx runID = resolveRun ctx runID"

definition ListRuns :: "authContext option \<Rightarrow> SessionID \<Rightarrow> AgentRun list dbm" where
  "ListRuns ctx sid =
    bindM (resolveSessionTenant ctx sid) (\<lambda>(org, _). mapping_errors (Runs_List org sid))"

section \<open>Sessions and their memory\<close>

definition CreateSession ::
  "authContext option \<Rightarrow> TenantID \<Rightarrow> string \<Rightarrow> (string \<times> string) list \<Rightarrow> SessionID \<Rightarrow> Session dbm" where
  "CreateSession ctx tenantID title labels newID =
    bindM (requireTenant ctx tenantID) (\<lambda>_.
    case ValidateLabels labels of
      Some e \<Rightarrow> raise (ErrInvalidArgument e)
    | None \<Rightarrow> mapping_errors (
        bindM (Sessions_Create tenantID
          \<lparr>Sess_ID = newID, Sess_TenantID = [], Sess_Title = title, Sess_Labels = labels, Sess_CreatedAt = 0,
           Sess_ArchivedAt = None, Sess_last_seq = 0\<rparr>) (\<lambda>_.
        Sessions_Get tenantID newID)))"

definition GetSession :: "authContext option \<Rightarrow> SessionID \<Rightarrow> Session dbm" where
  "GetSession ctx sid =
    bindM (resolveSessionTenant ctx sid) (\<lambda>(org, _). mapping_errors (Sessions_Get org sid))"

definition ListSessions :: "authContext option \<Rightarrow> TenantID \<Rightarrow> LabelSelector list \<Rightarrow> Session list dbm" where
  "ListSessions ctx tenantID sels =
    bindM (requireTenant ctx tenantID) (\<lambda>_.
    mapping_errors (Sessions_List tenantID
      (map (\<lambda>s. if Sel_Op s = [] then s\<lparr>Sel_Op := ''=''\<rparr> else s) sels)))"

definition UpdateSessionLabels ::
  "authContext option \<Rightarrow> SessionID \<Rightarrow> (string \<times> string) list \<Rightarrow> (Session \<times> int) dbm" where
  "UpdateSessionLabels ctx sid labels =
    bindM (resolveSessionTenant ctx sid) (\<lambda>(org, a).
    case ValidateLabels labels of
      Some e \<Rightarrow> raise (ErrInvalidArgument e)
    | None \<Rightarrow> mapping_errors (tx (
        bindM (Sessions_UpdateLabels org sid labels) (\<lambda>updated.
        bindM (Events_Append org sid (Ctx_Actor a) EventKindSessionLabelsChanged
          (SessionLabelsChangedPayload labels)) (\<lambda>seq. ret (updated, seq))))))"

definition ArchiveSession :: "authContext option \<Rightarrow> SessionID \<Rightarrow> Session dbm" where
  "ArchiveSession ctx sid =
    bindM (resolveSessionTenant ctx sid) (\<lambda>(org, _). mapping_errors (Sessions_Archive org sid))"

text \<open>\<open>json.Valid\<close> on the submitted text is the parameter \<open>valid\<close>.\<close>

definition SetMemory ::
  "(string \<Rightarrow> bool) \<Rightarrow> authContext option \<Rightarrow> SessionID \<Rightarrow> string \<Rightarrow> string \<Rightarrow> int dbm" where
  "SetMemory valid ctx sid key value =
    bindM (resolveSessionTenant ctx sid) (\<lambda>(org, a).
    if \<not> valid value then raise (ErrInvalidArgument ''value_json is invalid'')
    else tryM (tx (
        bindM (Memory_Set org \<lparr>Mem_SessionID = sid, Mem_Key = key, Mem_Value = value,
          Mem_UpdatedBy = Ctx_Actor a, Mem_UpdatedAt = 0\<rparr>) (\<lambda>_.
        Events_Append org sid ActorSystem EventKindMemorySet
          (NewMemoryEventPayload key (Ctx_Actor a) (if length value > 1024 then [] else value)))))
      (\<lambda>r. case r of Inr seq \<Rightarrow> ret seq | Inl e \<Rightarrow> raise (ErrInvalidArgument (err_text e))))"

definition GetMemory :: "authContext option \<Rightarrow> SessionID \<Rightarrow> string \<Rightarrow> SessionMemoryEntry dbm" where
  "GetMemory ctx sid key =
    bindM (resolveSessionTenant ctx sid) (\<lambda>(org, _). mapping_errors (Memory_Get org sid key))"

definition ListMemory :: "authContext option \<Rightarrow> SessionID \<Rightarrow> SessionMemoryEntry list dbm" where
  "ListMemory ctx sid =
    bindM (resolveSessionTenant ctx sid) (\<lambda>(org, _). mapping_errors (Memory_List org sid))"

definition DeleteMemory :: "authContext option \<Rightarrow> SessionID \<Rightarrow> string \<Rightarrow> int dbm" where
  "DeleteMemory ctx sid key =
    bindM (resolveSessionTenant ctx sid) (\<lambda>(org, a).
    mapping_errors (tx (
      bindM (Memory_Delete org sid key) (\<lambda>_.
      Events_Append org sid ActorSystem EventKindMemoryDeleted
        (NewMemoryEventPayload key (Ctx_Actor a) [])))))"

section \<open>Events\<close>

text \<open>A client may append user messages and annotations only.\<close>

fun payloadToDomain :: "Payload option \<Rightarrow> (EventKind \<times> Payload) option" where
  "payloadToDomain (Some (UserMessagePayload t)) = Some (EventKindUserMessage, UserMessagePayload t)"
| "payloadToDomain (Some (AnnotationPayload t)) = Some (EventKindAnnotation, AnnotationPayload t)"
| "payloadToDomain _ = None"

definition AppendEvent :: "authContext option \<Rightarrow> SessionID \<Rightarrow> Payload option \<Rightarrow> int dbm" where
  "AppendEvent ctx sid p =
    bindM (resolveSessionTenant ctx sid) (\<lambda>(org, a).
    case payloadToDomain p of
      None \<Rightarrow> raise (ErrInvalidArgument ''unknown payload variant'')
    | Some (kind, payload) \<Rightarrow> mapping_errors (Events_Append org sid (Ctx_Actor a) kind payload))"

text \<open>A page token: decimal digits read into a 64-bit integer that wraps around.\<close>

definition wrap64 :: "int \<Rightarrow> int" where
  "wrap64 n = (n + 2 ^ 63) mod 2 ^ 64 - 2 ^ 63"

fun page_token :: "int \<Rightarrow> string \<Rightarrow> int option" where
  "page_token n [] = Some n"
| "page_token n (c # cs) =
    (if \<not> is_digit c then None else page_token (wrap64 (n * 10 + digit_val c)) cs)"

text \<open>The loop that fills a page: the events up to \<open>to\<close>, and the token when the page is full.\<close>

fun fill_page :: "int \<Rightarrow> int \<Rightarrow> Event list \<Rightarrow> Event list \<Rightarrow> Event list \<times> string" where
  "fill_page to limit page [] = (page, [])"
| "fill_page to limit page (e # es) =
    (if to > 0 \<and> Ev_Seq e > to then (page, [])
     else if int (length page) \<ge> limit then (page, itoa (Ev_Seq (last page)))
     else fill_page to limit (page @ [e]) es)"

definition GetEvents ::
  "authContext option \<Rightarrow> SessionID \<Rightarrow> int \<Rightarrow> int \<Rightarrow> string \<Rightarrow> int \<Rightarrow> (Event list \<times> string) dbm" where
  "GetEvents ctx sid fromSeq toSeq token pageSize =
    bindM (resolveSessionTenant ctx sid) (\<lambda>(org, _).
    case (if token = [] then Some fromSeq else page_token 0 token) of
      None \<Rightarrow> raise (ErrInvalidArgument ''invalid page_token'')
    | Some from \<Rightarrow>
      (let limit = (if pageSize \<le> 0 \<or> pageSize > 256 then 256 else pageSize) in
       mapping_errors (bindM (Events_Range org sid from (limit + 1)) (\<lambda>events.
         ret (fill_page toSeq limit [] events)))))"

end
