(* ===== verification/Store_Invariant.thy ===== *)
theory Store_Invariant
  imports Http_Handlers
begin

text \<open>
  The interface between the store and everything that uses it, for invariants. The locale
  \<open>store_frame\<close> fixes a property \<open>I\<close> of the database and a set \<open>T\<close> of tenants, and assumes
  that every write of the store that neither moves a run through its states nor creates
  work for it keeps \<open>I\<close> when it is made for a tenant of \<open>T\<close> (and, for a wait, under the
  id that \<open>deterministicWaitID\<close> computes with the hash \<open>sha\<close>). \<open>store_invariant\<close> adds the
  writes of the state, of a step and of the queue, \<open>store_invariant_create\<close> the creation of
  runs; \<open>store_resume\<close> asks only that a parent can be resumed. Inside them every transaction of the loop and of the API is shown to keep \<open>I\<close>,
  once; they are interpreted for each invariant of the development.
\<close>

section \<open>Values that are known after a read\<close>

lemma preserves_Runs_Get:
  assumes "\<And>r. Run_TenantID r = t \<Longrightarrow> Run_ID r = rid \<Longrightarrow> preserves I (f r)"
  shows "preserves I (bindM (Runs_Get t rid) f)" "preserves I (bindM (Runs_GetForUpdate t rid) f)"
  using assms by (auto simp: preserves_wp wp_simps dest!: find_SomeD split: option.splits)

lemma preserves_try_GetForUpdate:
  assumes "\<And>r. Run_TenantID r = t \<Longrightarrow> Run_ID r = rid \<Longrightarrow> preserves I (f (Inr r))" "\<And>e. preserves I (f (Inl e))"
  shows "preserves I (tryM (Runs_GetForUpdate t rid) f)"
  using assms by (auto simp: preserves_wp wp_simps dest!: find_SomeD split: option.splits)

lemma preserves_SessionTenant:
  assumes "\<And>t a. ctx = Some a \<Longrightarrow> Auth_TenantID (Ctx_Identity a) = t \<Longrightarrow> preserves I (f (t, a))"
  shows "preserves I (bindM (resolveSessionTenant ctx sid) f)"
  using assms by (auto simp: resolveSessionTenant_def preserves_wp wp_simps SessionTenant_def split: option.splits)

lemma preserves_resolveRun:
  assumes "\<And>r a. ctx = Some a \<Longrightarrow> Run_TenantID r = Auth_TenantID (Ctx_Identity a) \<Longrightarrow> preserves I (f r)"
  shows "preserves I (bindM (resolveRun ctx rid) f)"
  using assms
  by (auto simp: resolveRun_def mapping_errors_def preserves_wp wp_simps dest!: find_SomeD split: option.splits)

lemma preserves_requireTenant:
  assumes "\<And>a. ctx = Some a \<Longrightarrow> Auth_TenantID (Ctx_Identity a) = t \<Longrightarrow> preserves I (f a)"
  shows "preserves I (bindM (requireTenant ctx t) f)"
  using assms by (auto simp: requireTenant_def preserves_wp wp_simps split: option.splits)

text \<open>Reads keep every property.\<close>

lemma preserves_reads [pres_intros]:
  "preserves I (Runs_Get t rid)" "preserves I (Runs_GetForUpdate t rid)" "preserves I (Runs_List t sid)"
  "preserves I (Runs_GetBySpawnKey t key)" "preserves I (Runs_Children t rid)"
  "preserves I (Runs_CountChildren t rid)" "preserves I (Runs_Steps t rid)"
  "preserves I (Waits_Get t wid)" "preserves I (Waits_GetForUpdate t wid)"
  "preserves I (Waits_ListOpenForChild t rid)" "preserves I (Waits_ListOpenForParent t rid)"
  "preserves I (Waits_ListForParent t rid)" "preserves I (Waits_Members wid)"
  "preserves I (Memory_Get t sid key)" "preserves I (Memory_List t sid)"
  "preserves I (Sessions_Get t sid)" "preserves I (Sessions_List t sels)"
  "preserves I (Events_Range t sid from n)" "preserves I (Credentials_Get t kind name)"
  "preserves I (countAttempts job)"
  by (auto simp: preserves_wp wp_simps Runs_List_def Runs_Children_def Waits_ListOpenForChild_def
      Waits_ListOpenForParent_def Waits_ListForParent_def Memory_List_def Sessions_Get_def Sessions_List_def
      Events_Range_def Credentials_Get_def countAttempts_def Let_def split: option.splits sum.splits)

lemma preserves_collect_members [pres_intros]: "preserves I (collect_members org ms out n)"
  by (induction ms arbitrary: out n) (auto intro!: pres_intros simp: Let_def)

lemma preserves_mapping [pres_intros]:
  "preserves I m \<Longrightarrow> preserves I (mapping_errors m)"
  "preserves I m \<Longrightarrow> preserves I (mapping_store_errors m)"
  by (auto simp: mapping_errors_def mapping_store_errors_def intro!: pres_intros)

lemma preserves_ResolveModel [pres_intros]: "preserves I (ResolveModel dec bld t cfg)"
  unfolding ResolveModel_def Let_def by (intro pres_intros)

lemma preserves_txStale [pres_intros]: "preserves I m \<Longrightarrow> preserves I (txStale m)"
  unfolding txStale_def by (intro pres_intros)

lemma preserves_Err [pres_intros]:
  "(\<And>r. preserves I (f r)) \<Longrightarrow> preserves I m \<Longrightarrow> preserves I n \<Longrightarrow>
    preserves I (case e of deniedError r \<Rightarrow> f r | errMissingChildPrompt \<Rightarrow> m | _ \<Rightarrow> n)"
  by (cases e) auto

section \<open>Claiming\<close>

text \<open>The rules of the combinators as equations between predicates, to rewrite inside a postcondition.\<close>

lemma wp_funs:
  "wp (ret a) Q E = Q a" "wp (raise e) Q E = E e"
  "wp (bindM m f) Q E = wp m (\<lambda>a. wp (f a) Q E) E"
  "wp (tryM m h) Q E = wp m (\<lambda>a. wp (h (Inr a)) Q E) (\<lambda>e. wp (h (Inl e)) Q E)"
  by (rule ext, simp add: wp_simps)+

lemma wp_txStale [wp_simps]:
  "wp (txStale fn) Q E d = wp fn Q (\<lambda>e d'. if e = errCancelledCommit then E errStale d' else E e d) d"
  by (auto simp: txStale_def wp_def tx_def bindM_def tryM_def ret_def raise_def split: prod.split sum.split option.split)

text \<open>\<open>markCancelledTx\<close> never returns: it ends with the signal to commit, or with an error.\<close>

lemma wp_markCancelledTx_result: "wp (markCancelledTx job) Q E d = wp (markCancelledTx job) (\<lambda>_ _. True) E d"
  by (simp add: markCancelledTx_def wp_funs)

lemma wp_True [simp]: "wp m (\<lambda>_ _. True) (\<lambda>_ _. True) d"
  by (simp add: wp_final)

lemma wp_markCancelledTx_any [simp]: "wp (markCancelledTx job) Q (\<lambda>_ _. True) d"
  by (subst wp_markCancelledTx_result) simp

lemma wp_claim_run:
  "wp (claim job) (\<lambda>(r, n) _. find (run_in (SJ_TenantID job) (SJ_RunID job)) (agent_runs d) = Some r) (\<lambda>_ _. True) d"
  unfolding claim_def
  by (simp add: wp_simps wp_funs countAttempts_def Runs_SetState_def split: option.split cong: if_cong)

section \<open>From a stronger condition to the property\<close>

text \<open>
  \<open>keeps P I m\<close>: from a state with \<open>P\<close> the computation ends in a state with \<open>I\<close>. It is used
  where a property holds for a reason that was read earlier in the same transaction.
\<close>

definition keeps :: "('s \<Rightarrow> bool) \<Rightarrow> ('s \<Rightarrow> bool) \<Rightarrow> ('s, 'e, 'a) comp \<Rightarrow> bool" where
  "keeps P I m \<longleftrightarrow> (\<forall>s. P s \<longrightarrow> wp m (\<lambda>_. I) (\<lambda>_. I) s)"

lemma keeps_preserves: "preserves I m \<Longrightarrow> keeps I I m"
  by (simp add: keeps_def preserves_wp)

lemma keeps_weaken: "keeps P I m \<Longrightarrow> (\<And>s. P' s \<Longrightarrow> P s) \<Longrightarrow> keeps P' I m"
  by (simp add: keeps_def)

lemma keeps_raise: "(\<And>s. P s \<Longrightarrow> I s) \<Longrightarrow> keeps P I (raise e)"
  by (simp add: keeps_def wp_simps)

lemma keeps_ret: "(\<And>s. P s \<Longrightarrow> I s) \<Longrightarrow> keeps P I (ret a)"
  by (simp add: keeps_def wp_simps)

lemma keeps_if: "(b \<Longrightarrow> keeps P I m) \<Longrightarrow> (\<not> b \<Longrightarrow> keeps P I n) \<Longrightarrow> keeps P I (if b then m else n)"
  by simp

text \<open>A first part that keeps \<open>P\<close>, then the rest; and the other way round.\<close>

lemma keeps_bind:
  assumes "preserves P m" "\<And>a. keeps P I (f a)" "\<And>s. P s \<Longrightarrow> I s"
  shows "keeps P I (bindM m f)"
  unfolding keeps_def wp_bindM
proof (intro allI impI)
  fix s assume "P s"
  then have "wp m (\<lambda>_. P) (\<lambda>_. P) s" using assms(1) by (simp add: preserves_wp)
  then show "wp m (\<lambda>a. wp (f a) (\<lambda>_. I) (\<lambda>_. I)) (\<lambda>_. I) s"
    by (rule wp_mono) (use assms(2,3) in \<open>auto simp: keeps_def\<close>)
qed

lemma keeps_then:
  assumes "keeps P I m" "\<And>a. preserves I (f a)"
  shows "keeps P I (bindM m f)"
  unfolding keeps_def wp_bindM
proof (intro allI impI)
  fix s assume "P s"
  then have "wp m (\<lambda>_. I) (\<lambda>_. I) s" using assms(1) by (simp add: keeps_def)
  then show "wp m (\<lambda>a. wp (f a) (\<lambda>_. I) (\<lambda>_. I)) (\<lambda>_. I) s"
    by (rule wp_mono) (use assms(2) in \<open>auto simp: preserves_wp\<close>)
qed

section \<open>The locale\<close>

text \<open>
  Writes to tables that the loop does not read: resources, provider registrations, periodic
  prompts. The resource workers and the remaining handlers are such writes, events and jobs
  that are not steps.
\<close>

definition aside ::
  "(db \<Rightarrow> Resource list) \<Rightarrow> (db \<Rightarrow> ProviderInstance list) \<Rightarrow> (db \<Rightarrow> PeriodicPrompt list) \<Rightarrow> unit dbm" where
  "aside f g h = modifyM (\<lambda>d. d\<lparr>provider_instances := g d, resources := f d, periodic_prompts := h d\<rparr>)"

lemma wp_aside [wp_simps]:
  "wp (aside f g h) Q E d = Q () (d\<lparr>provider_instances := g d, resources := f d, periodic_prompts := h d\<rparr>)"
  by (simp add: aside_def wp_simps)

locale store_frame =
  fixes I :: "db \<Rightarrow> bool" and T :: "TenantID \<Rightarrow> bool"
    and sha :: "string \<Rightarrow> string \<Rightarrow> string"
  assumes Append [pres_intros]: "T t \<Longrightarrow> preserves I (Events_Append t sid a k p)"
    and SetHistory [pres_intros]: "T t \<Longrightarrow> preserves I (Runs_SetHistory t rid h)"
    and SetResult [pres_intros]: "T t \<Longrightarrow> preserves I (Runs_SetResult t rid res)"
    and RequestCancel [pres_intros]: "T t \<Longrightarrow> preserves I (Runs_RequestCancel t rid)"
    and WaitCreate [pres_intros]: "T t \<Longrightarrow>
      Wait_ID w = deterministicWaitID sha (Wait_ParentRunID w) (Wait_StepIndex w) (Wait_ToolCallID w) \<Longrightarrow>
      preserves I (Waits_Create t w ms)"
    and WaitClose [pres_intros]: "T t \<Longrightarrow> ws \<noteq> WaitOpen \<Longrightarrow> preserves I (Waits_Close t wid ws out)"
    and WaitSetResult [pres_intros]: "T t \<Longrightarrow> preserves I (Waits_SetResult t wid out)"
    and MarkResumed [pres_intros]: "T t \<Longrightarrow> preserves I (Waits_MarkResumed t wid)"
    and ClaimDue [pres_intros]: "T t \<Longrightarrow> preserves I (Waits_ClaimDue t now lim)"
    and MemSet [pres_intros]: "T t \<Longrightarrow> preserves I (Memory_Set t e)"
    and MemDelete [pres_intros]: "T t \<Longrightarrow> preserves I (Memory_Delete t sid key)"
    and EnqueueOther: "\<not> is_StepJob job \<Longrightarrow> preserves I (EnqueueInTx job)"
    and EnqueueOtherAt: "\<not> is_StepJob job \<Longrightarrow> preserves I (EnqueueInTxAt job at)"
    and Aside [pres_intros]: "preserves I (aside rs ps pp)"
    and SessCreate [pres_intros]: "T t \<Longrightarrow> preserves I (Sessions_Create t s)"
    and SessLabels [pres_intros]: "T t \<Longrightarrow> preserves I (Sessions_UpdateLabels t sid ls)"
    and SessArchive [pres_intros]: "T t \<Longrightarrow> preserves I (Sessions_Archive t sid)"
    and TenantCreate [pres_intros]: "preserves I (Tenants_Create tn)"
    and KeyCreate [pres_intros]: "preserves I (APIKeys_Create apikey)"
    and KeyRevoke [pres_intros]: "preserves I (APIKeys_Revoke t kid)"
    and CredPut [pres_intros]: "T t \<Longrightarrow> preserves I (Credentials_Put t c)"
    and CredDelete [pres_intros]: "T t \<Longrightarrow> preserves I (Credentials_Delete t kind name)"
    and tick: "I d \<Longrightarrow> I (d\<lparr>db_now := now'\<rparr>)"
begin

lemma EnqueueAt [pres_intros]:
  "preserves I (EnqueueInTxAt (WaitTimeoutJob t) at)" "preserves I (EnqueueInTxAt (ReconcileJob t r) at)"
  "preserves I (EnqueueInTx (ReconcileJob t r))" "preserves I (EnqueueInTx (ProvisionJob t r))"
  "preserves I (EnqueueInTx (RestartJob t r))" "preserves I (EnqueueInTx (TerminateJob t r))"
  by (simp_all add: EnqueueOther EnqueueOtherAt)

lemma abandonParentWaits_pres [pres_intros]: "T org \<Longrightarrow> preserves I (abandonParentWaits org rid)"
  unfolding abandonParentWaits_def by (intro pres_intros) auto

lemma rearm_pres [pres_intros]: "preserves I (rearm s org)"
  unfolding rearm_def by (intro pres_intros)

lemma appendTx_pres [pres_intros]: "T (SJ_TenantID job) \<Longrightarrow> preserves I (appendTx job k p)"
  unfolding appendTx_def by (intro pres_intros)

lemma AccountStepCost_pres: "T (Run_TenantID run) \<Longrightarrow> preserves I (AccountStepCost run step)"
  unfolding AccountStepCost_def by (intro pres_intros)

lemma appendEvent_pres [pres_intros]: "T (SJ_TenantID job) \<Longrightarrow> preserves I (appendEvent job k p)"
  unfolding appendEvent_def by (intro pres_intros)

lemma emit_all_pres [pres_intros]: "T (SJ_TenantID job) \<Longrightarrow> preserves I (emit_all job es)"
  unfolding emit_all_def by (intro pres_intros)

lemma compact_history_pres [pres_intros]: "T (SJ_TenantID job) \<Longrightarrow> preserves I (compact_history w job run env)"
  unfolding compact_history_def Let_def by (intro pres_intros)

lemma permissionDenied_pres [pres_intros]: "T (Run_TenantID run) \<Longrightarrow> preserves I (permissionDenied run tool reason)"
  unfolding permissionDenied_def by (intro pres_intros)

lemma postEventTool_pres [pres_intros]: "T t \<Longrightarrow> preserves I (postEventTool t sid rid text)"
  unfolding postEventTool_def by (intro pres_intros)

lemma memory_tools_pres [pres_intros]:
  "T (Run_TenantID run) \<Longrightarrow> preserves I (memoryGetTool run k)"
  "T (Run_TenantID run) \<Longrightarrow> preserves I (memoryListTool run)"
  "T (Run_TenantID run) \<Longrightarrow> preserves I (memorySetTool run k v)"
  "T (Run_TenantID run) \<Longrightarrow> preserves I (memoryDeleteTool run k)"
  unfolding memoryGetTool_def memoryListTool_def memorySetTool_def memoryDeleteTool_def appendMemoryEvent_def Let_def
  by (intro pres_intros; assumption)+

lemma waitForAgentsTool_pres [pres_intros]:
  "T (Run_TenantID run) \<Longrightarrow> preserves I (waitForAgentsTool run rids timeout policy callID rec)"
  unfolding waitForAgentsTool_def by (intro pres_intros)

end

text \<open>Closing waits needs one more promise: that resuming a parent keeps the property.\<close>

locale store_resume = store_frame +
  assumes resumeParent_pres [pres_intros]: "T org \<Longrightarrow> preserves I (resumeParent org w out)"
begin

lemma tryCloseWait_pres [pres_intros]: "T org \<Longrightarrow> preserves I (tryCloseWait org wid reason)"
  unfolding tryCloseWait_def Let_def by (intro pres_intros) auto

lemma resolveChildWaits_pres [pres_intros]: "T (Run_TenantID r) \<Longrightarrow> preserves I (resolveChildWaits r)"
  unfolding resolveChildWaits_def by (intro pres_intros)

lemma createWait_pres [pres_intros]: "T (Run_TenantID run) \<Longrightarrow> preserves I (createWait sha run job rec)"
  unfolding createWait_def Let_def by (intro pres_intros) simp_all

lemma sweep_loop_pres [pres_intros]: "T org \<Longrightarrow> preserves I (sweep_loop s org ws)"
  by (induction ws) (auto intro!: pres_intros)

lemma Sweep_pres [pres_intros]: "T org \<Longrightarrow> preserves I (Sweep s org)"
  unfolding Sweep_def by (intro pres_intros)

lemma settleTerminalRun_pres [pres_intros]: "T org \<Longrightarrow> preserves I (settleTerminalRun org rid)"
  unfolding settleTerminalRun_def by (intro preserves_bindM preserves_Runs_Get) (auto intro!: pres_intros)

end

locale store_invariant = store_frame +
  assumes SetState [pres_intros]: "T t \<Longrightarrow> preserves I (Runs_SetState t rid st fr fm)"
    and InsertStep [pres_intros]: "T t \<Longrightarrow> preserves I (Runs_InsertStep t step)"
    and Enqueue [pres_intros]: "preserves I (EnqueueInTx job)"

sublocale store_invariant \<subseteq> resume: store_resume I T sha
proof
  show "T org \<Longrightarrow> preserves I (resumeParent org w out)" for org w out
    unfolding resumeParent_def by (intro pres_intros)
qed

context store_invariant
begin

lemma markCancelledTx_pres [pres_intros]: "T (SJ_TenantID job) \<Longrightarrow> preserves I (markCancelledTx job)"
  unfolding markCancelledTx_def by (intro pres_intros)

lemma failRun_pres [pres_intros]: "T (SJ_TenantID job) \<Longrightarrow> preserves I (failRun job reason msg)"
  unfolding failRun_def by (intro pres_intros)

lemma claim_pres [pres_intros]: "T (SJ_TenantID job) \<Longrightarrow> preserves I (claim job)"
  unfolding claim_def by (intro pres_intros)

lemma classify_outcome_pres:
  "T (SJ_TenantID job) \<Longrightarrow> T (Run_TenantID run) \<Longrightarrow> preserves I (classify_outcome sha job run step result rec)"
  unfolding classify_outcome_def Let_def by (intro pres_intros) simp_all

lemma commit_tx_pres [pres_intros]:
  "T (SJ_TenantID job) \<Longrightarrow> preserves I (commit_tx sha job attempt enc step result rec)"
  unfolding commit_tx_def Let_def
  by (intro preserves_txStale preserves_Runs_Get pres_intros AccountStepCost_pres classify_outcome_pres) auto

lemma commitOutcome_pres [pres_intros]:
  "T (SJ_TenantID job) \<Longrightarrow> preserves I (commitOutcome sha job attempt env result rec)"
  unfolding commitOutcome_def Let_def by (auto split: list.split intro!: pres_intros)

lemma handleStreamError_pres [pres_intros]:
  "T (SJ_TenantID job) \<Longrightarrow> preserves I (handleStreamError job c i e)"
  unfolding handleStreamError_def by (intro pres_intros)

text \<open>The API.\<close>

lemma answer_tx_pres [pres_intros]: "T (Run_TenantID run) \<Longrightarrow> preserves I (answer_tx run msg caller)"
  unfolding answer_tx_def Let_def by (intro pres_intros)

lemma cancel_tx_pres [pres_intros]: "T (Run_TenantID run) \<Longrightarrow> preserves I (cancel_tx run)"
  unfolding cancel_tx_def Let_def by (intro pres_intros)

end

locale store_invariant_create = store_invariant +
  assumes RunCreate [pres_intros]: "T t \<Longrightarrow> preserves I (Runs_Create t run)"
begin

lemma spawn_tx_pres [pres_intros]: "T (Run_TenantID run) \<Longrightarrow> preserves I (spawn_tx run job child)"
  unfolding spawn_tx_def by (intro pres_intros)

lemma start_run_tx_pres [pres_intros]: "T org \<Longrightarrow> preserves I (start_run_tx org run)"
  unfolding start_run_tx_def by (intro pres_intros)

lemma spawnChild_pres [pres_intros]: "T (Run_TenantID run) \<Longrightarrow> preserves I (spawnChild run job req newID)"
  unfolding spawnChild_def Let_def
  by (intro pres_intros) (auto split: Err.split intro!: pres_intros)

lemma spawn_error_pres [pres_intros]: "T (Run_TenantID run) \<Longrightarrow> preserves I (spawn_error run tool failed e)"
  unfolding spawn_error_def by (intro pres_intros)

lemma spawnAgentTool_pres [pres_intros]: "T (Run_TenantID run) \<Longrightarrow> preserves I (spawnAgentTool run job spec callID newID)"
  unfolding spawnAgentTool_def by (intro pres_intros)

lemma cohort_loop_pres [pres_intros]: "T (Run_TenantID run) \<Longrightarrow> preserves I (cohort_loop run job callID cid i specs ids)"
  by (induction specs arbitrary: i ids) (auto intro!: pres_intros)

lemma runAgentCohortTool_pres [pres_intros]:
  "T (Run_TenantID run) \<Longrightarrow> preserves I (runAgentCohortTool sha run job specs timeout policy callID rec)"
  unfolding runAgentCohortTool_def Let_def by (intro pres_intros)

text \<open>The execution of a step. The run was read under the tenant of the job.\<close>

lemma native_handler_pres [pres_intros]:
  "T (SJ_TenantID job) \<Longrightarrow> T (Run_TenantID run) \<Longrightarrow> preserves I (native_handler sha run job call rec)"
  by (cases call) (auto intro!: pres_intros)

lemma execute_tool_pres [pres_intros]:
  "T (SJ_TenantID job) \<Longrightarrow> T (Run_TenantID run) \<Longrightarrow> preserves I (execute_tool sha run job dyn call rec)"
  unfolding execute_tool_def by (intro pres_intros)

lemma stream_event_pres [pres_intros]:
  "T (SJ_TenantID job) \<Longrightarrow> T (Run_TenantID run) \<Longrightarrow> preserves I (stream_event sha run job dyn e st)"
  by (cases st; cases e) (auto intro!: pres_intros)

lemma stream_events_pres [pres_intros]:
  "T (SJ_TenantID job) \<Longrightarrow> T (Run_TenantID run) \<Longrightarrow> preserves I (stream_events sha run job dyn es st)"
  by (induction es arbitrary: st) (auto intro!: pres_intros)

lemma flush_emit_pres [pres_intros]: "T (SJ_TenantID job) \<Longrightarrow> preserves I (flush_emit job st)"
  unfolding flush_emit_def by (intro pres_intros)

lemma run_stream_pres:
  assumes "W_NewSHA1 w = sha" "T (SJ_TenantID job)" "T (Run_TenantID run)"
  shows "preserves I (run_stream w job run dyn st)"
  unfolding run_stream_def Let_def assms(1) using assms(2,3)
  by (intro pres_intros) (auto split: StreamError.split list.split bool.split intro!: pres_intros)

lemma preserves_claim:
  assumes "\<And>r n. Run_TenantID r = SJ_TenantID job \<Longrightarrow> Run_ID r = SJ_RunID job \<Longrightarrow> preserves I (f (Inr (r, n)))"
    "\<And>e. preserves I (f (Inl e))" "T (SJ_TenantID job)"
  shows "preserves I (tryM (claim job) f)"
proof (rule preservesI)
  fix d assume "I d"
  let ?Q = "\<lambda>a _. Run_TenantID (fst a) = SJ_TenantID job \<and> Run_ID (fst a) = SJ_RunID job"
  have "wp (claim job) ?Q (\<lambda>_ _. True) d"
    by (rule wp_mono [OF wp_claim_run]) (auto dest: find_SomeD)
  moreover have "wp (claim job) (\<lambda>_. I) (\<lambda>_. I) d"
    using claim_pres [OF assms(3)] \<open>I d\<close> by (simp add: preserves_wp)
  ultimately have "wp (claim job) (\<lambda>a e. ?Q a e \<and> I e) (\<lambda>_ e. True \<and> I e) d"
    by (intro wp_conj [THEN iffD2] conjI)
  then show "wp (tryM (claim job) f) (\<lambda>_. I) (\<lambda>_. I) d"
    unfolding wp_tryM by (rule wp_mono) (use assms in \<open>auto simp: preserves_wp\<close>)
qed

lemma Work_pres:
  assumes "W_NewSHA1 w = sha" "T (SJ_TenantID job)"
  shows "preserves I (Work w job)"
  unfolding Work_def assms(1) using assms(2)
  by (intro preserves_claim)
    (auto split: sum.split Err.split option.split intro!: pres_intros run_stream_pres [OF assms(1)])

end

end
