(* ===== verification/System.thy ===== *)
theory System
  imports Store_Invariant
begin

text \<open>
  The system: every transaction that the API and the workers run against the database, as
  one relation on database states. A transaction may come at any time, with whatever the
  caller has read before; what is known of its arguments is only what the code guarantees
  (a delivered job was enqueued, a run that was read is a row whose immutable columns are
  as they were). Jobs stay in the queue for ever, so that every redelivery is covered. The
  section on executions shows that the handlers are sequences of such transactions.
\<close>

section \<open>Transactions\<close>

text \<open>A run as it was read once: its immutable columns still are those of a row.\<close>

definition snapshot :: "db \<Rightarrow> AgentRun \<Rightarrow> bool" where
  "snapshot d run \<longleftrightarrow> (\<exists>r\<in>set (agent_runs d).
    Run_ID r = Run_ID run \<and> Run_TenantID r = Run_TenantID run \<and> Run_SessionID r = Run_SessionID run \<and>
    Run_ParentRunID r = Run_ParentRunID run \<and> Run_SpawnKey r = Run_SpawnKey run \<and> Run_Policy r = Run_Policy run)"

definition enqueued :: "db \<Rightarrow> Job \<Rightarrow> bool" where
  "enqueued d job \<longleftrightarrow> job \<in> Job_Args ` set (jobs d)"

text \<open>A fresh identifier is the text of a UUID; what matters of it is that it has no colon.\<close>

definition id_text :: "string \<Rightarrow> bool" where
  "id_text s \<longleftrightarrow> CHR '':'' \<notin> set s"

inductive sys_step :: "(string \<Rightarrow> string \<Rightarrow> string) \<Rightarrow> db \<Rightarrow> db \<Rightarrow> bool" for sha where
  tick: "db_now d \<le> t \<Longrightarrow> sys_step sha d (d\<lparr>db_now := t\<rparr>)"
| tenant_create: "sys_step sha d (snd (Tenants_Create tn d))"
| key_create: "sys_step sha d (snd (APIKeys_Create apikey d))"
| key_revoke: "sys_step sha d (snd (APIKeys_Revoke t kid d))"
| cred_put: "sys_step sha d (snd (Credentials_Put t c d))"
| cred_delete: "sys_step sha d (snd (Credentials_Delete t kind name d))"
| session_create: "sys_step sha d (snd (Sessions_Create t s d))"
| session_labels: "sys_step sha d (snd (tx (bindM (Sessions_UpdateLabels t sid labels) (\<lambda>updated.
    bindM (Events_Append t sid a k p) (\<lambda>seq. ret (updated, seq)))) d))"
| session_archive: "sys_step sha d (snd (Sessions_Archive t sid d))"
| event: "sys_step sha d (snd (Events_Append t sid a k p d))"
| memory_set: "sys_step sha d (snd (tx (bindM (Memory_Set t e) (\<lambda>_. Events_Append t sid a k p)) d))"
| memory_delete: "sys_step sha d (snd (tx (bindM (Memory_Delete t sid key) (\<lambda>_. Events_Append t sid a k p)) d))"
| start_run: "id_text newID \<Longrightarrow> sys_step sha d (snd (start_run_tx org (start_run_row ctx dm req org newID) d))"
| answer: "snapshot d run \<Longrightarrow> sys_step sha d (snd (answer_tx run msg a d))"
| cancel: "snapshot d run \<Longrightarrow> sys_step sha d (snd (cancel_tx run d))"
| claim: "enqueued d (StepJob r t s i) \<Longrightarrow> sys_step sha d (snd (claim (StepJob r t s i) d))"
| fail: "enqueued d (StepJob r t s i) \<Longrightarrow> sys_step sha d (snd (failRun (StepJob r t s i) reason msg d))"
| mark_cancelled: "enqueued d (StepJob r t s i) \<Longrightarrow>
    sys_step sha d (snd (txStale (markCancelledTx (StepJob r t s i) :: unit dbm) d))"
| compact: "enqueued d (StepJob r t s i) \<Longrightarrow> sys_step sha d (snd (Runs_SetHistory t r h d))"
| commit: "enqueued d (StepJob r t s i) \<Longrightarrow>
    sys_step sha d (snd (commit_tx sha (StepJob r t s i) attempt enc step result rec d))"
| spawn: "id_text newID \<Longrightarrow> enqueued d (StepJob (Run_ID run) (Run_TenantID run) s i) \<Longrightarrow> snapshot d run \<Longrightarrow>
    resolvePolicy (Req_spec req) (Run_Policy run) = Inr policy \<Longrightarrow>
    sys_step sha d (snd (spawn_tx run (StepJob (Run_ID run) (Run_TenantID run) s i)
      (new_child run (StepJob (Run_ID run) (Run_TenantID run) s i) req policy newID) d))"
| claim_due: "sys_step sha d (snd (Waits_ClaimDue t now lim d))"
| close_wait: "sys_step sha d (snd (tx (tryCloseWait t wid closeReasonTimeout) d))"
| rearm: "sys_step sha d (snd (rearm sw t d))"
| aside: "sys_step sha d (snd (aside rs ps pp d))"
| other_job: "\<not> is_StepJob job \<Longrightarrow> sys_step sha d (snd (EnqueueInTx job d))"
| other_job_at: "\<not> is_StepJob job \<Longrightarrow> sys_step sha d (snd (EnqueueInTxAt job at d))"

abbreviation sys_path :: "(string \<Rightarrow> string \<Rightarrow> string) \<Rightarrow> db \<Rightarrow> db \<Rightarrow> bool" where
  "sys_path sha \<equiv> (sys_step sha)\<^sup>*\<^sup>*"

definition reachable :: "(string \<Rightarrow> string \<Rightarrow> string) \<Rightarrow> db \<Rightarrow> bool" where
  "reachable sha d \<longleftrightarrow> (\<exists>t. sys_path sha (empty_db t) d)"

lemma reachable_step: "reachable sha d \<Longrightarrow> sys_step sha d d' \<Longrightarrow> reachable sha d'"
  unfolding reachable_def by (meson rtranclp.rtrancl_into_rtrancl)

lemma reachable_induct [consumes 1, case_names init step]:
  assumes "reachable sha d" "\<And>t. P (empty_db t)"
    and "\<And>d d'. reachable sha d \<Longrightarrow> P d \<Longrightarrow> sys_step sha d d' \<Longrightarrow> P d'"
  shows "P d"
proof -
  obtain t where "sys_path sha (empty_db t) d" using assms(1) by (auto simp: reachable_def)
  then show ?thesis
  proof (induction rule: rtranclp_induct)
    case base
    show ?case by (rule assms(2))
  next
    case (step y z)
    moreover from step.hyps(1) have "reachable sha y" by (auto simp: reachable_def)
    ultimately show ?case using assms(3) by blast
  qed
qed

section \<open>Invariants of the system\<close>

text \<open>
  What is left to show for a property that the frame keeps: that the transactions that
  move, create or feed runs keep it.
\<close>

context store_frame
begin

lemma sys_step_frame:
  assumes all: "\<And>t. T t" and "sys_step sha d d'" "I d"
    and start: "\<And>org ctx dm req newID. id_text newID \<Longrightarrow> I (snd (start_run_tx org (start_run_row ctx dm req org newID) d))"
    and answer: "\<And>run msg a. snapshot d run \<Longrightarrow> I (snd (answer_tx run msg a d))"
    and cancel: "\<And>run. snapshot d run \<Longrightarrow> I (snd (cancel_tx run d))"
    and claim: "\<And>r t s i. enqueued d (StepJob r t s i) \<Longrightarrow> I (snd (claim (StepJob r t s i) d))"
    and fail: "\<And>r t s i reason msg. enqueued d (StepJob r t s i) \<Longrightarrow> I (snd (failRun (StepJob r t s i) reason msg d))"
    and mark: "\<And>r t s i. enqueued d (StepJob r t s i) \<Longrightarrow>
      I (snd (txStale (markCancelledTx (StepJob r t s i) :: unit dbm) d))"
    and commit: "\<And>r t s i attempt enc step result rec. enqueued d (StepJob r t s i) \<Longrightarrow>
      I (snd (commit_tx sha (StepJob r t s i) attempt enc step result rec d))"
    and spawn: "\<And>run s i req policy newID. id_text newID \<Longrightarrow> enqueued d (StepJob (Run_ID run) (Run_TenantID run) s i) \<Longrightarrow>
      snapshot d run \<Longrightarrow> resolvePolicy (Req_spec req) (Run_Policy run) = Inr policy \<Longrightarrow>
      I (snd (spawn_tx run (StepJob (Run_ID run) (Run_TenantID run) s i)
        (new_child run (StepJob (Run_ID run) (Run_TenantID run) s i) req policy newID) d))"
    and close: "\<And>t wid. I (snd (tx (tryCloseWait t wid closeReasonTimeout) d))"
  shows "I d'"
  using assms(2)
proof cases
  case (tick t)
  then show ?thesis using assms(3) store_frame.tick [OF store_frame_axioms] by simp
qed (simp_all only: assms(4-), (rule preservesD [where I = I and s = d, OF _ assms(3)],
      (erule EnqueueOther EnqueueOtherAt | intro pres_intros all))+)

end

context store_invariant
begin

lemma sys_step_runs:
  assumes all: "\<And>t. T t" and "sys_step sha d d'" "I d"
    and start: "\<And>org ctx dm req newID. id_text newID \<Longrightarrow> I (snd (start_run_tx org (start_run_row ctx dm req org newID) d))"
    and spawn: "\<And>run s i req policy newID. id_text newID \<Longrightarrow> enqueued d (StepJob (Run_ID run) (Run_TenantID run) s i) \<Longrightarrow>
      snapshot d run \<Longrightarrow> resolvePolicy (Req_spec req) (Run_Policy run) = Inr policy \<Longrightarrow>
      I (snd (spawn_tx run (StepJob (Run_ID run) (Run_TenantID run) s i)
        (new_child run (StepJob (Run_ID run) (Run_TenantID run) s i) req policy newID) d))"
  shows "I d'"
proof (rule sys_step_frame [OF all assms(2,3) start])
qed (assumption | erule (3) spawn | rule preservesD [where I = I and s = d, OF _ assms(3)], intro pres_intros all)+

end

context store_invariant_create
begin

lemma sys_step_inv:
  assumes all: "\<And>t. T t" and "sys_step sha d d'" "I d"
  shows "I d'"
  using assms(2,3)
proof (induction rule: sys_step.induct)
  case (tick d t)
  then show ?case by (simp add: store_frame.tick [OF store_frame_axioms])
qed ((rule preservesD [rotated], assumption, (erule EnqueueOther EnqueueOtherAt | intro pres_intros all))+)

lemma sys_path_inv:
  assumes "\<And>t. T t" "sys_path sha d d'" "I d"
  shows "I d'"
  using assms(2,3) by (induction rule: rtranclp_induct) (auto intro: sys_step_inv [OF assms(1)])

lemma reachable_inv:
  assumes "\<And>t. T t" "reachable sha d" "\<And>t. I (empty_db t)"
  shows "I d"
  using assms(2,3) sys_path_inv [OF assms(1)] by (auto simp: reachable_def)

end

end
