(* ===== verification/Invariants.thy ===== *)
theory Invariants
  imports System
begin

text \<open>
  The invariants that every single write of the store keeps: the sound event log, the
  limits of the session memory, the unique keys of runs, steps, waits and members, and the
  facts that never become false again (a run that was read, an enqueued job, the events of
  a log, a wait that is closed or resumed). Each is an interpretation of
  \<open>store_invariant_create\<close>.
\<close>

section \<open>How the writes change the tables\<close>

lemma preserves_Append_rule:
  assumes "\<And>d s. I d \<Longrightarrow> find (session_in t sid) (sessions d) = Some s \<Longrightarrow>
      find (\<lambda>e. Ev_SessionID e = sid \<and> Ev_Seq e = Sess_last_seq s + 1) (session_events d) = None \<Longrightarrow>
      I (logged d t sid a k p (Sess_last_seq s + 1))"
  shows "preserves I (Events_Append t sid a k p)"
  using assms by (simp add: preserves_wp wp_simps split: option.split)

lemma preserves_Runs_exec:
  assumes "\<And>d. I d \<Longrightarrow> I (d\<lparr>agent_runs := upd_where (run_in t rid) (f (db_now d)) (agent_runs d)\<rparr>)"
  shows "preserves I (Runs_exec t rid f)"
  using assms by (simp add: preserves_wp wp_simps)

lemma preserves_run_writes:
  assumes "\<And>d f. I d \<Longrightarrow> (\<And>r. Run_ID (f r) = Run_ID r \<and> Run_TenantID (f r) = Run_TenantID r \<and>
      Run_SessionID (f r) = Run_SessionID r \<and> Run_ParentRunID (f r) = Run_ParentRunID r \<and>
      Run_SpawnKey (f r) = Run_SpawnKey r \<and> Run_Policy (f r) = Run_Policy r) \<Longrightarrow>
      I (d\<lparr>agent_runs := upd_where (run_in t rid) f (agent_runs d)\<rparr>)"
  shows "preserves I (Runs_SetHistory t rid h)" "preserves I (Runs_SetState t rid st fr fm)"
    "preserves I (Runs_SetResult t rid res)" "preserves I (Runs_RequestCancel t rid)"
  unfolding Runs_SetHistory_def Runs_SetState_def Runs_SetResult_def Runs_RequestCancel_def
  by (rule preserves_Runs_exec, rule assms, assumption, simp)+

lemma preserves_InsertStep_rule:
  assumes "\<And>d x. I d \<Longrightarrow> find (run_in t (Step_RunID x)) (agent_runs d) \<noteq> None \<Longrightarrow>
      find (\<lambda>y. Step_RunID y = Step_RunID x \<and> Step_StepIndex y = Step_StepIndex x) (agent_run_steps d) = None \<Longrightarrow>
      I (d\<lparr>agent_run_steps := agent_run_steps d @ [x]\<rparr>)"
  shows "preserves I (Runs_InsertStep t st)"
  using assms [of _ "st\<lparr>Step_CreatedAt := _\<rparr>"] by (auto simp: preserves_wp wp_simps)

lemma preserves_RunCreate_rule:
  assumes "\<And>d r. I d \<Longrightarrow> find (session_in t (Run_SessionID run)) (sessions d) \<noteq> None \<Longrightarrow>
      find (run_conflict t run) (agent_runs d) = None \<Longrightarrow> parent_exists run (agent_runs d) \<Longrightarrow>
      I (d\<lparr>agent_runs := agent_runs d @ [created_run (db_now d) t run]\<rparr>)"
  shows "preserves I (Runs_Create t run)"
  using assms by (simp add: preserves_wp wp_simps)

lemma preserves_Waits_exec:
  assumes "\<And>d. I d \<Longrightarrow> I (d\<lparr>run_waits := upd_where (p d) (f (db_now d)) (run_waits d)\<rparr>)"
  shows "preserves I (Waits_exec p f)"
  using assms by (simp add: preserves_wp wp_simps)

text \<open>Updates of waits that keep whether a wait is open, and updates that close waits.\<close>

lemma preserves_wait_updates:
  assumes "\<And>d p f. I d \<Longrightarrow> (\<And>w. Wait_ID (f w) = Wait_ID w \<and> Wait_ParentRunID (f w) = Wait_ParentRunID w \<and>
      Wait_State (f w) = Wait_State w \<and> (Wait_ResumedAt w \<noteq> None \<longrightarrow> Wait_ResumedAt (f w) \<noteq> None)) \<Longrightarrow>
      I (d\<lparr>run_waits := upd_where p f (run_waits d)\<rparr>)"
  shows "preserves I (Waits_SetResult t wid out)" "preserves I (Waits_MarkResumed t wid)"
  unfolding Waits_SetResult_def Waits_MarkResumed_def
  by (intro pres_intros preserves_Waits_exec assms; simp)+

lemma preserves_wait_closes:
  assumes "\<And>d p f. I d \<Longrightarrow> (\<And>w. p w \<Longrightarrow> Wait_State w = WaitOpen) \<Longrightarrow>
      (\<And>w. Wait_ID (f w) = Wait_ID w \<and> Wait_ParentRunID (f w) = Wait_ParentRunID w \<and>
        Wait_State (f w) \<noteq> WaitOpen \<and> Wait_ResumedAt (f w) = Wait_ResumedAt w) \<Longrightarrow>
      I (d\<lparr>run_waits := upd_where p f (run_waits d)\<rparr>)"
  shows "ws \<noteq> WaitOpen \<Longrightarrow> preserves I (Waits_Close t wid ws out)"
  unfolding Waits_Close_def by (intro pres_intros preserves_Waits_exec assms; simp)

text \<open>\<open>ClaimDue\<close> names the rows to close by their ids; ids are unique.\<close>

lemma preserves_ClaimDue_rule:
  assumes "\<And>d p. I d \<Longrightarrow> I (d\<lparr>run_waits := upd_where p (Wait_State_update (\<lambda>_. WaitTimedOut)) (run_waits d)\<rparr>)"
  shows "preserves I (Waits_ClaimDue t now lim)"
  using assms by (simp add: Waits_ClaimDue_def preserves_wp wp_simps)

lemma preserves_MemSet_rule:
  assumes "\<And>d ms. I d \<Longrightarrow> I (d\<lparr>session_memory := ms\<rparr>)"
  shows "preserves I (Memory_Set t e)" "preserves I (Memory_Delete t sid key)"
  using assms by (simp_all add: Memory_Delete_def preserves_wp wp_simps)

lemma preserves_Enqueue_rule:
  assumes "\<And>d j. I d \<Longrightarrow> I (d\<lparr>jobs := jobs d @ [j]\<rparr>)"
  shows "preserves I (EnqueueInTx job)" "preserves I (EnqueueInTxAt job at)"
  using assms by (simp_all add: preserves_wp wp_simps)

lemma preserves_aside_rule:
  assumes "\<And>d rs ps pp. I d \<Longrightarrow> I (d\<lparr>provider_instances := ps, resources := rs, periodic_prompts := pp\<rparr>)"
  shows "preserves I (aside f g h)"
  using assms by (simp add: preserves_wp wp_simps)

lemma preserves_SessCreate_rule:
  assumes "\<And>d s'. I d \<Longrightarrow> find (\<lambda>x. Sess_ID x = Sess_ID s') (sessions d) = None \<Longrightarrow> Sess_last_seq s' = 0 \<Longrightarrow>
      Sess_TenantID s' = t \<Longrightarrow> I (d\<lparr>sessions := sessions d @ [s']\<rparr>)"
  shows "preserves I (Sessions_Create t s)"
  using assms by (simp add: Sessions_Create_def preserves_wp wp_simps split: option.split)

lemma preserves_session_updates:
  assumes "\<And>d f. I d \<Longrightarrow> (\<And>s. Sess_ID (f s) = Sess_ID s \<and> Sess_TenantID (f s) = Sess_TenantID s \<and>
      Sess_last_seq (f s) = Sess_last_seq s) \<Longrightarrow>
      I (d\<lparr>sessions := upd_where (session_in t sid) f (sessions d)\<rparr>)"
  shows "preserves I (Sessions_UpdateLabels t sid ls)" "preserves I (Sessions_Archive t sid)"
  using assms by (simp_all add: Sessions_UpdateLabels_def Sessions_Archive_def Sessions_Get_def preserves_wp wp_simps
      split: option.split)

lemma preserves_admin_writes:
  assumes "\<And>d x. I d \<Longrightarrow> I (d\<lparr>tenants := x\<rparr>)" "\<And>d x. I d \<Longrightarrow> I (d\<lparr>api_keys := x\<rparr>)"
    "\<And>d x. I d \<Longrightarrow> I (d\<lparr>credentials := x\<rparr>)"
  shows "preserves I (Tenants_Create tn)" "preserves I (APIKeys_Create key)" "preserves I (APIKeys_Revoke t kid)"
    "preserves I (Credentials_Put t c)" "preserves I (Credentials_Delete t kind name)"
  using assms by (simp_all add: Tenants_Create_def APIKeys_Create_def APIKeys_Revoke_def Credentials_Put_def
      Credentials_Delete_def preserves_wp wp_simps)

text \<open>The write of a wait: the row, which conflicts with no other, then its members.\<close>

lemma preserves_Waits_insert_member:
  assumes "\<And>d m. I d \<Longrightarrow> find (\<lambda>x. Member_WaitID x = Member_WaitID m \<and>
      (Member_RunID x = Member_RunID m \<or> Member_Ordinal x = Member_Ordinal m)) (run_wait_members d) = None \<Longrightarrow>
    I (d\<lparr>run_wait_members := run_wait_members d @ [m]\<rparr>)"
  shows "preserves I (Waits_insert_member wid m)"
  using assms [of _ "m\<lparr>Member_WaitID := wid\<rparr>"] by (auto intro!: preservesI simp: wp_simps)

lemma preserves_Waits_Create:
  assumes "\<And>d w. I d \<Longrightarrow> Wait_State w = WaitOpen \<Longrightarrow> Wait_ResumedAt w = None \<Longrightarrow>
      find (wait_conflict w) (run_waits d) = None \<Longrightarrow> wait_tenant d t w \<Longrightarrow>
      Wait_ID w = Wait_ID w0 \<and> Wait_ParentRunID w = Wait_ParentRunID w0 \<and> Wait_StepIndex w = Wait_StepIndex w0 \<and>
      Wait_ToolCallID w = Wait_ToolCallID w0 \<and> Wait_Deadline w = Wait_Deadline w0 \<Longrightarrow>
      I (d\<lparr>run_waits := run_waits d @ [w]\<rparr>)"
    and "\<And>d m. I d \<Longrightarrow> find (\<lambda>x. Member_WaitID x = Member_WaitID m \<and>
      (Member_RunID x = Member_RunID m \<or> Member_Ordinal x = Member_Ordinal m)) (run_wait_members d) = None \<Longrightarrow>
      I (d\<lparr>run_wait_members := run_wait_members d @ [m]\<rparr>)"
  shows "preserves I (Waits_Create t w0 ms)"
proof (rule preservesI)
  fix d assume I: "I d"
  define w1 where "w1 = (if Wait_Kind w0 = '''' then w0\<lparr>Wait_Kind := WaitKindWait\<rparr> else w0)"
  define w where "w = (if Wait_TimeoutPolicy w1 = '''' then w1\<lparr>Wait_TimeoutPolicy := TimeoutPolicyResolve\<rparr> else w1)"
  let ?w = "w\<lparr>Wait_State := WaitOpen, Wait_Result := None, Wait_ResumedAt := None\<rparr>"
  have same: "Wait_ID w = Wait_ID w0" "Wait_ParentRunID w = Wait_ParentRunID w0" "Wait_StepIndex w = Wait_StepIndex w0"
    "Wait_ToolCallID w = Wait_ToolCallID w0" "Wait_Deadline w = Wait_Deadline w0" by (simp_all add: w_def w1_def)
  have c: "wait_conflict ?w = wait_conflict w" by (simp add: wait_conflict_def fun_eq_iff)
  have forM: "preserves I (forM ms (Waits_insert_member (Wait_ID w)))"
    using assms(2) by (intro pres_intros preserves_Waits_insert_member)
  have "I (d\<lparr>run_waits := run_waits d @ [?w]\<rparr>)"
    if "find (run_in t (Wait_ParentRunID w)) (agent_runs d) \<noteq> None" "find (wait_conflict w) (run_waits d) = None"
    using that by (intro assms(1) I) (simp_all add: c wait_tenant_def same)
  then show "wp (Waits_Create t w0 ms) (\<lambda>_. I) (\<lambda>_. I) d"
    using forM I
    by (simp add: Waits_Create_def Let_def wp_simps w1_def [symmetric] w_def [symmetric] preserves_wp
        split: option.split)
qed

lemmas write_rules = preserves_Append_rule preserves_run_writes preserves_InsertStep_rule preserves_RunCreate_rule
  preserves_wait_updates preserves_wait_closes preserves_ClaimDue_rule preserves_MemSet_rule preserves_Enqueue_rule
  preserves_aside_rule
  preserves_SessCreate_rule preserves_session_updates preserves_admin_writes preserves_Waits_Create

lemma filter_upd_where_drop:
  "(\<And>r. p r \<Longrightarrow> \<not> q (f r)) \<Longrightarrow> filter q (upd_where p f rows) = filter (\<lambda>r. \<not> p r \<and> q r) rows"
  by (induction rows) auto

lemma filter_upd_where_stay:
  "(\<And>r. q (f r) = q r) \<Longrightarrow> (\<And>r. k (f r) = k r) \<Longrightarrow>
    map k (filter q (upd_where p f rows)) = map k (filter q rows)"
  by (induction rows) auto

lemma key_unique_subfilter: "key_unique k (filter q rows) \<Longrightarrow> key_unique k (filter (\<lambda>r. p r \<and> q r) rows)"
  by (induction rows) (auto split: if_splits)

section \<open>The event log\<close>

lemma log_ok_cong:
  assumes "sessions d' = sessions d" "session_events d' = session_events d"
  shows "log_ok d' = log_ok d"
  unfolding log_ok_def log_of_def assms by (rule refl)

lemma log_ok_frame [simp]:
  "log_ok (d\<lparr>db_now := x_db_now\<rparr>) = log_ok d"
  "log_ok (d\<lparr>tenants := x_tenants\<rparr>) = log_ok d"
  "log_ok (d\<lparr>api_keys := x_api_keys\<rparr>) = log_ok d"
  "log_ok (d\<lparr>credentials := x_credentials\<rparr>) = log_ok d"
  "log_ok (d\<lparr>agent_runs := x_agent_runs\<rparr>) = log_ok d"
  "log_ok (d\<lparr>agent_run_steps := x_agent_run_steps\<rparr>) = log_ok d"
  "log_ok (d\<lparr>provider_instances := x_provider_instances\<rparr>) = log_ok d"
  "log_ok (d\<lparr>resources := x_resources\<rparr>) = log_ok d"
  "log_ok (d\<lparr>session_memory := x_session_memory\<rparr>) = log_ok d"
  "log_ok (d\<lparr>run_waits := x_run_waits\<rparr>) = log_ok d"
  "log_ok (d\<lparr>run_wait_members := x_run_wait_members\<rparr>) = log_ok d"
  "log_ok (d\<lparr>periodic_prompts := x_periodic_prompts\<rparr>) = log_ok d"
  "log_ok (d\<lparr>jobs := x_jobs\<rparr>) = log_ok d"
  "log_ok (d\<lparr>notifications := x_notifications\<rparr>) = log_ok d"
  by (rule log_ok_cong; simp)+

lemma log_okD:
  assumes "log_ok d"
  shows "key_unique Sess_ID (sessions d)"
    and "e \<in> set (session_events d) \<Longrightarrow> Ev_SessionID e \<in> Sess_ID ` set (sessions d)"
    and "s \<in> set (sessions d) \<Longrightarrow> 0 \<le> Sess_last_seq s \<and> map Ev_Seq (log_of d (Sess_ID s)) = [1..Sess_last_seq s]"
  using assms unfolding log_ok_def by blast+

lemma log_okI:
  assumes "key_unique Sess_ID (sessions d)"
    and "\<And>e. e \<in> set (session_events d) \<Longrightarrow> Ev_SessionID e \<in> Sess_ID ` set (sessions d)"
    and "\<And>s. s \<in> set (sessions d) \<Longrightarrow> 0 \<le> Sess_last_seq s \<and> map Ev_Seq (log_of d (Sess_ID s)) = [1..Sess_last_seq s]"
  shows "log_ok d"
  using assms unfolding log_ok_def by blast

lemma log_ok_new_session:
  assumes "log_ok d" "find (\<lambda>x. Sess_ID x = Sess_ID s) (sessions d) = None" "Sess_last_seq s = 0"
  shows "log_ok (d\<lparr>sessions := sessions d @ [s]\<rparr>)"
proof (rule log_okI)
  have new: "Sess_ID s \<notin> Sess_ID ` set (sessions d)" using assms(2) by (auto simp: find_None_iff)
  have "Ev_SessionID e \<noteq> Sess_ID s" if "e \<in> set (session_events d)" for e
    using log_okD(2) [OF assms(1) that] new by metis
  then have none: "log_of d (Sess_ID s) = []" by (simp add: log_of_def filter_empty_conv)
  show "key_unique Sess_ID (sessions (d\<lparr>sessions := sessions d @ [s]\<rparr>))"
    using log_okD(1) [OF assms(1)] new by simp
  show "0 \<le> Sess_last_seq r \<and> map Ev_Seq (log_of (d\<lparr>sessions := sessions d @ [s]\<rparr>) (Sess_ID r)) = [1..Sess_last_seq r]"
    if "r \<in> set (sessions (d\<lparr>sessions := sessions d @ [s]\<rparr>))" for r
  proof (cases "r = s")
    case True
    with none assms(3) show ?thesis by (simp add: log_of_def)
  next
    case False
    with that have "r \<in> set (sessions d)" by simp
    from log_okD(3) [OF assms(1) this] show ?thesis by (simp add: log_of_def)
  qed
  show "Ev_SessionID e \<in> Sess_ID ` set (sessions (d\<lparr>sessions := sessions d @ [s]\<rparr>))"
    if "e \<in> set (session_events (d\<lparr>sessions := sessions d @ [s]\<rparr>))" for e
    using log_okD(2) [OF assms(1)] that by simp
qed

lemma log_ok_upd_session:
  assumes "log_ok d" "\<And>s. Sess_ID (f s) = Sess_ID s" "\<And>s. Sess_last_seq (f s) = Sess_last_seq s"
  shows "log_ok (d\<lparr>sessions := upd_where p f (sessions d)\<rparr>)"
proof (rule log_okI)
  let ?d = "d\<lparr>sessions := upd_where p f (sessions d)\<rparr>"
  have ids: "map Sess_ID (sessions ?d) = map Sess_ID (sessions d)" using assms(2) by (simp add: map_upd_where)
  then show "key_unique Sess_ID (sessions ?d)" using log_okD(1) [OF assms(1)] by simp
  have "Sess_ID ` set (sessions ?d) = Sess_ID ` set (sessions d)" using ids by (metis list.set_map)
  then show "Ev_SessionID e \<in> Sess_ID ` set (sessions ?d)" if "e \<in> set (session_events ?d)" for e
    using that log_okD(2) [OF assms(1), of e] by simp
  show "0 \<le> Sess_last_seq s \<and> map Ev_Seq (log_of ?d (Sess_ID s)) = [1..Sess_last_seq s]"
    if "s \<in> set (sessions ?d)" for s
  proof -
    from that obtain q where q: "q \<in> set (sessions d)" and s: "s = (if p q then f q else q)"
      by (auto simp: set_upd_where)
    have "Sess_ID s = Sess_ID q" "Sess_last_seq s = Sess_last_seq q" using s assms(2,3) by simp_all
    then show ?thesis using log_okD(3) [OF assms(1) q] by (simp add: log_of_def)
  qed
qed

interpretation log_inv: store_invariant_create log_ok "\<lambda>_. True" sha for sha
proof unfold_locales
  show "preserves log_ok (Events_Append t sid a k p)" for t sid a k p by (rule preserves_log_ok_Append)
  show "log_ok d \<Longrightarrow> log_ok (d\<lparr>db_now := now'\<rparr>)" for d now' by simp
qed ((rule write_rules; simp add: log_ok_new_session log_ok_upd_session)+)

section \<open>Session memory\<close>

lemma memory_ok_frame [simp]:
  "memory_ok (d\<lparr>db_now := x_db_now\<rparr>) = memory_ok d"
  "memory_ok (d\<lparr>tenants := x_tenants\<rparr>) = memory_ok d"
  "memory_ok (d\<lparr>api_keys := x_api_keys\<rparr>) = memory_ok d"
  "memory_ok (d\<lparr>sessions := x_sessions\<rparr>) = memory_ok d"
  "memory_ok (d\<lparr>session_events := x_session_events\<rparr>) = memory_ok d"
  "memory_ok (d\<lparr>credentials := x_credentials\<rparr>) = memory_ok d"
  "memory_ok (d\<lparr>agent_runs := x_agent_runs\<rparr>) = memory_ok d"
  "memory_ok (d\<lparr>agent_run_steps := x_agent_run_steps\<rparr>) = memory_ok d"
  "memory_ok (d\<lparr>provider_instances := x_provider_instances\<rparr>) = memory_ok d"
  "memory_ok (d\<lparr>resources := x_resources\<rparr>) = memory_ok d"
  "memory_ok (d\<lparr>run_waits := x_run_waits\<rparr>) = memory_ok d"
  "memory_ok (d\<lparr>run_wait_members := x_run_wait_members\<rparr>) = memory_ok d"
  "memory_ok (d\<lparr>periodic_prompts := x_periodic_prompts\<rparr>) = memory_ok d"
  "memory_ok (d\<lparr>jobs := x_jobs\<rparr>) = memory_ok d"
  "memory_ok (d\<lparr>notifications := x_notifications\<rparr>) = memory_ok d"
  "memory_ok (logged d t sid a k p n) = memory_ok d"
  by (simp_all add: memory_ok_def)

interpretation memory_inv: store_invariant_create memory_ok "\<lambda>_. True" sha for sha
proof unfold_locales
  show "preserves memory_ok (Memory_Set t e)" for t e by (rule preserves_memory_ok_Set)
  show "preserves memory_ok (Memory_Delete t sid key)" for t sid key by (rule preserves_memory_ok_Delete)
  show "memory_ok d \<Longrightarrow> memory_ok (d\<lparr>db_now := now'\<rparr>)" for d now' by simp
qed ((rule write_rules; simp)+)

section \<open>Unique keys\<close>

text \<open>
  The primary keys and unique indexes of the migrations that the loop relies on: run ids,
  one run per spawn key of a tenant, parents that exist, one record per step of a run, wait
  ids, at most one open wait per parent.
\<close>

definition keys_ok :: "db \<Rightarrow> bool" where
  "keys_ok d \<longleftrightarrow>
    key_unique Run_ID (agent_runs d) \<and>
    key_unique (\<lambda>r. (Run_TenantID r, Run_SpawnKey r)) (filter (\<lambda>r. Run_SpawnKey r \<noteq> []) (agent_runs d)) \<and>
    (\<forall>r\<in>set (agent_runs d). parent_exists r (agent_runs d)) \<and>
    key_unique (\<lambda>s. (Step_RunID s, Step_StepIndex s)) (agent_run_steps d) \<and>
    key_unique Wait_ID (run_waits d) \<and>
    key_unique Wait_ParentRunID (filter (\<lambda>w. Wait_State w = WaitOpen) (run_waits d))"

lemma keys_ok_frame [simp]:
  "keys_ok (d\<lparr>db_now := x_db_now\<rparr>) = keys_ok d"
  "keys_ok (d\<lparr>tenants := x_tenants\<rparr>) = keys_ok d"
  "keys_ok (d\<lparr>api_keys := x_api_keys\<rparr>) = keys_ok d"
  "keys_ok (d\<lparr>sessions := x_sessions\<rparr>) = keys_ok d"
  "keys_ok (d\<lparr>session_events := x_session_events\<rparr>) = keys_ok d"
  "keys_ok (d\<lparr>credentials := x_credentials\<rparr>) = keys_ok d"
  "keys_ok (d\<lparr>provider_instances := x_provider_instances\<rparr>) = keys_ok d"
  "keys_ok (d\<lparr>resources := x_resources\<rparr>) = keys_ok d"
  "keys_ok (d\<lparr>session_memory := x_session_memory\<rparr>) = keys_ok d"
  "keys_ok (d\<lparr>run_wait_members := x_run_wait_members\<rparr>) = keys_ok d"
  "keys_ok (d\<lparr>periodic_prompts := x_periodic_prompts\<rparr>) = keys_ok d"
  "keys_ok (d\<lparr>jobs := x_jobs\<rparr>) = keys_ok d"
  "keys_ok (d\<lparr>notifications := x_notifications\<rparr>) = keys_ok d"
  "keys_ok (logged d t sid a k p n) = keys_ok d"
  by (simp_all add: keys_ok_def)

lemma parent_exists_mono:
  "parent_exists r rs \<Longrightarrow> Run_ID ` set rs \<subseteq> Run_ID ` set rs' \<Longrightarrow> Run_ParentRunID r' = Run_ParentRunID r \<Longrightarrow>
    parent_exists r' rs'"
  by (auto simp: parent_exists_def split: option.splits)

lemma keys_ok_run_update:
  assumes "keys_ok d" "\<And>r. Run_ID (f r) = Run_ID r \<and> Run_TenantID (f r) = Run_TenantID r \<and>
      Run_SessionID (f r) = Run_SessionID r \<and> Run_ParentRunID (f r) = Run_ParentRunID r \<and>
      Run_SpawnKey (f r) = Run_SpawnKey r \<and> Run_Policy (f r) = Run_Policy r"
  shows "keys_ok (d\<lparr>agent_runs := upd_where p f (agent_runs d)\<rparr>)"
proof -
  have ids: "map Run_ID (upd_where p f (agent_runs d)) = map Run_ID (agent_runs d)"
    using assms(2) by (simp add: map_upd_where)
  then have set: "Run_ID ` set (upd_where p f (agent_runs d)) = Run_ID ` set (agent_runs d)"
    by (metis list.set_map)
  have "parent_exists r (upd_where p f (agent_runs d))" if "r \<in> set (upd_where p f (agent_runs d))" for r
  proof -
    from that obtain q where q: "q \<in> set (agent_runs d)" "r = (if p q then f q else q)"
      by (auto simp: set_upd_where)
    then have "Run_ParentRunID r = Run_ParentRunID q" using assms(2) by simp
    with q(1) assms(1) set show ?thesis unfolding keys_ok_def by (blast intro: parent_exists_mono)
  qed
  then show ?thesis using assms ids by (simp add: keys_ok_def filter_upd_where_stay)
qed

lemma keys_ok_run_insert:
  assumes "keys_ok d" "find (run_conflict t run) (agent_runs d) = None" "parent_exists run (agent_runs d)"
    and r: "Run_ID r = Run_ID run" "Run_TenantID r = t" "Run_SpawnKey r = Run_SpawnKey run"
      "Run_ParentRunID r = Run_ParentRunID run"
  shows "keys_ok (d\<lparr>agent_runs := agent_runs d @ [r]\<rparr>)"
proof -
  have c: "\<not> run_conflict t run x" if "x \<in> set (agent_runs d)" for x
    using find_NoneD [OF assms(2) that] .
  have "parent_exists x (agent_runs d @ [r])" if "x \<in> set (agent_runs d @ [r])" for x
  proof -
    have "\<exists>y. parent_exists y (agent_runs d) \<and> Run_ParentRunID x = Run_ParentRunID y"
      using that assms(1,3) r(4) by (auto simp: keys_ok_def)
    then show ?thesis by (auto intro: parent_exists_mono)
  qed
  moreover have "Run_ID r \<notin> Run_ID ` set (agent_runs d)" using c r(1) by (force simp: run_conflict_def)
  moreover have "(Run_TenantID r, Run_SpawnKey r) \<notin> (\<lambda>r. (Run_TenantID r, Run_SpawnKey r)) `
      {x \<in> set (agent_runs d). Run_SpawnKey x \<noteq> []}"
    using c r(2,3) by (force simp: run_conflict_def)
  ultimately show ?thesis using assms(1) by (simp add: keys_ok_def)
qed

lemma keys_ok_wait_insert:
  assumes "keys_ok d" "find (wait_conflict w) (run_waits d) = None"
  shows "keys_ok (d\<lparr>run_waits := run_waits d @ [w]\<rparr>)"
proof -
  have c: "\<not> wait_conflict w x" if "x \<in> set (run_waits d)" for x using find_NoneD [OF assms(2) that] .
  have "Wait_ID w \<notin> Wait_ID ` set (run_waits d)" using c by (force simp: wait_conflict_def)
  moreover have "Wait_ParentRunID w \<notin> Wait_ParentRunID ` {x \<in> set (run_waits d). Wait_State x = WaitOpen}"
    using c by (force simp: wait_conflict_def)
  ultimately show ?thesis using assms(1) by (simp add: keys_ok_def)
qed

lemma keys_ok_wait_update:
  assumes "keys_ok d" "\<And>w. Wait_ID (f w) = Wait_ID w" "\<And>w. Wait_ParentRunID (f w) = Wait_ParentRunID w"
    and "(\<forall>w. Wait_State (f w) = Wait_State w) \<or> (\<forall>w. Wait_State (f w) \<noteq> WaitOpen)"
  shows "keys_ok (d\<lparr>run_waits := upd_where p f (run_waits d)\<rparr>)"
proof -
  have "key_unique Wait_ParentRunID (filter (\<lambda>w. Wait_State w = WaitOpen) (upd_where p f (run_waits d)))"
    using assms(4)
  proof
    assume "\<forall>w. Wait_State (f w) = Wait_State w"
    then show ?thesis using assms(1,3) by (simp add: filter_upd_where_stay keys_ok_def)
  next
    assume "\<forall>w. Wait_State (f w) \<noteq> WaitOpen"
    then show ?thesis using assms(1)
      by (simp add: filter_upd_where_drop keys_ok_def key_unique_subfilter)
  qed
  then show ?thesis using assms(1,2) by (simp add: keys_ok_def map_upd_where)
qed

lemma keys_ok_step_insert:
  assumes "keys_ok d" "find (\<lambda>y. Step_RunID y = Step_RunID x \<and> Step_StepIndex y = Step_StepIndex x) (agent_run_steps d) = None"
  shows "keys_ok (d\<lparr>agent_run_steps := agent_run_steps d @ [x]\<rparr>)"
  using assms by (auto simp: keys_ok_def find_None_iff image_iff)

interpretation keys_inv: store_invariant_create keys_ok "\<lambda>_. True" sha for sha
proof unfold_locales
  show "keys_ok d \<Longrightarrow> keys_ok (d\<lparr>db_now := now'\<rparr>)" for d now' by simp
  show "preserves keys_ok (Runs_InsertStep t st)" for t st
    by (rule preserves_InsertStep_rule) (rule keys_ok_step_insert)
  show "preserves keys_ok (Waits_Create t w ms)" for t w ms
    by (rule preserves_Waits_Create) (simp_all add: keys_ok_wait_insert)
  show "preserves keys_ok (Runs_Create t run)" for t run
    by (rule preserves_RunCreate_rule) (simp add: keys_ok_run_insert)
qed ((rule write_rules; simp add: keys_ok_run_update keys_ok_wait_update)+)

section \<open>Facts that stay true\<close>

text \<open>A run that was read stays a row; nobody writes its immutable columns.\<close>

lemma snapshot_frame [simp]:
  "snapshot (d\<lparr>db_now := x_db_now\<rparr>) run = snapshot d run"
  "snapshot (d\<lparr>tenants := x_tenants\<rparr>) run = snapshot d run"
  "snapshot (d\<lparr>api_keys := x_api_keys\<rparr>) run = snapshot d run"
  "snapshot (d\<lparr>sessions := x_sessions\<rparr>) run = snapshot d run"
  "snapshot (d\<lparr>session_events := x_session_events\<rparr>) run = snapshot d run"
  "snapshot (d\<lparr>credentials := x_credentials\<rparr>) run = snapshot d run"
  "snapshot (d\<lparr>agent_run_steps := x_agent_run_steps\<rparr>) run = snapshot d run"
  "snapshot (d\<lparr>provider_instances := x_provider_instances\<rparr>) run = snapshot d run"
  "snapshot (d\<lparr>resources := x_resources\<rparr>) run = snapshot d run"
  "snapshot (d\<lparr>session_memory := x_session_memory\<rparr>) run = snapshot d run"
  "snapshot (d\<lparr>run_waits := x_run_waits\<rparr>) run = snapshot d run"
  "snapshot (d\<lparr>run_wait_members := x_run_wait_members\<rparr>) run = snapshot d run"
  "snapshot (d\<lparr>periodic_prompts := x_periodic_prompts\<rparr>) run = snapshot d run"
  "snapshot (d\<lparr>jobs := x_jobs\<rparr>) run = snapshot d run"
  "snapshot (d\<lparr>notifications := x_notifications\<rparr>) run = snapshot d run"
  "snapshot (logged d t sid a k p n) run = snapshot d run"
  by (simp_all add: snapshot_def)

interpretation snapshot_inv: store_invariant_create "\<lambda>d. snapshot d run" "\<lambda>_. True" sha for sha run
proof unfold_locales
  show "snapshot d run \<Longrightarrow> snapshot (d\<lparr>db_now := now'\<rparr>) run" for d now' by simp
  have upd: "snapshot (d\<lparr>agent_runs := upd_where p f (agent_runs d)\<rparr>) run"
    if "snapshot d run" "\<And>r. Run_ID (f r) = Run_ID r \<and> Run_TenantID (f r) = Run_TenantID r \<and>
      Run_SessionID (f r) = Run_SessionID r \<and> Run_ParentRunID (f r) = Run_ParentRunID r \<and>
      Run_SpawnKey (f r) = Run_SpawnKey r \<and> Run_Policy (f r) = Run_Policy r" for d p f
  proof -
    from that(1) obtain r where r: "r \<in> set (agent_runs d)" and eq: "Run_ID r = Run_ID run"
      "Run_TenantID r = Run_TenantID run" "Run_SessionID r = Run_SessionID run"
      "Run_ParentRunID r = Run_ParentRunID run" "Run_SpawnKey r = Run_SpawnKey run" "Run_Policy r = Run_Policy run"
      by (auto simp: snapshot_def)
    let ?r = "if p r then f r else r"
    have "?r \<in> set (upd_where p f (agent_runs d))" using r by (auto simp: set_upd_where)
    then show ?thesis using eq that(2) unfolding snapshot_def by (intro bexI [of _ ?r]) auto
  qed
  show "preserves (\<lambda>d. snapshot d run) (Runs_SetHistory t rid h)"
    "preserves (\<lambda>d. snapshot d run) (Runs_SetState t rid st fr fm)"
    "preserves (\<lambda>d. snapshot d run) (Runs_SetResult t rid res)"
    "preserves (\<lambda>d. snapshot d run) (Runs_RequestCancel t rid)" for t rid h st fr fm res
    by (rule preserves_run_writes, erule upd, blast)+
  show "preserves (\<lambda>d. snapshot d run) (Runs_Create t r)" for t r
    by (rule preserves_RunCreate_rule) (auto simp: snapshot_def)
qed ((rule write_rules; simp)+)

text \<open>The queue keeps its history.\<close>

lemma enqueued_frame [simp]:
  "enqueued (d\<lparr>db_now := x_db_now\<rparr>) job = enqueued d job"
  "enqueued (d\<lparr>tenants := x_tenants\<rparr>) job = enqueued d job"
  "enqueued (d\<lparr>api_keys := x_api_keys\<rparr>) job = enqueued d job"
  "enqueued (d\<lparr>sessions := x_sessions\<rparr>) job = enqueued d job"
  "enqueued (d\<lparr>session_events := x_session_events\<rparr>) job = enqueued d job"
  "enqueued (d\<lparr>credentials := x_credentials\<rparr>) job = enqueued d job"
  "enqueued (d\<lparr>agent_runs := x_agent_runs\<rparr>) job = enqueued d job"
  "enqueued (d\<lparr>agent_run_steps := x_agent_run_steps\<rparr>) job = enqueued d job"
  "enqueued (d\<lparr>provider_instances := x_provider_instances\<rparr>) job = enqueued d job"
  "enqueued (d\<lparr>resources := x_resources\<rparr>) job = enqueued d job"
  "enqueued (d\<lparr>session_memory := x_session_memory\<rparr>) job = enqueued d job"
  "enqueued (d\<lparr>run_waits := x_run_waits\<rparr>) job = enqueued d job"
  "enqueued (d\<lparr>run_wait_members := x_run_wait_members\<rparr>) job = enqueued d job"
  "enqueued (d\<lparr>periodic_prompts := x_periodic_prompts\<rparr>) job = enqueued d job"
  "enqueued (d\<lparr>notifications := x_notifications\<rparr>) job = enqueued d job"
  "enqueued (logged d t sid a k p n) job = enqueued d job"
  by (simp_all add: enqueued_def)

lemma enqueued_snoc [simp]: "enqueued (d\<lparr>jobs := jobs d @ [j]\<rparr>) job \<longleftrightarrow> enqueued d job \<or> Job_Args j = job"
  by (auto simp: enqueued_def)

interpretation enqueued_inv: store_invariant_create "\<lambda>d. enqueued d job" "\<lambda>_. True" sha for sha job
proof unfold_locales
  show "enqueued d job \<Longrightarrow> enqueued (d\<lparr>db_now := now'\<rparr>) job" for d now' by simp
qed ((rule write_rules; simp)+)

text \<open>A log only grows at its end.\<close>

definition log_extends :: "SessionID \<Rightarrow> Event list \<Rightarrow> db \<Rightarrow> bool" where
  "log_extends sid es d \<longleftrightarrow> (\<exists>new. log_of d sid = es @ new)"

lemma log_extends_frame [simp]:
  "log_extends sid es (d\<lparr>db_now := x_db_now\<rparr>) = log_extends sid es d"
  "log_extends sid es (d\<lparr>tenants := x_tenants\<rparr>) = log_extends sid es d"
  "log_extends sid es (d\<lparr>api_keys := x_api_keys\<rparr>) = log_extends sid es d"
  "log_extends sid es (d\<lparr>sessions := x_sessions\<rparr>) = log_extends sid es d"
  "log_extends sid es (d\<lparr>credentials := x_credentials\<rparr>) = log_extends sid es d"
  "log_extends sid es (d\<lparr>agent_runs := x_agent_runs\<rparr>) = log_extends sid es d"
  "log_extends sid es (d\<lparr>agent_run_steps := x_agent_run_steps\<rparr>) = log_extends sid es d"
  "log_extends sid es (d\<lparr>provider_instances := x_provider_instances\<rparr>) = log_extends sid es d"
  "log_extends sid es (d\<lparr>resources := x_resources\<rparr>) = log_extends sid es d"
  "log_extends sid es (d\<lparr>session_memory := x_session_memory\<rparr>) = log_extends sid es d"
  "log_extends sid es (d\<lparr>run_waits := x_run_waits\<rparr>) = log_extends sid es d"
  "log_extends sid es (d\<lparr>run_wait_members := x_run_wait_members\<rparr>) = log_extends sid es d"
  "log_extends sid es (d\<lparr>periodic_prompts := x_periodic_prompts\<rparr>) = log_extends sid es d"
  "log_extends sid es (d\<lparr>jobs := x_jobs\<rparr>) = log_extends sid es d"
  "log_extends sid es (d\<lparr>notifications := x_notifications\<rparr>) = log_extends sid es d"
  by (simp_all add: log_extends_def log_of_def)

lemma log_extends_logged [simp]: "log_extends sid es d \<Longrightarrow> log_extends sid es (logged d t s a k p n)"
  by (auto simp: log_extends_def log_of_logged)

interpretation log_extends_inv: store_invariant_create "log_extends sid es" "\<lambda>_. True" sha for sha sid es
proof unfold_locales
  show "log_extends sid es d \<Longrightarrow> log_extends sid es (d\<lparr>db_now := now'\<rparr>)" for d now' by simp
qed ((rule write_rules; simp)+)

text \<open>A wait that is closed stays closed, and a wait that was resumed stays marked.\<close>

definition wait_closed :: "string \<Rightarrow> db \<Rightarrow> bool" where
  "wait_closed wid d \<longleftrightarrow> wid \<in> Wait_ID ` set (run_waits d) \<and>
    (\<forall>w\<in>set (run_waits d). Wait_ID w = wid \<longrightarrow> Wait_State w \<noteq> WaitOpen)"

definition wait_resumed :: "string \<Rightarrow> db \<Rightarrow> bool" where
  "wait_resumed wid d \<longleftrightarrow> wid \<in> Wait_ID ` set (run_waits d) \<and>
    (\<forall>w\<in>set (run_waits d). Wait_ID w = wid \<longrightarrow> Wait_ResumedAt w \<noteq> None)"

lemma wait_closed_frame [simp]:
  "wait_closed wid (d\<lparr>db_now := x_db_now\<rparr>) = wait_closed wid d"
  "wait_closed wid (d\<lparr>tenants := x_tenants\<rparr>) = wait_closed wid d"
  "wait_closed wid (d\<lparr>api_keys := x_api_keys\<rparr>) = wait_closed wid d"
  "wait_closed wid (d\<lparr>sessions := x_sessions\<rparr>) = wait_closed wid d"
  "wait_closed wid (d\<lparr>session_events := x_session_events\<rparr>) = wait_closed wid d"
  "wait_closed wid (d\<lparr>credentials := x_credentials\<rparr>) = wait_closed wid d"
  "wait_closed wid (d\<lparr>agent_runs := x_agent_runs\<rparr>) = wait_closed wid d"
  "wait_closed wid (d\<lparr>agent_run_steps := x_agent_run_steps\<rparr>) = wait_closed wid d"
  "wait_closed wid (d\<lparr>provider_instances := x_provider_instances\<rparr>) = wait_closed wid d"
  "wait_closed wid (d\<lparr>resources := x_resources\<rparr>) = wait_closed wid d"
  "wait_closed wid (d\<lparr>session_memory := x_session_memory\<rparr>) = wait_closed wid d"
  "wait_closed wid (d\<lparr>run_wait_members := x_run_wait_members\<rparr>) = wait_closed wid d"
  "wait_closed wid (d\<lparr>periodic_prompts := x_periodic_prompts\<rparr>) = wait_closed wid d"
  "wait_closed wid (d\<lparr>jobs := x_jobs\<rparr>) = wait_closed wid d"
  "wait_closed wid (d\<lparr>notifications := x_notifications\<rparr>) = wait_closed wid d"
  "wait_closed wid (logged d t sid a k p n) = wait_closed wid d"
  by (simp_all add: wait_closed_def)

lemma wait_resumed_frame [simp]:
  "wait_resumed wid (d\<lparr>db_now := x_db_now\<rparr>) = wait_resumed wid d"
  "wait_resumed wid (d\<lparr>tenants := x_tenants\<rparr>) = wait_resumed wid d"
  "wait_resumed wid (d\<lparr>api_keys := x_api_keys\<rparr>) = wait_resumed wid d"
  "wait_resumed wid (d\<lparr>sessions := x_sessions\<rparr>) = wait_resumed wid d"
  "wait_resumed wid (d\<lparr>session_events := x_session_events\<rparr>) = wait_resumed wid d"
  "wait_resumed wid (d\<lparr>credentials := x_credentials\<rparr>) = wait_resumed wid d"
  "wait_resumed wid (d\<lparr>agent_runs := x_agent_runs\<rparr>) = wait_resumed wid d"
  "wait_resumed wid (d\<lparr>agent_run_steps := x_agent_run_steps\<rparr>) = wait_resumed wid d"
  "wait_resumed wid (d\<lparr>provider_instances := x_provider_instances\<rparr>) = wait_resumed wid d"
  "wait_resumed wid (d\<lparr>resources := x_resources\<rparr>) = wait_resumed wid d"
  "wait_resumed wid (d\<lparr>session_memory := x_session_memory\<rparr>) = wait_resumed wid d"
  "wait_resumed wid (d\<lparr>run_wait_members := x_run_wait_members\<rparr>) = wait_resumed wid d"
  "wait_resumed wid (d\<lparr>periodic_prompts := x_periodic_prompts\<rparr>) = wait_resumed wid d"
  "wait_resumed wid (d\<lparr>jobs := x_jobs\<rparr>) = wait_resumed wid d"
  "wait_resumed wid (d\<lparr>notifications := x_notifications\<rparr>) = wait_resumed wid d"
  "wait_resumed wid (logged d t sid a k p n) = wait_resumed wid d"
  by (simp_all add: wait_resumed_def)

lemma Wait_IDs_upd: "(\<And>w. Wait_ID (f w) = Wait_ID w) \<Longrightarrow> Wait_ID ` set (upd_where p f ws) = Wait_ID ` set ws"
  by (metis list.set_map map_upd_where)

lemma wait_closed_upd:
  assumes "wait_closed wid d" "\<And>w. Wait_ID (f w) = Wait_ID w"
    and "\<And>w. Wait_State w \<noteq> WaitOpen \<Longrightarrow> Wait_State (f w) \<noteq> WaitOpen"
  shows "wait_closed wid (d\<lparr>run_waits := upd_where p f (run_waits d)\<rparr>)"
  using assms by (simp add: wait_closed_def Wait_IDs_upd ball_upd_where)

lemma wait_resumed_upd:
  assumes "wait_resumed wid d" "\<And>w. Wait_ID (f w) = Wait_ID w"
    and "\<And>w. Wait_ResumedAt w \<noteq> None \<Longrightarrow> Wait_ResumedAt (f w) \<noteq> None"
  shows "wait_resumed wid (d\<lparr>run_waits := upd_where p f (run_waits d)\<rparr>)"
proof -
  have "Wait_ResumedAt x \<noteq> None" if "x \<in> set (upd_where p f (run_waits d))" "Wait_ID x = wid" for x
  proof -
    from that(1) obtain w where w: "w \<in> set (run_waits d)" "x = (if p w then f w else w)"
      by (auto simp: set_upd_where)
    then have "Wait_ResumedAt w \<noteq> None" using that(2) assms(1,2) unfolding wait_resumed_def by metis
    with w assms(3) show ?thesis by presburger
  qed
  then show ?thesis using assms(1,2) unfolding wait_resumed_def by (simp add: Wait_IDs_upd)
qed

lemma wait_insert_keeps:
  assumes "find (wait_conflict w) (run_waits d) = None"
  shows "wait_closed wid d \<Longrightarrow> wait_closed wid (d\<lparr>run_waits := run_waits d @ [w]\<rparr>)"
    and "wait_resumed wid d \<Longrightarrow> wait_resumed wid (d\<lparr>run_waits := run_waits d @ [w]\<rparr>)"
proof -
  have "Wait_ID w \<notin> Wait_ID ` set (run_waits d)"
    using find_NoneD [OF assms] by (force simp: wait_conflict_def)
  then show "wait_closed wid d \<Longrightarrow> wait_closed wid (d\<lparr>run_waits := run_waits d @ [w]\<rparr>)"
    and "wait_resumed wid d \<Longrightarrow> wait_resumed wid (d\<lparr>run_waits := run_waits d @ [w]\<rparr>)"
    by (auto simp: wait_closed_def wait_resumed_def)
qed

interpretation wait_closed_inv: store_invariant_create "wait_closed wid" "\<lambda>_. True" sha for sha wid
proof unfold_locales
  show "wait_closed wid d \<Longrightarrow> wait_closed wid (d\<lparr>db_now := now'\<rparr>)" for d now' by simp
  show "preserves (wait_closed wid) (Waits_Create t w ms)" for t w ms
    by (rule preserves_Waits_Create) (simp_all add: wait_insert_keeps)
qed ((rule write_rules; simp add: wait_closed_upd)+)

interpretation wait_resumed_inv: store_invariant_create "wait_resumed wid" "\<lambda>_. True" sha for sha wid
proof unfold_locales
  show "wait_resumed wid d \<Longrightarrow> wait_resumed wid (d\<lparr>db_now := now'\<rparr>)" for d now' by simp
  show "preserves (wait_resumed wid) (Waits_Create t w ms)" for t w ms
    by (rule preserves_Waits_Create) (simp_all add: wait_insert_keeps)
  show "preserves (wait_resumed wid) (Waits_SetResult t i out)"
    "preserves (wait_resumed wid) (Waits_MarkResumed t i)" for t i out
    by (rule preserves_wait_updates, erule wait_resumed_upd, blast, blast)+
qed ((rule write_rules; simp add: wait_resumed_upd)+)

end
