(* ===== verification/Spawning.thy ===== *)
theory Spawning
  imports Invariants
begin

text \<open>
  Spawning: what a child run may do, how many children a run may have, and that a spawn that
  is repeated finds the child of the first delivery. The invariant \<open>tree_ok\<close> speaks about the
  whole tree of runs; only the creation of runs can break it.
\<close>

section \<open>What the creating transactions do\<close>

text \<open>The state after a run has been created, announced in the log and scheduled.\<close>

definition launched :: "db \<Rightarrow> TenantID \<Rightarrow> AgentRun \<Rightarrow> SessionID \<Rightarrow> RunID \<Rightarrow> EventKind \<Rightarrow> Payload \<Rightarrow> int \<Rightarrow> Job \<Rightarrow> db" where
  "launched d t run sid by kind payload seq job =
    (logged (d\<lparr>agent_runs := agent_runs d @ [created_run (db_now d) t run]\<rparr>) t sid
      (ActorAgent by) kind payload seq)\<lparr>jobs := jobs d @ [\<lparr>Job_Args = job, Job_ScheduledAt = None\<rparr>]\<rparr>"

lemma launched_simps [simp]:
  "agent_runs (launched d t run sid b k p n job) = agent_runs d @ [created_run (db_now d) t run]"
  "jobs (launched d t run sid b k p n job) = jobs d @ [\<lparr>Job_Args = job, Job_ScheduledAt = None\<rparr>]"
  "agent_run_steps (launched d t run sid b k p n job) = agent_run_steps d"
  "run_waits (launched d t run sid b k p n job) = run_waits d"
  "run_wait_members (launched d t run sid b k p n job) = run_wait_members d"
  by (simp_all add: launched_def)

definition creatable :: "db \<Rightarrow> TenantID \<Rightarrow> AgentRun \<Rightarrow> bool" where
  "creatable d t run \<longleftrightarrow> find (session_in t (Run_SessionID run)) (sessions d) \<noteq> None \<and>
    find (run_conflict t run) (agent_runs d) = None \<and> parent_exists run (agent_runs d)"

lemma creatable_fresh:
  assumes "creatable d t run" "r \<in> set (agent_runs d)"
  shows "Run_ID r \<noteq> Run_ID run"
    and "Run_SpawnKey run \<noteq> [] \<Longrightarrow> Run_TenantID r = t \<Longrightarrow> Run_SpawnKey r \<noteq> Run_SpawnKey run"
proof -
  have "\<not> run_conflict t run r" using assms find_NoneD unfolding creatable_def by metis
  then show "Run_ID r \<noteq> Run_ID run"
    and "Run_SpawnKey run \<noteq> [] \<Longrightarrow> Run_TenantID r = t \<Longrightarrow> Run_SpawnKey r \<noteq> Run_SpawnKey run"
    by (auto simp: run_conflict_def)
qed

lemma start_run_tx_state:
  "snd (start_run_tx t run d) = d \<or>
    creatable d t run \<and> (\<exists>seq. snd (start_run_tx t run d) =
      launched d t run (Run_SessionID run) (Run_ID run) EventKindRunStarted
        (RunStartedPayload (Run_ID run) (Run_Prompt run)) seq (StepJob (Run_ID run) t (Run_SessionID run) 0))"
  (is "?P (snd (start_run_tx t run d))")
proof -
  have "wp (start_run_tx t run) (\<lambda>_. ?P) (\<lambda>_. ?P) d"
    by (auto simp: start_run_tx_def wp_simps creatable_def launched_def split: option.split)
  then show ?thesis by (simp add: wp_final)
qed

lemma spawn_tx_state:
  "snd (spawn_tx run job child d) = d \<or>
    creatable d (Run_TenantID run) child \<and>
    int (length (children_of d (Run_TenantID run) (Run_ID run))) < MaxChildren (Run_Policy run) \<and>
    (\<exists>seq. snd (spawn_tx run job child d) =
      launched d (Run_TenantID run) child (Run_SessionID run) (Run_ID run) EventKindRunSpawned
        (RunSpawnedPayload (Run_ID run) (Run_ID child)) seq
        (StepJob (Run_ID child) (SJ_TenantID job) (SJ_SessionID job) 0))"
  (is "?P (snd (spawn_tx run job child d))")
proof -
  have "wp (spawn_tx run job child) (\<lambda>_. ?P) (\<lambda>_. ?P) d"
    by (auto simp: spawn_tx_def wp_simps creatable_def launched_def split: option.split)
  then show ?thesis by (simp add: wp_final)
qed

lemma new_child_simps [simp]:
  "Run_ID (new_child run job req policy newID) = newID"
  "Run_SessionID (new_child run job req policy newID) = Run_SessionID run"
  "Run_TenantID (new_child run job req policy newID) = Run_TenantID run"
  "Run_ParentRunID (new_child run job req policy newID) = Some (Run_ID run)"
  "Run_SpawnKey (new_child run job req policy newID) = spawnKey (Run_ID run) (SJ_StepIndex job) (Req_toolCallID req)"
  "Run_Policy (new_child run job req policy newID) = policy"
  by (simp_all add: new_child_def)

lemma start_run_row_simps [simp]:
  "Run_ID (start_run_row ctx dm req org newID) = newID"
  "Run_SessionID (start_run_row ctx dm req org newID) = SRR_SessionID req"
  "Run_TenantID (start_run_row ctx dm req org newID) = org"
  "Run_ParentRunID (start_run_row ctx dm req org newID) = None"
  "Run_SpawnKey (start_run_row ctx dm req org newID) = []"
  by (simp_all add: start_run_row_def)

section \<open>The tree of runs\<close>

text \<open>A child policy is the parent's or passed the subset check.\<close>

lemma policy_le_refl [simp]: "policy_le p p"
  by (simp add: policy_le_def)

lemma policy_le_trans: "policy_le p q \<Longrightarrow> policy_le q r \<Longrightarrow> policy_le p r"
  unfolding policy_le_def by (metis order_trans)

lemma resolvePolicy_le: "resolvePolicy spec parent = Inr policy \<Longrightarrow> policy_le policy parent"
  by (auto simp: resolvePolicy_def Let_def IsSubset_policy_le split: if_splits)

definition child_fits :: "AgentRun \<Rightarrow> AgentRun \<Rightarrow> bool" where
  "child_fits c p \<longleftrightarrow> Run_TenantID c = Run_TenantID p \<and> Run_SessionID c = Run_SessionID p \<and>
    policy_le (Run_Policy c) (Run_Policy p)"

definition tree_ok :: "db \<Rightarrow> bool" where
  "tree_ok d \<longleftrightarrow>
    (\<forall>c\<in>set (agent_runs d). \<forall>p\<in>set (agent_runs d). Run_ParentRunID c = Some (Run_ID p) \<longrightarrow> child_fits c p) \<and>
    (\<forall>p\<in>set (agent_runs d).
      int (length (children_of d (Run_TenantID p) (Run_ID p))) \<le> max 0 (MaxChildren (Run_Policy p)))"

lemma tree_ok_frame [simp]:
  "tree_ok (d\<lparr>db_now := x_db_now\<rparr>) = tree_ok d"
  "tree_ok (d\<lparr>tenants := x_tenants\<rparr>) = tree_ok d"
  "tree_ok (d\<lparr>api_keys := x_api_keys\<rparr>) = tree_ok d"
  "tree_ok (d\<lparr>sessions := x_sessions\<rparr>) = tree_ok d"
  "tree_ok (d\<lparr>session_events := x_session_events\<rparr>) = tree_ok d"
  "tree_ok (d\<lparr>credentials := x_credentials\<rparr>) = tree_ok d"
  "tree_ok (d\<lparr>agent_run_steps := x_agent_run_steps\<rparr>) = tree_ok d"
  "tree_ok (d\<lparr>provider_instances := x_provider_instances\<rparr>) = tree_ok d"
  "tree_ok (d\<lparr>resources := x_resources\<rparr>) = tree_ok d"
  "tree_ok (d\<lparr>session_memory := x_session_memory\<rparr>) = tree_ok d"
  "tree_ok (d\<lparr>run_waits := x_run_waits\<rparr>) = tree_ok d"
  "tree_ok (d\<lparr>run_wait_members := x_run_wait_members\<rparr>) = tree_ok d"
  "tree_ok (d\<lparr>periodic_prompts := x_periodic_prompts\<rparr>) = tree_ok d"
  "tree_ok (d\<lparr>jobs := x_jobs\<rparr>) = tree_ok d"
  "tree_ok (d\<lparr>notifications := x_notifications\<rparr>) = tree_ok d"
  "tree_ok (logged d t sid a k p n) = tree_ok d"
  by (simp_all add: tree_ok_def children_of_def)

lemma tree_ok_run_update:
  assumes "tree_ok d" and f: "\<And>r. Run_ID (f r) = Run_ID r \<and> Run_TenantID (f r) = Run_TenantID r \<and>
      Run_SessionID (f r) = Run_SessionID r \<and> Run_ParentRunID (f r) = Run_ParentRunID r \<and>
      Run_SpawnKey (f r) = Run_SpawnKey r \<and> Run_Policy (f r) = Run_Policy r"
  shows "tree_ok (d\<lparr>agent_runs := upd_where p f (agent_runs d)\<rparr>)"
proof -
  have eq: "Run_ID (if p r then f r else r) = Run_ID r" "Run_TenantID (if p r then f r else r) = Run_TenantID r"
    "Run_SessionID (if p r then f r else r) = Run_SessionID r"
    "Run_ParentRunID (if p r then f r else r) = Run_ParentRunID r"
    "Run_Policy (if p r then f r else r) = Run_Policy r" for r
    using f by simp_all
  have "length (children_of (d\<lparr>agent_runs := upd_where p f (agent_runs d)\<rparr>) t rid) = length (children_of d t rid)" for t rid
    using f by (simp add: children_of_def filter_upd_where)
  then show ?thesis
    using assms(1) by (simp add: tree_ok_def ball_upd_where child_fits_def eq)
qed

interpretation tree_inv: store_invariant tree_ok "\<lambda>_. True" sha for sha
proof unfold_locales
  show "tree_ok d \<Longrightarrow> tree_ok (d\<lparr>db_now := now'\<rparr>)" for d now' by simp
qed ((rule write_rules; simp add: tree_ok_run_update)+)

text \<open>A run that is created fits, when its parent exists under the same tenant and session.\<close>

lemma tree_ok_create:
  assumes "tree_ok d" "keys_ok d" "creatable d t run"
    and parent: "\<And>p. p \<in> set (agent_runs d) \<Longrightarrow> Run_ParentRunID run = Some (Run_ID p) \<Longrightarrow>
      Run_TenantID p = t \<and> Run_SessionID p = Run_SessionID run \<and> policy_le (Run_Policy run) (Run_Policy p) \<and>
      int (length (children_of d t (Run_ID p))) < MaxChildren (Run_Policy p)"
    and own: "Run_ParentRunID run \<noteq> Some (Run_ID run)"
  shows "tree_ok (d\<lparr>agent_runs := agent_runs d @ [created_run now t run]\<rparr>)"
proof -
  let ?new = "created_run now t run" and ?d = "d\<lparr>agent_runs := agent_runs d @ [created_run now t run]\<rparr>"
  have fresh: "Run_ID r \<noteq> Run_ID run" if "r \<in> set (agent_runs d)" for r
    using creatable_fresh(1) [OF assms(3) that] .
  have orphan: "Run_ParentRunID c \<noteq> Some (Run_ID run)" if "c \<in> set (agent_runs d)" for c
    using that assms(2) fresh by (force simp: keys_ok_def parent_exists_def split: option.splits)
  have fits: "child_fits c p" if "c \<in> set (agent_runs ?d)" "p \<in> set (agent_runs ?d)"
    "Run_ParentRunID c = Some (Run_ID p)" for c p
    using that assms(1) parent [of p] orphan own by (auto simp: tree_ok_def child_fits_def)
  have "int (length (children_of ?d (Run_TenantID p) (Run_ID p))) \<le> max 0 (MaxChildren (Run_Policy p))"
    if p: "p \<in> set (agent_runs ?d)" for p
  proof (cases "p = ?new")
    case True
    have "children_of ?d t (Run_ID run) = []"
      using orphan own by (auto simp: children_of_def filter_empty_conv)
    with True show ?thesis by simp
  next
    case False
    with p have p: "p \<in> set (agent_runs d)" by simp
    with assms(1) have "int (length (children_of d (Run_TenantID p) (Run_ID p))) \<le> max 0 (MaxChildren (Run_Policy p))"
      by (simp add: tree_ok_def)
    moreover have "children_of ?d (Run_TenantID p) (Run_ID p) = children_of d (Run_TenantID p) (Run_ID p) @
        (if Run_ParentRunID run = Some (Run_ID p) \<and> Run_TenantID p = t then [?new] else [])"
      by (auto simp: children_of_def)
    ultimately show ?thesis
      using parent [OF p] by (cases "Run_ParentRunID run = Some (Run_ID p) \<and> Run_TenantID p = t") auto
  qed
  with fits show ?thesis by (simp add: tree_ok_def)
qed

lemma tree_ok_launched:
  "tree_ok (launched d t run sid b k p n job) =
    tree_ok (d\<lparr>agent_runs := agent_runs d @ [created_run (db_now d) t run]\<rparr>)"
  by (simp add: launched_def)

lemma tree_ok_step:
  assumes "sys_step sha d d'" "keys_ok d" "tree_ok d"
  shows "tree_ok d'"
proof (rule tree_inv.sys_step_runs [OF _ assms(1,3)])
  fix org ctx dm req newID
  let ?run = "start_run_row ctx dm req org newID"
  show "tree_ok (snd (start_run_tx org ?run d))"
    using start_run_tx_state [of org ?run d] assms(2,3) by (auto simp: tree_ok_launched intro!: tree_ok_create)
next
  fix run :: AgentRun and s i req policy newID
  let ?job = "StepJob (Run_ID run) (Run_TenantID run) s i"
  let ?child = "new_child run ?job req policy newID"
  assume run: "snapshot d run" and policy: "resolvePolicy (Req_spec req) (Run_Policy run) = Inr policy"
  consider "snd (spawn_tx run ?job ?child d) = d" |
    seq where "creatable d (Run_TenantID run) ?child"
      "int (length (children_of d (Run_TenantID run) (Run_ID run))) < MaxChildren (Run_Policy run)"
      "snd (spawn_tx run ?job ?child d) = launched d (Run_TenantID run) ?child (Run_SessionID run) (Run_ID run)
        EventKindRunSpawned (RunSpawnedPayload (Run_ID run) newID) seq (StepJob newID (Run_TenantID run) s 0)"
    using spawn_tx_state [of run ?job ?child d] by auto
  then show "tree_ok (snd (spawn_tx run ?job ?child d))"
  proof cases
    case 1
    then show ?thesis using assms(3) by simp
  next
    case 2
    obtain q where q: "q \<in> set (agent_runs d)" "Run_ID q = Run_ID run" "Run_TenantID q = Run_TenantID run"
      "Run_SessionID q = Run_SessionID run" "Run_Policy q = Run_Policy run"
      using run by (auto simp: snapshot_def)
    have only: "p = q" if "p \<in> set (agent_runs d)" "Run_ID p = Run_ID run" for p
      using key_uniqueD [of Run_ID "agent_runs d" p q] that q assms(2) by (simp add: keys_ok_def)
    have "Run_ID run \<noteq> newID"
      using creatable_fresh(1) [OF 2(1) q(1)] q(2) by simp
    then show ?thesis
      unfolding 2(3) tree_ok_launched using 2(1,2) q resolvePolicy_le [OF policy]
      by (intro tree_ok_create assms(2,3)) (auto dest: only)
  qed
qed simp

lemma reachable_tree_ok:
  assumes "reachable sha d"
  shows "keys_ok d \<and> tree_ok d"
  using assms
proof (induction rule: reachable_induct)
  case (init t)
  show ?case by (simp add: keys_ok_def tree_ok_def empty_db_def)
next
  case (step d d')
  then show ?case using keys_inv.sys_step_inv [of sha d d'] tree_ok_step [of sha d d'] by blast
qed

text \<open>A run and those above it.\<close>

inductive descends :: "db \<Rightarrow> AgentRun \<Rightarrow> AgentRun \<Rightarrow> bool" for d where
  child: "c \<in> set (agent_runs d) \<Longrightarrow> p \<in> set (agent_runs d) \<Longrightarrow> Run_ParentRunID c = Some (Run_ID p) \<Longrightarrow>
    descends d c p"
| below: "descends d c p \<Longrightarrow> descends d p q \<Longrightarrow> descends d c q"

lemma descends_fits:
  assumes "descends d c p" "tree_ok d"
  shows "child_fits c p"
  using assms(1)
proof induction
  case (child c p)
  then show ?case using assms(2) by (simp add: tree_ok_def)
next
  case (below c p q)
  then show ?case by (auto simp: child_fits_def intro: policy_le_trans)
qed


section \<open>Repeated spawns\<close>

lemma spawnKey_nonempty [simp]: "spawnKey parent i call \<noteq> []"
  by (simp add: spawnKey_def)

lemma wp_spawnChild_row:
  "wp (spawnChild run job req newID)
    (\<lambda>(c, a) d'. \<not> is_blank (Spec_Prompt (Req_spec req)) \<and> MaxChildren (Run_Policy run) > 0 \<and>
      (\<exists>policy. resolvePolicy (Req_spec req) (Run_Policy run) = Inr policy) \<and>
      (\<exists>r\<in>set (agent_runs d'). Run_ID r = Run_ID c \<and> Run_TenantID r = Run_TenantID run \<and>
        Run_SpawnKey r = spawnKey (Run_ID run) (SJ_StepIndex job) (Req_toolCallID req)))
    (\<lambda>_ _. True) d"
  unfolding spawnChild_def spawn_tx_def Let_def
  by (auto simp: wp_simps wp_funs dest!: find_SomeD split: option.split sum.split Err.split)

text \<open>A child with the key of a spawn answers every later delivery of it.\<close>

lemma spawnChild_adopts:
  assumes "keys_ok d" "\<not> is_blank (Spec_Prompt (Req_spec req))" "MaxChildren (Run_Policy run) > 0"
    "resolvePolicy (Req_spec req) (Run_Policy run) = Inr policy"
    and r: "r \<in> set (agent_runs d)" "Run_TenantID r = Run_TenantID run"
      "Run_SpawnKey r = spawnKey (Run_ID run) (SJ_StepIndex job) (Req_toolCallID req)"
  shows "spawnChild run job req newID d = (Inr (r, True), d)"
proof -
  let ?key = "spawnKey (Run_ID run) (SJ_StepIndex job) (Req_toolCallID req)"
  let ?p = "\<lambda>r. Run_SpawnKey r = ?key \<and> Run_SpawnKey r \<noteq> [] \<and> Run_TenantID r = Run_TenantID run"
  have "?p r" using r by simp
  then obtain q where q: "find ?p (agent_runs d) = Some q"
    using r(1) find_NoneD [of ?p "agent_runs d" r] by (cases "find ?p (agent_runs d)") simp_all
  then have "q \<in> set (agent_runs d)" "Run_SpawnKey q = ?key" "Run_TenantID q = Run_TenantID run"
    using find_SomeD [OF q] by simp_all
  then have "q = r"
    using key_uniqueD [of "\<lambda>r. (Run_TenantID r, Run_SpawnKey r)" "filter (\<lambda>r. Run_SpawnKey r \<noteq> []) (agent_runs d)" q r]
      assms(1) r by (simp add: keys_ok_def)
  with q have "Runs_GetBySpawnKey (Run_TenantID run) ?key d = (Inr r, d)"
    by (simp add: Runs_GetBySpawnKey_def find_row_def bindM_def gets_def ret_def)
  then show ?thesis using assms(2-4) by (simp add: spawnChild_def Let_def tryM_def ret_def)
qed

lemma spawnChild_repeated:
  assumes "keys_ok d" "spawnChild run job req newID d = (Inr (c, a), d1)" "sys_path sha d1 d2"
  shows "\<exists>c'. Run_ID c' = Run_ID c \<and> spawnChild run job req newID' d2 = (Inr (c', True), d2)"
proof -
  let ?key = "spawnKey (Run_ID run) (SJ_StepIndex job) (Req_toolCallID req)"
  from wp_ok [OF wp_spawnChild_row assms(2)] obtain r policy where
    ok: "\<not> is_blank (Spec_Prompt (Req_spec req))" "MaxChildren (Run_Policy run) > 0"
      "resolvePolicy (Req_spec req) (Run_Policy run) = Inr policy"
    and r: "r \<in> set (agent_runs d1)" "Run_ID r = Run_ID c" "Run_TenantID r = Run_TenantID run" "Run_SpawnKey r = ?key"
    by auto
  have "preserves keys_ok (spawnChild run job req newID)" by (rule keys_inv.spawnChild_pres) simp
  from preservesD [OF this assms(1)] have "keys_ok d1" by (simp add: assms(2))
  then have keys: "keys_ok d2" using keys_inv.sys_path_inv [OF _ assms(3)] by simp
  have "snapshot d1 r" using r(1) by (auto simp: snapshot_def)
  then have "snapshot d2 r" using snapshot_inv.sys_path_inv [OF _ assms(3)] by simp
  then obtain r' where "r' \<in> set (agent_runs d2)" "Run_ID r' = Run_ID r" "Run_TenantID r' = Run_TenantID r"
      "Run_SpawnKey r' = Run_SpawnKey r"
    by (auto simp: snapshot_def)
  with spawnChild_adopts [OF keys ok, of r' job newID'] r show ?thesis by auto
qed

end
