(* ===== verification/Run_States.thy ===== *)
theory Run_States
  imports Spawning
begin

text \<open>
  The life of a run as an abstract machine, and the proof that every transaction of the system
  moves every run along it. What keeps the transactions inside the machine is that each reads
  the row under its lock before it writes the state.
\<close>

section \<open>The abstract machine\<close>

inductive run_move :: "RunState \<Rightarrow> RunState \<Rightarrow> bool" where
  claimed: "run_move RunPending RunRunning"
| parked: "run_move RunRunning RunAwaiting"
| completed: "run_move RunRunning RunCompleted"
| resumed: "run_move RunAwaiting RunRunning"
| answered: "run_move RunCompleted RunRunning"
| failed: "\<not> RunState_Terminal s \<Longrightarrow> run_move s RunFailed"
| cancelled: "run_move s RunCancelled"

abbreviation run_path :: "RunState \<Rightarrow> RunState \<Rightarrow> bool" where
  "run_path \<equiv> run_move\<^sup>*\<^sup>*"

inductive_cases run_move_from_cancelled: "run_move RunCancelled s"
inductive_cases run_move_from_failed: "run_move RunFailed s"
inductive_cases run_move_to_pending: "run_move s RunPending"

text \<open>A state from which a run can still work.\<close>

definition alive :: "RunState \<Rightarrow> bool" where
  "alive s \<longleftrightarrow> s \<noteq> RunFailed \<and> s \<noteq> RunCancelled"

lemma alive_if_not_terminal: "\<not> RunState_Terminal s \<Longrightarrow> alive s"
  by (cases s) (simp_all add: alive_def)

lemma run_path_running: "alive s \<Longrightarrow> run_path s RunRunning"
  by (cases s) (auto simp: alive_def intro: run_move.intros)

lemma run_path_alive:
  assumes "alive s"
  shows "run_path s RunRunning" "run_path s RunAwaiting" "run_path s RunCompleted" "run_path s RunFailed"
  using run_path_running [OF assms] run_move.parked run_move.completed run_move.failed [of RunRunning]
  by (auto intro: rtranclp.rtrancl_into_rtrancl)

lemma run_path_cancelled [simp]: "run_path s RunCancelled"
  by (auto intro: run_move.cancelled)

lemma cancelled_final: "run_path RunCancelled s \<Longrightarrow> s = RunCancelled"
  by (induction rule: rtranclp_induct) (auto elim: run_move_from_cancelled)

lemma failed_final: "run_path RunFailed s \<Longrightarrow> s = RunFailed \<or> s = RunCancelled"
  by (induction rule: rtranclp_induct) (auto elim: run_move_from_cancelled run_move_from_failed)

lemma never_pending_again: "run_path s RunPending \<Longrightarrow> s = RunPending"
  by (erule rtranclp.cases) (auto elim: run_move_to_pending)

section \<open>One run along the machine\<close>

text \<open>Every row of the run is in a state that \<open>s0\<close> leads to.\<close>

definition moved :: "RunID \<Rightarrow> RunState \<Rightarrow> db \<Rightarrow> bool" where
  "moved rid s0 d \<longleftrightarrow> key_unique Run_ID (agent_runs d) \<and> rid \<in> Run_ID ` set (agent_runs d) \<and>
    (\<forall>r\<in>set (agent_runs d). Run_ID r = rid \<longrightarrow> run_path s0 (Run_State r))"

definition alive_run :: "TenantID \<Rightarrow> RunID \<Rightarrow> db \<Rightarrow> bool" where
  "alive_run t rid d \<longleftrightarrow> (case find (run_in t rid) (agent_runs d) of None \<Rightarrow> False | Some r \<Rightarrow> alive (Run_State r))"

lemma moved_frame [simp]:
  "moved rid s0 (d\<lparr>db_now := x_db_now\<rparr>) = moved rid s0 d"
  "moved rid s0 (d\<lparr>tenants := x_tenants\<rparr>) = moved rid s0 d"
  "moved rid s0 (d\<lparr>api_keys := x_api_keys\<rparr>) = moved rid s0 d"
  "moved rid s0 (d\<lparr>sessions := x_sessions\<rparr>) = moved rid s0 d"
  "moved rid s0 (d\<lparr>session_events := x_session_events\<rparr>) = moved rid s0 d"
  "moved rid s0 (d\<lparr>credentials := x_credentials\<rparr>) = moved rid s0 d"
  "moved rid s0 (d\<lparr>agent_run_steps := x_agent_run_steps\<rparr>) = moved rid s0 d"
  "moved rid s0 (d\<lparr>provider_instances := x_provider_instances\<rparr>) = moved rid s0 d"
  "moved rid s0 (d\<lparr>resources := x_resources\<rparr>) = moved rid s0 d"
  "moved rid s0 (d\<lparr>session_memory := x_session_memory\<rparr>) = moved rid s0 d"
  "moved rid s0 (d\<lparr>run_waits := x_run_waits\<rparr>) = moved rid s0 d"
  "moved rid s0 (d\<lparr>run_wait_members := x_run_wait_members\<rparr>) = moved rid s0 d"
  "moved rid s0 (d\<lparr>periodic_prompts := x_periodic_prompts\<rparr>) = moved rid s0 d"
  "moved rid s0 (d\<lparr>jobs := x_jobs\<rparr>) = moved rid s0 d"
  "moved rid s0 (d\<lparr>notifications := x_notifications\<rparr>) = moved rid s0 d"
  "moved rid s0 (logged d t sid a k p n) = moved rid s0 d"
  by (simp_all add: moved_def)

lemma alive_run_frame [simp]:
  "alive_run t0 rid (d\<lparr>db_now := x_db_now\<rparr>) = alive_run t0 rid d"
  "alive_run t0 rid (d\<lparr>tenants := x_tenants\<rparr>) = alive_run t0 rid d"
  "alive_run t0 rid (d\<lparr>api_keys := x_api_keys\<rparr>) = alive_run t0 rid d"
  "alive_run t0 rid (d\<lparr>sessions := x_sessions\<rparr>) = alive_run t0 rid d"
  "alive_run t0 rid (d\<lparr>session_events := x_session_events\<rparr>) = alive_run t0 rid d"
  "alive_run t0 rid (d\<lparr>credentials := x_credentials\<rparr>) = alive_run t0 rid d"
  "alive_run t0 rid (d\<lparr>agent_run_steps := x_agent_run_steps\<rparr>) = alive_run t0 rid d"
  "alive_run t0 rid (d\<lparr>provider_instances := x_provider_instances\<rparr>) = alive_run t0 rid d"
  "alive_run t0 rid (d\<lparr>resources := x_resources\<rparr>) = alive_run t0 rid d"
  "alive_run t0 rid (d\<lparr>session_memory := x_session_memory\<rparr>) = alive_run t0 rid d"
  "alive_run t0 rid (d\<lparr>run_waits := x_run_waits\<rparr>) = alive_run t0 rid d"
  "alive_run t0 rid (d\<lparr>run_wait_members := x_run_wait_members\<rparr>) = alive_run t0 rid d"
  "alive_run t0 rid (d\<lparr>periodic_prompts := x_periodic_prompts\<rparr>) = alive_run t0 rid d"
  "alive_run t0 rid (d\<lparr>jobs := x_jobs\<rparr>) = alive_run t0 rid d"
  "alive_run t0 rid (d\<lparr>notifications := x_notifications\<rparr>) = alive_run t0 rid d"
  "alive_run t0 rid (logged d t sid a k p n) = alive_run t0 rid d"
  by (simp_all add: alive_run_def)

text \<open>An update of one row that moves its state along the machine.\<close>

lemma moved_update:
  assumes "moved rid s0 d" "find (run_in t i) (agent_runs d) = Some r"
    and f: "\<And>r. Run_ID (f r) = Run_ID r" and step: "run_path (Run_State r) (Run_State (f r))"
  shows "moved rid s0 (d\<lparr>agent_runs := upd_where (run_in t i) f (agent_runs d)\<rparr>)"
proof -
  have ids: "map Run_ID (upd_where (run_in t i) f (agent_runs d)) = map Run_ID (agent_runs d)"
    using f by (simp add: map_upd_where)
  have r: "r \<in> set (agent_runs d)" "Run_ID r = i" using find_SomeD [OF assms(2)] by auto
  have "run_path s0 (Run_State x)" if "x \<in> set (upd_where (run_in t i) f (agent_runs d))" "Run_ID x = rid" for x
  proof -
    from that(1) obtain q where q: "q \<in> set (agent_runs d)" "x = (if run_in t i q then f q else q)"
      by (auto simp: set_upd_where)
    with that(2) f have "Run_ID q = rid" by (auto split: if_splits)
    with q(1) assms(1) have s0: "run_path s0 (Run_State q)" by (simp add: moved_def)
    show ?thesis
    proof (cases "run_in t i q")
      case True
      then have "q = r" using key_uniqueD [of Run_ID "agent_runs d" q r] q(1) r assms(1) by (simp add: moved_def)
      with q(2) True step s0 show ?thesis by (auto intro: rtranclp_trans)
    qed (use q(2) s0 in auto)
  qed
  moreover have "rid \<in> Run_ID ` set (upd_where (run_in t i) f (agent_runs d))"
    using assms(1) ids unfolding moved_def by (metis list.set_map)
  ultimately show ?thesis using assms(1) ids by (simp add: moved_def)
qed

lemma moved_data:
  assumes "moved rid s0 d" "\<And>r. Run_ID (f r) = Run_ID r" "\<And>r. Run_State (f r) = Run_State r"
  shows "moved rid s0 (d\<lparr>agent_runs := upd_where (run_in t i) f (agent_runs d)\<rparr>)"
proof (cases "find (run_in t i) (agent_runs d)")
  case None
  then have "upd_where (run_in t i) f (agent_runs d) = agent_runs d"
    by (intro upd_where_none) (auto dest: find_NoneD)
  then show ?thesis using assms(1) by simp
next
  case (Some r)
  then show ?thesis using assms by (intro moved_update) auto
qed

lemma alive_run_data:
  assumes "alive_run t0 rid d" "\<And>r. Run_ID (f r) = Run_ID r \<and> Run_TenantID (f r) = Run_TenantID r"
    "\<And>r. alive (Run_State r) \<Longrightarrow> alive (Run_State (f r))"
  shows "alive_run t0 rid (d\<lparr>agent_runs := upd_where p f (agent_runs d)\<rparr>)"
  using assms by (auto simp: alive_run_def find_upd_where split: option.splits)


section \<open>The transactions move runs along the machine\<close>

lemma preserves_run_data:
  assumes "\<And>d f. I d \<Longrightarrow> (\<And>r. Run_ID (f r) = Run_ID r \<and> Run_TenantID (f r) = Run_TenantID r \<and>
      Run_State (f r) = Run_State r) \<Longrightarrow> I (d\<lparr>agent_runs := upd_where (run_in t rid) f (agent_runs d)\<rparr>)"
  shows "preserves I (Runs_SetHistory t rid h)" "preserves I (Runs_SetResult t rid res)"
    "preserves I (Runs_RequestCancel t rid)"
  unfolding Runs_SetHistory_def Runs_SetResult_def Runs_RequestCancel_def
  by (rule preserves_Runs_exec, rule assms, assumption, simp)+

text \<open>A row that was read under its lock still is the row of its key.\<close>

lemma preserves_locked:
  assumes "\<And>r. Run_ID r = i \<Longrightarrow> Run_TenantID r = t \<Longrightarrow>
      keeps (\<lambda>d. I d \<and> find (run_in t i) (agent_runs d) = Some r) I (f r)"
  shows "preserves I (bindM (Runs_GetForUpdate t i) f)"
  using assms by (auto simp: preserves_wp keeps_def wp_simps dest: find_SomeD split: option.splits)

lemma preserves_try_locked:
  assumes "\<And>r. Run_ID r = i \<Longrightarrow> Run_TenantID r = t \<Longrightarrow>
      keeps (\<lambda>d. I d \<and> find (run_in t i) (agent_runs d) = Some r) I (f (Inr r))"
    "\<And>e. preserves I (f (Inl e))"
  shows "preserves I (tryM (Runs_GetForUpdate t i) f)"
  using assms by (auto simp: preserves_wp keeps_def wp_simps dest: find_SomeD split: option.splits)

text \<open>The write of a state that every living state leads to.\<close>

lemma keeps_SetState:
  assumes "\<And>s. alive s \<Longrightarrow> run_path s st"
  shows "keeps (\<lambda>d. moved rid s0 d \<and> alive_run t i d) (moved rid s0) (Runs_SetState t i st fr fm)"
  unfolding keeps_def Runs_SetState_def
proof (intro allI impI)
  fix d assume d: "moved rid s0 d \<and> alive_run t i d"
  then obtain r where r: "find (run_in t i) (agent_runs d) = Some r" "alive (Run_State r)"
    by (auto simp: alive_run_def split: option.splits)
  show "wp (Runs_exec t i (\<lambda>ta r. r\<lparr>Run_State := st, Run_FailureReason := fr, Run_FailureMessage := fm,
      Run_UpdatedAt := ta\<rparr>)) (\<lambda>_. moved rid s0) (\<lambda>_. moved rid s0) d"
    unfolding wp_Runs_exec using d r assms by (auto intro!: moved_update)
qed

lemma preserves_SetState_cancelled: "preserves (moved rid s0) (Runs_SetState t i RunCancelled fr fm)"
  unfolding Runs_SetState_def preserves_wp wp_Runs_exec
  by (auto intro!: moved_update)

lemma preserves_SetState_alive:
  assumes "alive st"
  shows "preserves (alive_run t0 rid) (Runs_SetState t i st fr fm)"
  unfolding Runs_SetState_def by (rule preserves_Runs_exec, rule alive_run_data) (use assms in auto)

interpretation alive_frame: store_frame "alive_run t0 rid" "\<lambda>_. True" sha for sha t0 rid
proof unfold_locales
  show "alive_run t0 rid d \<Longrightarrow> alive_run t0 rid (d\<lparr>db_now := now'\<rparr>)" for d now' by simp
qed ((rule preserves_run_data write_rules; simp add: alive_run_data)+)

interpretation alive_resume: store_resume "alive_run t0 rid" "\<lambda>_. True" sha for sha t0 rid
proof unfold_locales
  show "preserves (alive_run t0 rid) (resumeParent org w out)" for org w out
    unfolding resumeParent_def
    by (intro pres_intros alive_frame.MarkResumed alive_frame.SetHistory alive_frame.Append preserves_SetState_alive
        preserves_Enqueue_rule) (simp_all add: alive_def)
qed

interpretation moved_base: store_frame "moved rid s0" "\<lambda>_. True" sha for sha rid s0
proof unfold_locales
  show "moved rid s0 d \<Longrightarrow> moved rid s0 (d\<lparr>db_now := now'\<rparr>)" for d now' by simp
qed ((rule preserves_run_data write_rules; simp add: moved_data)+)

lemma moved_other_writes:
  "preserves (moved rid s0) (Runs_InsertStep t step)" "preserves (moved rid s0) (EnqueueInTx job)"
  "preserves (alive_run t0 i) (Runs_InsertStep t step)" "preserves (alive_run t0 i) (EnqueueInTx job)"
  by (rule write_rules; simp)+

text \<open>Within a transaction that has read a living state, until it writes the state.\<close>

abbreviation living :: "RunID \<Rightarrow> RunState \<Rightarrow> TenantID \<Rightarrow> RunID \<Rightarrow> db \<Rightarrow> bool" where
  "living rid s0 t i d \<equiv> moved rid s0 d \<and> alive_run t i d"

lemma keeps_read_alive:
  assumes "keeps (living rid s0 t i) (moved rid s0) m" "alive (Run_State r)"
  shows "keeps (\<lambda>d. moved rid s0 d \<and> find (run_in t i) (agent_runs d) = Some r) (moved rid s0) m"
  using assms(1) by (rule keeps_weaken) (simp add: alive_run_def assms(2))

lemma keeps_moved: "preserves (moved rid s0) m \<Longrightarrow> keeps (\<lambda>d. moved rid s0 d \<and> P d) (moved rid s0) m"
  by (rule keeps_weaken [OF keeps_preserves]) simp_all

lemma keeps_living:
  assumes "preserves (moved rid s0) m" "preserves (alive_run t i) m" "\<And>a. keeps (living rid s0 t i) (moved rid s0) (f a)"
  shows "keeps (living rid s0 t i) (moved rid s0) (bindM m f)"
  using assms by (intro keeps_bind preserves_conj) auto

lemmas keeps_states = keeps_SetState [OF run_path_alive(1)] keeps_SetState [OF run_path_alive(2)]
  keeps_SetState [OF run_path_alive(3)] keeps_SetState [OF run_path_alive(4)]

text \<open>The tail that the answer and the resumption share.\<close>

lemma keeps_running:
  assumes "\<And>a. preserves (moved rid s0) (f a)"
  shows "keeps (living rid s0 t i) (moved rid s0)
      (bindM (Runs_SetHistory t i h) (\<lambda>_. bindM (Runs_SetState t i RunRunning fr fm) f))"
  by (rule keeps_living, rule moved_base.SetHistory, simp, rule alive_frame.SetHistory, simp, rule keeps_then,
      rule keeps_states, assumption, rule assms)

lemmas keeps_stops = keeps_moved [OF preserves_ret] keeps_moved [OF preserves_raise]

interpretation moved_resume: store_resume "moved rid s0" "\<lambda>_. True" sha for sha rid s0
proof unfold_locales
  show "preserves (moved rid s0) (resumeParent org w out)" for org out and w :: RunWait
    unfolding resumeParent_def
    by (rule preserves_bindM, rule moved_base.MarkResumed, simp, rule preserves_if, rule preserves_ret,
        rule preserves_locked)
      (auto split: sum.split intro!: keeps_stops pres_intros keeps_read_alive [OF keeps_running] moved_base.Append
          moved_other_writes intro: alive_if_not_terminal)
qed

lemma moved_answer: "preserves (moved rid s0) (answer_tx run msg a)"
  unfolding answer_tx_def Let_def
  by (rule preserves_tx, rule preserves_locked)
    (auto split: sum.split intro!: keeps_stops pres_intros keeps_read_alive [OF keeps_running] moved_base.Append
      moved_other_writes simp: alive_def)

lemma moved_cancel: "preserves (moved rid s0) (cancel_tx run)"
  unfolding cancel_tx_def Let_def
  by (intro pres_intros preserves_SetState_cancelled moved_base.Append moved_base.abandonParentWaits_pres
      moved_base.RequestCancel) simp_all

lemma moved_mark: "preserves (moved rid s0) (markCancelledTx job)"
  unfolding markCancelledTx_def
  by (intro pres_intros preserves_SetState_cancelled moved_base.Append moved_resume.settleTerminalRun_pres) simp_all

lemma moved_fail: "preserves (moved rid s0) (failRun job reason msg)"
  unfolding failRun_def
  by (rule preserves_tx, rule preserves_try_locked)
    (auto intro!: keeps_stops pres_intros keeps_read_alive [OF keeps_then [OF keeps_states(4)]] moved_base.Append
      moved_resume.settleTerminalRun_pres intro: alive_if_not_terminal)

lemma moved_claim: "preserves (moved rid s0) (claim job)"
  unfolding claim_def
  by (rule preserves_tryM, rule preserves_txStale, rule preserves_locked)
    (auto simp: whenM_def alive_def intro!: keeps_stops keeps_moved [OF moved_mark] pres_intros
      keeps_read_alive [OF keeps_living] keeps_living keeps_then [OF keeps_states(1)])

lemma keeps_classify:
  "keeps (living rid s0 (SJ_TenantID job) (SJ_RunID job)) (moved rid s0) (classify_outcome sha job run step result rec)"
  unfolding classify_outcome_def Let_def
  by (auto split: option.split intro!: keeps_stops keeps_moved [OF moved_other_writes(2)]
      keeps_living [OF moved_resume.createWait_pres alive_resume.createWait_pres]
      keeps_then [OF keeps_states(2)] keeps_then [OF keeps_states(3)] pres_intros
      moved_base.appendTx_pres moved_base.SetResult moved_base.abandonParentWaits_pres
      moved_resume.resolveChildWaits_pres)

lemma moved_commit: "preserves (moved rid s0) (commit_tx sha job attempt enc step result rec)"
  unfolding commit_tx_def Let_def
  by (rule preserves_txStale, rule preserves_locked, rule keeps_if, rule keeps_stops, rule keeps_if, rule keeps_moved,
      rule moved_mark, rule keeps_read_alive, intro keeps_living keeps_classify)
    (auto simp: alive_def intro!: pres_intros moved_base.SetHistory alive_frame.SetHistory moved_other_writes
      moved_base.AccountStepCost_pres alive_frame.AccountStepCost_pres moved_base.appendTx_pres alive_frame.appendTx_pres)

text \<open>A run that is created is a new run.\<close>

lemma moved_launched:
  assumes "moved rid s0 d" "creatable d t run"
  shows "moved rid s0 (launched d t run sid b k p n job)"
proof -
  have "Run_ID run \<notin> Run_ID ` set (agent_runs d)" using creatable_fresh(1) [OF assms(2)] by force
  with assms(1) show ?thesis by (auto simp: launched_def moved_def)
qed

lemma moved_step:
  assumes "sys_step sha d d'" "moved rid s0 d"
  shows "moved rid s0 d'"
proof (rule moved_base.sys_step_frame [OF TrueI assms])
  show "moved rid s0 (snd (start_run_tx org (start_run_row ctx dm req org newID) d))" for org ctx dm req newID
    using start_run_tx_state [of org "start_run_row ctx dm req org newID" d] assms(2) moved_launched by auto
  show "moved rid s0 (snd (spawn_tx run job child d))" for run :: AgentRun and job child
    using spawn_tx_state [of run job child d] assms(2) moved_launched by auto
qed (rule preservesD [where I = "moved rid s0" and s = d, OF _ assms(2)],
    intro pres_intros moved_answer moved_cancel moved_claim moved_fail moved_mark moved_commit
      moved_resume.tryCloseWait_pres, simp?)+

lemma moved_path:
  assumes "sys_path sha d d'" "moved rid s0 d"
  shows "moved rid s0 d'"
  using assms by (induction rule: rtranclp_induct) (auto intro: moved_step)

lemma moved_self:
  assumes "keys_ok d" "r \<in> set (agent_runs d)"
  shows "moved (Run_ID r) (Run_State r) d"
  using assms key_uniqueD [of Run_ID "agent_runs d" _ r] by (auto simp: moved_def keys_ok_def)

text \<open>What a run was, and what it is later.\<close>

lemma runs_follow_machine:
  assumes "keys_ok d" "sys_path sha d d'" "r \<in> set (agent_runs d)"
  shows "\<exists>r'\<in>set (agent_runs d'). Run_ID r' = Run_ID r \<and> run_path (Run_State r) (Run_State r')"
proof -
  have "moved (Run_ID r) (Run_State r) d'"
    using moved_path [OF assms(2) moved_self [OF assms(1,3)]] .
  then show ?thesis by (auto simp: moved_def)
qed

end
