(* ===== verification/Schedule.thy ===== *)
theory Schedule
  imports Run_States
begin

text \<open>
  The schedule of the runs: the recorded steps are numbered from zero without gap, a queued
  job is for a run of its tenant and session and for a step up to the next one. Here are the
  invariant, how the single writes change it, and the launch of the next step.
\<close>

section \<open>The schedule of a run\<close>

definition step_count :: "db \<Rightarrow> RunID \<Rightarrow> int" where
  "step_count d rid = int (length (filter (\<lambda>s. Step_RunID s = rid) (agent_run_steps d)))"

text \<open>Steps are numbered from zero; a job is for a run of its tenant and session, and for a step up to the next.\<close>

definition sched :: "db \<Rightarrow> bool" where
  "sched d \<longleftrightarrow>
    (\<forall>rid. Step_StepIndex ` set (filter (\<lambda>s. Step_RunID s = rid) (agent_run_steps d)) = {0..<step_count d rid}) \<and>
    (\<forall>s\<in>set (agent_run_steps d). Step_RunID s \<in> Run_ID ` set (agent_runs d)) \<and>
    (\<forall>rid t sid i. enqueued d (StepJob rid t sid i) \<longrightarrow> 0 \<le> i \<and> i \<le> step_count d rid \<and>
      (\<exists>r\<in>set (agent_runs d). Run_ID r = rid \<and> Run_TenantID r = t \<and> Run_SessionID r = sid))"

text \<open>Every run belongs to a session of its tenant.\<close>

definition homed :: "db \<Rightarrow> bool" where
  "homed d \<longleftrightarrow> (\<forall>r\<in>set (agent_runs d). find (session_in (Run_TenantID r) (Run_SessionID r)) (sessions d) \<noteq> None)"

definition active :: "RunState \<Rightarrow> bool" where
  "active s \<longleftrightarrow> s = RunPending \<or> s = RunRunning"

definition working :: "RunID \<Rightarrow> db \<Rightarrow> bool" where
  "working rid d \<longleftrightarrow> (\<forall>r\<in>set (agent_runs d). Run_ID r = rid \<longrightarrow> active (Run_State r) \<longrightarrow>
    enqueued d (StepJob rid (Run_TenantID r) (Run_SessionID r) (step_count d rid)))"

definition based :: "db \<Rightarrow> bool" where
  "based d \<longleftrightarrow> keys_ok d \<and> log_ok d \<and> homed d \<and> sched d"

lemma step_count_frame [simp]:
  "step_count (d\<lparr>db_now := x_db_now\<rparr>) rid = step_count d rid"
  "step_count (d\<lparr>tenants := x_tenants\<rparr>) rid = step_count d rid"
  "step_count (d\<lparr>api_keys := x_api_keys\<rparr>) rid = step_count d rid"
  "step_count (d\<lparr>sessions := x_sessions\<rparr>) rid = step_count d rid"
  "step_count (d\<lparr>session_events := x_session_events\<rparr>) rid = step_count d rid"
  "step_count (d\<lparr>credentials := x_credentials\<rparr>) rid = step_count d rid"
  "step_count (d\<lparr>agent_runs := x_agent_runs\<rparr>) rid = step_count d rid"
  "step_count (d\<lparr>provider_instances := x_provider_instances\<rparr>) rid = step_count d rid"
  "step_count (d\<lparr>resources := x_resources\<rparr>) rid = step_count d rid"
  "step_count (d\<lparr>session_memory := x_session_memory\<rparr>) rid = step_count d rid"
  "step_count (d\<lparr>run_waits := x_run_waits\<rparr>) rid = step_count d rid"
  "step_count (d\<lparr>run_wait_members := x_run_wait_members\<rparr>) rid = step_count d rid"
  "step_count (d\<lparr>periodic_prompts := x_periodic_prompts\<rparr>) rid = step_count d rid"
  "step_count (d\<lparr>jobs := x_jobs\<rparr>) rid = step_count d rid"
  "step_count (d\<lparr>notifications := x_notifications\<rparr>) rid = step_count d rid"
  "step_count (logged d t sid a k p n) rid = step_count d rid"
  by (simp_all add: step_count_def)

lemma sched_frame [simp]:
  "sched (d\<lparr>db_now := x_db_now\<rparr>) = sched d"
  "sched (d\<lparr>tenants := x_tenants\<rparr>) = sched d"
  "sched (d\<lparr>api_keys := x_api_keys\<rparr>) = sched d"
  "sched (d\<lparr>sessions := x_sessions\<rparr>) = sched d"
  "sched (d\<lparr>session_events := x_session_events\<rparr>) = sched d"
  "sched (d\<lparr>credentials := x_credentials\<rparr>) = sched d"
  "sched (d\<lparr>provider_instances := x_provider_instances\<rparr>) = sched d"
  "sched (d\<lparr>resources := x_resources\<rparr>) = sched d"
  "sched (d\<lparr>session_memory := x_session_memory\<rparr>) = sched d"
  "sched (d\<lparr>run_waits := x_run_waits\<rparr>) = sched d"
  "sched (d\<lparr>run_wait_members := x_run_wait_members\<rparr>) = sched d"
  "sched (d\<lparr>periodic_prompts := x_periodic_prompts\<rparr>) = sched d"
  "sched (d\<lparr>notifications := x_notifications\<rparr>) = sched d"
  "sched (logged d t sid a k p n) = sched d"
  by (simp_all add: sched_def)

lemma homed_frame [simp]:
  "homed (d\<lparr>db_now := x_db_now\<rparr>) = homed d"
  "homed (d\<lparr>tenants := x_tenants\<rparr>) = homed d"
  "homed (d\<lparr>api_keys := x_api_keys\<rparr>) = homed d"
  "homed (d\<lparr>session_events := x_session_events\<rparr>) = homed d"
  "homed (d\<lparr>credentials := x_credentials\<rparr>) = homed d"
  "homed (d\<lparr>agent_run_steps := x_agent_run_steps\<rparr>) = homed d"
  "homed (d\<lparr>provider_instances := x_provider_instances\<rparr>) = homed d"
  "homed (d\<lparr>resources := x_resources\<rparr>) = homed d"
  "homed (d\<lparr>session_memory := x_session_memory\<rparr>) = homed d"
  "homed (d\<lparr>run_waits := x_run_waits\<rparr>) = homed d"
  "homed (d\<lparr>run_wait_members := x_run_wait_members\<rparr>) = homed d"
  "homed (d\<lparr>periodic_prompts := x_periodic_prompts\<rparr>) = homed d"
  "homed (d\<lparr>jobs := x_jobs\<rparr>) = homed d"
  "homed (d\<lparr>notifications := x_notifications\<rparr>) = homed d"
  by (simp_all add: homed_def)

lemma working_frame [simp]:
  "working rid (d\<lparr>db_now := x_db_now\<rparr>) = working rid d"
  "working rid (d\<lparr>tenants := x_tenants\<rparr>) = working rid d"
  "working rid (d\<lparr>api_keys := x_api_keys\<rparr>) = working rid d"
  "working rid (d\<lparr>sessions := x_sessions\<rparr>) = working rid d"
  "working rid (d\<lparr>session_events := x_session_events\<rparr>) = working rid d"
  "working rid (d\<lparr>credentials := x_credentials\<rparr>) = working rid d"
  "working rid (d\<lparr>provider_instances := x_provider_instances\<rparr>) = working rid d"
  "working rid (d\<lparr>resources := x_resources\<rparr>) = working rid d"
  "working rid (d\<lparr>session_memory := x_session_memory\<rparr>) = working rid d"
  "working rid (d\<lparr>run_waits := x_run_waits\<rparr>) = working rid d"
  "working rid (d\<lparr>run_wait_members := x_run_wait_members\<rparr>) = working rid d"
  "working rid (d\<lparr>periodic_prompts := x_periodic_prompts\<rparr>) = working rid d"
  "working rid (d\<lparr>notifications := x_notifications\<rparr>) = working rid d"
  "working rid (logged d t sid a k p n) = working rid d"
  by (simp_all add: working_def)

text \<open>The next step index is the number of the recorded steps.\<close>

lemma next_index_bounds:
  "n \<le> next_index ss n \<and> (\<forall>s\<in>set ss. Step_StepIndex s < next_index ss n) \<and>
    (next_index ss n = n \<or> next_index ss n - 1 \<in> Step_StepIndex ` set ss)"
proof (induction ss arbitrary: n)
  case (Cons s ss)
  from Cons [of "if Step_StepIndex s \<ge> n then Step_StepIndex s + 1 else n"] show ?case
    by (auto split: if_splits)
qed simp

lemma next_index_sched:
  assumes "sched d" "find (run_in t rid) (agent_runs d) \<noteq> None"
  shows "next_index (steps_of d t rid) 0 = step_count d rid"
proof -
  let ?n = "next_index (steps_of d t rid) 0"
  have i: "Step_StepIndex ` set (steps_of d t rid) = {0..<step_count d rid}"
    using assms by (auto simp: sched_def steps_of_def)
  have all: "x < ?n" if "x \<in> {0..<step_count d rid}" for x
    using that next_index_bounds [of 0 "steps_of d t rid"] unfolding i [symmetric] by auto
  have "0 \<le> step_count d rid" by (simp add: step_count_def)
  moreover have "?n = 0 \<or> ?n - 1 \<in> {0..<step_count d rid}"
    using next_index_bounds [of 0 "steps_of d t rid"] i by simp
  moreover have "step_count d rid - 1 < ?n" if "0 < step_count d rid" using that by (intro all) simp
  ultimately show ?thesis by (cases "0 < step_count d rid") auto
qed

section \<open>How the writes change it\<close>

lemma Run_IDs_upd: "(\<And>r. Run_ID (f r) = Run_ID r) \<Longrightarrow> Run_ID ` set (upd_where p f rs) = Run_ID ` set rs"
  by (metis list.set_map map_upd_where)

lemma bex_upd_where: "(\<exists>r\<in>set (upd_where p f rows). P r) \<longleftrightarrow> (\<exists>r\<in>set rows. P (if p r then f r else r))"
  by (induction rows) auto

lemma sched_run_update:
  assumes "sched d" "\<And>r. Run_ID (f r) = Run_ID r \<and> Run_TenantID (f r) = Run_TenantID r \<and> Run_SessionID (f r) = Run_SessionID r"
  shows "sched (d\<lparr>agent_runs := upd_where p f (agent_runs d)\<rparr>)"
proof -
  have eq: "Run_ID (if p r then f r else r) = Run_ID r" "Run_TenantID (if p r then f r else r) = Run_TenantID r"
    "Run_SessionID (if p r then f r else r) = Run_SessionID r" for r using assms(2) by simp_all
  show ?thesis using assms(1) assms(2) by (simp add: sched_def Run_IDs_upd bex_upd_where eq)
qed

lemma homed_run_update:
  assumes "homed d" "\<And>r. Run_ID (f r) = Run_ID r \<and> Run_TenantID (f r) = Run_TenantID r \<and> Run_SessionID (f r) = Run_SessionID r"
  shows "homed (d\<lparr>agent_runs := upd_where p f (agent_runs d)\<rparr>)"
proof -
  have eq: "Run_TenantID (if p r then f r else r) = Run_TenantID r"
    "Run_SessionID (if p r then f r else r) = Run_SessionID r" for r using assms(2) by simp_all
  show ?thesis using assms(1) by (simp add: homed_def ball_upd_where eq)
qed

lemma homed_session_update:
  assumes "homed d" "\<And>s. Sess_ID (f s) = Sess_ID s \<and> Sess_TenantID (f s) = Sess_TenantID s"
  shows "homed (d\<lparr>sessions := upd_where p f (sessions d)\<rparr>)"
  using assms by (simp add: homed_def find_upd_where)

lemma homed_logged [simp]: "homed (logged d t sid a k p n) = homed d"
  by (simp add: homed_def logged_def find_upd_where)

lemma homed_session_insert: "homed d \<Longrightarrow> homed (d\<lparr>sessions := sessions d @ [s]\<rparr>)"
  by (auto simp: homed_def find_append split: option.split)

lemma homed_create:
  "homed d \<Longrightarrow> find (session_in t (Run_SessionID run)) (sessions d) \<noteq> None \<Longrightarrow>
    homed (d\<lparr>agent_runs := agent_runs d @ [created_run n t run]\<rparr>)"
  by (auto simp: homed_def)

interpretation homed_inv: store_invariant_create homed "\<lambda>_. True" sha for sha
proof unfold_locales
  show "homed d \<Longrightarrow> homed (d\<lparr>db_now := now'\<rparr>)" for d now' by simp
  show "preserves homed (Sessions_UpdateLabels t sid ls)" "preserves homed (Sessions_Archive t sid)" for t sid ls
    by (rule preserves_session_updates, rule homed_session_update, assumption, simp)+
  show "preserves homed (Runs_Create t run)" for t run
    by (rule preserves_RunCreate_rule, rule homed_create)
qed ((rule write_rules; simp add: homed_run_update homed_session_insert)+)

text \<open>A write that keeps the state of a run.\<close>

lemma workingI:
  assumes "\<And>r. r \<in> set (agent_runs d) \<Longrightarrow> Run_ID r = rid \<Longrightarrow> active (Run_State r) \<Longrightarrow>
    enqueued d (StepJob rid (Run_TenantID r) (Run_SessionID r) (step_count d rid))"
  shows "working rid d"
  using assms unfolding working_def by blast

lemma workingD:
  "working rid d \<Longrightarrow> r \<in> set (agent_runs d) \<Longrightarrow> Run_ID r = rid \<Longrightarrow> active (Run_State r) \<Longrightarrow>
    enqueued d (StepJob rid (Run_TenantID r) (Run_SessionID r) (step_count d rid))"
  unfolding working_def by blast

lemma working_run_data:
  assumes "working rid d" "\<And>r. Run_ID (f r) = Run_ID r \<and> Run_TenantID (f r) = Run_TenantID r \<and>
      Run_SessionID (f r) = Run_SessionID r \<and> (active (Run_State (f r)) \<longrightarrow> active (Run_State r))"
  shows "working rid (d\<lparr>agent_runs := upd_where p f (agent_runs d)\<rparr>)"
proof (rule workingI, simp)
  fix r assume "r \<in> set (upd_where p f (agent_runs d))" "Run_ID r = rid" "active (Run_State r)"
  then obtain q where q: "q \<in> set (agent_runs d)" "r = (if p q then f q else q)" by (auto simp: set_upd_where)
  then have "Run_ID q = Run_ID r" "Run_TenantID q = Run_TenantID r" "Run_SessionID q = Run_SessionID r" "active (Run_State q)"
    using assms(2) [of q] \<open>active (Run_State r)\<close> by (auto split: if_splits)
  then show "enqueued d (StepJob rid (Run_TenantID r) (Run_SessionID r) (step_count d rid))"
    using workingD [OF assms(1) q(1)] \<open>Run_ID r = rid\<close> by simp
qed

lemma working_other:
  assumes "working rid d" "\<And>r. Run_ID (f r) = Run_ID r" "i \<noteq> rid"
  shows "working rid (d\<lparr>agent_runs := upd_where (run_in t i) f (agent_runs d)\<rparr>)"
proof (rule workingI, simp)
  fix r assume "r \<in> set (upd_where (run_in t i) f (agent_runs d))" "Run_ID r = rid" "active (Run_State r)"
  moreover from this have "r \<in> set (agent_runs d)"
    using assms(2,3) by (auto simp: set_upd_where split: if_splits)
  ultimately show "enqueued d (StepJob rid (Run_TenantID r) (Run_SessionID r) (step_count d rid))"
    using workingD [OF assms(1)] by simp
qed

lemma working_stops:
  assumes "\<And>r. Run_ID (f r) = Run_ID r" "\<And>r. \<not> active (Run_State (f r))" "keys_ok d"
    "find (run_in t i) (agent_runs d) \<noteq> None"
  shows "working i (d\<lparr>agent_runs := upd_where (run_in t i) f (agent_runs d)\<rparr>)"
proof -
  obtain q where q: "q \<in> set (agent_runs d)" "Run_ID q = i" "Run_TenantID q = t"
    using assms(4) by (auto dest: find_SomeD)
  have only: "run_in t i r" if "r \<in> set (agent_runs d)" "Run_ID r = i" for r
    using that q key_uniqueD [of Run_ID "agent_runs d" r q] assms(3) by (simp add: keys_ok_def)
  show ?thesis
  proof (rule workingI)
    fix r assume r: "r \<in> set (agent_runs (d\<lparr>agent_runs := upd_where (run_in t i) f (agent_runs d)\<rparr>))"
      "Run_ID r = i" "active (Run_State r)"
    then obtain x where x: "x \<in> set (agent_runs d)" "r = (if run_in t i x then f x else x)" by (auto simp: set_upd_where)
    then have "Run_ID x = i" using r(2) assms(1) by (simp split: if_splits)
    with only x have "r = f x" by simp
    with r(3) assms(2) show "enqueued (d\<lparr>agent_runs := upd_where (run_in t i) f (agent_runs d)\<rparr>)
        (StepJob i (Run_TenantID r) (Run_SessionID r)
          (step_count (d\<lparr>agent_runs := upd_where (run_in t i) f (agent_runs d)\<rparr>) i))" by simp
  qed
qed

text \<open>A job that joins the queue.\<close>

lemma sched_enqueue:
  assumes "sched d" "r \<in> set (agent_runs d)" "0 \<le> i" "i \<le> step_count d (Run_ID r)"
  shows "sched (d\<lparr>jobs := jobs d @ [\<lparr>Job_Args = StepJob (Run_ID r) (Run_TenantID r) (Run_SessionID r) i, Job_ScheduledAt = a\<rparr>]\<rparr>)"
  using assms by (auto simp: sched_def)

lemma sched_enqueue_other:
  "sched d \<Longrightarrow> \<not> is_StepJob job \<Longrightarrow> sched (d\<lparr>jobs := jobs d @ [\<lparr>Job_Args = job, Job_ScheduledAt = a\<rparr>]\<rparr>)"
  by (auto simp: sched_def)

lemma working_enqueue: "working rid d \<Longrightarrow> working rid (d\<lparr>jobs := jobs d @ [j]\<rparr>)"
  by (auto intro!: workingI dest: workingD)


section \<open>The invariant and its frame\<close>

lemma based_pres:
  "preserves keys_ok m \<Longrightarrow> preserves log_ok m \<Longrightarrow> preserves homed m \<Longrightarrow> preserves sched m \<Longrightarrow> preserves based m"
  by (simp add: preserves_def based_def)

interpretation sched_base: store_frame sched "\<lambda>_. True" sha for sha
proof unfold_locales
  show "sched d \<Longrightarrow> sched (d\<lparr>db_now := now'\<rparr>)" for d now' by simp
  show "preserves sched (EnqueueInTx job)" "preserves sched (EnqueueInTxAt job at)" if "\<not> is_StepJob job" for job "at"
    using that by (simp_all add: preserves_wp wp_simps sched_enqueue_other)
qed ((rule write_rules; simp add: sched_run_update)+)

interpretation based_base: store_frame based "\<lambda>_. True" sha for sha
proof unfold_locales
  show "based d \<Longrightarrow> based (d\<lparr>db_now := now'\<rparr>)" for d now' by (simp add: based_def)
  show "preserves based (EnqueueInTx job)" "preserves based (EnqueueInTxAt job at)" if "\<not> is_StepJob job" for job "at"
    by (rule based_pres; intro keys_inv.EnqueueOther keys_inv.EnqueueOtherAt log_inv.EnqueueOther log_inv.EnqueueOtherAt
        homed_inv.EnqueueOther homed_inv.EnqueueOtherAt sched_base.EnqueueOther sched_base.EnqueueOtherAt; rule that)+
qed ((rule based_pres; intro pres_intros; simp)+)

lemma based_SetState: "preserves based (Runs_SetState t i st fr fm)"
proof (rule based_pres)
  show "preserves sched (Runs_SetState t i st fr fm)"
    by (rule preserves_run_writes) (simp add: sched_run_update)
qed (intro pres_intros; simp)+

lemma preserves_run_fields:
  assumes "\<And>d f. I d \<Longrightarrow> (\<And>r. Run_ID (f r) = Run_ID r \<and> Run_TenantID (f r) = Run_TenantID r \<and>
      Run_SessionID (f r) = Run_SessionID r \<and> Run_State (f r) = Run_State r) \<Longrightarrow>
      I (d\<lparr>agent_runs := upd_where (run_in t rid) f (agent_runs d)\<rparr>)"
  shows "preserves I (Runs_SetHistory t rid h)" "preserves I (Runs_SetResult t rid res)"
    "preserves I (Runs_RequestCancel t rid)"
  unfolding Runs_SetHistory_def Runs_SetResult_def Runs_RequestCancel_def
  by (rule preserves_Runs_exec, rule assms, assumption, simp)+

interpretation working_base: store_frame "working rid" "\<lambda>_. True" sha for sha rid
proof unfold_locales
  show "working rid d \<Longrightarrow> working rid (d\<lparr>db_now := now'\<rparr>)" for d now' by simp
qed ((rule preserves_run_fields write_rules; simp add: working_run_data working_enqueue)+)

text \<open>A run that is stopped, and a run that is another one.\<close>

lemma working_SetState:
  assumes "\<not> active st \<or> i \<noteq> rid"
  shows "preserves (working rid) (Runs_SetState t i st fr fm)"
  unfolding Runs_SetState_def
  by (rule preserves_Runs_exec) (use assms in \<open>auto intro: working_run_data working_other\<close>)

section \<open>Launching a step\<close>

lemma wp_Append_ok:
  assumes "based d" "snapshot d r" "\<And>n. log_ok (logged d (Run_TenantID r) (Run_SessionID r) a k p n) \<Longrightarrow>
      Q n (logged d (Run_TenantID r) (Run_SessionID r) a k p n)"
  shows "wp (Events_Append (Run_TenantID r) (Run_SessionID r) a k p) Q E d"
proof -
  obtain q where q: "q \<in> set (agent_runs d)" "Run_TenantID q = Run_TenantID r" "Run_SessionID q = Run_SessionID r"
    using assms(2) by (auto simp: snapshot_def)
  then obtain s where s: "find (session_in (Run_TenantID r) (Run_SessionID r)) (sessions d) = Some s"
    using assms(1) unfolding based_def homed_def by (metis not_None_eq)
  then have "find (\<lambda>e. Ev_SessionID e = Run_SessionID r \<and> Ev_Seq e = Sess_last_seq s + 1) (session_events d) = None"
    using assms(1) log_next_free by (simp add: based_def)
  with s assms(3) log_ok_logged [OF _ s] assms(1) show ?thesis by (simp add: wp_simps based_def)
qed

lemma snapshot_row:
  assumes "snapshot d r" "keys_ok d"
  shows "find (run_in (Run_TenantID r) (Run_ID r)) (agent_runs d) \<noteq> None"
    and "x \<in> set (agent_runs d) \<Longrightarrow> Run_ID x = Run_ID r \<Longrightarrow>
      Run_TenantID x = Run_TenantID r \<and> Run_SessionID x = Run_SessionID r"
proof -
  obtain q where q: "q \<in> set (agent_runs d)" "Run_ID q = Run_ID r" "Run_TenantID q = Run_TenantID r"
    "Run_SessionID q = Run_SessionID r" using assms(1) by (auto simp: snapshot_def)
  then show "find (run_in (Run_TenantID r) (Run_ID r)) (agent_runs d) \<noteq> None"
    using find_NoneD [of _ "agent_runs d" q] by blast
  show "Run_TenantID x = Run_TenantID r \<and> Run_SessionID x = Run_SessionID r"
    if "x \<in> set (agent_runs d)" "Run_ID x = Run_ID r"
    using key_uniqueD [of Run_ID "agent_runs d" x q] that q assms(2) by (simp add: keys_ok_def)
qed

lemma preserves_imp: "(b \<Longrightarrow> preserves I m) \<Longrightarrow> preserves (\<lambda>d. b \<longrightarrow> I d) m"
  by (simp add: preserves_def)

lemma launch_next:
  assumes "based d" "snapshot d r" "b \<and> rid \<noteq> Run_ID r \<longrightarrow> working rid d"
  defines "d' \<equiv> d\<lparr>jobs := jobs d @
    [\<lparr>Job_Args = StepJob (Run_ID r) (Run_TenantID r) (Run_SessionID r) (step_count d (Run_ID r)), Job_ScheduledAt = None\<rparr>]\<rparr>"
  shows "based d' \<and> (b \<longrightarrow> working rid d') \<and> working (Run_ID r) d'"
proof -
  have keys: "keys_ok d" using assms(1) by (simp add: based_def)
  obtain q where q: "q \<in> set (agent_runs d)" "Run_ID q = Run_ID r" "Run_TenantID q = Run_TenantID r"
    "Run_SessionID q = Run_SessionID r" using assms(2) by (auto simp: snapshot_def)
  have "0 \<le> step_count d (Run_ID r)" by (simp add: step_count_def)
  then have "sched d'"
    using sched_enqueue [of d q "step_count d (Run_ID r)" None] q assms(1) by (simp add: based_def d'_def)
  moreover have own: "working (Run_ID r) d'"
    by (rule workingI) (use snapshot_row(2) [OF assms(2) keys] in \<open>auto simp: d'_def\<close>)
  moreover have "b \<longrightarrow> working rid d'"
    using own assms(3) by (cases "rid = Run_ID r") (auto simp: d'_def intro: working_enqueue)
  ultimately show ?thesis using assms(1) by (simp add: based_def d'_def)
qed


text \<open>The tail that the answer to a run and the resumption of a parent share.\<close>

lemma wp_launch:
  assumes "based d" "snapshot d r" "b \<and> rid \<noteq> Run_ID r \<longrightarrow> working rid d"
  shows "wp (bindM (Events_Append (Run_TenantID r) (Run_SessionID r) a k p) (\<lambda>n.
      bindM (Runs_Steps (Run_TenantID r) (Run_ID r)) (\<lambda>steps.
      bindM (EnqueueInTx (StepJob (Run_ID r) (Run_TenantID r) (Run_SessionID r) (next_index steps 0))) (\<lambda>_.
      ret (g n))))) (\<lambda>_ d'. based d' \<and> (b \<longrightarrow> working rid d') \<and> working (Run_ID r) d') E d"
  unfolding wp_bindM
proof (rule wp_Append_ok [OF assms(1,2)])
  fix n
  let ?d = "logged d (Run_TenantID r) (Run_SessionID r) a k p n"
  assume "log_ok ?d"
  then have P: "based ?d" "snapshot ?d r" "b \<and> rid \<noteq> Run_ID r \<longrightarrow> working rid ?d" using assms by (simp_all add: based_def)
  have "next_index (steps_of ?d (Run_TenantID r) (Run_ID r)) 0 = step_count ?d (Run_ID r)"
    using P(1) snapshot_row(1) [OF P(2)] by (intro next_index_sched) (simp_all add: based_def)
  then show "wp (Runs_Steps (Run_TenantID r) (Run_ID r)) (\<lambda>steps.
    wp (EnqueueInTx (StepJob (Run_ID r) (Run_TenantID r) (Run_SessionID r) (next_index steps 0))) (\<lambda>_.
      wp (ret (g n)) (\<lambda>_ d'. based d' \<and> (b \<longrightarrow> working rid d') \<and> working (Run_ID r) d') E) E) E ?d"
    using launch_next [OF P] by (simp add: wp_simps)
qed

lemma wp_run_write:
  assumes "based d" "snapshot d r" "preserves P (Runs_exec (Run_TenantID r) (Run_ID r) f)" "P d"
    "\<And>d'. P d' \<Longrightarrow> Q () d'"
  shows "wp (Runs_exec (Run_TenantID r) (Run_ID r) f) Q E d"
  using assms snapshot_row(1) [OF assms(2)] unfolding preserves_wp by (auto simp: wp_simps based_def)

lemma wp_relaunch:
  assumes "based d" "b \<longrightarrow> working rid d" "snapshot d r"
  shows "wp (bindM (Runs_SetHistory (Run_TenantID r) (Run_ID r) h) (\<lambda>_.
      bindM (Runs_SetState (Run_TenantID r) (Run_ID r) RunRunning fr fm) (\<lambda>_.
      bindM (Events_Append (Run_TenantID r) (Run_SessionID r) a k p) (\<lambda>n.
      bindM (Runs_Steps (Run_TenantID r) (Run_ID r)) (\<lambda>steps.
      bindM (EnqueueInTx (StepJob (Run_ID r) (Run_TenantID r) (Run_SessionID r) (next_index steps 0))) (\<lambda>_.
      ret (g n)))))))
    (\<lambda>_ d'. based d' \<and> (b \<longrightarrow> working rid d') \<and> working (Run_ID r) d') E d"
    (is "wp (bindM ?h (\<lambda>_. bindM ?s ?m)) ?Q E d")
proof -
  let ?W = "\<lambda>d. b \<and> rid \<noteq> Run_ID r \<longrightarrow> working rid d" and ?S = "\<lambda>d. snapshot d r"
  have other: "preserves ?W m" if "b \<Longrightarrow> rid \<noteq> Run_ID r \<Longrightarrow> preserves (working rid) m" for m :: "unit dbm"
    using that by (auto simp: preserves_def)
  have state: "wp (bindM ?s ?m) ?Q E d" if "based d" "?S d" "?W d" for d
    unfolding wp_bindM [of ?s] unfolding Runs_SetState_def
  proof (rule wp_run_write [where P = "\<lambda>d. based d \<and> ?S d \<and> ?W d", OF that(1,2)])
    show "preserves (\<lambda>d. based d \<and> ?S d \<and> ?W d) (Runs_exec (Run_TenantID r) (Run_ID r)
        (\<lambda>t r. r\<lparr>Run_State := RunRunning, Run_FailureReason := fr, Run_FailureMessage := fm, Run_UpdatedAt := t\<rparr>))"
      unfolding Runs_SetState_def [symmetric]
      by (intro preserves_conj based_SetState snapshot_inv.SetState other working_SetState) simp_all
    show "based d \<and> ?S d \<and> ?W d" using that by simp
    show "wp (?m ()) ?Q E d'" if "based d' \<and> ?S d' \<and> ?W d'" for d'
      using that wp_launch by blast
  qed
  show ?thesis
    unfolding wp_bindM [of ?h] unfolding Runs_SetHistory_def
  proof (rule wp_run_write [where P = "\<lambda>d. based d \<and> ?S d \<and> (b \<longrightarrow> working rid d)", OF assms(1,3)])
    show "preserves (\<lambda>d. based d \<and> ?S d \<and> (b \<longrightarrow> working rid d)) (Runs_exec (Run_TenantID r) (Run_ID r)
        (\<lambda>t r. r\<lparr>Run_History := h, Run_UpdatedAt := t\<rparr>))"
      unfolding Runs_SetHistory_def [symmetric]
      by (intro preserves_conj preserves_imp based_base.SetHistory snapshot_inv.SetHistory working_base.SetHistory) simp_all
  qed (use assms state in auto)
qed

end
