(* ===== verification/Progress.thy ===== *)
theory Progress
  imports Schedule
begin

text \<open>
  No run is stranded: a run that is pending or running has the job of its next step in the
  queue. The invariant is broken and restored inside the transactions that record a step,
  answer a run or resume a parent; the section on the silent errors shows that none of them
  commits in between.
\<close>

section \<open>Closing waits\<close>

definition tracked :: "bool \<Rightarrow> RunID \<Rightarrow> db \<Rightarrow> bool" where
  "tracked b rid d \<longleftrightarrow> based d \<and> (b \<longrightarrow> working rid d)"

lemma tracked_pres: "preserves based m \<Longrightarrow> preserves (working rid) m \<Longrightarrow> preserves (tracked b rid) m"
  by (simp add: preserves_def tracked_def)

interpretation tracked_base: store_frame "tracked b rid" "\<lambda>_. True" sha for sha b rid
proof unfold_locales
  show "tracked b rid d \<Longrightarrow> tracked b rid (d\<lparr>db_now := now'\<rparr>)" for d now'
    using based_base.tick by (simp add: tracked_def)
  show "preserves (tracked b rid) (EnqueueInTx job)" "preserves (tracked b rid) (EnqueueInTxAt job at)" if "\<not> is_StepJob job" for job "at"
    by (rule tracked_pres; intro based_base.EnqueueOther based_base.EnqueueOtherAt working_base.EnqueueOther
        working_base.EnqueueOtherAt; rule that)+
qed ((rule tracked_pres; intro pres_intros; simp)+)

lemma tracked_SetState: "\<not> active st \<or> i \<noteq> rid \<Longrightarrow> preserves (tracked b rid) (Runs_SetState t i st fr fm)"
  by (intro tracked_pres based_SetState working_SetState)

lemma wp_pres: "preserves I m \<Longrightarrow> I d \<Longrightarrow> (\<And>a d'. I d' \<Longrightarrow> Q a d') \<Longrightarrow> (\<And>e d'. I d' \<Longrightarrow> E e d') \<Longrightarrow> wp m Q E d"
  unfolding preserves_wp by (blast intro: wp_mono)

lemma found_snapshot: "find (run_in t i) (agent_runs d) = Some r \<Longrightarrow> snapshot d r"
  by (auto simp: snapshot_def dest: find_SomeD)

lemma wp_resumed:
  assumes "tracked b rid d" "find (run_in org i) (agent_runs d) = Some r"
  shows "wp (bindM (Runs_SetHistory org (Run_ID r) h) (\<lambda>_. bindM (Runs_SetState org (Run_ID r) RunRunning fr fm) (\<lambda>_.
      bindM (Events_Append org (Run_SessionID r) a k p) (\<lambda>n. bindM (Runs_Steps org (Run_ID r)) (\<lambda>steps.
      bindM (EnqueueInTx (StepJob (Run_ID r) (Run_TenantID r) (Run_SessionID r) (next_index steps 0))) (\<lambda>_. ret (g n)))))))
    (\<lambda>first d'. tracked b rid d' \<and> working i d') E d"
proof -
  have r: "Run_TenantID r = org" "Run_ID r = i" using find_SomeD [OF assms(2)] by auto
  have "snapshot d r" using found_snapshot [OF assms(2)] .
  then show ?thesis
    using assms(1) wp_relaunch [of d b rid r] unfolding r tracked_def by (auto elim: wp_mono)
qed

lemma wp_resumeParent:
  assumes "tracked b rid d"
  shows "wp (resumeParent org w out)
    (\<lambda>first d'. tracked b rid d' \<and> (first \<longrightarrow> working (Wait_ParentRunID w) d')) (\<lambda>_. tracked b rid) d"
  unfolding resumeParent_def wp_bindM [of "Waits_MarkResumed _ _"]
proof (rule wp_pres [OF tracked_base.MarkResumed [OF TrueI] assms], goal_cases)
  case (1 first d')
  then show ?case
    by (auto simp: wp_bindM [of "Runs_GetForUpdate _ _"] wp_Runs_GetForUpdate wp_if wp_ret wp_raise
      split: option.split sum.split intro!: wp_mono [OF wp_resumed])
qed simp


interpretation tracked_resume: store_resume "tracked b rid" "\<lambda>_. True" sha for sha b rid
proof unfold_locales
  show "preserves (tracked b rid) (resumeParent org w out)" for org w out
    by (rule preservesI, rule wp_mono [OF wp_resumeParent]) auto
qed

text \<open>
  How \<open>tryCloseWait\<close> ends, from what the resumption does: everything before it keeps \<open>I\<close> and
  leaves the answer that nothing was resumed.
\<close>

lemma wp_tryCloseWait_rule:
  assumes "I d" and I: "\<And>d'. I d' \<Longrightarrow> Q False d'" "\<And>e d'. I d' \<Longrightarrow> E e d'"
    and writes: "\<And>ws out. ws \<noteq> WaitOpen \<Longrightarrow> preserves I (Waits_Close org wid ws out)"
      "\<And>out. preserves I (Waits_SetResult org wid out)"
    and resume: "\<And>w out d'. w \<in> set (run_waits d) \<Longrightarrow> Wait_ID w = wid \<Longrightarrow> I d' \<Longrightarrow> wp (resumeParent org w out) Q E d'"
  shows "wp (tryCloseWait org wid reason) Q E d"
proof (cases "find (wait_in d org wid) (run_waits d)")
  case None
  then show ?thesis using assms(1) I by (simp add: tryCloseWait_def wp_simps)
next
  case (Some w)
  then have w: "w \<in> set (run_waits d)" "Wait_ID w = wid" using find_SomeD [OF Some] by auto
  have close: "wp (bindM m f) Q E d" if "preserves I m" "\<And>a d'. I d' \<Longrightarrow> wp (f a) Q E d'" for m :: "'z dbm" and f
    unfolding wp_bindM by (rule wp_pres [OF that(1) assms(1)]) (use that(2) I in auto)
  have members: "wp (bindM (Waits_Members wid) (\<lambda>members. bindM (collect_members org members o0 0) g)) Q E d"
    if "\<And>a. wp (g a) Q E d" for o0 g
    unfolding wp_bindM wp_Waits_Members
    by (rule wp_pres [where I = "\<lambda>d'. d' = d", OF preserves_collect_members]) (use that assms(1) I in auto)
  show ?thesis
    unfolding tryCloseWait_def wp_tryM wp_Waits_GetForUpdate Some option.case sum.case
    by (rule members) (auto simp: Let_def wp_ret assms(1) I intro!: close resume w writes)
qed

lemma wp_tryCloseWait:
  assumes "tracked b rid d"
  shows "wp (tryCloseWait org wid reason)
    (\<lambda>res d'. tracked b rid d' \<and> (res \<longrightarrow> (\<exists>w\<in>set (run_waits d). Wait_ID w = wid \<and> working (Wait_ParentRunID w) d')))
    (\<lambda>_. tracked b rid) d"
proof (rule wp_tryCloseWait_rule [where I = "tracked b rid", OF assms], goal_cases)
  case (5 w out d')
  show ?case by (rule wp_mono [OF wp_resumeParent [OF 5(3)]]) (use 5 in auto)
qed (auto intro: tracked_base.WaitClose tracked_base.WaitSetResult)

section \<open>The identifiers of waits\<close>

text \<open>
  A wait carries the id that is computed from its parent, its step and its tool call. With a
  hash that does not collide, and run ids without a colon, waits of two runs never share one.
\<close>

definition named_waits :: "(string \<Rightarrow> string \<Rightarrow> string) \<Rightarrow> db \<Rightarrow> bool" where
  "named_waits sha d \<longleftrightarrow> (\<forall>r\<in>set (agent_runs d). id_text (Run_ID r)) \<and>
    (\<forall>w\<in>set (run_waits d). Wait_ParentRunID w \<in> Run_ID ` set (agent_runs d) \<and>
      Wait_ID w = deterministicWaitID sha (Wait_ParentRunID w) (Wait_StepIndex w) (Wait_ToolCallID w))"

lemma named_waits_frame [simp]:
  "named_waits sha (d\<lparr>db_now := x_db_now\<rparr>) = named_waits sha d"
  "named_waits sha (d\<lparr>tenants := x_tenants\<rparr>) = named_waits sha d"
  "named_waits sha (d\<lparr>api_keys := x_api_keys\<rparr>) = named_waits sha d"
  "named_waits sha (d\<lparr>sessions := x_sessions\<rparr>) = named_waits sha d"
  "named_waits sha (d\<lparr>session_events := x_session_events\<rparr>) = named_waits sha d"
  "named_waits sha (d\<lparr>credentials := x_credentials\<rparr>) = named_waits sha d"
  "named_waits sha (d\<lparr>agent_run_steps := x_agent_run_steps\<rparr>) = named_waits sha d"
  "named_waits sha (d\<lparr>provider_instances := x_provider_instances\<rparr>) = named_waits sha d"
  "named_waits sha (d\<lparr>resources := x_resources\<rparr>) = named_waits sha d"
  "named_waits sha (d\<lparr>session_memory := x_session_memory\<rparr>) = named_waits sha d"
  "named_waits sha (d\<lparr>run_wait_members := x_run_wait_members\<rparr>) = named_waits sha d"
  "named_waits sha (d\<lparr>periodic_prompts := x_periodic_prompts\<rparr>) = named_waits sha d"
  "named_waits sha (d\<lparr>jobs := x_jobs\<rparr>) = named_waits sha d"
  "named_waits sha (d\<lparr>notifications := x_notifications\<rparr>) = named_waits sha d"
  "named_waits sha (logged d t sid a k p n) = named_waits sha d"
  by (simp_all add: named_waits_def)

lemma named_waits_run_update:
  assumes "named_waits sha d" "\<And>r. Run_ID (f r) = Run_ID r"
  shows "named_waits sha (d\<lparr>agent_runs := upd_where p f (agent_runs d)\<rparr>)"
proof -
  have "Run_ID (if p r then f r else r) = Run_ID r" for r using assms(2) by simp
  then show ?thesis using assms by (simp add: named_waits_def Run_IDs_upd ball_upd_where)
qed

lemma named_waits_wait_update:
  assumes "named_waits sha d" "\<And>w. Wait_ID (f w) = Wait_ID w \<and> Wait_ParentRunID (f w) = Wait_ParentRunID w \<and>
    Wait_StepIndex (f w) = Wait_StepIndex w \<and> Wait_ToolCallID (f w) = Wait_ToolCallID w"
  shows "named_waits sha (d\<lparr>run_waits := upd_where p f (run_waits d)\<rparr>)"
proof -
  have "Wait_ID (if p w then f w else w) = Wait_ID w" "Wait_ParentRunID (if p w then f w else w) = Wait_ParentRunID w"
    "Wait_StepIndex (if p w then f w else w) = Wait_StepIndex w" "Wait_ToolCallID (if p w then f w else w) = Wait_ToolCallID w"
    for w using assms(2) by simp_all
  then show ?thesis using assms(1) by (simp add: named_waits_def ball_upd_where)
qed

lemma preserves_wait_writes:
  assumes "\<And>d p f. I d \<Longrightarrow> (\<And>w. Wait_ID (f w) = Wait_ID w \<and> Wait_ParentRunID (f w) = Wait_ParentRunID w \<and>
    Wait_StepIndex (f w) = Wait_StepIndex w \<and> Wait_ToolCallID (f w) = Wait_ToolCallID w \<and>
    Wait_Deadline (f w) = Wait_Deadline w) \<Longrightarrow>
      I (d\<lparr>run_waits := upd_where p f (run_waits d)\<rparr>)"
  shows "preserves I (Waits_SetResult t wid out)" "preserves I (Waits_MarkResumed t wid)" "preserves I (Waits_Close t wid ws out)"
    "preserves I (Waits_ClaimDue t now lim)"
proof -
  show "preserves I (Waits_SetResult t wid out)" "preserves I (Waits_MarkResumed t wid)" "preserves I (Waits_Close t wid ws out)"
    unfolding Waits_SetResult_def Waits_MarkResumed_def Waits_Close_def
    by (intro pres_intros preserves_Waits_exec assms; simp)+
  show "preserves I (Waits_ClaimDue t now lim)"
    by (rule preserves_ClaimDue_rule) (simp add: assms)
qed

lemma find_run_id: "find (run_in t i) rs = Some r \<Longrightarrow> i \<in> Run_ID ` set rs"
  by (auto dest: find_SomeD)

interpretation named_waits_inv: store_invariant "named_waits sha" "\<lambda>_. True" sha for sha
proof unfold_locales
  show "named_waits sha d \<Longrightarrow> named_waits sha (d\<lparr>db_now := now'\<rparr>)" for d now' by simp
  show "preserves (named_waits sha) (Waits_Create t w ms)"
    if "Wait_ID w = deterministicWaitID sha (Wait_ParentRunID w) (Wait_StepIndex w) (Wait_ToolCallID w)" for t w ms
    by (rule preserves_Waits_Create) (use that find_run_id in \<open>auto simp: named_waits_def wait_tenant_def\<close>)
qed ((rule preserves_wait_writes write_rules; simp add: named_waits_run_update named_waits_wait_update)+)

lemma named_waits_launched:
  "named_waits sha d \<Longrightarrow> id_text (Run_ID run) \<Longrightarrow> named_waits sha (launched d t run sid b k p n job)"
  by (auto simp: launched_def named_waits_def)

lemma named_waits_step:
  assumes "sys_step sha d d'" "named_waits sha d"
  shows "named_waits sha d'"
proof (rule named_waits_inv.sys_step_runs [OF TrueI assms])
  show "named_waits sha (snd (start_run_tx org (start_run_row ctx dm req org newID) d))" if "id_text newID" for org ctx dm req newID
    using start_run_tx_state [of org "start_run_row ctx dm req org newID" d] assms(2) that named_waits_launched by auto
  show "named_waits sha (snd (spawn_tx run (StepJob (Run_ID run) (Run_TenantID run) s i)
        (new_child run (StepJob (Run_ID run) (Run_TenantID run) s i) req policy newID) d))" if "id_text newID"
    for run :: AgentRun and s i req policy newID
    using spawn_tx_state [of run "StepJob (Run_ID run) (Run_TenantID run) s i"
        "new_child run (StepJob (Run_ID run) (Run_TenantID run) s i) req policy newID" d] assms(2) that named_waits_launched by auto
qed

lemma wait_id_parent:
  assumes "named_waits sha d" "inj (sha waitNamespace)" "w \<in> set (run_waits d)" "id_text rid"
    "Wait_ID w = deterministicWaitID sha rid i call"
  shows "Wait_ParentRunID w = rid"
proof -
  have "id_text (Wait_ParentRunID w)" using assms(1,3) by (force simp: named_waits_def)
  moreover have "spawnKey (Wait_ParentRunID w) (Wait_StepIndex w) (Wait_ToolCallID w) = spawnKey rid i call"
    using assms(1,3,5) injD [OF assms(2)] by (simp add: named_waits_def deterministicWaitID_def)
  ultimately show ?thesis
    using assms(4) cut_unique [of "CHR '':''" "Wait_ParentRunID w" rid] by (simp add: spawnKey_def id_text_def)
qed

text \<open>A wait that is created and not left open has resumed the run that made it.\<close>

lemma wp_createWait:
  assumes "tracked b rid d" "named_waits sha d" "inj (sha waitNamespace)" "snapshot d run"
  shows "wp (createWait sha run job rec)
    (\<lambda>park d'. tracked b rid d' \<and> (\<not> park \<longrightarrow> working (Run_ID run) d')) (\<lambda>_ _. True) d"
proof -
  let ?I = "\<lambda>d. tracked b rid d \<and> named_waits sha d \<and> snapshot d run"
  let ?id = "deterministicWaitID sha (Run_ID run) (SJ_StepIndex job) (rec_waitToolCallID rec)"
  have close: "wp (tryCloseWait (Run_TenantID run) ?id closeReasonChild)
      (\<lambda>resumed d'. tracked b rid d' \<and> (resumed \<longrightarrow> working (Run_ID run) d')) (\<lambda>_ _. True) d'" if "?I d'" for d'
  proof (rule wp_mono [OF wp_tryCloseWait])
    show "tracked b rid d'" using that by simp
    have "id_text (Run_ID run)" using that by (auto simp: snapshot_def named_waits_def)
    then show "tracked b rid d'' \<and> (resumed \<longrightarrow> working (Run_ID run) d'')"
      if "tracked b rid d'' \<and> (resumed \<longrightarrow> (\<exists>w\<in>set (run_waits d'). Wait_ID w = ?id \<and> working (Wait_ParentRunID w) d''))"
      for resumed d''
      using that wait_id_parent [of sha d'] \<open>?I d'\<close> assms(3) by metis
  qed simp
  show ?thesis
    unfolding createWait_def Let_def wp_bindM [of "gets _"] wp_gets wp_bindM [of "Waits_Create _ _ _"]
  proof (rule wp_pres [where I = ?I], goal_cases)
    case 1
    show ?case
      by (intro preserves_conj tracked_base.WaitCreate named_waits_inv.WaitCreate snapshot_inv.WaitCreate) simp_all
  next
    case (3 a d')
    have late: "preserves (tracked b rid) (EnqueueInTxAt (WaitTimeoutJob (Run_TenantID run)) at)" for "at"
      by (rule tracked_base.EnqueueAt)
    show ?case
      unfolding wp_bindM
      by (rule wp_mono [OF close [OF 3]]) (auto simp: wp_bindM wp_ret intro!: wp_pres [OF late])
  qed (use assms in simp_all)
qed


section \<open>The silent errors\<close>

text \<open>
  \<open>txStale\<close> commits a body that ends with the cancelled-commit signal. Only
  \<open>markCancelledTx\<close> gives it: a commit that fails in another way leaves no trace. Nor does
  anything but the guards of a delivery itself say that the delivery is stale.
\<close>

named_theorems quiet_intros \<open>computations that end neither with the cancelled-commit signal nor as stale\<close>

definition quiet :: "'a dbm \<Rightarrow> bool" where
  "quiet m \<longleftrightarrow> (\<forall>d. wp m (\<lambda>_ _. True) (\<lambda>e _. e \<noteq> errCancelledCommit \<and> e \<noteq> errStale) d)"

lemma quiet_rules [quiet_intros]:
  "quiet (ret a)" "e \<noteq> errCancelledCommit \<Longrightarrow> e \<noteq> errStale \<Longrightarrow> quiet (raise e)" "quiet (gets f)"
  "(b \<Longrightarrow> quiet m) \<Longrightarrow> (\<not> b \<Longrightarrow> quiet n) \<Longrightarrow> quiet (if b then m else n)"
  "quiet m \<Longrightarrow> (\<And>x. quiet (g x)) \<Longrightarrow> quiet (case v of None \<Rightarrow> m | Some x \<Rightarrow> g x)"
  "(\<And>x y. quiet (h x y)) \<Longrightarrow> quiet (case p of (x, y) \<Rightarrow> h x y)"
  by (auto simp: quiet_def wp_simps split: option.split prod.split)

lemma quiet_bind [quiet_intros]: "quiet m \<Longrightarrow> (\<And>a. quiet (f a)) \<Longrightarrow> quiet (bindM m f)"
  unfolding quiet_def wp_bindM by (blast intro: wp_mono)

lemma quiet_try:
  "quiet m \<Longrightarrow> (\<And>e. e \<noteq> errCancelledCommit \<Longrightarrow> e \<noteq> errStale \<Longrightarrow> quiet (h (Inl e))) \<Longrightarrow> (\<And>a. quiet (h (Inr a))) \<Longrightarrow> quiet (tryM m h)"
  unfolding quiet_def wp_tryM by (rule allI, rule wp_mono, erule spec) auto

lemma quiet_forM [quiet_intros]: "(\<And>x. quiet (f x)) \<Longrightarrow> quiet (forM xs f)"
  by (induction xs) (auto intro!: quiet_intros)

lemma quiet_store [quiet_intros]:
  "quiet (Runs_exec t rid u)" "quiet (Runs_SetState t rid st fr fm)" "quiet (Runs_SetHistory t rid hist)"
  "quiet (Runs_SetResult t rid res)" "quiet (Events_Append t sid a k p)"
  "quiet (Runs_Get t rid)" "quiet (Runs_GetForUpdate t rid)" "quiet (Runs_Steps t rid)" "quiet (EnqueueInTx job)"
  "quiet (EnqueueInTxAt job at)" "quiet (Waits_exec q g)" "quiet (Waits_Close t wid ws out)"
  "quiet (Waits_SetResult t wid out)" "quiet (Waits_MarkResumed t wid)" "quiet (Waits_Members wid)"
  "quiet (Waits_Get t wid)" "quiet (Waits_GetForUpdate t wid)" "quiet (Waits_ListOpenForParent t rid)" "quiet (Waits_ListOpenForChild t rid)" "quiet (Waits_insert_member wid m)"
  by (auto simp: quiet_def wp_simps Runs_SetState_def Runs_SetHistory_def Runs_SetResult_def Waits_Close_def
      Waits_SetResult_def Waits_MarkResumed_def Waits_ListOpenForParent_def Waits_ListOpenForChild_def split: option.split)

lemma quiet_Waits_Create [quiet_intros]: "quiet (Waits_Create t w ms)"
  unfolding Waits_Create_def Let_def
  by (auto intro!: quiet_intros quiet_try split: sum.split simp: quiet_def [of "modifyM _"] wp_simps)

lemma quiet_collect [quiet_intros]: "quiet (collect_members org ms out n)"
  by (induction ms arbitrary: out n) (auto intro!: quiet_intros simp: Let_def)

lemma quiet_DecodeEnvelope: "DecodeEnvelope raw \<noteq> Inl errCancelledCommit" "DecodeEnvelope raw \<noteq> Inl errStale"
  by (auto simp: DecodeEnvelope_def split: RawHistory.split)

lemma quiet_resumeParent [quiet_intros]: "quiet (resumeParent org w out)"
  unfolding resumeParent_def appendWaitResult_def
  by (auto intro!: quiet_intros split: sum.splits simp: Let_def quiet_DecodeEnvelope)

lemma quiet_waits [quiet_intros]:
  "quiet (tryCloseWait org wid reason)" "quiet (resolveChildWaits r)" "quiet (abandonParentWaits org rid)"
  unfolding tryCloseWait_def resolveChildWaits_def abandonParentWaits_def Let_def
  by (auto intro!: quiet_intros quiet_try split: sum.split)

lemma quiet_classify: "quiet (classify_outcome sha job run step result rec)"
  unfolding classify_outcome_def createWait_def appendTx_def Let_def by (auto intro!: quiet_intros)

lemma quiet_fails: "wp m Q (\<lambda>_ _. True) d \<Longrightarrow> quiet m \<Longrightarrow> wp m Q (\<lambda>e _. e \<noteq> errCancelledCommit \<and> e \<noteq> errStale) d"
  unfolding quiet_def wp_outcome by blast

lemma quiet_wp: "wp m Q (\<lambda>_ _. True) d \<Longrightarrow> quiet m \<Longrightarrow> wp m Q (\<lambda>e _. e \<noteq> errCancelledCommit) d"
  unfolding quiet_def wp_outcome by blast


section \<open>Recording a step\<close>

lemma sched_record:
  assumes "sched d" "Step_RunID st \<in> Run_ID ` set (agent_runs d)" "Step_StepIndex st = step_count d (Step_RunID st)"
  defines "d' \<equiv> d\<lparr>agent_run_steps := agent_run_steps d @ [st]\<rparr>"
  shows "sched d'" and "step_count d' (Step_RunID st) = step_count d (Step_RunID st) + 1"
    and "rid \<noteq> Step_RunID st \<Longrightarrow> step_count d' rid = step_count d rid"
proof -
  show one: "step_count d' (Step_RunID st) = step_count d (Step_RunID st) + 1" by (simp add: step_count_def d'_def)
  show other: "rid \<noteq> Step_RunID st \<Longrightarrow> step_count d' rid = step_count d rid" for rid
    by (simp add: step_count_def d'_def)
  have "step_count d rid \<le> step_count d' rid" for rid
    using one other [of rid] by (cases "rid = Step_RunID st") simp_all
  then have jobs: "i \<le> step_count d rid \<Longrightarrow> i \<le> step_count d' rid" for i rid using order_trans by blast
  have "Step_StepIndex ` set (filter (\<lambda>s. Step_RunID s = rid) (agent_run_steps d')) = {0..<step_count d' rid}" for rid
  proof (cases "rid = Step_RunID st")
    case True
    have "0 \<le> step_count d rid" by (simp add: step_count_def)
    then have "{0..<step_count d rid + 1} = insert (step_count d rid) {0..<step_count d rid}" by auto
    moreover have "Step_StepIndex ` set (filter (\<lambda>s. Step_RunID s = rid) (agent_run_steps d')) =
        insert (step_count d rid) (Step_StepIndex ` set (filter (\<lambda>s. Step_RunID s = rid) (agent_run_steps d)))"
      using True assms(3) by (auto simp: d'_def)
    ultimately show ?thesis using True one assms(1) by (simp add: sched_def)
  next
    case False
    then have "filter (\<lambda>s. Step_RunID s = rid) (agent_run_steps d') = filter (\<lambda>s. Step_RunID s = rid) (agent_run_steps d)"
      by (simp add: d'_def)
    then show ?thesis using other [OF False] assms(1) by (simp add: sched_def)
  qed
  moreover have "\<forall>s\<in>set (agent_run_steps d'). Step_RunID s \<in> Run_ID ` set (agent_runs d')"
    using assms(1,2) by (auto simp: sched_def d'_def)
  moreover have "enqueued d' (StepJob rid t sid i) \<Longrightarrow> 0 \<le> i \<and> i \<le> step_count d' rid \<and>
      (\<exists>r\<in>set (agent_runs d'). Run_ID r = rid \<and> Run_TenantID r = t \<and> Run_SessionID r = sid)" for rid t sid i
  proof -
    assume "enqueued d' (StepJob rid t sid i)"
    then have "enqueued d (StepJob rid t sid i)" by (simp add: d'_def)
    then show ?thesis using assms(1) jobs unfolding sched_def d'_def by simp
  qed
  ultimately show "sched d'" unfolding sched_def by blast
qed

text \<open>The step of a job that was enqueued is either recorded already or the next one.\<close>

lemma sched_job:
  assumes "sched d" "enqueued d (StepJob rid t sid i)"
  shows "0 \<le> i" "i \<le> step_count d rid"
    and "i \<noteq> step_count d rid \<Longrightarrow> find (\<lambda>x. Step_RunID x = rid \<and> Step_StepIndex x = i) (agent_run_steps d) \<noteq> None"
proof -
  show i: "0 \<le> i" "i \<le> step_count d rid" using assms by (auto simp: sched_def)
  assume "i \<noteq> step_count d rid"
  with i have "i \<in> {0..<step_count d rid}" by simp
  then have "i \<in> Step_StepIndex ` set (filter (\<lambda>s. Step_RunID s = rid) (agent_run_steps d))"
    using assms(1) unfolding sched_def by blast
  then show "find (\<lambda>x. Step_RunID x = rid \<and> Step_StepIndex x = i) (agent_run_steps d) \<noteq> None"
    by (intro notI) (auto simp: find_None_iff)
qed

lemma sched_row:
  "sched d \<Longrightarrow> enqueued d (StepJob rid t sid i) \<Longrightarrow>
    \<exists>r\<in>set (agent_runs d). Run_ID r = rid \<and> Run_TenantID r = t \<and> Run_SessionID r = sid"
  unfolding sched_def by blast

text \<open>Between the record and the outcome: the run of the job has no next step yet.\<close>

definition recorded :: "(string \<Rightarrow> string \<Rightarrow> string) \<Rightarrow> bool \<Rightarrow> RunID \<Rightarrow> AgentRun \<Rightarrow> int \<Rightarrow> db \<Rightarrow> bool" where
  "recorded sha b rid run i d \<longleftrightarrow> tracked b rid d \<and> named_waits sha d \<and> snapshot d run \<and> step_count d (Run_ID run) = i + 1"

definition counted :: "RunID \<Rightarrow> int \<Rightarrow> db \<Rightarrow> bool" where
  "counted rid n d \<longleftrightarrow> step_count d rid = n"

lemma counted_frame [simp]:
  "counted rid c (d\<lparr>db_now := x_db_now\<rparr>) = counted rid c d"
  "counted rid c (d\<lparr>tenants := x_tenants\<rparr>) = counted rid c d"
  "counted rid c (d\<lparr>api_keys := x_api_keys\<rparr>) = counted rid c d"
  "counted rid c (d\<lparr>sessions := x_sessions\<rparr>) = counted rid c d"
  "counted rid c (d\<lparr>session_events := x_session_events\<rparr>) = counted rid c d"
  "counted rid c (d\<lparr>credentials := x_credentials\<rparr>) = counted rid c d"
  "counted rid c (d\<lparr>agent_runs := x_agent_runs\<rparr>) = counted rid c d"
  "counted rid c (d\<lparr>provider_instances := x_provider_instances\<rparr>) = counted rid c d"
  "counted rid c (d\<lparr>resources := x_resources\<rparr>) = counted rid c d"
  "counted rid c (d\<lparr>session_memory := x_session_memory\<rparr>) = counted rid c d"
  "counted rid c (d\<lparr>run_waits := x_run_waits\<rparr>) = counted rid c d"
  "counted rid c (d\<lparr>run_wait_members := x_run_wait_members\<rparr>) = counted rid c d"
  "counted rid c (d\<lparr>periodic_prompts := x_periodic_prompts\<rparr>) = counted rid c d"
  "counted rid c (d\<lparr>jobs := x_jobs\<rparr>) = counted rid c d"
  "counted rid c (d\<lparr>notifications := x_notifications\<rparr>) = counted rid c d"
  "counted rid c (logged d t sid a k p n) = counted rid c d"
  by (simp_all add: counted_def)

interpretation counted_base: store_frame "counted rid n" "\<lambda>_. True" sha for sha rid n
proof unfold_locales
  show "counted rid n d \<Longrightarrow> counted rid n (d\<lparr>db_now := now'\<rparr>)" for d now' by simp
qed ((rule write_rules; simp)+)

lemma recorded_pres:
  assumes "preserves (tracked b rid) m" "preserves (named_waits sha) m" "preserves (\<lambda>d. snapshot d run) m"
    "preserves (counted (Run_ID run) (i + 1)) m"
  shows "preserves (recorded sha b rid run i) m"
  using assms by (simp add: preserves_def recorded_def counted_def)

interpretation recorded_base: store_frame "recorded sha b rid run i" "\<lambda>_. True" sha for sha b rid run i
proof unfold_locales
  show "recorded sha b rid run i d \<Longrightarrow> recorded sha b rid run i (d\<lparr>db_now := now'\<rparr>)" for d now'
    using tracked_base.tick by (simp add: recorded_def)
  show "preserves (recorded sha b rid run i) (EnqueueInTx job)" "preserves (recorded sha b rid run i) (EnqueueInTxAt job at)"
    if "\<not> is_StepJob job" for job "at"
    by (rule recorded_pres; intro tracked_base.EnqueueOther tracked_base.EnqueueOtherAt named_waits_inv.EnqueueOther
        named_waits_inv.EnqueueOtherAt snapshot_inv.EnqueueOther snapshot_inv.EnqueueOtherAt counted_base.EnqueueOther
        counted_base.EnqueueOtherAt; rule that)+
qed ((rule recorded_pres; intro pres_intros; simp)+)


lemma wp_stop:
  assumes "tracked b rid d" "\<not> active st" "\<And>d'. tracked b rid d' \<Longrightarrow> working i d' \<Longrightarrow> Q () d'"
  shows "wp (Runs_SetState t i st fr fm) Q (\<lambda>_ _. True) d"
proof (cases "find (run_in t i) (agent_runs d) = None")
  case False
  let ?f = "\<lambda>t r. r\<lparr>Run_State := st, Run_FailureReason := fr, Run_FailureMessage := fm, Run_UpdatedAt := t\<rparr>"
  let ?d = "d\<lparr>agent_runs := upd_where (run_in t i) (?f (db_now d)) (agent_runs d)\<rparr>"
  have "wp (Runs_SetState t i st fr fm) (\<lambda>_. tracked b rid) (\<lambda>_. tracked b rid) d"
    using tracked_SetState assms(1,2) by (simp add: preserves_wp)
  then have "tracked b rid ?d" using False by (simp add: Runs_SetState_def wp_simps)
  moreover have "working i ?d"
    using assms(1,2) False by (intro working_stops) (auto simp: tracked_def based_def)
  ultimately show ?thesis using assms(3) False by (simp add: Runs_SetState_def wp_simps)
qed (simp add: Runs_SetState_def wp_simps)

text \<open>Both the run of the job and any other run keep their work.\<close>

definition both :: "bool \<Rightarrow> RunID \<Rightarrow> RunID \<Rightarrow> db \<Rightarrow> bool" where
  "both b rid i d \<longleftrightarrow> tracked b rid d \<and> working i d"

lemma bothI: "tracked b rid d \<Longrightarrow> working i d \<Longrightarrow> both b rid i d"
  by (simp add: both_def)

lemma both_pres: "preserves (tracked b rid) m \<Longrightarrow> preserves (tracked True i) m \<Longrightarrow> preserves (both b rid i) m"
  by (auto simp: preserves_def both_def tracked_def)

lemma keeps_outcome:
  assumes "inj (sha waitNamespace)" "recorded sha b rid run (SJ_StepIndex job) d" 
    and job: "SJ_RunID job = Run_ID run" "SJ_TenantID job = Run_TenantID run" "SJ_SessionID job = Run_SessionID run"
  shows "wp (classify_outcome sha job run step result rec) (\<lambda>_. both b rid (Run_ID run)) (\<lambda>_ _. True) d"
proof -
  have d: "tracked b rid d" "named_waits sha d" "snapshot d run" "step_count d (Run_ID run) = SJ_StepIndex job + 1"
    using assms(2) by (simp_all add: recorded_def)
  have stays: "wp m (\<lambda>_. both b rid (Run_ID run)) (\<lambda>_ _. True) d'"
    if "tracked b rid d'" "working (Run_ID run) d'" "\<And>b rid. preserves (tracked b rid) m" for m :: "unit dbm" and d'
    using that by (intro wp_pres [OF both_pres]) (auto simp: both_def)
  have append: "\<And>b rid. preserves (tracked b rid) (appendTx job k p)" for k p
    by (rule tracked_base.appendTx_pres) simp
  have park: "wp (createWait sha run job rec)
      (\<lambda>park d'. tracked b rid d' \<and> (\<not> park \<longrightarrow> working (Run_ID run) d')) (\<lambda>_ _. True) d"
    by (rule wp_createWait) (use d assms(1) in auto)
  have enq: "wp (EnqueueInTx (StepJob (Run_ID run) (Run_TenantID run) (Run_SessionID run) (SJ_StepIndex job + 1)))
      (\<lambda>_. both b rid (Run_ID run)) (\<lambda>_ _. True) d"
    using launch_next [of d run b rid] d by (simp add: wp_simps both_def tracked_def)
  have finish: "\<And>b rid. preserves (tracked b rid) (bindM (Runs_SetResult t r res) (\<lambda>_. bindM (appendTx job k p) (\<lambda>_.
      bindM (abandonParentWaits t r) (\<lambda>_. resolveChildWaits c))))" for t r res k p c
    by (intro preserves_bindM append tracked_base.SetResult tracked_base.abandonParentWaits_pres
        tracked_resume.resolveChildWaits_pres) simp_all
  have stop: "wp (bindM (Runs_SetState t (Run_ID run) st fr fm) f) (\<lambda>_. both b rid (Run_ID run)) (\<lambda>_ _. True) d'"
    if "tracked b rid d'" "\<not> active st" "\<And>a b rid. preserves (tracked b rid) (f a)" for t st fr fm d' and f :: "unit \<Rightarrow> unit dbm"
    unfolding wp_bindM using that by (intro wp_stop stays) auto
  have "wp (bindM (createWait sha run job rec) (\<lambda>park. if \<not> park then ret ()
      else bindM (Runs_SetState (Run_TenantID run) (Run_ID run) RunAwaiting '''' '''') (\<lambda>_. appendTx job k p)))
    (\<lambda>_. both b rid (Run_ID run)) (\<lambda>_ _. True) d" for k p
    unfolding wp_bindM [of "createWait _ _ _ _"]
    by (rule wp_mono [OF park]) (auto simp: wp_ret active_def intro!: stop append bothI)
  then show ?thesis
    using enq d(1) unfolding classify_outcome_def Let_def job
    by (auto simp: active_def split: option.split intro!: stop append finish)
qed

section \<open>The transactions\<close>

lemma tracked_mark: "preserves (tracked b rid) (markCancelledTx job)"
  unfolding markCancelledTx_def
  by (intro preserves_bindM preserves_raise tracked_SetState tracked_base.Append tracked_resume.settleTerminalRun_pres)
    (simp_all add: active_def)

lemma tracked_fail: "preserves (tracked b rid) (failRun job reason msg)"
  unfolding failRun_def
  by (rule preserves_tx) (auto intro!: preserves_tryM pres_intros tracked_SetState tracked_base.Append
    tracked_resume.settleTerminalRun_pres simp: active_def)

lemma tracked_cancel: "preserves (tracked b rid) (cancel_tx run)"
  unfolding cancel_tx_def Let_def
  by (rule preserves_tx) (auto intro!: pres_intros tracked_SetState tracked_base.Append tracked_base.RequestCancel
    tracked_base.abandonParentWaits_pres simp: active_def)

lemma tracked_answer:
  assumes "tracked b rid d" "snapshot d run"
  shows "tracked b rid (snd (answer_tx run msg a d))"
proof -
  have "wp (answer_tx run msg a) (\<lambda>_. tracked b rid) (\<lambda>_. tracked b rid) d"
    unfolding answer_tx_def Let_def wp_tx wp_bindM [of "Runs_GetForUpdate _ _"] wp_Runs_GetForUpdate
    using assms
    by (auto simp: wp_raise tracked_def split: option.split sum.split
        intro!: wp_mono [OF wp_relaunch [where r = run and b = b and rid = rid]])
  then show ?thesis by (simp add: wp_final)
qed

text \<open>A claim starts a run that was active already.\<close>

lemma working_started:
  assumes "keys_ok d" "working rid d" "find (run_in t i) (agent_runs d) = Some r" "active (Run_State r)"
    and f: "\<And>r. Run_ID (f r) = Run_ID r \<and> Run_TenantID (f r) = Run_TenantID r \<and> Run_SessionID (f r) = Run_SessionID r"
  shows "working rid (d\<lparr>agent_runs := upd_where (run_in t i) f (agent_runs d)\<rparr>)"
proof -
  let ?g = "\<lambda>x. if active (Run_State x) then f x else x"
  have "active (Run_State x)" if "x \<in> set (agent_runs d)" "run_in t i x" for x
    using key_uniqueD [of Run_ID "agent_runs d" x r] that find_SomeD [OF assms(3)] assms(1,4) by (simp add: keys_ok_def)
  then have "upd_where (run_in t i) f (agent_runs d) = upd_where (run_in t i) ?g (agent_runs d)"
    by (simp add: upd_where_def)
  then show ?thesis using assms(2) f by (simp add: working_run_data)
qed

lemma tracked_started:
  assumes "tracked b rid d" "find (run_in t i) (agent_runs d) = Some r" "active (Run_State r)"
  shows "wp (Runs_SetState t i RunRunning fr fm) (\<lambda>_. tracked b rid) (\<lambda>_. tracked b rid) d"
proof -
  have "wp (Runs_SetState t i RunRunning fr fm) (\<lambda>_. based) (\<lambda>_. based) d"
    using based_SetState assms(1) by (simp add: preserves_wp tracked_def)
  moreover have "wp (Runs_SetState t i RunRunning fr fm) (\<lambda>_ d'. b \<longrightarrow> working rid d') (\<lambda>_ d'. b \<longrightarrow> working rid d') d"
    using assms working_started [OF _ _ assms(2,3)] by (auto simp: Runs_SetState_def wp_simps tracked_def based_def)
  ultimately show ?thesis
    unfolding tracked_def by (intro wp_conj [THEN iffD2] conjI)
qed

lemma find_run_own: "find (run_in t i) rs = Some r \<Longrightarrow> find (run_in t (Run_ID r)) rs = Some r"
  using find_SomeD [of "run_in t i" rs r] by simp

lemma tracked_claim: "preserves (tracked b rid) (claim job)"
  unfolding claim_def
proof (rule preserves_tryM, rule preserves_txStale, rule preservesI, goal_cases)
  case (1 d)
  then show ?case
    unfolding wp_bindM [of "Runs_GetForUpdate _ _"] wp_Runs_GetForUpdate
    by (auto simp: wp_simps wp_funs countAttempts_def active_def dest: find_SomeD split: option.split
        intro!: tracked_started [OF _ find_run_own] wp_pres [OF tracked_mark])
qed (auto intro!: pres_intros)


lemma wp_ifI: "(c \<Longrightarrow> wp m Q E d) \<Longrightarrow> (\<not> c \<Longrightarrow> wp n Q E d) \<Longrightarrow> wp (if c then m else n) Q E d"
  by simp

lemma wp_record:
  assumes "tracked b rid d" "named_waits sha d" "snapshot d run"
    and job: "enqueued d (StepJob (Run_ID run) (Run_TenantID run) s (Step_StepIndex st))" "Step_RunID st = Run_ID run"
  shows "wp (Runs_InsertStep (Run_TenantID run) st)
    (\<lambda>_. recorded sha (b \<and> rid \<noteq> Run_ID run) rid run (Step_StepIndex st)) (\<lambda>e _. e \<noteq> errCancelledCommit) d"
proof -
  let ?d = "d\<lparr>agent_run_steps := agent_run_steps d @ [st\<lparr>Step_CreatedAt := db_now d\<rparr>]\<rparr>"
  have based: "keys_ok d" "log_ok d" "homed d" "sched d" using assms(1) by (simp_all add: tracked_def based_def)
  have row: "find (run_in (Run_TenantID run) (Run_ID run)) (agent_runs d) \<noteq> None"
    using snapshot_row(1) [OF assms(3) based(1)] .
  then have id: "Run_ID run \<in> Run_ID ` set (agent_runs d)" using find_run_id by fastforce
  have "recorded sha (b \<and> rid \<noteq> Run_ID run) rid run (Step_StepIndex st) ?d"
    if new: "find (\<lambda>x. Step_RunID x = Run_ID run \<and> Step_StepIndex x = Step_StepIndex st) (agent_run_steps d) = None"
  proof -
    have idx: "Step_StepIndex st = step_count d (Run_ID run)" using sched_job(3) [OF based(4) job(1)] new by blast
    have rec: "sched ?d" "step_count ?d (Run_ID run) = step_count d (Run_ID run) + 1"
      "rid \<noteq> Run_ID run \<Longrightarrow> step_count ?d rid = step_count d rid" for rid
      using sched_record [OF based(4), of "st\<lparr>Step_CreatedAt := db_now d\<rparr>"] id idx job(2) by simp_all
    have "keys_ok ?d" using keys_ok_step_insert [OF based(1)] new job(2) by simp
    then have "based ?d" using based rec(1) by (simp add: based_def)
    moreover have "working rid ?d" if "b \<and> rid \<noteq> Run_ID run"
      using that assms(1) rec(3) [of rid] by (simp add: tracked_def working_def)
    ultimately show ?thesis
      using rec(2) assms(2,3) idx by (simp add: recorded_def tracked_def)
  qed
  with row job(2) show ?thesis by (auto simp: wp_simps)
qed

text \<open>From the record of the step to the end of the transaction.\<close>

lemma wp_after_record:
  assumes "inj (sha waitNamespace)" "recorded sha (b \<and> rid \<noteq> Run_ID run) rid run (SJ_StepIndex job) d"
    and job: "SJ_RunID job = Run_ID run" "SJ_TenantID job = Run_TenantID run" "SJ_SessionID job = Run_SessionID run"
  shows "wp (bindM (tryM (AccountStepCost run st) (\<lambda>_. ret ())) (\<lambda>_.
      bindM (appendTx job k p) (\<lambda>_. classify_outcome sha job run step result rec)))
    (\<lambda>_. tracked b rid) (\<lambda>e _. e \<noteq> errCancelledCommit) d"
proof -
  let ?rec = "recorded sha (b \<and> rid \<noteq> Run_ID run) rid run (SJ_StepIndex job)"
  have outcome: "wp (classify_outcome sha job run step result rec) (\<lambda>_. tracked b rid) (\<lambda>e _. e \<noteq> errCancelledCommit) d'"
    if "?rec d'" for d'
    by (rule quiet_wp [OF _ quiet_classify], rule wp_mono [OF keeps_outcome [OF assms(1) that job]])
      (auto simp: both_def tracked_def)
  have finished: "wp (bindM (appendTx job k p) (\<lambda>_. classify_outcome sha job run step result rec))
      (\<lambda>_. tracked b rid) (\<lambda>e _. e \<noteq> errCancelledCommit) d'" if "?rec d'" for d'
    unfolding wp_bindM
  proof (rule wp_mono [OF quiet_wp])
    show "wp (appendTx job k p) (\<lambda>_. ?rec) (\<lambda>_ _. True) d'"
      by (rule wp_pres [OF recorded_base.appendTx_pres that]) simp_all
    show "quiet (appendTx job k p)" unfolding appendTx_def by (intro quiet_intros)
  qed (use outcome in auto)
  show ?thesis
    unfolding wp_bindM [of "tryM _ _"] wp_tryM wp_ret
    by (rule wp_pres [OF recorded_base.AccountStepCost_pres assms(2)]) (use finished in simp_all)
qed

lemma wp_commit_body:
  assumes "inj (sha waitNamespace)" "tracked b rid d" "named_waits sha d" "enqueued d (StepJob r t s i)"
    and run: "find (run_in t r) (agent_runs d) = Some run" and st: "Step_RunID st = r" "Step_StepIndex st = i"
  shows "wp (bindM (Runs_SetHistory t r enc) (\<lambda>_.
      bindM (tryM (Runs_InsertStep t st) (\<lambda>x. case x of
          Inr _ \<Rightarrow> ret ()
        | Inl e \<Rightarrow> if e = ErrAlreadyExists then raise errStale else raise e)) (\<lambda>_.
      bindM (tryM (AccountStepCost run st) (\<lambda>_. ret ())) (\<lambda>_.
      bindM (appendTx (StepJob r t s i) k p) (\<lambda>_.
      classify_outcome sha (StepJob r t s i) run step result rec)))))
    (\<lambda>_. tracked b rid) (\<lambda>e d'. if e = errCancelledCommit then tracked b rid d' else tracked b rid d) d"
proof -
  let ?job = "StepJob r t s i"
  have r: "Run_TenantID run = t" "Run_ID run = r" "snapshot d run"
    using find_SomeD [OF run] found_snapshot [OF run] by auto
  have s: "Run_SessionID run = s"
    using snapshot_row(2) [OF r(3)] sched_row [OF _ assms(4)] assms(2) r(2) by (auto simp: tracked_def based_def)
  let ?rec = "recorded sha (b \<and> rid \<noteq> r) rid run i"
  let ?I = "\<lambda>d. tracked b rid d \<and> named_waits sha d \<and> snapshot d run \<and> enqueued d ?job"
  have insert: "wp (bindM (tryM m (\<lambda>x. case x of Inr _ \<Rightarrow> ret ()
      | Inl e \<Rightarrow> if e = ErrAlreadyExists then raise errStale else raise e)) f)
      (\<lambda>_. tracked b rid) (\<lambda>e d'. if e = errCancelledCommit then tracked b rid d' else tracked b rid d) d'"
    if "wp m (\<lambda>_. ?rec) (\<lambda>e _. e \<noteq> errCancelledCommit) d'"
      "\<And>d'. ?rec d' \<Longrightarrow> wp (f ()) (\<lambda>_. tracked b rid) (\<lambda>e _. e \<noteq> errCancelledCommit) d'"
    for m :: "unit dbm" and f :: "unit \<Rightarrow> unit dbm" and d'
    unfolding wp_bindM wp_tryM
    by (rule wp_mono [OF that(1)]) (use wp_mono [OF that(2)] assms(2) in \<open>auto simp: wp_ret wp_raise\<close>)
  show ?thesis
    unfolding wp_bindM [of "Runs_SetHistory _ _ _"]
  proof (rule wp_pres [where I = ?I], goal_cases)
    case 1
    show ?case
      by (intro preserves_conj tracked_base.SetHistory named_waits_inv.SetHistory snapshot_inv.SetHistory
          enqueued_inv.SetHistory) simp_all
  next
    case (3 a d')
    then have "wp (Runs_InsertStep t st) (\<lambda>_. ?rec) (\<lambda>e _. e \<noteq> errCancelledCommit) d'"
      using wp_record [of b rid d' sha run s st] r st by simp
    then show ?case by (rule insert) (rule wp_after_record, use assms(1) r s in auto)
  qed (use assms r in simp_all)
qed

lemma tracked_commit:
  assumes "inj (sha waitNamespace)" "tracked b rid d" "named_waits sha d" "enqueued d (StepJob r t s i)"
  shows "tracked b rid (snd (commit_tx sha (StepJob r t s i) attempt enc step result rec d))"
proof -
  have "wp (commit_tx sha (StepJob r t s i) attempt enc step result rec) (\<lambda>_. tracked b rid) (\<lambda>_. tracked b rid) d"
  proof (cases "find (run_in t r) (agent_runs d)")
    case None
    then show ?thesis using assms(2) by (simp add: commit_tx_def wp_simps)
  next
    case (Some run)
    show ?thesis
      unfolding commit_tx_def Let_def wp_txStale wp_bindM [of "Runs_GetForUpdate _ _"] wp_Runs_GetForUpdate Job.sel Some option.case
    proof (intro wp_ifI)
      show "wp (markCancelledTx (StepJob r t s i)) (\<lambda>_. tracked b rid)
          (\<lambda>e d'. if e = errCancelledCommit then tracked b rid d' else tracked b rid d) d"
        by (rule wp_pres [OF tracked_mark assms(2)]) (use assms(2) in simp_all)
    qed ((simp add: wp_raise assms(2); fail) | rule wp_commit_body [OF assms Some], simp, simp)+
  qed
  then show ?thesis by (simp add: wp_final)
qed

text \<open>A run that is created has no steps, and the job of its first one.\<close>

lemma launched_tracked:
  assumes "tracked b rid d" "creatable d t run" "keys_ok d'" "log_ok d'" "homed d'"
    and d': "d' = launched d t run sid by k p n (StepJob (Run_ID run) t (Run_SessionID run) 0)"
  shows "tracked b rid d'"
proof -
  have sched: "sched d" using assms(1) by (simp add: tracked_def based_def)
  have fresh: "Run_ID r \<noteq> Run_ID run" if "r \<in> set (agent_runs d)" for r using creatable_fresh(1) [OF assms(2) that] .
  have count: "step_count d' i = step_count d i" for i by (simp add: step_count_def d')
  have "Step_RunID s \<noteq> Run_ID run" if "s \<in> set (agent_run_steps d)" for s
    using sched that fresh unfolding sched_def by force
  then have zero: "step_count d (Run_ID run) = 0" by (simp add: step_count_def filter_empty_conv)
  have enq: "enqueued d' j \<longleftrightarrow> enqueued d j \<or> j = StepJob (Run_ID run) t (Run_SessionID run) 0" for j
    by (auto simp: d' enqueued_def)
  have rows: "agent_runs d' = agent_runs d @ [created_run (db_now d) t run]" by (simp add: d')
  have "sched d'"
    unfolding sched_def
  proof (intro conjI allI impI)
    show "Step_StepIndex ` set (filter (\<lambda>s. Step_RunID s = i) (agent_run_steps d')) = {0..<step_count d' i}" for i
      using sched unfolding count by (simp add: sched_def d')
    show "\<forall>s\<in>set (agent_run_steps d'). Step_RunID s \<in> Run_ID ` set (agent_runs d')"
      using sched by (auto simp: sched_def d')
    fix i u s n
    assume job: "enqueued d' (StepJob i u s n)"
    have "0 \<le> n \<and> n \<le> step_count d' i \<and>
      (\<exists>r\<in>set (agent_runs d'). Run_ID r = i \<and> Run_TenantID r = u \<and> Run_SessionID r = s)"
    proof (cases "enqueued d (StepJob i u s n)")
      case True
      then show ?thesis using sched_job(1,2) [OF sched True] sched_row [OF sched True] by (auto simp: count rows)
    next
      case False
      with job have "i = Run_ID run" "u = t" "s = Run_SessionID run" "n = 0" by (simp_all add: enq)
      then show ?thesis using zero by (simp add: count rows)
    qed
    then show "0 \<le> n" "n \<le> step_count d' i"
      "\<exists>r\<in>set (agent_runs d'). Run_ID r = i \<and> Run_TenantID r = u \<and> Run_SessionID r = s" by simp_all
  qed
  moreover have "working rid d'" if "working rid d"
    by (rule workingI) (use workingD [OF that] zero in \<open>auto simp: rows enq count\<close>)
  ultimately show ?thesis using assms(1,3-5) by (simp add: tracked_def based_def)
qed

lemma tracked_spawn:
  assumes "tracked b rid d" "snapshot d run" "enqueued d (StepJob (Run_ID run) (Run_TenantID run) s i)"
  shows "tracked b rid (snd (spawn_tx run (StepJob (Run_ID run) (Run_TenantID run) s i)
    (new_child run (StepJob (Run_ID run) (Run_TenantID run) s i) req policy newID) d))"
proof -
  let ?job = "StepJob (Run_ID run) (Run_TenantID run) s i"
  let ?child = "new_child run ?job req policy newID"
  have based: "keys_ok d" "log_ok d" "homed d" "sched d" using assms(1) by (simp_all add: tracked_def based_def)
  have s: "s = Run_SessionID run"
    using sched_row [OF based(4) assms(3)] snapshot_row(2) [OF assms(2) based(1)] by auto
  have inv: "keys_ok (snd (spawn_tx run ?job ?child d))" "log_ok (snd (spawn_tx run ?job ?child d))"
      "homed (snd (spawn_tx run ?job ?child d))"
    using preservesD [OF keys_inv.spawn_tx_pres based(1)] preservesD [OF log_inv.spawn_tx_pres based(2)]
      preservesD [OF homed_inv.spawn_tx_pres based(3)] by simp_all
  then show ?thesis
    using spawn_tx_state [of run ?job ?child d] assms(1) s by (auto intro: launched_tracked)
qed

lemma tracked_start:
  assumes "tracked b rid d"
  shows "tracked b rid (snd (start_run_tx org (start_run_row ctx dm req org newID) d))"
proof -
  let ?run = "start_run_row ctx dm req org newID"
  have based: "keys_ok d" "log_ok d" "homed d" using assms(1) by (simp_all add: tracked_def based_def)
  have inv: "keys_ok (snd (start_run_tx org ?run d))" "log_ok (snd (start_run_tx org ?run d))"
      "homed (snd (start_run_tx org ?run d))"
    using preservesD [OF keys_inv.start_run_tx_pres based(1)] preservesD [OF log_inv.start_run_tx_pres based(2)]
      preservesD [OF homed_inv.start_run_tx_pres based(3)] by simp_all
  then show ?thesis
    using start_run_tx_state [of org ?run d] assms by (auto intro: launched_tracked)
qed

section \<open>No run is stranded\<close>

lemma tracked_step:
  assumes "sys_step sha d d'" "inj (sha waitNamespace)" "named_waits sha d" "tracked b rid d"
  shows "tracked b rid d'"
proof (rule tracked_base.sys_step_frame [OF TrueI assms(1,4)])
  show "tracked b rid (snd (txStale (markCancelledTx (StepJob r t s i) :: unit dbm) d))" for r t s i
    by (rule preservesD [OF preserves_txStale [OF tracked_mark] assms(4)])
  show "tracked b rid (snd (tx (tryCloseWait t wid closeReasonTimeout) d))" for t wid
    by (rule preservesD [OF preserves_tx [OF tracked_resume.tryCloseWait_pres [OF TrueI]] assms(4)])
qed (simp_all add: assms tracked_start tracked_answer tracked_commit tracked_spawn
    preservesD [OF tracked_cancel] preservesD [OF tracked_claim] preservesD [OF tracked_fail])

lemma reachable_tracked:
  assumes "reachable sha d" "inj (sha waitNamespace)"
  shows "tracked True rid d"
proof -
  have "tracked True rid d \<and> named_waits sha d"
    using assms(1)
  proof (induction rule: reachable_induct)
    case (init t)
    show ?case
      by (simp add: tracked_def based_def keys_ok_def log_ok_def homed_def sched_def working_def named_waits_def
          step_count_def enqueued_def empty_db_def)
  next
    case (step d d')
    then show ?case using tracked_step [where sha = sha] assms(2) named_waits_step [where sha = sha] by blast
  qed
  then show ?thesis ..
qed

end
