(* ===== verification/Executions.thy ===== *)
theory Executions
  imports Progress
begin

text \<open>
  Executions: the step worker, the timeout sweeper and the API handlers are sequences of the
  transactions of \<open>sys_step\<close>, so that every invariant of the reachable states holds before and
  after, and between any two transactions of, whatever number of them runs at the same time.
\<close>

section \<open>Sequences of transactions\<close>

text \<open>
  A computation \<open>proceeds\<close> when it runs transactions only: from every state where the
  delivered job was enqueued and the run was read, it ends in a state the system can reach.
\<close>

definition known :: "Job option \<Rightarrow> AgentRun option \<Rightarrow> db \<Rightarrow> bool" where
  "known job run d \<longleftrightarrow> (case job of None \<Rightarrow> True | Some j \<Rightarrow> enqueued d j) \<and>
    (case run of None \<Rightarrow> True | Some r \<Rightarrow> snapshot d r)"

definition onward :: "(string \<Rightarrow> string \<Rightarrow> string) \<Rightarrow> db \<Rightarrow> Job option \<Rightarrow> AgentRun option \<Rightarrow> db \<Rightarrow> bool" where
  "onward sha d0 job run d \<longleftrightarrow> sys_path sha d0 d \<and> known job run d"

lemma known_step: "known job run d \<Longrightarrow> sys_step sha d d' \<Longrightarrow> known job run d'"
  using enqueued_inv.sys_step_inv [OF TrueI] snapshot_inv.sys_step_inv [OF TrueI]
  by (fastforce simp: known_def split: option.splits)

lemma onward_step:
  assumes "\<And>d. known job run d \<Longrightarrow> sys_step sha d (snd (m d))"
  shows "preserves (onward sha d0 job run) m"
  unfolding preserves_def onward_def
proof (intro allI impI)
  fix d assume d: "sys_path sha d0 d \<and> known job run d"
  then have "sys_step sha d (snd (m d))" using assms by simp
  with d show "sys_path sha d0 (snd (m d)) \<and> known job run (snd (m d))"
    using known_step rtranclp.rtrancl_into_rtrancl [of "sys_step sha"] by blast
qed

text \<open>The same from any transaction that keeps the state unchanged or takes a step.\<close>

lemma onward_weaken: "onward sha d0 job run d \<Longrightarrow> sys_path sha d0 d"
  by (simp add: onward_def)

text \<open>The transactions that need nothing to be known.\<close>

lemma onward_free [pres_intros]:
  "preserves (onward sha d0 job run) (Sessions_Create t s)"
  "preserves (onward sha d0 job run) (Sessions_Archive t sid)"
  "preserves (onward sha d0 job run) (Events_Append t sid a k p)"
  "preserves (onward sha d0 job run) (tx (bindM (Memory_Set t e) (\<lambda>_. Events_Append t sid a k p)))"
  "preserves (onward sha d0 job run) (tx (bindM (Memory_Delete t sid key) (\<lambda>_. Events_Append t sid a k p)))"
  "preserves (onward sha d0 job run) (Waits_ClaimDue t now lim)"
  "preserves (onward sha d0 job run) (tx (tryCloseWait t wid closeReasonTimeout))"
  "preserves (onward sha d0 job run) (rearm sw t)"
  "preserves (onward sha d0 job run) (tx (bindM (Sessions_UpdateLabels t sid labels) (\<lambda>updated.
    bindM (Events_Append t sid a k p) (\<lambda>seq. ret (updated, seq)))))"
  "preserves (onward sha d0 job run) (Tenants_Create tn)"
  "preserves (onward sha d0 job run) (APIKeys_Create apikey)"
  "preserves (onward sha d0 job run) (APIKeys_Revoke t kid)"
  "preserves (onward sha d0 job run) (Credentials_Put t c)"
  "preserves (onward sha d0 job run) (Credentials_Delete t kind name)"
  by (rule onward_step, rule sys_step.intros)+

lemma onward_start: "id_text newID \<Longrightarrow>
    preserves (onward sha d0 job run) (start_run_tx org (start_run_row ctx dm req org newID))"
  by (rule onward_step, erule sys_step.start_run)

lemma onward_run:
  "preserves (onward sha d0 job (Some run)) (answer_tx run msg a)"
  "preserves (onward sha d0 job (Some run)) (cancel_tx run)"
  by (rule onward_step, rule sys_step.intros, auto simp: known_def)+

lemma onward_job:
  "preserves (onward sha d0 (Some (StepJob r t s i)) run) (claim (StepJob r t s i))"
  "preserves (onward sha d0 (Some (StepJob r t s i)) run) (failRun (StepJob r t s i) reason msg)"
  "preserves (onward sha d0 (Some (StepJob r t s i)) run) (txStale (markCancelledTx (StepJob r t s i) :: unit dbm))"
  "preserves (onward sha d0 (Some (StepJob r t s i)) run) (Runs_SetHistory t r h)"
  "preserves (onward sha d0 (Some (StepJob r t s i)) run)
    (commit_tx sha (StepJob r t s i) attempt enc step result rec)"
  by (rule onward_step, rule sys_step.intros, auto simp: known_def)+

lemma onward_spawn:
  assumes "id_text newID" "Run_ID run = r" "Run_TenantID run = t" "resolvePolicy (Req_spec req) (Run_Policy run) = Inr policy"
  shows "preserves (onward sha d0 (Some (StepJob r t s i)) (Some run))
    (spawn_tx run (StepJob r t s i) (new_child run (StepJob r t s i) req policy newID))"
  using assms by (intro onward_step) (auto simp: known_def intro!: sys_step.spawn)

section \<open>The sweeper and the API\<close>

lemma Sweep_path: "sys_path sha d (snd (Sweep s org d))"
proof -
  have loop: "preserves (onward sha d None None) (sweep_loop s org ws)" for ws
    by (induction ws) (auto intro!: pres_intros)
  have "preserves (onward sha d None None) (Sweep s org)"
    unfolding Sweep_def by (intro pres_intros loop)
  then show ?thesis
    using preservesD [of "onward sha d None None" "Sweep s org" d] by (simp add: onward_def known_def)
qed

text \<open>What is known once the handler has resolved the run.\<close>

lemma preserves_resolved:
  assumes "\<And>r. preserves (onward sha d0 job (Some r)) (f r)"
  shows "preserves (onward sha d0 job None) (bindM (resolveRun ctx rid) f)"
proof (rule preservesI)
  fix d assume d: "onward sha d0 job None d"
  have "wp (f r) (\<lambda>_. onward sha d0 job None) (\<lambda>_. onward sha d0 job None) d"
    if "find (run_in t i) (agent_runs d) = Some r" for t i r
  proof (rule wp_pres [OF assms])
    show "onward sha d0 job (Some r) d"
      using d found_snapshot [OF that] by (simp add: onward_def known_def)
  qed (auto simp: onward_def known_def)
  with d show "wp (bindM (resolveRun ctx rid) f) (\<lambda>_. onward sha d0 job None) (\<lambda>_. onward sha d0 job None) d"
    by (auto simp: resolveRun_def mapping_errors_def wp_simps split: option.split)
qed

lemma handlers_path:
  "preserves (onward sha d None None) (AnswerRun ctx rid msg)"
  "preserves (onward sha d None None) (CancelRun ctx rid)"
  "id_text newID \<Longrightarrow> preserves (onward sha d None None) (StartRun dm ctx req newID)"
  "preserves (onward sha d None None) (CreateSession ctx t title labels newSID)"
  "preserves (onward sha d None None) (UpdateSessionLabels ctx sid labels)"
  "preserves (onward sha d None None) (ArchiveSession ctx sid)"
  "preserves (onward sha d None None) (SetMemory valid ctx sid key val)"
  "preserves (onward sha d None None) (DeleteMemory ctx sid key)"
  "preserves (onward sha d None None) (AppendEvent ctx sid p)"
  unfolding AnswerRun_def CancelRun_def StartRun_def CreateSession_def UpdateSessionLabels_def ArchiveSession_def
    SetMemory_def DeleteMemory_def AppendEvent_def
  by (intro preserves_resolved pres_intros onward_run onward_start preserves_SessionTenant preserves_requireTenant; assumption)+


section \<open>The step worker\<close>

text \<open>The identifiers that a tool call would give to new runs are UUIDs.\<close>

fun fresh_call :: "ToolCall \<Rightarrow> bool" where
  "fresh_call (SpawnAgent spec callID newID) = id_text newID"
| "fresh_call (RunAgentCohort specs timeout policy callID) = list_all (\<lambda>(_, newID). id_text newID) specs"
| "fresh_call _ = True"

fun fresh_event :: "StreamEvent \<Rightarrow> bool" where
  "fresh_event (ExecuteTool call) = fresh_call call"
| "fresh_event _ = True"

definition fresh_world :: "StepWorld \<Rightarrow> bool" where
  "fresh_world w \<longleftrightarrow> list_all fresh_event (W_stream w) \<and> list_all fresh_event (W_fallback_stream w)"

text \<open>A value that is dropped at the end of a transaction does not matter.\<close>

lemma preserves_tx_drop:
  "preserves I (tx (bindM m f)) \<Longrightarrow> preserves I (tx (bindM m (\<lambda>x. bindM (f x) (\<lambda>_. ret ()))))"
  unfolding preserves_def tx_def bindM_def ret_def by (fastforce split: prod.splits sum.splits)

lemma memory_tools_path:
  "preserves (onward sha d job run') (memorySetTool run k v)" "preserves (onward sha d job run') (memoryDeleteTool run k)"
  "preserves (onward sha d job run') (memoryGetTool run k)" "preserves (onward sha d job run') (memoryListTool run)"
  unfolding memorySetTool_def memoryDeleteTool_def memoryGetTool_def memoryListTool_def appendMemoryEvent_def Let_def
  by (intro preserves_tryM preserves_tx_drop pres_intros)+

lemma event_path:
  "preserves (onward sha d job run') (permissionDenied run tool reason)"
  "preserves (onward sha d job run') (postEventTool t sid rid text)"
  "preserves (onward sha d job run') (appendEvent j k p)"
  "preserves (onward sha d job run') (emit_all j es)"
  "preserves (onward sha d job run') (flush_emit j st)"
  unfolding permissionDenied_def postEventTool_def flush_emit_def emit_all_def appendEvent_def by (intro pres_intros)+

lemma spawnChild_path:
  assumes "id_text newID" "Run_ID run = r" "Run_TenantID run = t"
  shows "preserves (onward sha d (Some (StepJob r t s i)) (Some run)) (spawnChild run (StepJob r t s i) req newID)"
  unfolding spawnChild_def Let_def
  by (auto split: sum.split Err.split intro!: pres_intros onward_spawn assms)

lemma spawn_tools_path:
  assumes "Run_ID run = r" "Run_TenantID run = t"
  shows "id_text newID \<Longrightarrow>
      preserves (onward sha d (Some (StepJob r t s i)) (Some run)) (spawnAgentTool run (StepJob r t s i) spec callID newID)"
    and "list_all (\<lambda>(_, newID). id_text newID) specs \<Longrightarrow>
      preserves (onward sha d (Some (StepJob r t s i)) (Some run))
        (runAgentCohortTool sha' run (StepJob r t s i) specs timeout policy callID rec)"
    and "preserves (onward sha d (Some (StepJob r t s i)) (Some run)) (waitForAgentsTool run rids timeout policy callID rec)"
proof -
  have err: "preserves (onward sha d (Some (StepJob r t s i)) (Some run)) (spawn_error run tool failed e)" for tool failed e
    unfolding spawn_error_def by (intro pres_intros event_path)
  show "id_text newID \<Longrightarrow>
      preserves (onward sha d (Some (StepJob r t s i)) (Some run)) (spawnAgentTool run (StepJob r t s i) spec callID newID)"
    unfolding spawnAgentTool_def by (intro pres_intros err event_path spawnChild_path assms)
  have loop: "list_all (\<lambda>(_, newID). id_text newID) specs \<Longrightarrow>
      preserves (onward sha d (Some (StepJob r t s i)) (Some run)) (cohort_loop run (StepJob r t s i) callID cid n specs ids)"
    for specs cid n ids
    by (induction specs arbitrary: n ids) (auto intro!: pres_intros err spawnChild_path assms)
  show "list_all (\<lambda>(_, newID). id_text newID) specs \<Longrightarrow>
      preserves (onward sha d (Some (StepJob r t s i)) (Some run))
        (runAgentCohortTool sha' run (StepJob r t s i) specs timeout policy callID rec)"
    unfolding runAgentCohortTool_def Let_def by (intro pres_intros event_path loop)
  show "preserves (onward sha d (Some (StepJob r t s i)) (Some run)) (waitForAgentsTool run rids timeout policy callID rec)"
    unfolding waitForAgentsTool_def by (intro pres_intros event_path)
qed

lemma stream_path:
  assumes "Run_ID run = r" "Run_TenantID run = t" "list_all fresh_event es"
  shows "preserves (onward sha d (Some (StepJob r t s i)) (Some run)) (stream_events sha' run (StepJob r t s i) dyn es st)"
proof -
  have call: "preserves (onward sha d (Some (StepJob r t s i)) (Some run)) (native_handler sha' run (StepJob r t s i) c rec)"
    if "fresh_call c" for c rec
    using that by (cases c) (auto intro!: pres_intros memory_tools_path event_path spawn_tools_path assms)
  have event: "preserves (onward sha d (Some (StepJob r t s i)) (Some run)) (stream_event sha' run (StepJob r t s i) dyn e st)"
    if "fresh_event e" for e st
    using that by (cases st; cases e) (auto simp: execute_tool_def intro!: pres_intros event_path call)
  show ?thesis
    using assms(3) by (induction es arbitrary: st) (auto intro!: pres_intros event)
qed

lemma run_stream_path:
  assumes "Run_ID run = r" "Run_TenantID run = t" "fresh_world w"
  shows "preserves (onward sha d (Some (StepJob r t s i)) (Some run)) (run_stream w (StepJob r t s i) run dyn st)"
proof -
  have "list_all fresh_event (W_stream w)" "list_all fresh_event (filter fallback_event (W_fallback_stream w))"
    using assms(3) by (auto simp: fresh_world_def list_all_iff)
  then show ?thesis
    unfolding run_stream_def Let_def
    by (intro pres_intros) (auto split: StreamError.split list.split bool.split
      intro!: pres_intros event_path stream_path assms(1,2))
qed

text \<open>A claim that succeeds has read the run, whose immutable columns stay as they are.\<close>

lemma wp_claim_onward:
  assumes "onward sha d0 (Some (StepJob r t s i)) None d"
  shows "wp (claim (StepJob r t s i)) (\<lambda>(run, n) d'. Run_ID run = r \<and> Run_TenantID run = t \<and>
      onward sha d0 (Some (StepJob r t s i)) (Some run) d') (\<lambda>_. onward sha d0 (Some (StepJob r t s i)) None) d"
proof -
  let ?job = "StepJob r t s i"
  let ?O = "onward sha d0 (Some ?job)"
  have read: "wp (claim ?job) (\<lambda>(run, n) _. find (run_in t r) (agent_runs d) = Some run) (\<lambda>_ _. True) d"
    using wp_claim_run [of ?job d] by simp
  have none: "wp (claim ?job) (\<lambda>_. ?O None) (\<lambda>_. ?O None) d"
    using onward_job(1) [of sha d0 r t s i None] assms by (simp add: preserves_wp)
  have run: "wp (claim ?job) (\<lambda>_ d'. snapshot d' run) (\<lambda>_ _. True) d" if "find (run_in t r) (agent_runs d) = Some run" for run
    by (rule wp_pres [OF snapshot_inv.claim_pres]) (use found_snapshot [OF that] in auto)
  show ?thesis
    unfolding wp_outcome
  proof (intro conjI allI impI, goal_cases)
    case c: (1 a d')
    obtain run n where a: "a = (run, n)" by (cases a)
    with wp_ok [OF read c] have find: "find (run_in t r) (agent_runs d) = Some run" by simp
    then show ?case
      using wp_ok [OF none c] wp_ok [OF run c] find_SomeD [OF find] a by (simp add: onward_def known_def)
  qed (use none in \<open>auto simp: wp_outcome\<close>)
qed

lemma preserves_claimed:
  assumes "\<And>run n. Run_ID run = r \<Longrightarrow> Run_TenantID run = t \<Longrightarrow>
      preserves (onward sha d0 (Some (StepJob r t s i)) (Some run)) (f (Inr (run, n)))"
    "\<And>e. preserves (onward sha d0 (Some (StepJob r t s i)) None) (f (Inl e))"
  shows "preserves (onward sha d0 (Some (StepJob r t s i)) None) (tryM (claim (StepJob r t s i)) f)"
proof (rule preservesI)
  let ?O = "onward sha d0 (Some (StepJob r t s i))"
  fix d assume d: "?O None d"
  show "wp (tryM (claim (StepJob r t s i)) f) (\<lambda>_. ?O None) (\<lambda>_. ?O None) d"
    unfolding wp_tryM
  proof (rule wp_mono [OF wp_claim_onward [OF d]], goal_cases)
    case (1 a d')
    then obtain run n where a: "a = (run, n)" "Run_ID run = r" "Run_TenantID run = t" "?O (Some run) d'" by auto
    show ?case
      unfolding a(1) by (rule wp_pres [OF assms(1) [OF a(2,3)] a(4)]) (auto simp: onward_def known_def)
  next
    case (2 e d')
    then show ?case using assms(2) by (auto intro: wp_pres)
  qed
qed

lemma outcome_path:
  "preserves (onward sha d0 (Some (StepJob r t s i)) run) (commitOutcome sha (StepJob r t s i) attempt env result rec)"
  "preserves (onward sha d0 (Some (StepJob r t s i)) run) (handleStreamError (StepJob r t s i) c u e)"
  unfolding commitOutcome_def handleStreamError_def Let_def
  by (auto split: list.split prod.split intro!: pres_intros onward_job)

lemma compact_path:
  "preserves (onward sha d0 (Some (StepJob r t s i)) run') (compact_history w (StepJob r t s i) run env)"
  unfolding compact_history_def Let_def by (auto intro!: pres_intros onward_job event_path)

lemma Work_onward:
  assumes "fresh_world w" "W_NewSHA1 w = sha"
  shows "preserves (onward sha d0 (Some (StepJob r t s i)) None) (Work w (StepJob r t s i))"
  unfolding Work_def assms(2)
proof (rule preserves_claimed, goal_cases)
  case (1 run n)
  then show ?case
    by (auto split: sum.split Err.split option.split
        intro!: pres_intros event_path onward_job outcome_path compact_path run_stream_path assms(1))
qed (auto intro!: pres_intros)

text \<open>Every execution of a delivered job is a sequence of transactions of the system.\<close>

lemma Work_path:
  assumes "fresh_world w" "enqueued d (StepJob r t s i)"
  shows "sys_path (W_NewSHA1 w) d (snd (Work w (StepJob r t s i) d))"
  using preservesD [OF Work_onward [OF assms(1) refl, of d r t s i], of d] assms(2) by (simp add: onward_def known_def)

lemma handlers_sys_path:
  assumes "preserves (onward sha d None None) m"
  shows "sys_path sha d (snd (m d))"
  using preservesD [OF assms, of d] by (simp add: onward_def known_def)

end
