(* ===== verification/Delivery.thy ===== *)
theory Delivery
  imports Executions
begin

text \<open>
  What a delivery of a step job means: how often the step was attempted, that a delivery for a
  recorded step does nothing, and that a delivery that is acknowledged leaves nothing to do for
  its step.
\<close>

section \<open>Counting attempts\<close>

lemma take_drop_length: "xs = take n xs @ drop (length (take n xs)) xs"
  by (cases "n \<le> length xs") simp_all

lemma count_loop_log:
  assumes "log_ok d" "session_visible d (SJ_TenantID job, SJ_SessionID job)" "0 \<le> from"
  shows "count_loop d job from n =
    n + int (length (filter (attempt_event job) (drop (nat from) (log_of d (SJ_SessionID job)))))"
  using assms
proof (induction d job "from" n rule: count_loop.induct)
  case (1 d job "from" n)
  let ?log = "log_of d (SJ_SessionID job)" and ?b = "range_list d (SJ_TenantID job, SJ_SessionID job) from 512"
  have b: "?b = take 512 (drop (nat from) ?log)" using pg_log.range_visible [OF "1.prems"(1,2)] by simp
  show ?case
  proof (cases "?b = []")
    case True
    then have "drop (nat from) ?log = []" using b by simp
    with True show ?thesis by (subst count_loop.simps) simp
  next
    case False
    have l: "Ev_Seq (last ?b) = from + int (length ?b)"
      using pg_log.seq_last [OF "1.prems"(1,2) _ False, of 512 "nat from"] b "1.prems"(3) by simp
    have "drop (nat from) ?log = ?b @ drop (length ?b) (drop (nat from) ?log)"
      unfolding b by (rule take_drop_length)
    moreover have "nat (from + int (length ?b)) = length ?b + nat from" using "1.prems"(3) by simp
    ultimately have split: "drop (nat from) ?log = ?b @ drop (nat (from + int (length ?b))) ?log" by simp
    have "count_loop d job from n = count_loop d job (Ev_Seq (last ?b)) (n + int (length (filter (attempt_event job) ?b)))"
      using False by (subst count_loop.simps) (simp add: Let_def)
    also have "\<dots> = n + int (length (filter (attempt_event job) ?b)) +
        int (length (filter (attempt_event job) (drop (nat (from + int (length ?b))) ?log)))"
      using "1.IH" [OF refl False "1.prems"(1,2)] "1.prems"(3) unfolding l by simp
    also have "\<dots> = n + int (length (filter (attempt_event job) (drop (nat from) ?log)))"
      unfolding split by simp
    finally show ?thesis .
  qed
qed

text \<open>The number of earlier attempts is the number of times the log says that the step was started.\<close>

lemma countAttempts_log:
  assumes "log_ok d" "session_visible d (SJ_TenantID job, SJ_SessionID job)"
  shows "countAttempts job d = (Inr (int (length (filter (attempt_event job) (log_of d (SJ_SessionID job))))), d)"
  using count_loop_log [OF assms, of 0 0] by (simp add: countAttempts_def gets_def)

section \<open>Settled steps\<close>

text \<open>
  Nothing is left to do for a step: its run is gone or not active, or was told to stop, or the
  step is recorded.
\<close>

definition recorded_step :: "db \<Rightarrow> RunID \<Rightarrow> int \<Rightarrow> bool" where
  "recorded_step d rid i \<longleftrightarrow> (\<exists>x\<in>set (agent_run_steps d). Step_RunID x = rid \<and> Step_StepIndex x = i)"

lemma recorded_step_frame [simp]:
  "recorded_step (d\<lparr>db_now := x_db_now\<rparr>) rid i = recorded_step d rid i"
  "recorded_step (d\<lparr>tenants := x_tenants\<rparr>) rid i = recorded_step d rid i"
  "recorded_step (d\<lparr>api_keys := x_api_keys\<rparr>) rid i = recorded_step d rid i"
  "recorded_step (d\<lparr>sessions := x_sessions\<rparr>) rid i = recorded_step d rid i"
  "recorded_step (d\<lparr>session_events := x_session_events\<rparr>) rid i = recorded_step d rid i"
  "recorded_step (d\<lparr>credentials := x_credentials\<rparr>) rid i = recorded_step d rid i"
  "recorded_step (d\<lparr>agent_runs := x_agent_runs\<rparr>) rid i = recorded_step d rid i"
  "recorded_step (d\<lparr>provider_instances := x_provider_instances\<rparr>) rid i = recorded_step d rid i"
  "recorded_step (d\<lparr>resources := x_resources\<rparr>) rid i = recorded_step d rid i"
  "recorded_step (d\<lparr>session_memory := x_session_memory\<rparr>) rid i = recorded_step d rid i"
  "recorded_step (d\<lparr>run_waits := x_run_waits\<rparr>) rid i = recorded_step d rid i"
  "recorded_step (d\<lparr>run_wait_members := x_run_wait_members\<rparr>) rid i = recorded_step d rid i"
  "recorded_step (d\<lparr>periodic_prompts := x_periodic_prompts\<rparr>) rid i = recorded_step d rid i"
  "recorded_step (d\<lparr>jobs := x_jobs\<rparr>) rid i = recorded_step d rid i"
  "recorded_step (d\<lparr>notifications := x_notifications\<rparr>) rid i = recorded_step d rid i"
  "recorded_step (logged d t sid a k p n) rid i = recorded_step d rid i"
  by (simp_all add: recorded_step_def)


lemma recorded_step_snoc [simp]:
  "recorded_step (d\<lparr>agent_run_steps := agent_run_steps d @ [x]\<rparr>) rid i \<longleftrightarrow>
    recorded_step d rid i \<or> Step_RunID x = rid \<and> Step_StepIndex x = i"
  by (auto simp: recorded_step_def)

interpretation recorded_inv: store_invariant_create "\<lambda>d. recorded_step d rid i" "\<lambda>_. True" sha for sha rid i
proof unfold_locales
  show "recorded_step d rid i \<Longrightarrow> recorded_step (d\<lparr>db_now := now'\<rparr>) rid i" for d now' by simp
qed ((rule write_rules; simp)+)

definition settled :: "Job \<Rightarrow> db \<Rightarrow> bool" where
  "settled job d \<longleftrightarrow> recorded_step d (SJ_RunID job) (SJ_StepIndex job) \<or>
    (\<forall>r\<in>set (agent_runs d). run_in (SJ_TenantID job) (SJ_RunID job) r \<longrightarrow>
      \<not> active (Run_State r) \<or> Run_CancelRequestedAt r \<noteq> None)"

lemma settled_found:
  assumes "keys_ok d"
  shows "settled job d \<longleftrightarrow> recorded_step d (SJ_RunID job) (SJ_StepIndex job) \<or>
    (case find (run_in (SJ_TenantID job) (SJ_RunID job)) (agent_runs d) of None \<Rightarrow> True
     | Some r \<Rightarrow> \<not> active (Run_State r) \<or> Run_CancelRequestedAt r \<noteq> None)"
proof (cases "find (run_in (SJ_TenantID job) (SJ_RunID job)) (agent_runs d)")
  case None
  then show ?thesis by (auto simp: settled_def dest: find_NoneD)
next
  case (Some r)
  have r: "r \<in> set (agent_runs d)" "run_in (SJ_TenantID job) (SJ_RunID job) r" using find_SomeD [OF Some] by auto
  have "x = r" if "x \<in> set (agent_runs d)" "run_in (SJ_TenantID job) (SJ_RunID job) x" for x
    by (rule key_uniqueD [of Run_ID "agent_runs d"]) (use that r assms in \<open>auto simp: keys_ok_def\<close>)
  with r have "(\<forall>x\<in>set (agent_runs d). run_in (SJ_TenantID job) (SJ_RunID job) x \<longrightarrow> P x) \<longleftrightarrow> P r" for P by metis
  then show ?thesis unfolding settled_def Some option.case by simp
qed

lemma moved_settled:
  assumes "moved (SJ_RunID job) st d" "st = RunFailed \<or> st = RunCancelled"
  shows "settled job d"
proof -
  have "\<not> active s" if "run_path st s" for s
    using that assms(2) cancelled_final failed_final by (auto simp: active_def)
  with assms(1) show ?thesis by (auto simp: moved_def settled_def)
qed

lemma wp_SetState_moved:
  assumes "keys_ok d"
  shows "wp (Runs_SetState t rid st a b) (\<lambda>_. moved rid st) (\<lambda>_ _. True) d"
proof -
  have set: "moved rid st (d\<lparr>agent_runs := upd_where (run_in t rid) (f (db_now d)) (agent_runs d)\<rparr>)"
    if "find (run_in t rid) (agent_runs d) = Some r" and f: "\<And>n r. Run_ID (f n r) = Run_ID r \<and> Run_State (f n r) = st" for r f
  proof -
    have u: "key_unique Run_ID (agent_runs d)" using assms by (simp add: keys_ok_def)
    have r: "r \<in> set (agent_runs d)" "Run_ID r = rid" "run_in t rid r" using find_SomeD [OF that(1)] by auto
    have "run_in t rid x" if "x \<in> set (agent_runs d)" "Run_ID x = rid" for x
      using key_uniqueD [OF u that(1) r(1)] that(2) r(2,3) by simp
    then have "Run_State (if run_in t rid x then f n x else x) = st" if "x \<in> set (agent_runs d)" "Run_ID x = rid" for x n
      using f that by simp
    moreover have "Run_ID (if run_in t rid x then f n x else x) = Run_ID x" for x n using f by simp
    ultimately have "\<forall>x\<in>set (upd_where (run_in t rid) (f n) (agent_runs d)). Run_ID x = rid \<longrightarrow> run_path st (Run_State x)" for n
      unfolding ball_upd_where by simp
    moreover have "rid \<in> Run_ID ` set (agent_runs d)" using r by blast
    ultimately show ?thesis using u f by (simp add: moved_def Run_IDs_upd map_upd_where)
  qed
  show ?thesis
    using set [where f = "\<lambda>n r. r\<lparr>Run_State := st, Run_FailureReason := a, Run_FailureMessage := b, Run_UpdatedAt := n\<rparr>"]
    by (auto simp: Runs_SetState_def wp_Runs_exec)
qed

section \<open>The ends of a delivery\<close>

lemma moved_settle: "preserves (moved rid st) (settleTerminalRun org r)"
  unfolding settleTerminalRun_def by (intro pres_intros) simp_all

lemma wp_SetState_end:
  assumes "keys_ok d" "st = RunFailed \<or> st = RunCancelled" "rid = SJ_RunID job"
    and "preserves (moved (SJ_RunID job) st) m"
  shows "wp (bindM (Runs_SetState t rid st a b) (\<lambda>_. m))
    (\<lambda>_. settled job) (\<lambda>e d'. e = errCancelledCommit \<longrightarrow> settled job d') d"
proof -
  have rest: "wp m (\<lambda>_. settled job) (\<lambda>e d'. e = errCancelledCommit \<longrightarrow> settled job d') d'"
    if "moved (SJ_RunID job) st d'" for d'
    by (rule wp_pres [OF assms(4) that]) (use moved_settled assms(2) in blast)+
  show ?thesis
    unfolding wp_bindM assms(3)
    by (rule wp_mono [OF quiet_fails [OF wp_SetState_moved [OF assms(1)]]]) (auto intro: rest quiet_intros)
qed

lemma mark_settles:
  assumes "keys_ok d"
  shows "wp (markCancelledTx job) Q (\<lambda>e d'. e = errCancelledCommit \<longrightarrow> settled job d') d"
proof -
  have "wp (markCancelledTx job) (\<lambda>_. settled job) (\<lambda>e d'. e = errCancelledCommit \<longrightarrow> settled job d') d"
    unfolding markCancelledTx_def by (rule wp_SetState_end [OF assms]) (auto intro!: pres_intros moved_settle)
  then show ?thesis by (subst wp_markCancelledTx_result) (auto elim: wp_mono)
qed

lemma fail_settles:
  assumes "keys_ok d"
  shows "wp (failRun job reason msg) (\<lambda>_. settled job) (\<lambda>_ _. True) d"
proof -
  have fail: "wp (bindM (Runs_SetState t (SJ_RunID job) RunFailed reason msg) (\<lambda>_.
      bindM (Events_Append t sid a k p) (\<lambda>_. settleTerminalRun t (SJ_RunID job)))) (\<lambda>_. settled job) (\<lambda>_ _. True) d"
    for t sid a k p
    by (rule wp_mono [OF wp_SetState_end [OF assms]]) (auto intro!: pres_intros moved_settle)
  show ?thesis
    unfolding failRun_def wp_tx wp_tryM wp_Runs_GetForUpdate
    using fail assms
    by (auto simp: settled_found active_def wp_ret dest: find_SomeD split: option.split)
qed

lemma claim_settles:
  assumes "keys_ok d"
  shows "wp (claim job) (\<lambda>_. moved (SJ_RunID job) RunRunning) (\<lambda>e d'. e = errStale \<longrightarrow> settled job d') d"
proof (cases "find (run_in (SJ_TenantID job) (SJ_RunID job)) (agent_runs d)")
  case None
  then show ?thesis
    using assms by (simp add: claim_def wp_simps settled_found)
next
  case (Some r)
  have r: "r \<in> set (agent_runs d)" "Run_ID r = SJ_RunID job" using find_SomeD [OF Some] by auto
  have running: "moved (SJ_RunID job) RunRunning d" if "Run_State r = RunRunning"
    using moved_self [OF assms r(1)] r(2) that by simp
  have steps: "recorded_step d (SJ_RunID job) i"
    if "x \<in> set (steps_of d (SJ_TenantID job) (SJ_RunID job))" "Step_StepIndex x = i" for x i
    using that by (auto simp: steps_of_def recorded_step_def split: if_splits)
  have stale: "settled job d" if "\<not> active (Run_State r) \<or> Run_CancelRequestedAt r \<noteq> None \<or>
      (\<exists>x\<in>set (steps_of d (SJ_TenantID job) (SJ_RunID job)). Step_StepIndex x = SJ_StepIndex job)"
    using that steps by (auto simp: settled_found [OF assms] Some)
  have set: "wp (Runs_SetState t (SJ_RunID job) RunRunning a b) (\<lambda>_. moved (SJ_RunID job) RunRunning) (\<lambda>_ _. False) d"
    if "t = SJ_TenantID job" for t a b
    using wp_SetState_moved [OF assms, of t "SJ_RunID job" RunRunning a b] Some that
    by (simp add: Runs_SetState_def wp_Runs_exec)
  have mark: "wp (markCancelledTx job) Q (\<lambda>e d'. if e = errCancelledCommit then settled job d' else settled job d) d"
    if "settled job d" for Q :: "AgentRun \<times> int \<Rightarrow> db \<Rightarrow> bool"
    by (rule wp_mono [OF mark_settles [OF assms]]) (use that in auto)
  show ?thesis
    unfolding claim_def wp_tryM wp_txStale wp_bindM [of "Runs_GetForUpdate _ _"] wp_Runs_GetForUpdate Some option.case
    by (auto simp: wp_simps wp_funs countAttempts_def active_def r(2) intro!: stale running wp_mono [OF set] wp_mono [OF mark])
qed

lemma quiet_swallow: "quiet (tryM m (\<lambda>_. ret ()))"
  unfolding quiet_def wp_tryM by (rule allI, rule wp_mono [OF wp_True]) (simp_all add: wp_ret)

lemma recorded_find:
  "recorded_step d rid i \<longleftrightarrow> find (\<lambda>x. Step_RunID x = rid \<and> Step_StepIndex x = i) (agent_run_steps d) \<noteq> None"
  by (auto simp: recorded_step_def find_None_iff)

text \<open>A step that was inserted stays recorded to the end of its transaction.\<close>

lemma commit_tail:
  assumes "recorded_step d (SJ_RunID job) (SJ_StepIndex job)"
  shows "wp (bindM (tryM (AccountStepCost run st) (\<lambda>_. ret ())) (\<lambda>_.
      bindM (appendTx job k p) (\<lambda>_. classify_outcome sha job run step result rec)))
    (\<lambda>_. settled job) (\<lambda>e _. e \<noteq> errCancelledCommit \<and> e \<noteq> errStale) d"
proof (rule quiet_fails)
  have "preserves (\<lambda>d. recorded_step d (SJ_RunID job) (SJ_StepIndex job)) (bindM (tryM (AccountStepCost run st) (\<lambda>_. ret ())) (\<lambda>_.
      bindM (appendTx job k p) (\<lambda>_. classify_outcome sha job run step result rec)))"
    by (intro pres_intros recorded_inv.AccountStepCost_pres recorded_inv.appendTx_pres recorded_inv.classify_outcome_pres) simp_all
  then show "wp (bindM (tryM (AccountStepCost run st) (\<lambda>_. ret ())) (\<lambda>_.
      bindM (appendTx job k p) (\<lambda>_. classify_outcome sha job run step result rec))) (\<lambda>_. settled job) (\<lambda>_ _. True) d"
    by (rule wp_pres [where I = "\<lambda>d. recorded_step d (SJ_RunID job) (SJ_StepIndex job)"]) (simp_all add: settled_def assms)
  show "quiet (bindM (tryM (AccountStepCost run st) (\<lambda>_. ret ())) (\<lambda>_.
      bindM (appendTx job k p) (\<lambda>_. classify_outcome sha job run step result rec)))"
    unfolding appendTx_def by (intro quiet_intros quiet_swallow quiet_classify)
qed

lemma commit_settles:
  assumes "keys_ok d" "moved (SJ_RunID job) RunRunning d"
  shows "wp (commit_tx sha job attempt enc step result rec) (\<lambda>_. settled job) (\<lambda>e d'. e = errStale \<longrightarrow> settled job d') d"
proof (cases "find (run_in (SJ_TenantID job) (SJ_RunID job)) (agent_runs d)")
  case None
  then show ?thesis by (simp add: commit_tx_def Let_def wp_simps)
next
  case (Some run)
  have run: "run \<in> set (agent_runs d)" "Run_ID run = SJ_RunID job" using find_SomeD [OF Some] by auto
  have "run_path RunRunning (Run_State run)" using assms(2) run by (simp add: moved_def)
  then have "Run_State run \<noteq> RunPending" using never_pending_again by force
  then have stale: "settled job d" if "Run_State run \<noteq> RunRunning \<or> Run_CancelRequestedAt run \<noteq> None"
    using that by (auto simp: settled_found [OF assms(1)] Some active_def)
  have mark: "wp (markCancelledTx job) Q (\<lambda>e d'. if e = errCancelledCommit then settled job d' else settled job d) d"
    if "Run_CancelRequestedAt run \<noteq> None" for Q :: "unit \<Rightarrow> db \<Rightarrow> bool"
    by (rule wp_mono [OF mark_settles [OF assms(1)]]) (use stale that in auto)
  have body: "wp (bindM (Runs_SetHistory t r h) (\<lambda>_.
      bindM (tryM (Runs_InsertStep t st) (\<lambda>x. case x of
          Inr _ \<Rightarrow> ret ()
        | Inl e \<Rightarrow> if e = ErrAlreadyExists then raise errStale else raise e)) (\<lambda>_.
      bindM (tryM (AccountStepCost run st) (\<lambda>_. ret ())) (\<lambda>_.
      bindM (appendTx job k p) (\<lambda>_. classify_outcome sha job run step result rec)))))
      (\<lambda>_. settled job) (\<lambda>e d'. if e = errCancelledCommit then settled job d' else e = errStale \<longrightarrow> settled job d) d"
    if "t = SJ_TenantID job" "r = SJ_RunID job" "Step_RunID st = r" "Step_StepIndex st = SJ_StepIndex job" for t r h st k p
    unfolding wp_bindM [of "Runs_SetHistory _ _ _"] wp_bindM [of "tryM (Runs_InsertStep _ _) _"] wp_tryM [of "Runs_InsertStep _ _"]
    using that Some
    by (auto simp: Runs_SetHistory_def wp_Runs_exec wp_Runs_InsertStep wp_ret wp_raise find_upd_where settled_def
        recorded_step_def [of "_\<lparr>agent_runs := _, agent_run_steps := _\<rparr>"] recorded_find [of d]
        intro!: wp_mono [OF commit_tail])
  show ?thesis
    unfolding commit_tx_def Let_def wp_txStale wp_bindM [of "Runs_GetForUpdate _ _"] wp_Runs_GetForUpdate Some option.case
  proof (intro wp_ifI, goal_cases)
    case 1
    then show ?case using stale by (simp add: wp_raise)
  next
    case 2
    then show ?case by (intro wp_mono [OF mark]) auto
  next
    case 3
    show ?case by (rule wp_mono [OF body]) (auto split: if_splits)
  qed
qed

lemma quietD: "quiet m \<Longrightarrow> wp m (\<lambda>_ _. True) (\<lambda>e _. e \<noteq> errStale) d"
  by (auto simp: quiet_def elim: wp_mono)

lemma mark_not_stale: "wp (markCancelledTx job) (\<lambda>_ _. True) (\<lambda>e _. e \<noteq> errStale) d"
proof -
  have "quiet (settleTerminalRun org rid)" for org rid
    unfolding settleTerminalRun_def by (intro quiet_intros)
  then show ?thesis
    unfolding markCancelledTx_def wp_bindM
    by (intro wp_mono [OF quietD [of "Runs_SetState _ _ _ _ _"]] wp_mono [OF quietD [of "Events_Append _ _ _ _ _"]]
        wp_mono [OF quietD [of "settleTerminalRun _ _"]]) (auto simp: wp_raise intro: quiet_intros)
qed

lemma wp_stale_ok:
  assumes "wp m (\<lambda>_. P) (\<lambda>e d'. e = errStale \<longrightarrow> P d') d"
  shows "wp (tryM m (\<lambda>r. case r of Inr _ \<Rightarrow> ret () | Inl e \<Rightarrow> if e = errStale then ret () else raise e))
    (\<lambda>_. P) (\<lambda>_ _. True) d"
  unfolding wp_tryM by (rule wp_mono [OF assms]) (auto simp: wp_ret wp_raise)

lemma handle_settles:
  assumes "keys_ok d"
  shows "wp (handleStreamError job c u e) (\<lambda>_. settled job) (\<lambda>_ _. True) d"
proof -
  have "wp (txStale (markCancelledTx job :: unit dbm)) (\<lambda>_. settled job) (\<lambda>e d'. e = errStale \<longrightarrow> settled job d') d"
    unfolding wp_txStale using mark_settles [OF assms, of job] mark_not_stale [of job d] by (fastforce simp: wp_outcome)
  then show ?thesis
    unfolding handleStreamError_def
    by (intro wp_ifI wp_stale_ok) (auto simp: wp_raise split: prod.split intro!: fail_settles [OF assms])
qed

section \<open>An acknowledged delivery\<close>

lemma wp_bind_inv:
  assumes "preserves I m" "I d" "\<And>a d'. I d' \<Longrightarrow> wp (f a) Q (\<lambda>_ _. True) d'"
  shows "wp (bindM m f) Q (\<lambda>_ _. True) d"
  unfolding wp_bindM by (rule wp_pres [OF assms(1,2) assms(3)]) simp_all

lemma wp_try_inv:
  assumes "preserves I m" "I d" "\<And>x d'. I d' \<Longrightarrow> wp (f x) Q (\<lambda>_ _. True) d'"
  shows "wp (tryM m f) Q (\<lambda>_ _. True) d"
  unfolding wp_tryM by (rule wp_pres [OF assms(1,2) assms(3)]) (use assms(3) in simp_all)

lemma commitOutcome_settles:
  assumes "keys_ok d" "moved (SJ_RunID job) RunRunning d"
  shows "wp (commitOutcome sha job attempt env result rec) (\<lambda>_. settled job) (\<lambda>_ _. True) d"
  unfolding commitOutcome_def Let_def
  by (cases "AR_Steps result", simp only: list.case, rule fail_settles [OF assms(1)], simp only: list.case,
      rule wp_stale_ok [OF commit_settles [OF assms]])

text \<open>After the claim the worker runs transactions of the system, in which the run never becomes pending again.\<close>

lemma claimed_settles:
  assumes "keys_ok d" "moved r RunRunning d" "fresh_world w" "enqueued d (StepJob r t s i)" "snapshot d run"
    and "Run_ID run = r" "Run_TenantID run = t"
  defines "job \<equiv> StepJob r t s i"
  shows "wp (bindM (appendEvent job EventKindStepStarted (StepStartedPayload r i attempt)) (\<lambda>_.
      tryM (ResolveModel (W_decrypt w) (W_build w) t (Run_ModelConfig run)) (\<lambda>m. case m of
        Inl (CredentialError reason message) \<Rightarrow> failRun job reason message
      | Inl e \<Rightarrow> raise e
      | Inr _ \<Rightarrow>
        (case Registry_Resolve NewRegistry (Run_LoopKind run) (Run_LoopVersion run) of
           None \<Rightarrow> failRun job reg regmsg
         | Some def \<Rightarrow>
           (case DecodeEnvelope (Run_History run) of
              Inl _ \<Rightarrow> failRun job dec decmsg
            | Inr env0 \<Rightarrow>
              bindM (compact_history w job run env0) (\<lambda>env.
              case W_dynamic w of
                None \<Rightarrow> raise tool
              | Some dynamic \<Rightarrow>
                bindM (run_stream w job run dynamic st) (\<lambda>(res, rec).
                case res of
                  Inl err \<Rightarrow> handleStreamError job (W_cancelled w) (W_interrupted w) err
                | Inr result \<Rightarrow> commitOutcome (W_NewSHA1 w) job attempt env result rec)))))))
    (\<lambda>_. settled job) (\<lambda>_ _. True) d"
proof -
  let ?G = "onward (W_NewSHA1 w) d (Some job) (Some run)"
  have G: "?G d" using assms by (simp add: onward_def known_def)
  have ok: "keys_ok d'" "moved r RunRunning d'" if "?G d'" for d'
    using that keys_inv.sys_path_inv [OF TrueI _ assms(1)] moved_path [OF _ assms(2)] by (auto simp: onward_def)
  show ?thesis
    by (auto split: sum.split Err.split option.split simp: wp_raise job_def
        intro!: wp_bind_inv [where I = ?G] wp_try_inv [where I = ?G] G pres_intros event_path compact_path
          run_stream_path assms fail_settles handle_settles commitOutcome_settles ok [unfolded job_def])
qed

lemma Work_settles:
  assumes "keys_ok d" "fresh_world w" "enqueued d (StepJob r t s i)"
  shows "wp (Work w (StepJob r t s i)) (\<lambda>_. settled (StepJob r t s i)) (\<lambda>_ _. True) d"
proof -
  let ?job = "StepJob r t s i"
  have d: "onward (W_NewSHA1 w) d (Some ?job) None d" using assms(3) by (simp add: onward_def known_def)
  have "wp (claim ?job) (\<lambda>(run, n) d'. Run_ID run = r \<and> Run_TenantID run = t \<and> keys_ok d' \<and> moved r RunRunning d' \<and>
      enqueued d' ?job \<and> snapshot d' run) (\<lambda>e d'. e = errStale \<longrightarrow> settled ?job d') d"
    using wp_claim_onward [OF d] claim_settles [OF assms(1), of ?job] keys_inv.sys_path_inv [OF TrueI _ assms(1)]
    by (fastforce simp: wp_outcome onward_def known_def)
  then show ?thesis
    unfolding Work_def wp_tryM [of "claim _"]
    by (rule wp_mono) (auto simp: wp_ret wp_raise intro!: claimed_settles [OF _ _ assms(2), simplified])
qed

section \<open>Redelivery\<close>

text \<open>A delivery for a recorded step, or for a run that is not active, does nothing at all.\<close>

lemma claim_stale:
  assumes "find (run_in (SJ_TenantID job) (SJ_RunID job)) (agent_runs d) = Some run"
    "\<not> active (Run_State run) \<or> Run_CancelRequestedAt run = None \<and> recorded_step d (SJ_RunID job) (SJ_StepIndex job)"
  shows "claim job d = (Inl errStale, d)"
proof -
  have id: "Run_ID run = SJ_RunID job" using find_SomeD [OF assms(1)] by simp
  have "recorded_step d (SJ_RunID job) (SJ_StepIndex job) \<longleftrightarrow>
      (\<exists>x\<in>set (steps_of d (SJ_TenantID job) (SJ_RunID job)). Step_StepIndex x = SJ_StepIndex job)"
    using assms(1) by (auto simp: recorded_step_def steps_of_def)
  then have "wp (claim job) (\<lambda>_ _. False) (\<lambda>e d'. e = errStale \<and> d' = d) d"
    using assms by (auto simp: claim_def wp_simps wp_funs active_def id)
  then show ?thesis by (cases "claim job d"; cases "fst (claim job d)") (auto simp: wp_def)
qed

lemma Work_stale: "claim job d = (Inl errStale, d) \<Longrightarrow> Work w job d = (Inr (), d)"
  by (simp add: Work_def tryM_def ret_def)

text \<open>A successful claim carries the number of the attempt.\<close>

lemma claim_attempt:
  assumes "log_ok d" "session_visible d (SJ_TenantID job, SJ_SessionID job)" "claim job d = (Inr (run, n), d')"
  shows "n = int (length (filter (attempt_event job) (log_of d (SJ_SessionID job)))) + 1"
proof -
  have "wp (claim job) (\<lambda>(run, n) _. n = int (length (filter (attempt_event job) (log_of d (SJ_SessionID job)))) + 1) (\<lambda>_ _. True) d"
    using count_loop_log [OF assms(1,2), of 0 0]
    unfolding claim_def by (simp add: wp_simps wp_funs countAttempts_def Runs_SetState_def split: option.split cong: if_cong)
  from wp_ok [OF this assms(3)] show ?thesis by simp
qed

end
