(* ===== verification/Isolation.thy ===== *)
theory Isolation
  imports Invariants
begin

text \<open>
  Isolation of tenants: whatever is done on behalf of other tenants, what one tenant can
  read stays as it is. The interpretation of the store interface for the tenants other than
  \<open>u\<close> carries this to the step worker, the sweeper and the API handlers.
\<close>

section \<open>What belongs to a tenant\<close>

definition runs_of :: "TenantID \<Rightarrow> db \<Rightarrow> AgentRun list" where
  "runs_of u d = filter (\<lambda>r. Run_TenantID r = u) (agent_runs d)"

definition sessions_of :: "TenantID \<Rightarrow> db \<Rightarrow> Session list" where
  "sessions_of u d = filter (\<lambda>s. Sess_TenantID s = u) (sessions d)"

text \<open>The sessions, runs and credentials of a tenant, and the rows that refer to them.\<close>

record tenant_rows =
  TV_sessions :: "Session list"
  TV_events :: "Event list"
  TV_memory :: "SessionMemoryEntry list"
  TV_runs :: "AgentRun list"
  TV_steps :: "RunStep list"
  TV_waits :: "RunWait list"
  TV_credentials :: "Credential list"

definition tenant_view :: "TenantID \<Rightarrow> db \<Rightarrow> tenant_rows" where
  "tenant_view u d =
    \<lparr>TV_sessions = sessions_of u d,
     TV_events = filter (\<lambda>e. Ev_SessionID e \<in> Sess_ID ` set (sessions_of u d)) (session_events d),
     TV_memory = filter (\<lambda>m. Mem_SessionID m \<in> Sess_ID ` set (sessions_of u d)) (session_memory d),
     TV_runs = runs_of u d,
     TV_steps = filter (\<lambda>s. Step_RunID s \<in> Run_ID ` set (runs_of u d)) (agent_run_steps d),
     TV_waits = filter (\<lambda>w. Wait_ParentRunID w \<in> Run_ID ` set (runs_of u d)) (run_waits d),
     TV_credentials = filter (\<lambda>c. Cred_TenantID c = u) (credentials d)\<rparr>"

lemma runs_of_frame [simp]:
  "runs_of u (d\<lparr>db_now := x_db_now\<rparr>) = runs_of u d"
  "runs_of u (d\<lparr>tenants := x_tenants\<rparr>) = runs_of u d"
  "runs_of u (d\<lparr>api_keys := x_api_keys\<rparr>) = runs_of u d"
  "runs_of u (d\<lparr>sessions := x_sessions\<rparr>) = runs_of u d"
  "runs_of u (d\<lparr>session_events := x_session_events\<rparr>) = runs_of u d"
  "runs_of u (d\<lparr>credentials := x_credentials\<rparr>) = runs_of u d"
  "runs_of u (d\<lparr>agent_run_steps := x_agent_run_steps\<rparr>) = runs_of u d"
  "runs_of u (d\<lparr>provider_instances := x_provider_instances\<rparr>) = runs_of u d"
  "runs_of u (d\<lparr>resources := x_resources\<rparr>) = runs_of u d"
  "runs_of u (d\<lparr>session_memory := x_session_memory\<rparr>) = runs_of u d"
  "runs_of u (d\<lparr>run_waits := x_run_waits\<rparr>) = runs_of u d"
  "runs_of u (d\<lparr>run_wait_members := x_run_wait_members\<rparr>) = runs_of u d"
  "runs_of u (d\<lparr>periodic_prompts := x_periodic_prompts\<rparr>) = runs_of u d"
  "runs_of u (d\<lparr>jobs := x_jobs\<rparr>) = runs_of u d"
  "runs_of u (d\<lparr>notifications := x_notifications\<rparr>) = runs_of u d"
  "runs_of u (logged d t sid a k p n) = runs_of u d"
  by (simp_all add: runs_of_def)

lemma sessions_of_frame [simp]:
  "sessions_of u (d\<lparr>db_now := x_db_now\<rparr>) = sessions_of u d"
  "sessions_of u (d\<lparr>tenants := x_tenants\<rparr>) = sessions_of u d"
  "sessions_of u (d\<lparr>api_keys := x_api_keys\<rparr>) = sessions_of u d"
  "sessions_of u (d\<lparr>session_events := x_session_events\<rparr>) = sessions_of u d"
  "sessions_of u (d\<lparr>credentials := x_credentials\<rparr>) = sessions_of u d"
  "sessions_of u (d\<lparr>agent_runs := x_agent_runs\<rparr>) = sessions_of u d"
  "sessions_of u (d\<lparr>agent_run_steps := x_agent_run_steps\<rparr>) = sessions_of u d"
  "sessions_of u (d\<lparr>provider_instances := x_provider_instances\<rparr>) = sessions_of u d"
  "sessions_of u (d\<lparr>resources := x_resources\<rparr>) = sessions_of u d"
  "sessions_of u (d\<lparr>session_memory := x_session_memory\<rparr>) = sessions_of u d"
  "sessions_of u (d\<lparr>run_waits := x_run_waits\<rparr>) = sessions_of u d"
  "sessions_of u (d\<lparr>run_wait_members := x_run_wait_members\<rparr>) = sessions_of u d"
  "sessions_of u (d\<lparr>periodic_prompts := x_periodic_prompts\<rparr>) = sessions_of u d"
  "sessions_of u (d\<lparr>jobs := x_jobs\<rparr>) = sessions_of u d"
  "sessions_of u (d\<lparr>notifications := x_notifications\<rparr>) = sessions_of u d"
  by (simp_all add: sessions_of_def)

lemma tenant_view_eqI:
  assumes "sessions_of u d' = sessions_of u d" "runs_of u d' = runs_of u d"
    "filter (\<lambda>e. Ev_SessionID e \<in> Sess_ID ` set (sessions_of u d)) (session_events d') =
      filter (\<lambda>e. Ev_SessionID e \<in> Sess_ID ` set (sessions_of u d)) (session_events d)"
    "filter (\<lambda>m. Mem_SessionID m \<in> Sess_ID ` set (sessions_of u d)) (session_memory d') =
      filter (\<lambda>m. Mem_SessionID m \<in> Sess_ID ` set (sessions_of u d)) (session_memory d)"
    "filter (\<lambda>s. Step_RunID s \<in> Run_ID ` set (runs_of u d)) (agent_run_steps d') =
      filter (\<lambda>s. Step_RunID s \<in> Run_ID ` set (runs_of u d)) (agent_run_steps d)"
    "filter (\<lambda>w. Wait_ParentRunID w \<in> Run_ID ` set (runs_of u d)) (run_waits d') =
      filter (\<lambda>w. Wait_ParentRunID w \<in> Run_ID ` set (runs_of u d)) (run_waits d)"
    "filter (\<lambda>c. Cred_TenantID c = u) (credentials d') = filter (\<lambda>c. Cred_TenantID c = u) (credentials d)"
  shows "tenant_view u d' = tenant_view u d"
  unfolding tenant_view_def assms ..

text \<open>A session or a run that another tenant owns is not one of the tenant's.\<close>

lemma foreign_session:
  assumes "log_ok d" "find (session_in t sid) (sessions d) \<noteq> None" "t \<noteq> u"
  shows "sid \<notin> Sess_ID ` set (sessions_of u d)"
proof -
  obtain s where s: "s \<in> set (sessions d)" "Sess_ID s = sid" "Sess_TenantID s = t"
    using assms(2) by (auto dest: find_SomeD)
  have "Sess_TenantID s' = t" if "s' \<in> set (sessions d)" "Sess_ID s' = sid" for s'
    using key_uniqueD [OF log_okD(1) [OF assms(1)] that(1) s(1)] that(2) s(2,3) by simp
  then show ?thesis using assms(3) by (auto simp: sessions_of_def)
qed

lemma foreign_run:
  assumes "keys_ok d" "find (run_in t rid) (agent_runs d) \<noteq> None" "t \<noteq> u"
  shows "rid \<notin> Run_ID ` set (runs_of u d)"
proof -
  obtain r where r: "r \<in> set (agent_runs d)" "Run_ID r = rid" "Run_TenantID r = t"
    using assms(2) by (auto dest: find_SomeD)
  have "Run_TenantID r' = t" if "r' \<in> set (agent_runs d)" "Run_ID r' = rid" for r'
    using key_uniqueD [of Run_ID "agent_runs d" r' r] that r assms(1) by (simp add: keys_ok_def)
  then show ?thesis using assms(3) by (auto simp: runs_of_def)
qed

lemma filter_upd_where_off:
  assumes "\<And>r. r \<in> set rows \<Longrightarrow> p r \<Longrightarrow> \<not> q r \<and> \<not> q (f r)"
  shows "filter q (upd_where p f rows) = filter q rows"
  using assms by (induction rows) auto

lemma filter_filter_off: "(\<And>r. r \<in> set rows \<Longrightarrow> q r \<Longrightarrow> p r) \<Longrightarrow> filter q (filter p rows) = filter q rows"
  by (induction rows) auto

section \<open>Writes for another tenant\<close>

lemma tenant_view_runs:
  assumes "t \<noteq> u" "\<And>r. Run_TenantID (f r) = Run_TenantID r"
  shows "tenant_view u (d\<lparr>agent_runs := upd_where (run_in t rid) f (agent_runs d)\<rparr>) = tenant_view u d"
proof -
  have "runs_of u (d\<lparr>agent_runs := upd_where (run_in t rid) f (agent_runs d)\<rparr>) = runs_of u d"
    unfolding runs_of_def by simp (rule filter_upd_where_off, use assms in auto)
  then show ?thesis by (intro tenant_view_eqI) simp_all
qed

lemma tenant_view_run_insert:
  "Run_TenantID r \<noteq> u \<Longrightarrow> tenant_view u (d\<lparr>agent_runs := agent_runs d @ [r]\<rparr>) = tenant_view u d"
  by (intro tenant_view_eqI) (simp_all add: runs_of_def)

lemma tenant_view_session_insert:
  "Sess_TenantID s \<noteq> u \<Longrightarrow> tenant_view u (d\<lparr>sessions := sessions d @ [s]\<rparr>) = tenant_view u d"
  by (intro tenant_view_eqI) (simp_all add: sessions_of_def)

lemma tenant_view_step:
  "Step_RunID s \<notin> Run_ID ` set (runs_of u d) \<Longrightarrow>
    tenant_view u (d\<lparr>agent_run_steps := agent_run_steps d @ [s]\<rparr>) = tenant_view u d"
  by (intro tenant_view_eqI) simp_all

lemma tenant_view_sessions:
  assumes "t \<noteq> u" "\<And>s. Sess_TenantID (f s) = Sess_TenantID s"
  shows "tenant_view u (d\<lparr>sessions := upd_where (session_in t sid) f (sessions d)\<rparr>) = tenant_view u d"
proof -
  have "sessions_of u (d\<lparr>sessions := upd_where (session_in t sid) f (sessions d)\<rparr>) = sessions_of u d"
    unfolding sessions_of_def by simp (rule filter_upd_where_off, use assms in auto)
  then show ?thesis by (intro tenant_view_eqI) simp_all
qed

lemma tenant_view_logged:
  assumes "log_ok d" "find (session_in t sid) (sessions d) \<noteq> None" "t \<noteq> u"
  shows "tenant_view u (logged d t sid a k p n) = tenant_view u d"
proof -
  have "sessions_of u (logged d t sid a k p n) = sessions_of u d"
    unfolding sessions_of_def sessions_logged by (rule filter_upd_where_off) (use assms(3) in auto)
  moreover have "session_events (logged d t sid a k p n) = session_events d @
      [\<lparr>Ev_SessionID = sid, Ev_Seq = n, Ev_TS = db_now d, Ev_Actor = a, Ev_Kind = k, Ev_Payload = p\<rparr>]"
    by (simp add: logged_def)
  ultimately show ?thesis
    using foreign_session [OF assms] by (intro tenant_view_eqI) simp_all
qed

lemma tenant_view_waits:
  assumes "keys_ok d" "t \<noteq> u" "\<And>w. w \<in> set (run_waits d) \<Longrightarrow> p w \<Longrightarrow> wait_tenant d t w"
    "\<And>w. Wait_ParentRunID (f w) = Wait_ParentRunID w"
  shows "tenant_view u (d\<lparr>run_waits := upd_where p f (run_waits d)\<rparr>) = tenant_view u d"
proof -
  have "filter (\<lambda>w. Wait_ParentRunID w \<in> Run_ID ` set (runs_of u d)) (upd_where p f (run_waits d)) =
      filter (\<lambda>w. Wait_ParentRunID w \<in> Run_ID ` set (runs_of u d)) (run_waits d)"
  proof (rule filter_upd_where_off)
    fix w assume "w \<in> set (run_waits d)" "p w"
    then have "Wait_ParentRunID w \<notin> Run_ID ` set (runs_of u d)"
      using foreign_run [OF assms(1) _ assms(2)] assms(3) unfolding wait_tenant_def by blast
    then show "Wait_ParentRunID w \<notin> Run_ID ` set (runs_of u d) \<and> Wait_ParentRunID (f w) \<notin> Run_ID ` set (runs_of u d)"
      by (simp add: assms(4))
  qed
  then show ?thesis by (intro tenant_view_eqI) simp_all
qed

lemma tenant_view_wait_insert:
  assumes "keys_ok d" "t \<noteq> u" "wait_tenant d t w"
  shows "tenant_view u (d\<lparr>run_waits := run_waits d @ [w]\<rparr>) = tenant_view u d"
  using foreign_run [OF assms(1) _ assms(2)] assms(3) unfolding wait_tenant_def
  by (intro tenant_view_eqI) simp_all

text \<open>The rows of other tables are not part of the view.\<close>

lemma tenant_view_frame [simp]:
  "tenant_view u (d\<lparr>db_now := x_db_now\<rparr>) = tenant_view u d"
  "tenant_view u (d\<lparr>tenants := x_tenants\<rparr>) = tenant_view u d"
  "tenant_view u (d\<lparr>api_keys := x_api_keys\<rparr>) = tenant_view u d"
  "tenant_view u (d\<lparr>run_wait_members := x_run_wait_members\<rparr>) = tenant_view u d"
  "tenant_view u (d\<lparr>jobs := x_jobs\<rparr>) = tenant_view u d"
  "tenant_view u (d\<lparr>provider_instances := x_instances\<rparr>) = tenant_view u d"
  "tenant_view u (d\<lparr>resources := x_resources\<rparr>) = tenant_view u d"
  "tenant_view u (d\<lparr>periodic_prompts := x_prompts\<rparr>) = tenant_view u d"
  by (intro tenant_view_eqI; simp)+

section \<open>The interface, for the other tenants\<close>

definition view_is :: "TenantID \<Rightarrow> tenant_rows \<Rightarrow> db \<Rightarrow> bool" where
  "view_is u v d \<longleftrightarrow> keys_ok d \<and> log_ok d \<and> tenant_view u d = v"

lemma view_pres:
  assumes "preserves keys_ok m" "preserves log_ok m"
    "\<And>d. keys_ok d \<Longrightarrow> log_ok d \<Longrightarrow> wp m (\<lambda>_ d'. tenant_view u d' = tenant_view u d) (\<lambda>_ d'. tenant_view u d' = tenant_view u d) d"
  shows "preserves (view_is u v) m"
  using assms by (simp add: preserves_def view_is_def wp_final)

lemma view_memory:
  assumes "log_ok d" "find (session_in t sid) (sessions d) \<noteq> None" "t \<noteq> u"
    and "filter (\<lambda>m. Mem_SessionID m \<noteq> sid) ms = filter (\<lambda>m. Mem_SessionID m \<noteq> sid) (session_memory d)"
  shows "tenant_view u (d\<lparr>session_memory := ms\<rparr>) = tenant_view u d"
proof -
  let ?q = "\<lambda>m. Mem_SessionID m \<in> Sess_ID ` set (sessions_of u d)"
  have drop: "filter ?q xs = filter ?q (filter (\<lambda>m. Mem_SessionID m \<noteq> sid) xs)" for xs
    by (induction xs) (use foreign_session [OF assms(1-3)] in auto)
  have "filter ?q ms = filter ?q (session_memory d)"
    unfolding drop [of ms] drop [of "session_memory d"] assms(4) ..
  then show ?thesis by (intro tenant_view_eqI) simp_all
qed

text \<open>Writes that keep the view, given the unique keys and the sound log.\<close>

lemma view_runs:
  assumes "t \<noteq> u"
  shows "preserves (view_is u v) (Runs_SetHistory t rid h)" "preserves (view_is u v) (Runs_SetResult t rid res)"
    "preserves (view_is u v) (Runs_RequestCancel t rid)" "preserves (view_is u v) (Runs_SetState t rid st fr fm)"
  by (rule view_pres, rule keys_inv.SetHistory keys_inv.SetResult keys_inv.RequestCancel keys_inv.SetState, simp,
      rule log_inv.SetHistory log_inv.SetResult log_inv.RequestCancel log_inv.SetState, simp,
      simp add: wp_simps Runs_SetHistory_def Runs_SetResult_def Runs_RequestCancel_def Runs_SetState_def
        tenant_view_runs [OF assms])+

lemma view_creates:
  assumes "t \<noteq> u"
  shows "preserves (view_is u v) (Runs_Create t run)" "preserves (view_is u v) (Runs_InsertStep t step)"
proof -
  show "preserves (view_is u v) (Runs_Create t run)"
    by (rule view_pres [OF keys_inv.RunCreate log_inv.RunCreate]) (simp_all add: wp_simps tenant_view_run_insert assms)
  have "wp (Runs_InsertStep t step) (\<lambda>_ d'. tenant_view u d' = tenant_view u d)
      (\<lambda>_ d'. tenant_view u d' = tenant_view u d) d" if "keys_ok d" for d
    using foreign_run [OF that _ assms] by (simp add: wp_simps tenant_view_step)
  then show "preserves (view_is u v) (Runs_InsertStep t step)"
    by (intro view_pres keys_inv.InsertStep log_inv.InsertStep) simp_all
qed

lemma view_sessions:
  assumes "t \<noteq> u"
  shows "preserves (view_is u v) (Events_Append t sid a k p)" "preserves (view_is u v) (Sessions_UpdateLabels t sid ls)"
    "preserves (view_is u v) (Sessions_Archive t sid)" "preserves (view_is u v) (Sessions_Create t s)"
proof -
  show "preserves (view_is u v) (Events_Append t sid a k p)"
    by (rule view_pres [OF keys_inv.Append log_inv.Append])
      (auto simp: wp_simps tenant_view_logged assms split: option.split)
  show "preserves (view_is u v) (Sessions_UpdateLabels t sid ls)"
    by (rule view_pres [OF keys_inv.SessLabels log_inv.SessLabels])
      (auto simp: wp_simps Sessions_UpdateLabels_def Sessions_Get_def tenant_view_sessions assms split: option.split)
  show "preserves (view_is u v) (Sessions_Archive t sid)"
    by (rule view_pres [OF keys_inv.SessArchive log_inv.SessArchive])
      (auto simp: wp_simps Sessions_Archive_def Sessions_Get_def tenant_view_sessions assms split: option.split)
  show "preserves (view_is u v) (Sessions_Create t s)"
    by (rule view_pres [OF keys_inv.SessCreate log_inv.SessCreate])
      (auto simp: wp_simps Sessions_Create_def tenant_view_session_insert assms split: option.split)
qed

lemma view_memory_writes:
  assumes "t \<noteq> u"
  shows "preserves (view_is u v) (Memory_Set t e)" "preserves (view_is u v) (Memory_Delete t sid key)"
proof -
  have set: "wp (Memory_Set t e) (\<lambda>_ d'. tenant_view u d' = tenant_view u d)
      (\<lambda>_ d'. tenant_view u d' = tenant_view u d) d" if "log_ok d" for d
    by (auto simp: wp_simps intro!: view_memory [OF that _ assms, of "Mem_SessionID e"] filter_upd_where_off)
  have delete: "wp (Memory_Delete t sid key) (\<lambda>_ d'. tenant_view u d' = tenant_view u d)
      (\<lambda>_ d'. tenant_view u d' = tenant_view u d) d" if "log_ok d" for d
    by (auto simp: wp_simps Memory_Delete_def intro!: view_memory [OF that _ assms, of sid] intro: filter_cong)
  show "preserves (view_is u v) (Memory_Set t e)" "preserves (view_is u v) (Memory_Delete t sid key)"
    using set delete by (intro view_pres keys_inv.MemSet keys_inv.MemDelete log_inv.MemSet log_inv.MemDelete; simp)+
qed

lemma view_credentials:
  assumes "t \<noteq> u"
  shows "preserves (view_is u v) (Credentials_Put t c)" "preserves (view_is u v) (Credentials_Delete t kind name)"
proof -
  have update: "filter (\<lambda>c. Cred_TenantID c = u) (upd_where (cred_key t kind name) f cs) = filter (\<lambda>c. Cred_TenantID c = u) cs"
    if "\<And>c. Cred_TenantID (f c) = Cred_TenantID c" for f cs kind name
    by (rule filter_upd_where_off) (use that assms in auto)
  show "preserves (view_is u v) (Credentials_Put t c)"
    by (rule view_pres [OF keys_inv.CredPut log_inv.CredPut])
      (auto simp: wp_simps Credentials_Put_def update assms intro!: tenant_view_eqI)
  show "preserves (view_is u v) (Credentials_Delete t kind name)"
    by (rule view_pres [OF keys_inv.CredDelete log_inv.CredDelete])
      (use assms in \<open>auto simp: wp_simps Credentials_Delete_def simp del: filter_filter intro!: tenant_view_eqI filter_filter_off\<close>)
qed

text \<open>Waits: \<open>ClaimDue\<close> names its rows by their ids, which are unique.\<close>

lemma view_waits:
  assumes "t \<noteq> u"
  shows "ws \<noteq> WaitOpen \<Longrightarrow> preserves (view_is u v) (Waits_Close t wid ws out)"
    "preserves (view_is u v) (Waits_SetResult t wid out)"
    "preserves (view_is u v) (Waits_MarkResumed t wid)" "preserves (view_is u v) (Waits_ClaimDue t now lim)"
proof -
  have exec: "wp (Waits_exec p f) (\<lambda>_ d'. tenant_view u d' = tenant_view u d) (\<lambda>_ d'. tenant_view u d' = tenant_view u d) d"
    if "keys_ok d" "\<And>w. p d w \<Longrightarrow> wait_tenant d t w" "\<And>n w. Wait_ParentRunID (f n w) = Wait_ParentRunID w" for p f d
    using that by (simp add: wp_simps tenant_view_waits [OF _ assms])
  show "ws \<noteq> WaitOpen \<Longrightarrow> preserves (view_is u v) (Waits_Close t wid ws out)"
    by (rule view_pres [OF keys_inv.WaitClose log_inv.WaitClose]) (auto simp: Waits_Close_def intro!: exec)
  show "preserves (view_is u v) (Waits_MarkResumed t wid)"
    by (rule view_pres [OF keys_inv.MarkResumed log_inv.MarkResumed]) (auto simp: Waits_MarkResumed_def intro!: exec)
  show "preserves (view_is u v) (Waits_SetResult t wid out)"
    by (rule view_pres [OF keys_inv.WaitSetResult log_inv.WaitSetResult])
      (auto simp: Waits_SetResult_def wp_funs wp_if wp_ret wp_raise intro!: wp_mono [OF exec])
  have "wp (Waits_ClaimDue t now lim) (\<lambda>_ d'. tenant_view u d' = tenant_view u d)
      (\<lambda>_ d'. tenant_view u d' = tenant_view u d) d" if keys: "keys_ok d" for d
  proof -
    have "wait_tenant d t w" if w: "w \<in> set (run_waits d)" "Wait_ID w \<in> Wait_ID ` set (Waits_due d t now lim)" for w
    proof -
      from w(2) obtain x where x: "x \<in> set (Waits_due d t now lim)" "Wait_ID x = Wait_ID w" by auto
      then have "x \<in> set (run_waits d)" "wait_tenant d t x" by (auto simp: Waits_due_def dest!: in_set_takeD)
      with x(2) w(1) keys show ?thesis using key_uniqueD [of Wait_ID "run_waits d" x w] by (simp add: keys_ok_def)
    qed
    then show ?thesis by (simp add: Waits_ClaimDue_def wp_simps tenant_view_waits [OF keys assms])
  qed
  then show "preserves (view_is u v) (Waits_ClaimDue t now lim)"
    by (intro view_pres keys_inv.ClaimDue log_inv.ClaimDue) simp_all
qed

lemma view_wait_create:
  assumes "t \<noteq> u"
  shows "preserves (view_is u v) (Waits_Create t w ms)"
proof (rule preserves_Waits_Create)
  fix d w assume "view_is u v d" "find (wait_conflict w) (run_waits d) = None" "wait_tenant d t w"
  then show "view_is u v (d\<lparr>run_waits := run_waits d @ [w]\<rparr>)"
    by (simp add: view_is_def keys_ok_wait_insert tenant_view_wait_insert [OF _ assms])
next
  fix d m assume "view_is u v d"
  then show "view_is u v (d\<lparr>run_wait_members := run_wait_members d @ [m]\<rparr>)" by (simp add: view_is_def)
qed

lemma view_enqueue: "preserves (view_is u v) (EnqueueInTx job)" "preserves (view_is u v) (EnqueueInTxAt job at)"
  by (rule preservesI, simp add: wp_simps view_is_def)+

interpretation isolated: store_invariant_create "view_is u v" "\<lambda>t. t \<noteq> u" sha for sha u v
proof unfold_locales
  show "view_is u v d \<Longrightarrow> view_is u v (d\<lparr>db_now := now'\<rparr>)" for d now' by (simp add: view_is_def)
  show "preserves (view_is u v) (Tenants_Create tn)" "preserves (view_is u v) (APIKeys_Create key)"
    "preserves (view_is u v) (APIKeys_Revoke t kid)" "preserves (view_is u v) (aside rs ps pp)" for tn key t kid rs ps pp
    by (rule preservesI, simp add: wp_simps view_is_def Tenants_Create_def APIKeys_Create_def APIKeys_Revoke_def)+
qed (simp_all add: view_enqueue view_runs view_creates view_sessions view_memory_writes view_credentials view_waits view_wait_create)


section \<open>Callers of other tenants\<close>

text \<open>A caller acts for the tenant of its key; a request without one changes nothing.\<close>

context store_invariant_create
begin

lemma handlers_pres:
  assumes "\<And>a. ctx = Some a \<Longrightarrow> T (Auth_TenantID (Ctx_Identity a))"
  shows "preserves I (StartRun dm ctx req newID)" "preserves I (AnswerRun ctx rid msg)" "preserves I (CancelRun ctx rid)"
    "preserves I (CreateSession ctx t title labels newSID)" "preserves I (UpdateSessionLabels ctx sid labels)"
    "preserves I (ArchiveSession ctx sid)" "preserves I (SetMemory valid ctx sid key val)"
    "preserves I (DeleteMemory ctx sid key)" "preserves I (AppendEvent ctx sid p)"
  unfolding AnswerRun_def CancelRun_def StartRun_def CreateSession_def UpdateSessionLabels_def ArchiveSession_def
    SetMemory_def DeleteMemory_def AppendEvent_def
  by (rule preserves_SessionTenant preserves_resolveRun preserves_requireTenant; use assms in \<open>auto intro!: pres_intros split: option.split\<close>)+

end

text \<open>The view of a tenant after something that keeps it.\<close>

lemma view_kept:
  assumes "\<And>v. preserves (view_is u v) m" "keys_ok d" "log_ok d"
  shows "tenant_view u (snd (m d)) = tenant_view u d"
  using preservesD [OF assms(1) [of "tenant_view u d"], of d] assms(2,3) by (simp add: view_is_def)

end
