(* ===== verification/Fan_In.thy ===== *)
theory Fan_In
  imports Progress
begin

text \<open>
  Fan-in: what the outcome of a wait says about its members, that a wait resumes its parent
  once, and what happens to a wait that the sweeper has claimed.
\<close>

section \<open>The outcome of the members\<close>

text \<open>The members whose run is terminal, with the row that is read for each.\<close>

definition member_run :: "db \<Rightarrow> TenantID \<Rightarrow> RunWaitMember \<Rightarrow> AgentRun option" where
  "member_run d org m = find (run_in org (Member_RunID m)) (agent_runs d)"

definition finished :: "db \<Rightarrow> TenantID \<Rightarrow> RunWaitMember list \<Rightarrow> (RunWaitMember \<times> AgentRun) list" where
  "finished d org ms =
    filter (\<lambda>(m, r). RunState_Terminal (Run_State r)) (map (\<lambda>m. (m, the (member_run d org m))) ms)"

definition member_result :: "RunWaitMember \<times> AgentRun \<Rightarrow> WaitMemberResult" where
  "member_result x =
    \<lparr>WMR_Ordinal = Member_Ordinal (fst x), WMR_RunID = Run_ID (snd x), WMR_State = Run_State (snd x),
     WMR_Result = Run_Result (snd x), WMR_FailureReason = Run_FailureReason (snd x),
     WMR_FailureMessage = Run_FailureMessage (snd x)\<rparr>"

definition in_state :: "RunState \<Rightarrow> (RunWaitMember \<times> AgentRun) list \<Rightarrow> int" where
  "in_state s xs = int (length (filter (\<lambda>(m, r). Run_State r = s) xs))"

lemma in_state_Cons: "in_state s (x # xs) = (if Run_State (snd x) = s then 1 else 0) + in_state s xs"
  by (cases x) (simp add: in_state_def)

lemma finished_Cons:
  "finished d org (m # ms) =
    (if RunState_Terminal (Run_State (the (member_run d org m))) then [(m, the (member_run d org m))] else []) @ finished d org ms"
  by (simp add: finished_def)

text \<open>The loop over the members computes the list and the counters in one pass.\<close>

definition summary :: "(RunWaitMember \<times> AgentRun) list \<Rightarrow> WaitOutcome \<Rightarrow> WaitOutcome" where
  "summary xs out = out\<lparr>WO_Members := WO_Members out @ map member_result xs,
    WO_Completed := WO_Completed out + in_state RunCompleted xs,
    WO_Failed := WO_Failed out + in_state RunFailed xs,
    WO_Cancelled := WO_Cancelled out + in_state RunCancelled xs\<rparr>"

lemma collect_members_summary:
  assumes "\<forall>m\<in>set ms. member_run d org m \<noteq> None"
  shows "collect_members org ms out n d =
    (Inr (summary (finished d org ms) out, n + int (length ms - length (finished d org ms))), d)"
  using assms
proof (induction ms arbitrary: out n)
  case Nil
  show ?case by (simp add: ret_def summary_def finished_def in_state_def)
next
  case (Cons m ms)
  then obtain r where r: "member_run d org m = Some r" by auto
  then have get: "Runs_Get org (Member_RunID m) d = (Inr r, d)"
    by (simp add: Runs_Get_def find_row_def bindM_def gets_def ret_def member_run_def)
  have le: "length (finished d org ms) \<le> length ms"
    unfolding finished_def using length_filter_le [of _ "map (\<lambda>m. (m, the (member_run d org m))) ms"] by simp
  show ?case
  proof (cases "RunState_Terminal (Run_State r)")
    case True
    then show ?thesis
      using Cons by (cases "Run_State r")
        (simp_all add: bindM_def get Let_def summary_def finished_Cons r in_state_Cons member_result_def)
  next
    case False
    then show ?thesis
      using Cons le by (simp add: bindM_def get finished_Cons r Suc_diff_le)
  qed
qed

text \<open>Every finished member is counted under exactly one heading.\<close>

lemma in_state_total:
  "in_state RunCompleted (finished d org ms) + in_state RunFailed (finished d org ms) +
    in_state RunCancelled (finished d org ms) = int (length (finished d org ms))"
proof -
  have "\<forall>(m, r)\<in>set xs. RunState_Terminal (Run_State r) \<Longrightarrow>
    in_state RunCompleted xs + in_state RunFailed xs + in_state RunCancelled xs = int (length xs)" for xs
  proof (induction xs)
    case Nil
    show ?case by (simp add: in_state_def)
  next
    case (Cons x xs)
    then show ?case by (cases x; cases "Run_State (snd x)") (simp_all add: in_state_Cons)
  qed
  then show ?thesis by (simp add: finished_def)
qed

section \<open>A parent is resumed once\<close>

text \<open>What the parent's run and the queue see of a computation.\<close>

definition untouched :: "db \<Rightarrow> db \<Rightarrow> bool" where
  "untouched d d' \<longleftrightarrow> agent_runs d' = agent_runs d \<and> jobs d' = jobs d \<and> session_events d' = session_events d \<and>
    agent_run_steps d' = agent_run_steps d"

lemma wait_resumed_none:
  assumes "wait_resumed wid d"
  shows "find (\<lambda>w. wait_in d' org wid w \<and> Wait_ResumedAt w = None) (run_waits d) = None"
  using assms by (auto simp: find_None_iff wait_resumed_def)

lemma untouched_waits:
  "preserves (untouched d) (Waits_Close t wid ws out)" "preserves (untouched d) (Waits_SetResult t wid out)"
  "preserves (untouched d) (Waits_MarkResumed t wid)"
  by (simp_all add: preserves_wp wp_simps untouched_def Waits_Close_def Waits_SetResult_def Waits_MarkResumed_def)

lemma tryCloseWait_resumed:
  assumes "wait_resumed wid d"
  shows "wp (tryCloseWait org wid reason) (\<lambda>res d'. \<not> res \<and> untouched d d') (\<lambda>_ d'. untouched d d') d"
proof (rule wp_tryCloseWait_rule [where I = "\<lambda>d'. wait_resumed wid d' \<and> untouched d d'"], goal_cases)
  case (6 w out d')
  then show ?case
    using wait_resumed_none [of wid d' d' org]
    by (simp add: resumeParent_def Waits_MarkResumed_def wp_simps untouched_def)
qed (auto intro!: preserves_conj untouched_waits wait_resumed_inv.WaitClose wait_resumed_inv.WaitSetResult
    simp: assms, simp_all add: untouched_def)

text \<open>A resumption that happened is on record.\<close>

lemma wait_resumed_mark:
  assumes "wid \<in> Wait_ID ` set (run_waits d)" "keys_ok d" "find (\<lambda>w. wait_in d org wid w \<and> Wait_ResumedAt w = None) (run_waits d) \<noteq> None"
  shows "wait_resumed wid (d\<lparr>run_waits := upd_where (\<lambda>w. wait_in d org wid w \<and> Wait_ResumedAt w = None)
    (\<lambda>w. w\<lparr>Wait_ResumedAt := Some n\<rparr>) (run_waits d)\<rparr>)"
proof -
  obtain w where w: "w \<in> set (run_waits d)" "Wait_ID w = wid" "wait_tenant d org w" "Wait_ResumedAt w = None"
    using assms(3) by (auto dest: find_SomeD)
  have "wait_in d org wid x \<and> Wait_ResumedAt x = None" if "x \<in> set (run_waits d)" "Wait_ID x = wid" for x
    using key_uniqueD [of Wait_ID "run_waits d" x w] that w assms(2) by (simp add: keys_ok_def)
  then show ?thesis
    unfolding wait_resumed_def using assms(1) by (simp add: Wait_IDs_upd) (auto simp: set_upd_where)
qed

lemma resumeParent_marks:
  assumes "keys_ok d" "Wait_ID w \<in> Wait_ID ` set (run_waits d)"
  shows "wp (resumeParent org w out) (\<lambda>res d'. res \<longrightarrow> wait_resumed (Wait_ID w) d') (\<lambda>_ _. True) d"
proof -
  have rest: "wp m (\<lambda>res d'. res \<longrightarrow> wait_resumed (Wait_ID w) d') (\<lambda>_ _. True) d'"
    if "preserves (wait_resumed (Wait_ID w)) m" "wait_resumed (Wait_ID w) d'" for m :: "bool dbm" and d'
    by (rule wp_pres [OF that]) auto
  have mark: "wp (Waits_MarkResumed org (Wait_ID w)) (\<lambda>first d'. first \<longrightarrow> wait_resumed (Wait_ID w) d') (\<lambda>_ _. True) d"
    using wait_resumed_mark [OF assms(2,1)] by (simp add: Waits_MarkResumed_def wp_simps)
  show ?thesis
    unfolding resumeParent_def unfolding wp_bindM [of "Waits_MarkResumed _ _"]
    by (rule wp_mono [OF mark], rule wp_ifI, simp add: wp_ret, rule rest)
      (auto split: sum.split intro!: pres_intros)
qed

lemma tryCloseWait_marks:
  assumes "keys_ok d"
  shows "wp (tryCloseWait org wid reason) (\<lambda>res d'. res \<longrightarrow> wait_resumed wid d') (\<lambda>_ _. True) d"
proof (rule wp_tryCloseWait_rule [where I = "\<lambda>d'. keys_ok d' \<and> Wait_ID ` set (run_waits d') = Wait_ID ` set (run_waits d)"], goal_cases)
  case (4 ws out)
  show ?case
    by (intro preserves_conj keys_inv.WaitClose) (simp_all add: 4 Waits_Close_def preserves_wp wp_simps Wait_IDs_upd)
next
  case (5 out)
  show ?case
    by (intro preserves_conj keys_inv.WaitSetResult) (simp_all add: Waits_SetResult_def preserves_wp wp_simps Wait_IDs_upd)
next
  case (6 w out d')
  then show ?case using resumeParent_marks [of d' w org out] by auto
qed (use assms in auto)

text \<open>A resumption happens once, whatever happens in between.\<close>

lemma resumed_once:
  assumes "keys_ok d" "tryCloseWait org wid reason d = (Inr True, d1)" "sys_path sha d1 d2"
  shows "fst (tryCloseWait org' wid reason' d2) \<noteq> Inr True" "untouched d2 (snd (tryCloseWait org' wid reason' d2))"
proof -
  have "wait_resumed wid d1" using wp_ok [OF tryCloseWait_marks [OF assms(1)] assms(2)] by simp
  then have "wait_resumed wid d2" using wait_resumed_inv.sys_path_inv [OF TrueI assms(3)] by simp
  note once = tryCloseWait_resumed [OF this, of org' reason']
  show "fst (tryCloseWait org' wid reason' d2) \<noteq> Inr True"
    using wp_ok [OF once] by (cases "tryCloseWait org' wid reason' d2") auto
  show "untouched d2 (snd (tryCloseWait org' wid reason' d2))"
    using wp_final [of "tryCloseWait org' wid reason'" "untouched d2" d2] wp_mono [OF once] by auto
qed

section \<open>Waits that the sweeper has claimed\<close>

text \<open>A wait that is not open is never selected again: not by a sweep, not by a child that ends.\<close>

lemma closed_not_due:
  assumes "w \<in> set (Waits_due d t now lim)"
  shows "Wait_State w = WaitOpen"
  using assms by (auto simp: Waits_due_def dest!: in_set_takeD)

lemma sweep_nothing_due:
  assumes "Waits_due d t (db_now d) (sweeper_batch s) = []"
  shows "Sweep s t d = (Inr (), d)"
proof -
  have "sweeper_batch s > 0" by (simp add: sweeper_batch_def)
  moreover have "upd_where (\<lambda>w. False) f ws = ws" for f and ws :: "RunWait list" by (rule upd_where_none) simp
  ultimately show ?thesis
    using assms by (simp add: Sweep_def Waits_ClaimDue_def bindM_def gets_def modifyM_def ret_def)
qed

text \<open>Claiming does not look beyond the batch, and the earliest deadlines come first.\<close>

lemma due_bound: "length (Waits_due d t now lim) \<le> nat lim"
  by (simp add: Waits_due_def)

lemma due_all:
  assumes "length (Waits_due d t now lim) < nat lim" "w \<in> set (run_waits d)" "wait_tenant d t w"
    "Wait_State w = WaitOpen" "Wait_Deadline w \<le> now"
  shows "w \<in> set (Waits_due d t now lim)"
  using assms by (simp add: Waits_due_def min_def split: if_splits)

lemma ClaimDue_closes:
  assumes "length (Waits_due d t now lim) < nat lim" "w \<in> set (run_waits (snd (Waits_ClaimDue t now lim d)))"
    "wait_tenant d t w" "Wait_Deadline w \<le> now"
  shows "Wait_State w \<noteq> WaitOpen"
proof -
  let ?due = "Waits_due d t now lim"
  obtain x where x: "x \<in> set (run_waits d)"
    "w = (if Wait_ID x \<in> Wait_ID ` set ?due then x\<lparr>Wait_State := WaitTimedOut\<rparr> else x)"
    using assms(2) by (auto simp: Waits_ClaimDue_def bindM_def gets_def modifyM_def ret_def set_upd_where)
  show ?thesis
  proof (cases "Wait_ID x \<in> Wait_ID ` set ?due")
    case False
    then have "x \<notin> set ?due" by auto
    with due_all [OF assms(1) x(1)] assms(3,4) x(2) False show ?thesis by auto
  qed (use x(2) in simp)
qed

lemma ClaimDue_closed:
  assumes "Waits_ClaimDue t now lim d = (Inr due, d1)" "w \<in> set due"
  shows "wait_closed (Wait_ID w) d1"
proof -
  let ?due = "Waits_due d t now lim"
  have d1: "d1 = d\<lparr>run_waits := upd_where (\<lambda>w. Wait_ID w \<in> Wait_ID ` set ?due) (Wait_State_update (\<lambda>_. WaitTimedOut)) (run_waits d)\<rparr>"
    and due: "due = map (Wait_State_update (\<lambda>_. WaitTimedOut)) ?due"
    using assms(1) by (auto simp: Waits_ClaimDue_def bindM_def gets_def modifyM_def ret_def)
  have i: "Wait_ID w \<in> Wait_ID ` set ?due" using assms(2) by (auto simp: due)
  have "set ?due \<subseteq> set (run_waits d)" by (auto simp: Waits_due_def dest!: in_set_takeD)
  with i have "Wait_ID w \<in> Wait_ID ` set (run_waits d)" by auto
  then have "Wait_ID w \<in> Wait_ID ` set (run_waits d1)" by (simp add: d1 Wait_IDs_upd)
  with i show ?thesis by (auto simp: wait_closed_def d1 set_upd_where)
qed

lemma closed_not_selected:
  assumes "wait_closed wid d"
  shows "wid \<notin> Wait_ID ` set (Waits_due d u n k) \<and>
    (\<forall>ws. Waits_ListOpenForChild u child d = (Inr ws, d) \<longrightarrow> wid \<notin> Wait_ID ` set ws)"
  using assms by (auto simp: wait_closed_def Waits_ListOpenForChild_def gets_def Waits_due_def dest!: in_set_takeD)

section \<open>Cancelling through the API\<close>

text \<open>Waits of parents other than \<open>rid\<close>, and the queue, as they were in \<open>d\<close>; the waits \<open>ids\<close> belong to \<open>rid\<close>.\<close>

definition others_kept :: "RunID \<Rightarrow> string set \<Rightarrow> db \<Rightarrow> db \<Rightarrow> bool" where
  "others_kept rid ids d d' \<longleftrightarrow> jobs d' = jobs d \<and>
    filter (\<lambda>w. Wait_ParentRunID w \<noteq> rid) (run_waits d') = filter (\<lambda>w. Wait_ParentRunID w \<noteq> rid) (run_waits d) \<and>
    (\<forall>w\<in>set (run_waits d'). Wait_ID w \<in> ids \<longrightarrow> Wait_ParentRunID w = rid)"

lemma others_kept_same: "run_waits d' = run_waits d \<Longrightarrow> jobs d' = jobs d \<Longrightarrow> others_kept rid {} d d'"
  by (simp add: others_kept_def)

lemmas others_kept_refl = others_kept_same [OF refl refl]

lemma filter_upd_where_other:
  assumes "\<And>x. x \<in> set xs \<Longrightarrow> p x \<Longrightarrow> \<not> q x \<and> \<not> q (f x)"
  shows "filter q (upd_where p f xs) = filter q xs"
  using assms by (induction xs) auto

lemma others_kept_exec:
  assumes "\<And>d w. p d w \<Longrightarrow> Wait_ID w = wid" "\<And>n w. Wait_ID (f n w) = Wait_ID w \<and> Wait_ParentRunID (f n w) = Wait_ParentRunID w"
    "wid \<in> ids"
  shows "preserves (others_kept rid ids d) (Waits_exec p f)"
proof (rule preserves_Waits_exec)
  fix d' assume I: "others_kept rid ids d d'"
  then have "filter (\<lambda>w. Wait_ParentRunID w \<noteq> rid) (upd_where (p d') (f (db_now d')) (run_waits d')) =
      filter (\<lambda>w. Wait_ParentRunID w \<noteq> rid) (run_waits d')"
    using assms by (intro filter_upd_where_other) (auto simp: others_kept_def)
  with I assms(2) show "others_kept rid ids d (d'\<lparr>run_waits := upd_where (p d') (f (db_now d')) (run_waits d')\<rparr>)"
    by (auto simp: others_kept_def set_upd_where)
qed

lemma preserves_forM_mem: "(\<And>x. x \<in> set xs \<Longrightarrow> preserves I (f x)) \<Longrightarrow> preserves I (forM xs f)"
  by (induction xs) (auto intro!: pres_intros)

lemma abandon_others:
  assumes "keys_ok d"
  shows "wp (abandonParentWaits org rid) (\<lambda>_. others_kept rid {} d) (\<lambda>_. others_kept rid {} d) d"
proof -
  let ?ws = "filter (\<lambda>w. Wait_ParentRunID w = rid \<and> wait_tenant d org w \<and> Wait_State w = WaitOpen) (run_waits d)"
  let ?ids = "Wait_ID ` set ?ws"
  have u: "Wait_ParentRunID w = rid" if "w \<in> set (run_waits d)" "Wait_ID w \<in> ?ids" for w
    using that key_uniqueD [of Wait_ID "run_waits d" w] assms by (auto simp: keys_ok_def)
  then have I: "others_kept rid ?ids d d" by (simp add: others_kept_def)
  have body: "preserves (others_kept rid ?ids d) (bindM (Waits_Close org (Wait_ID w) WaitAbandoned out)
      (\<lambda>_. bindM (Waits_MarkResumed org (Wait_ID w)) (\<lambda>_. ret ())))" if "w \<in> set ?ws" for w out
    using that unfolding Waits_Close_def Waits_MarkResumed_def
    by (intro preserves_bindM preserves_ret others_kept_exec [where wid = "Wait_ID w"]) auto
  have "wp (abandonParentWaits org rid) (\<lambda>_. others_kept rid ?ids d) (\<lambda>_. others_kept rid ?ids d) d"
    unfolding abandonParentWaits_def Waits_ListOpenForParent_def wp_bindM wp_gets
    by (rule wp_pres [OF preserves_forM_mem [OF body] I])
  then show ?thesis by (rule wp_mono) (auto simp: others_kept_def)
qed

lemma cancel_others:
  assumes "keys_ok d"
  shows "others_kept (Run_ID run) {} d (snd (cancel_tx run d))"
proof -
  let ?K = "\<lambda>d'. keys_ok d' \<and> run_waits d' = run_waits d \<and> jobs d' = jobs d" and ?O = "others_kept (Run_ID run) {} d"
  have K: "preserves ?K (Runs_RequestCancel t r)" "preserves ?K (Runs_SetState t r st a b)" for t r st a b
    by (intro preserves_conj pres_intros; simp add: preserves_wp wp_simps Runs_RequestCancel_def Runs_SetState_def)+
  have O: "wp (bindM (abandonParentWaits t (Run_ID run)) (\<lambda>_. bindM (Events_Append t s a k p) (\<lambda>_. ret ())))
      (\<lambda>_. ?O) (\<lambda>_ _. True) d'" if "?K d'" for t s a k p d'
  proof -
    have ev: "preserves ?O (bindM (Events_Append t s a k p) (\<lambda>_. ret ()))"
      by (simp add: preserves_wp wp_simps others_kept_def split: option.split)
    have same: "others_kept (Run_ID run) {} d' = ?O" using that by (simp add: others_kept_def fun_eq_iff)
    show ?thesis
      unfolding wp_bindM [of "abandonParentWaits _ _"]
      by (rule wp_mono [OF abandon_others]) (use that in \<open>auto simp: same intro: wp_pres [OF ev]\<close>)
  qed
  have "wp (cancel_tx run) (\<lambda>_. ?O) (\<lambda>_. ?O) d"
    unfolding cancel_tx_def Let_def wp_tx wp_bindM [of "Runs_GetForUpdate _ _"] wp_Runs_GetForUpdate
    using assms by (auto simp: wp_bindM [of "Runs_RequestCancel _ _"] wp_bindM [of "Runs_SetState _ _ _ _ _"]
        wp_if wp_raise wp_ret others_kept_refl others_kept_same split: option.split
        intro!: wp_pres [OF K(1)] wp_pres [OF K(2)] wp_mono [OF O])
  then show ?thesis by (simp add: wp_final)
qed

end
