(* ===== verification/Store_Resources.thy ===== *)
theory Store_Resources
  imports Event_Log
begin

text \<open>
  The PostgreSQL stores of resources, of provider registrations and of periodic prompts
  (\<open>src/postgres/resource.go\<close>, \<open>src/postgres/periodic.go\<close>). Column defaults of the schema are
  part of the inserts. Lists of one table have the order of their \<open>ORDER BY\<close> column.
\<close>

section \<open>Resources\<close>

abbreviation resource_in :: "TenantID \<Rightarrow> ResourceID \<Rightarrow> Resource \<Rightarrow> bool" where
  "resource_in tenant rid \<equiv> (\<lambda>r. Res_ID r = rid \<and> Res_TenantID r = tenant)"

abbreviation provider_in :: "TenantID \<Rightarrow> ProviderInstanceID \<Rightarrow> ProviderInstance \<Rightarrow> bool" where
  "provider_in tenant pid \<equiv> (\<lambda>p. Prov_ID p = pid \<and> Prov_TenantID p = tenant)"

abbreviation ResourceKindDevEnv :: ResourceKind where "ResourceKindDevEnv \<equiv> ''dev_env''"
abbreviation ResourceKindNullResource :: ResourceKind where "ResourceKindNullResource \<equiv> ''null_resource''"

definition created_resource :: "Time \<Rightarrow> TenantID \<Rightarrow> Resource \<Rightarrow> Resource" where
  "created_resource now tenant r =
    \<lparr>Res_ID = Res_ID r, Res_TenantID = tenant, Res_SessionID = Res_SessionID r,
     Res_Kind = (if Res_Kind r = '''' then ResourceKindDevEnv else Res_Kind r),
     Res_ProviderInstanceID = Res_ProviderInstanceID r, Res_State = ResourceRequested,
     Res_Spec = (if length (Res_Spec r) = 0 then ''{}'' else Res_Spec r),
     Res_Handle = Versioned 0 ''null'', Res_Endpoint = '''', Res_TokenHash = Res_TokenHash r,
     Res_TokenEnc = Res_TokenEnc r, Res_Epoch = 1, Res_FailureMessage = '''',
     Res_CreatedByRunID = Res_CreatedByRunID r, Res_CreatedAt = now, Res_UpdatedAt = now,
     Res_ReadyAt = None, Res_TerminatedAt = None\<rparr>"

text \<open>The insert selects the session and the provider of the tenant; without both there is no row.\<close>

definition Resources_Create :: "TenantID \<Rightarrow> Resource \<Rightarrow> unit dbm" where
  "Resources_Create tenant r =
    bindM (gets (\<lambda>d. find (session_in tenant (Res_SessionID r)) (sessions d) = None \<or>
      find (provider_in tenant (Res_ProviderInstanceID r)) (provider_instances d) = None)) (\<lambda>missing.
    if missing then raise ErrNotFound
    else bindM (gets (\<lambda>d. find (\<lambda>x. Res_ID x = Res_ID r) (resources d) \<noteq> None)) (\<lambda>exists.
      if exists then raise ErrAlreadyExists
      else bindM (gets (\<lambda>d. case Res_CreatedByRunID r of None \<Rightarrow> True
          | Some run \<Rightarrow> find (\<lambda>x. Run_ID x = run) (agent_runs d) \<noteq> None)) (\<lambda>fk.
        if \<not> fk then raise ErrDatabase
        else modifyM (\<lambda>d. d\<lparr>resources := resources d @ [created_resource (db_now d) tenant r]\<rparr>))))"

definition Resources_Get :: "TenantID \<Rightarrow> ResourceID \<Rightarrow> Resource dbm" where
  "Resources_Get tenant rid = find_row resources (resource_in tenant rid)"

definition Resources_GetForUpdate :: "TenantID \<Rightarrow> ResourceID \<Rightarrow> Resource dbm" where
  "Resources_GetForUpdate tenant rid = find_row resources (resource_in tenant rid)"

definition Resources_List :: "TenantID \<Rightarrow> SessionID \<Rightarrow> ResourceKind list \<Rightarrow> Resource list dbm" where
  "Resources_List tenant sid kinds =
    gets (\<lambda>d. sort_key Res_CreatedAt (filter (\<lambda>r. Res_SessionID r = sid \<and> Res_TenantID r = tenant \<and>
      (length kinds = 0 \<or> Res_Kind r \<in> set kinds)) (resources d)))"

definition Resources_ListActive :: "TenantID \<Rightarrow> Resource list dbm" where
  "Resources_ListActive tenant =
    gets (\<lambda>d. sort_key Res_CreatedAt (filter (\<lambda>r. Res_TenantID r = tenant \<and>
      Res_State r \<noteq> ResourceTerminated \<and> Res_State r \<noteq> ResourceFailed) (resources d)))"

definition Resources_update :: "TenantID \<Rightarrow> ResourceID \<Rightarrow> (Time \<Rightarrow> Resource \<Rightarrow> Resource) \<Rightarrow> unit dbm" where
  "Resources_update tenant rid f =
    bindM (gets resources) (\<lambda>rs.
      if find (resource_in tenant rid) rs = None then raise ErrNotFound
      else modifyM (\<lambda>d. d\<lparr>resources := upd_where (resource_in tenant rid) (f (db_now d)) (resources d)\<rparr>))"

definition Resources_SetProvisioning :: "TenantID \<Rightarrow> ResourceID \<Rightarrow> unit dbm" where
  "Resources_SetProvisioning tenant rid =
    Resources_update tenant rid (\<lambda>now r. r\<lparr>Res_State := ResourceProvisioning, Res_UpdatedAt := now\<rparr>)"

text \<open>A handle without bytes is stored as the empty object.\<close>

definition stored_handle :: "Handle \<Rightarrow> Handle" where
  "stored_handle h = (if h = NoHandle then BareObject else h)"

definition Resources_SetHandle :: "TenantID \<Rightarrow> ResourceID \<Rightarrow> Handle \<Rightarrow> unit dbm" where
  "Resources_SetHandle tenant rid handle =
    Resources_update tenant rid (\<lambda>now r. r\<lparr>Res_Handle := stored_handle handle, Res_UpdatedAt := now\<rparr>)"

definition Resources_SetReady :: "TenantID \<Rightarrow> ResourceID \<Rightarrow> Handle \<Rightarrow> string \<Rightarrow> unit dbm" where
  "Resources_SetReady tenant rid handle endpoint =
    Resources_update tenant rid (\<lambda>now r. r\<lparr>Res_State := ResourceReady, Res_Handle := stored_handle handle,
      Res_Endpoint := endpoint,
      Res_ReadyAt := (case Res_ReadyAt r of None \<Rightarrow> Some now | Some t \<Rightarrow> Some t),
      Res_FailureMessage := '''', Res_UpdatedAt := now\<rparr>)"

definition Resources_SetFailed :: "TenantID \<Rightarrow> ResourceID \<Rightarrow> string \<Rightarrow> unit dbm" where
  "Resources_SetFailed tenant rid message =
    Resources_update tenant rid (\<lambda>now r. r\<lparr>Res_State := ResourceFailed, Res_FailureMessage := message,
      Res_TerminatedAt := Some now, Res_UpdatedAt := now\<rparr>)"

definition Resources_SetSuspended :: "TenantID \<Rightarrow> ResourceID \<Rightarrow> string \<Rightarrow> unit dbm" where
  "Resources_SetSuspended tenant rid message =
    (let p = (\<lambda>r. resource_in tenant rid r \<and> (Res_State r = ResourceReady \<or> Res_State r = ResourceSuspended)) in
     bindM (gets (\<lambda>d. find p (resources d) \<noteq> None)) (\<lambda>affected.
     bindM (modifyM (\<lambda>d. d\<lparr>resources := upd_where p (\<lambda>r. r\<lparr>Res_State := ResourceSuspended,
       Res_FailureMessage := message, Res_UpdatedAt := db_now d\<rparr>) (resources d)\<rparr>)) (\<lambda>_.
     if affected then ret ()
     else bindM (Resources_Get tenant rid) (\<lambda>_. ret ()))))"

definition Resources_SetTerminating :: "TenantID \<Rightarrow> ResourceID \<Rightarrow> unit dbm" where
  "Resources_SetTerminating tenant rid =
    Resources_update tenant rid (\<lambda>now r. r\<lparr>Res_State := ResourceTerminating, Res_UpdatedAt := now\<rparr>)"

definition Resources_SetTerminated :: "TenantID \<Rightarrow> ResourceID \<Rightarrow> unit dbm" where
  "Resources_SetTerminated tenant rid =
    Resources_update tenant rid (\<lambda>now r. r\<lparr>Res_State := ResourceTerminated, Res_TerminatedAt := Some now,
      Res_UpdatedAt := now\<rparr>)"

definition Resources_RotateToken :: "TenantID \<Rightarrow> ResourceID \<Rightarrow> string \<Rightarrow> string \<Rightarrow> unit dbm" where
  "Resources_RotateToken tenant rid hash enc =
    Resources_update tenant rid (\<lambda>now r. r\<lparr>Res_TokenHash := hash, Res_TokenEnc := enc,
      Res_Epoch := Res_Epoch r + 1, Res_UpdatedAt := now\<rparr>)"

section \<open>Provider registrations\<close>

text \<open>The primary key is the id, and names are unique within a tenant.\<close>

definition Providers_Create :: "TenantID \<Rightarrow> ProviderInstance \<Rightarrow> unit dbm" where
  "Providers_Create tenant p =
    bindM (gets (\<lambda>d. find (\<lambda>x. Prov_ID x = Prov_ID p \<or> Prov_TenantID x = tenant \<and> Prov_Name x = Prov_Name p)
      (provider_instances d) \<noteq> None)) (\<lambda>exists.
    if exists then raise ErrAlreadyExists
    else bindM (gets (\<lambda>d. find (\<lambda>t. Tenant_ID t = tenant) (tenants d) = None)) (\<lambda>orphan.
      if orphan then raise ErrDatabase
      else modifyM (\<lambda>d. d\<lparr>provider_instances := provider_instances d @
        [p\<lparr>Prov_TenantID := tenant,
           Prov_Config := (if length (Prov_Config p) = 0 then ''{}'' else Prov_Config p),
           Prov_LastHealthyAt := None, Prov_CreatedAt := db_now d\<rparr>]\<rparr>)))"

definition Providers_Get :: "TenantID \<Rightarrow> ProviderInstanceID \<Rightarrow> ProviderInstance dbm" where
  "Providers_Get tenant pid = find_row provider_instances (provider_in tenant pid)"

definition Providers_GetByName :: "TenantID \<Rightarrow> string \<Rightarrow> ProviderInstance dbm" where
  "Providers_GetByName tenant name =
    find_row provider_instances (\<lambda>p. Prov_Name p = name \<and> Prov_TenantID p = tenant)"

text \<open>The list is ordered by name, by the collation of the database.\<close>

definition Providers_List :: "(string \<Rightarrow> 'k::linorder) \<Rightarrow> TenantID \<Rightarrow> ProviderInstance list dbm" where
  "Providers_List collate tenant =
    gets (\<lambda>d. sort_key (\<lambda>p. collate (Prov_Name p)) (filter (\<lambda>p. Prov_TenantID p = tenant) (provider_instances d)))"

text \<open>
  A registration with an active resource stays; one whose resources are all finished is still
  referenced by their rows, which the foreign key of the schema protects.
\<close>

definition Providers_Delete :: "TenantID \<Rightarrow> ProviderInstanceID \<Rightarrow> unit dbm" where
  "Providers_Delete tenant pid =
    (let p = (\<lambda>d x. provider_in tenant pid x \<and>
        find (\<lambda>r. Res_ProviderInstanceID r = Prov_ID x \<and> Res_State r \<noteq> ResourceTerminated \<and>
          Res_State r \<noteq> ResourceFailed) (resources d) = None) in
     bindM (gets (\<lambda>d. find (p d) (provider_instances d) = None)) (\<lambda>none.
     if none then raise ErrNotFound
     else bindM (gets (\<lambda>d. find (\<lambda>r. Res_ProviderInstanceID r = pid) (resources d) \<noteq> None)) (\<lambda>referenced.
       if referenced then raise ErrDatabase
       else modifyM (\<lambda>d. d\<lparr>provider_instances := filter (\<lambda>x. \<not> p d x) (provider_instances d)\<rparr>))))"

definition Providers_MarkHealthy :: "TenantID \<Rightarrow> ProviderInstanceID \<Rightarrow> unit dbm" where
  "Providers_MarkHealthy tenant pid =
    bindM (gets provider_instances) (\<lambda>ps.
      if find (provider_in tenant pid) ps = None then raise ErrNotFound
      else modifyM (\<lambda>d. d\<lparr>provider_instances := upd_where (provider_in tenant pid)
        (\<lambda>p. p\<lparr>Prov_LastHealthyAt := Some (db_now d), Prov_State := ''ready''\<rparr>) (provider_instances d)\<rparr>))"

section \<open>Periodic prompts\<close>

text \<open>
  The insert stores no run and checks only what the foreign keys check: that the tenant and
  the session exist. A schedule is stored as its text and parsed back, which gives the same
  duration.
\<close>

definition Periodic_Create :: "TenantID \<Rightarrow> PeriodicPrompt \<Rightarrow> unit dbm" where
  "Periodic_Create tenant p =
    bindM (gets (\<lambda>d. find (\<lambda>x. Per_ID x = Per_ID p) (periodic_prompts d) \<noteq> None \<or>
      find (\<lambda>t. Tenant_ID t = tenant) (tenants d) = None \<or>
      find (\<lambda>s. Sess_ID s = Per_SessionID p) (sessions d) = None)) (\<lambda>violated.
    if violated then raise ErrDatabase
    else modifyM (\<lambda>d. d\<lparr>periodic_prompts := periodic_prompts d @
      [p\<lparr>Per_TenantID := tenant, Per_RunID := '''', Per_CreatedAt := db_now d\<rparr>]\<rparr>))"

definition Periodic_List :: "TenantID \<Rightarrow> SessionID \<Rightarrow> PeriodicPrompt list dbm" where
  "Periodic_List tenant sid =
    gets (\<lambda>d. sort_key Per_CreatedAt
      (filter (\<lambda>p. Per_TenantID p = tenant \<and> Per_SessionID p = sid) (periodic_prompts d)))"

abbreviation periodic_in :: "TenantID \<Rightarrow> string \<Rightarrow> PeriodicPrompt \<Rightarrow> bool" where
  "periodic_in tenant pid \<equiv> (\<lambda>p. Per_ID p = pid \<and> Per_TenantID p = tenant)"

definition Periodic_GetForUpdate :: "TenantID \<Rightarrow> string \<Rightarrow> PeriodicPrompt dbm" where
  "Periodic_GetForUpdate tenant pid = find_row periodic_prompts (periodic_in tenant pid)"

text \<open>The updates do not look at the number of rows they change.\<close>

definition Periodic_SetEnabled :: "TenantID \<Rightarrow> string \<Rightarrow> bool \<Rightarrow> unit dbm" where
  "Periodic_SetEnabled tenant pid v =
    modifyM (\<lambda>d. d\<lparr>periodic_prompts := upd_where (periodic_in tenant pid)
      (Per_Enabled_update (\<lambda>_. v)) (periodic_prompts d)\<rparr>)"

definition Periodic_SetNext :: "TenantID \<Rightarrow> string \<Rightarrow> Time \<Rightarrow> unit dbm" where
  "Periodic_SetNext tenant pid next =
    modifyM (\<lambda>d. d\<lparr>periodic_prompts := upd_where (periodic_in tenant pid)
      (Per_NextAt_update (\<lambda>_. next)) (periodic_prompts d)\<rparr>)"

section \<open>Rules\<close>

lemma wp_Resources_Get [wp_simps]:
  "wp (Resources_Get t rid) Q E d =
    (case find (resource_in t rid) (resources d) of None \<Rightarrow> E ErrNotFound d | Some r \<Rightarrow> Q r d)"
  "wp (Resources_GetForUpdate t rid) Q E d =
    (case find (resource_in t rid) (resources d) of None \<Rightarrow> E ErrNotFound d | Some r \<Rightarrow> Q r d)"
  by (simp_all add: Resources_Get_def Resources_GetForUpdate_def wp_simps)

lemma wp_Resources_update [wp_simps]:
  "wp (Resources_update t rid f) Q E d =
    (if find (resource_in t rid) (resources d) = None then E ErrNotFound d
     else Q () (d\<lparr>resources := upd_where (resource_in t rid) (f (db_now d)) (resources d)\<rparr>))"
  by (simp add: Resources_update_def wp_simps)

lemma wp_Providers_Get [wp_simps]:
  "wp (Providers_Get t pid) Q E d =
    (case find (provider_in t pid) (provider_instances d) of None \<Rightarrow> E ErrNotFound d | Some p \<Rightarrow> Q p d)"
  by (simp add: Providers_Get_def wp_simps)

lemmas resource_writes = Resources_SetProvisioning_def Resources_SetHandle_def Resources_SetReady_def
  Resources_SetFailed_def Resources_SetTerminating_def Resources_SetTerminated_def Resources_RotateToken_def

end
