(* ===== verification/Tool_Cache.thy ===== *)
theory Tool_Cache
  imports Prelude
begin

text \<open>
  The MCP client of the program and its cache (\<open>src/mcp/client.go\<close>, \<open>src/mcp/cache.go\<close>): the
  JSON-RPC calls over HTTP, and one live client per environment, keyed by the epoch of the
  environment's token. Clients are shared objects: they live in a store, and a pointer is
  their index in it. The HTTP round trip is a parameter that acts on a world of its own.
  Decoded JSON is represented by its value.
\<close>

section \<open>Clients\<close>

record Client =
  Cl_Endpoint :: string
  Cl_Token :: string
  Cl_nextID :: int
  Cl_revoked :: bool

record Tool =
  Tool_Name :: string
  Tool_Description :: string
  Tool_InputSchema :: string

record mcp_result =
  MR_Text :: string
  MR_IsError :: bool

datatype rpc_params = NoParams | InitializeParams | CallParams string string

record rpc_request =
  RQ_ID :: int
  RQ_Method :: string
  RQ_Params :: rpc_params

record http_request =
  HR_Method :: string
  HR_URL :: string
  HR_Headers :: "(string \<times> string) list"
  HR_Body :: "rpc_request option"

text \<open>A result is an object, the tools, the content of a call, or nothing the caller can decode.\<close>

datatype rpc_value = ObjectValue | ToolsValue "Tool list" | ContentValue "(string \<times> string) list" bool | OtherValue

text \<open>The body of a response: unreadable, not JSON, an error or a result.\<close>

datatype http_body = BodyUnreadable | BodyUndecodable | BodyError int string | BodyResult rpc_value

record http_response =
  HS_StatusCode :: int
  HS_Body :: http_body

datatype mcp_error =
    ErrRevoked | ErrContext string | ErrTransport string string | ErrBody | ErrUnauthorized
  | ErrHTTP int | ErrDecodeResponse | ErrRPC int string | ErrDecodeResult | ErrInvalidInput | ErrHealth int

text \<open>
  An entry of the cache; a cache with the store of clients and the world the clients act on.
\<close>

record cacheEntry =
  CE_epoch :: int
  CE_client :: nat

record 'w Cache =
  C_entries :: "string \<Rightarrow> cacheEntry option"
  C_lastTools :: "string \<Rightarrow> string list option"
  C_clients :: "Client list"
  C_world :: 'w

type_synonym ('w, 'a) mcpm = "('w Cache, mcp_error, 'a) comp"
type_synonym 'w round_trip = "http_request \<Rightarrow> 'w \<Rightarrow> (string + http_response) \<times> 'w"

definition NewClient :: "string \<Rightarrow> string \<Rightarrow> Client" where
  "NewClient endpoint token = \<lparr>Cl_Endpoint = endpoint, Cl_Token = token, Cl_nextID = 0, Cl_revoked = False\<rparr>"

definition Revoke :: "nat \<Rightarrow> ('w, unit) mcpm" where
  "Revoke c = modifyM (\<lambda>s. s\<lparr>C_clients := (C_clients s)[c := (C_clients s ! c)\<lparr>Cl_revoked := True\<rparr>]\<rparr>)"

definition Revoked :: "nat \<Rightarrow> ('w, bool) mcpm" where
  "Revoked c = gets (\<lambda>s. Cl_revoked (C_clients s ! c))"

text \<open>The context of a call is not done, or done with an error.\<close>

definition guard :: "string option \<Rightarrow> nat \<Rightarrow> ('w, unit) mcpm" where
  "guard ctx c =
    bindM (Revoked c) (\<lambda>revoked.
    if revoked then raise ErrRevoked
    else case ctx of None \<Rightarrow> ret () | Some e \<Rightarrow> raise (ErrContext e))"

definition do_request :: "'w round_trip \<Rightarrow> string \<Rightarrow> http_request \<Rightarrow> ('w, http_response) mcpm" where
  "do_request http meth req = (\<lambda>s.
    case http req (C_world s) of
      (Inl e, w) \<Rightarrow> (Inl (ErrTransport meth e), s\<lparr>C_world := w\<rparr>)
    | (Inr resp, w) \<Rightarrow> (Inr resp, s\<lparr>C_world := w\<rparr>))"

definition rpc :: "'w round_trip \<Rightarrow> string option \<Rightarrow> nat \<Rightarrow> string \<Rightarrow> rpc_params \<Rightarrow> ('w, rpc_value) mcpm" where
  "rpc http ctx c meth params =
    bindM (guard ctx c) (\<lambda>_.
    bindM (modifyM (\<lambda>s. s\<lparr>C_clients := (C_clients s)[c := (C_clients s ! c)\<lparr>Cl_nextID := Cl_nextID (C_clients s ! c) + 1\<rparr>]\<rparr>)) (\<lambda>_.
    bindM (gets (\<lambda>s. C_clients s ! c)) (\<lambda>cl.
    bindM (do_request http meth
      \<lparr>HR_Method = ''POST'', HR_URL = Cl_Endpoint cl,
       HR_Headers = (''Content-Type'', ''application/json'') #
         (if Cl_Token cl \<noteq> [] then [(''Authorization'', ''Bearer '' @ Cl_Token cl)] else []),
       HR_Body = Some \<lparr>RQ_ID = Cl_nextID cl, RQ_Method = meth, RQ_Params = params\<rparr>\<rparr>) (\<lambda>resp.
    if HS_Body resp = BodyUnreadable then raise ErrBody
    else if HS_StatusCode resp = 401 then raise ErrUnauthorized
    else if HS_StatusCode resp < 200 \<or> HS_StatusCode resp \<ge> 300 then raise (ErrHTTP (HS_StatusCode resp))
    else case HS_Body resp of
      BodyError code message \<Rightarrow> raise (ErrRPC code message)
    | BodyResult v \<Rightarrow> ret v
    | _ \<Rightarrow> raise ErrDecodeResponse))))"

definition Initialize :: "'w round_trip \<Rightarrow> string option \<Rightarrow> nat \<Rightarrow> ('w, unit) mcpm" where
  "Initialize http ctx c =
    bindM (rpc http ctx c ''initialize'' InitializeParams) (\<lambda>v.
    if v = OtherValue then raise ErrDecodeResult else ret ())"

text \<open>Every JSON object decodes as a list of tools; one without the field gives no tool.\<close>

definition Tools :: "'w round_trip \<Rightarrow> string option \<Rightarrow> nat \<Rightarrow> ('w, Tool list) mcpm" where
  "Tools http ctx c =
    bindM (rpc http ctx c ''tools/list'' NoParams) (\<lambda>v.
    case v of OtherValue \<Rightarrow> raise ErrDecodeResult | ToolsValue ts \<Rightarrow> ret ts | _ \<Rightarrow> ret [])"

definition content_text :: "(string \<times> string) list \<Rightarrow> string" where
  "content_text content = concat (map snd (filter (\<lambda>c. fst c = ''text'') content))"

definition Call :: "'w round_trip \<Rightarrow> (string \<Rightarrow> bool) \<Rightarrow> string option \<Rightarrow> nat \<Rightarrow> string \<Rightarrow> string \<Rightarrow> ('w, mcp_result) mcpm" where
  "Call http valid_json ctx c name args =
    (if length args > 0 \<and> \<not> valid_json args then raise ErrInvalidInput
     else bindM (rpc http ctx c ''tools/call'' (CallParams name (if length args > 0 then args else ''{}''))) (\<lambda>v.
       case v of
         OtherValue \<Rightarrow> raise ErrDecodeResult
       | ContentValue content isError \<Rightarrow> ret \<lparr>MR_Text = content_text content, MR_IsError = isError\<rparr>
       | _ \<Rightarrow> ret \<lparr>MR_Text = [], MR_IsError = False\<rparr>))"

definition health_url :: "string \<Rightarrow> string" where
  "health_url endpoint =
    (if length endpoint \<ge> 4 \<and> drop (length endpoint - 4) endpoint = ''/mcp''
     then take (length endpoint - 4) endpoint @ ''/health'' else endpoint)"

text \<open>The health check: \<open>None\<close> is a healthy answer.\<close>

definition Healthy :: "'w round_trip \<Rightarrow> string \<Rightarrow> 'w \<Rightarrow> mcp_error option \<times> 'w" where
  "Healthy http endpoint w =
    (case http \<lparr>HR_Method = ''GET'', HR_URL = health_url endpoint, HR_Headers = [], HR_Body = None\<rparr> w of
       (Inl e, w') \<Rightarrow> (Some (ErrTransport [] e), w')
     | (Inr resp, w') \<Rightarrow> (if HS_StatusCode resp \<noteq> 200 then Some (ErrHealth (HS_StatusCode resp)) else None, w'))"

section \<open>The cache\<close>

definition NewCache :: "'w \<Rightarrow> 'w Cache" where
  "NewCache w = \<lparr>C_entries = (\<lambda>_. None), C_lastTools = (\<lambda>_. None), C_clients = [], C_world = w\<rparr>"

definition RememberTools :: "string \<Rightarrow> string list \<Rightarrow> ('w, unit) mcpm" where
  "RememberTools env names = modifyM (\<lambda>s. s\<lparr>C_lastTools := (C_lastTools s)(env \<mapsto> names)\<rparr>)"

definition LastTools :: "string \<Rightarrow> ('w, string list) mcpm" where
  "LastTools env = gets (\<lambda>s. case C_lastTools s env of None \<Rightarrow> [] | Some names \<Rightarrow> names)"

definition new_entry :: "string \<Rightarrow> int \<Rightarrow> string \<Rightarrow> string \<Rightarrow> ('w, nat) mcpm" where
  "new_entry env epoch endpoint token =
    bindM (gets (\<lambda>s. length (C_clients s))) (\<lambda>client.
    bindM (modifyM (\<lambda>s. s\<lparr>C_clients := C_clients s @ [NewClient endpoint token],
      C_entries := (C_entries s)(env \<mapsto> \<lparr>CE_epoch = epoch, CE_client = client\<rparr>)\<rparr>)) (\<lambda>_.
    ret client))"

definition Cache_Client :: "string \<Rightarrow> int \<Rightarrow> string \<Rightarrow> string \<Rightarrow> ('w, nat) mcpm" where
  "Cache_Client env epoch endpoint token =
    bindM (gets (\<lambda>s. C_entries s env)) (\<lambda>existing.
    case existing of
      None \<Rightarrow> new_entry env epoch endpoint token
    | Some entry \<Rightarrow>
        bindM (Revoked (CE_client entry)) (\<lambda>revoked.
        if CE_epoch entry = epoch \<and> \<not> revoked then ret (CE_client entry)
        else if CE_epoch entry > epoch then raise ErrRevoked
        else bindM (Revoke (CE_client entry)) (\<lambda>_. new_entry env epoch endpoint token)))"

definition Invalidate :: "string \<Rightarrow> ('w, unit) mcpm" where
  "Invalidate env =
    bindM (gets (\<lambda>s. C_entries s env)) (\<lambda>existing.
    case existing of
      None \<Rightarrow> ret ()
    | Some entry \<Rightarrow>
        bindM (Revoke (CE_client entry)) (\<lambda>_.
        modifyM (\<lambda>s. s\<lparr>C_entries := (C_entries s)(env := None)\<rparr>)))"

definition Epoch :: "string \<Rightarrow> ('w, int \<times> bool) mcpm" where
  "Epoch env =
    gets (\<lambda>s. case C_entries s env of None \<Rightarrow> (0, False) | Some entry \<Rightarrow> (CE_epoch entry, True))"

section \<open>Only the current client is live\<close>

text \<open>
  Entries point to live clients of their own, and every live client is the one of an entry: a
  client that was replaced or dropped is revoked, whoever still holds it.
\<close>

definition cache_ok :: "'w Cache \<Rightarrow> bool" where
  "cache_ok s \<longleftrightarrow>
    (\<forall>env e. C_entries s env = Some e \<longrightarrow> CE_client e < length (C_clients s) \<and> \<not> Cl_revoked (C_clients s ! CE_client e)) \<and>
    (\<forall>env env' e e'. C_entries s env = Some e \<longrightarrow> C_entries s env' = Some e' \<longrightarrow> CE_client e = CE_client e' \<longrightarrow> env = env') \<and>
    (\<forall>c < length (C_clients s). \<not> Cl_revoked (C_clients s ! c) \<longrightarrow> (\<exists>env e. C_entries s env = Some e \<and> CE_client e = c))"

lemma cache_okI:
  assumes "\<And>env e. C_entries s env = Some e \<Longrightarrow> CE_client e < length (C_clients s) \<and> \<not> Cl_revoked (C_clients s ! CE_client e)"
    "\<And>env env' e e'. C_entries s env = Some e \<Longrightarrow> C_entries s env' = Some e' \<Longrightarrow> CE_client e = CE_client e' \<Longrightarrow> env = env'"
    "\<And>c. c < length (C_clients s) \<Longrightarrow> \<not> Cl_revoked (C_clients s ! c) \<Longrightarrow> \<exists>env e. C_entries s env = Some e \<and> CE_client e = c"
  shows "cache_ok s"
  using assms unfolding cache_ok_def by blast

lemma cache_okD:
  assumes "cache_ok s"
  shows "C_entries s env = Some e \<Longrightarrow> CE_client e < length (C_clients s) \<and> \<not> Cl_revoked (C_clients s ! CE_client e)"
    "C_entries s env = Some e \<Longrightarrow> C_entries s env' = Some e' \<Longrightarrow> CE_client e = CE_client e' \<Longrightarrow> env = env'"
    "c < length (C_clients s) \<Longrightarrow> \<not> Cl_revoked (C_clients s ! c) \<Longrightarrow> \<exists>env e. C_entries s env = Some e \<and> CE_client e = c"
  using assms unfolding cache_ok_def by blast+

text \<open>The two changes of the cache: dropping an entry with its client, and adding one.\<close>

lemma cache_ok_drop:
  assumes "cache_ok s" "C_entries s env = Some e"
  shows "cache_ok (s\<lparr>C_clients := (C_clients s)[CE_client e := x\<lparr>Cl_revoked := True\<rparr>], C_entries := (C_entries s)(env := None)\<rparr>)"
proof (rule cache_okI)
  let ?s = "s\<lparr>C_clients := (C_clients s)[CE_client e := x\<lparr>Cl_revoked := True\<rparr>], C_entries := (C_entries s)(env := None)\<rparr>"
  fix env1 e1 assume "C_entries ?s env1 = Some e1"
  then have 1: "env1 \<noteq> env" "C_entries s env1 = Some e1" by (auto split: if_splits)
  then have "CE_client e1 \<noteq> CE_client e" using cache_okD(2) [OF assms(1) 1(2) assms(2)] by blast
  then show "CE_client e1 < length (C_clients ?s) \<and> \<not> Cl_revoked (C_clients ?s ! CE_client e1)"
    using cache_okD(1) [OF assms(1) 1(2)] by simp
  show "env1 = env2" if "C_entries ?s env2 = Some e2" "CE_client e1 = CE_client e2" for env2 e2
    using that 1 cache_okD(2) [OF assms(1) 1(2), of env2 e2] by (auto split: if_splits)
next
  let ?s = "s\<lparr>C_clients := (C_clients s)[CE_client e := x\<lparr>Cl_revoked := True\<rparr>], C_entries := (C_entries s)(env := None)\<rparr>"
  fix c assume c: "c < length (C_clients ?s)" "\<not> Cl_revoked (C_clients ?s ! c)"
  then have "c \<noteq> CE_client e" by auto
  with c obtain env1 e1 where "C_entries s env1 = Some e1" "CE_client e1 = c"
    using cache_okD(3) [OF assms(1), of c] by auto
  with assms(2) \<open>c \<noteq> CE_client e\<close> show "\<exists>env e. C_entries ?s env = Some e \<and> CE_client e = c"
    by (intro exI [of _ env1]) auto
qed

lemma cache_ok_add:
  assumes "cache_ok s" "C_entries s env = None"
  shows "cache_ok (s\<lparr>C_clients := C_clients s @ [NewClient endpoint token],
    C_entries := (C_entries s)(env \<mapsto> \<lparr>CE_epoch = epoch, CE_client = length (C_clients s)\<rparr>)\<rparr>)"
proof (rule cache_okI)
  let ?s = "s\<lparr>C_clients := C_clients s @ [NewClient endpoint token],
    C_entries := (C_entries s)(env \<mapsto> \<lparr>CE_epoch = epoch, CE_client = length (C_clients s)\<rparr>)\<rparr>"
  fix env1 e1 assume 1: "C_entries ?s env1 = Some e1"
  then show "CE_client e1 < length (C_clients ?s) \<and> \<not> Cl_revoked (C_clients ?s ! CE_client e1)"
    using cache_okD(1) [OF assms(1), of env1 e1] by (auto simp: NewClient_def nth_append split: if_splits)
  have old: "CE_client e2 \<noteq> length (C_clients s)" if "C_entries s env2 = Some e2" for env2 e2
    using cache_okD(1) [OF assms(1) that] by simp
  have either: "env2 = env \<and> CE_client e2 = length (C_clients s) \<or> C_entries s env2 = Some e2"
    if "C_entries ?s env2 = Some e2" for env2 e2
    using that by (auto split: if_splits)
  show "env1 = env2" if "C_entries ?s env2 = Some e2" "CE_client e1 = CE_client e2" for env2 e2
    using either [OF 1] either [OF that(1)] that(2) old cache_okD(2) [OF assms(1)] by metis
next
  let ?s = "s\<lparr>C_clients := C_clients s @ [NewClient endpoint token],
    C_entries := (C_entries s)(env \<mapsto> \<lparr>CE_epoch = epoch, CE_client = length (C_clients s)\<rparr>)\<rparr>"
  fix c assume c: "c < length (C_clients ?s)" "\<not> Cl_revoked (C_clients ?s ! c)"
  show "\<exists>env e. C_entries ?s env = Some e \<and> CE_client e = c"
  proof (cases "c = length (C_clients s)")
    case False
    with c obtain env1 e1 where "C_entries s env1 = Some e1" "CE_client e1 = c"
      using cache_okD(3) [OF assms(1), of c] by (auto simp: nth_append)
    then show ?thesis using assms(2) by (intro exI [of _ env1]) auto
  qed auto
qed

lemma cache_ok_update:
  assumes "cache_ok s" "Cl_revoked x = Cl_revoked (C_clients s ! c)"
  shows "cache_ok (s\<lparr>C_clients := (C_clients s)[c := x]\<rparr>)"
proof (cases "c < length (C_clients s)")
  case True
  then have "Cl_revoked ((C_clients s)[c := x] ! i) = Cl_revoked (C_clients s ! i)" for i
    using assms(2) by (cases "i = c") simp_all
  then show ?thesis using assms(1) by (simp add: cache_ok_def)
next
  case False
  then show ?thesis using assms(1) by (simp add: list_update_beyond)
qed

lemma cache_ok_frame [simp]:
  "cache_ok (s\<lparr>C_lastTools := l\<rparr>) = cache_ok s" "cache_ok (s\<lparr>C_world := w\<rparr>) = cache_ok s"
  by (simp_all add: cache_ok_def)

lemma wp_new_entry [wp_simps]:
  "wp (new_entry env epoch endpoint token) Q E s = Q (length (C_clients s))
    (s\<lparr>C_clients := C_clients s @ [NewClient endpoint token],
       C_entries := (C_entries s)(env \<mapsto> \<lparr>CE_epoch = epoch, CE_client = length (C_clients s)\<rparr>)\<rparr>)"
  by (simp add: new_entry_def wp_simps)

lemma wp_Revoke [wp_simps]:
  "wp (Revoke c) Q E s = Q () (s\<lparr>C_clients := (C_clients s)[c := (C_clients s ! c)\<lparr>Cl_revoked := True\<rparr>]\<rparr>)"
  by (simp add: Revoke_def wp_simps)

lemma wp_Revoked [wp_simps]: "wp (Revoked c) Q E s = Q (Cl_revoked (C_clients s ! c)) s"
  by (simp add: Revoked_def wp_simps)

text \<open>Replacing the client of an environment is dropping its entry and adding a new one.\<close>

lemma cache_ok_replace:
  assumes "cache_ok s" "C_entries s env = Some e"
  shows "cache_ok (s\<lparr>C_clients := (C_clients s)[CE_client e := x\<lparr>Cl_revoked := True\<rparr>] @ [NewClient endpoint token],
    C_entries := (C_entries s)(env \<mapsto> \<lparr>CE_epoch = epoch, CE_client = length (C_clients s)\<rparr>)\<rparr>)"
  using cache_ok_add [OF cache_ok_drop [OF assms, of x], where env = env and endpoint = endpoint and token = token and epoch = epoch] by simp

text \<open>What a client request gives: the live client of the entry, at the epoch asked for.\<close>

lemma wp_Cache_Client:
  assumes "cache_ok s"
  shows "wp (Cache_Client env epoch endpoint token)
    (\<lambda>c s'. cache_ok s' \<and> C_entries s' env = Some \<lparr>CE_epoch = epoch, CE_client = c\<rparr> \<and> C_world s' = C_world s \<and>
      (\<forall>e. C_entries s env = Some e \<longrightarrow> CE_epoch e \<le> epoch))
    (\<lambda>er s'. er = ErrRevoked \<and> s' = s \<and> (\<exists>e. C_entries s env = Some e \<and> epoch < CE_epoch e)) s"
proof (cases "C_entries s env")
  case None
  then show ?thesis using assms by (simp add: Cache_Client_def wp_simps cache_ok_add)
next
  case (Some e)
  then have "\<not> Cl_revoked (C_clients s ! CE_client e)" using cache_okD(1) [OF assms] by blast
  with Some show ?thesis
    using assms cache_ok_replace [OF assms Some]
    by (cases e) (auto simp: Cache_Client_def wp_simps)
qed

lemma cache_ok_Client: "preserves cache_ok (Cache_Client env epoch endpoint token)"
  by (rule preservesI, rule wp_mono [OF wp_Cache_Client]) auto

lemma cache_ok_Invalidate: "preserves cache_ok (Invalidate env)"
  by (rule preservesI) (auto simp: Invalidate_def wp_simps cache_ok_drop split: option.split)

lemma wp_do_request [wp_simps]:
  "wp (do_request http meth req) Q E s = (case http req (C_world s) of
    (Inl e, w) \<Rightarrow> E (ErrTransport meth e) (s\<lparr>C_world := w\<rparr>) | (Inr resp, w) \<Rightarrow> Q resp (s\<lparr>C_world := w\<rparr>))"
  by (simp add: do_request_def wp_def split: prod.split sum.split)

lemma cache_ok_rpc: "preserves cache_ok (rpc http ctx c meth params)"
  by (rule preservesI) (auto simp: rpc_def guard_def wp_simps cache_ok_update
      split: option.split prod.split sum.split http_body.split)

lemma cache_ok_calls:
  "preserves cache_ok (Initialize http ctx c)" "preserves cache_ok (Tools http ctx c)"
  "preserves cache_ok (Call http valid ctx c name args)" "preserves cache_ok (RememberTools env names)"
  "preserves cache_ok (LastTools env)"
  unfolding Initialize_def Tools_def Call_def LastTools_def
  by (auto intro!: pres_intros cache_ok_rpc split: rpc_value.split)
    (simp add: preserves_wp RememberTools_def wp_simps)

section \<open>Executions\<close>

text \<open>Any sequence of calls by any number of holders of clients; the network may do anything.\<close>

inductive cache_step :: "'w round_trip \<Rightarrow> 'w Cache \<Rightarrow> 'w Cache \<Rightarrow> bool" for http where
  client: "cache_step http s (snd (Cache_Client env epoch endpoint token s))"
| invalidate: "cache_step http s (snd (Invalidate env s))"
| remember: "cache_step http s (snd (RememberTools env names s))"
| request: "cache_step http s (snd (rpc http ctx c meth params s))"
| world: "cache_step http s (s\<lparr>C_world := w\<rparr>)"

abbreviation cache_path :: "'w round_trip \<Rightarrow> 'w Cache \<Rightarrow> 'w Cache \<Rightarrow> bool" where
  "cache_path http \<equiv> (cache_step http)\<^sup>*\<^sup>*"

lemma cache_ok_step: "cache_step http s s' \<Longrightarrow> cache_ok s \<Longrightarrow> cache_ok s'"
  by (induction rule: cache_step.induct)
    (auto intro: preservesD cache_ok_Client cache_ok_Invalidate cache_ok_rpc cache_ok_calls)

lemma cache_ok_path: "cache_path http (NewCache w) s \<Longrightarrow> cache_ok s"
proof (induction rule: rtranclp_induct)
  case base
  show ?case by (simp add: cache_ok_def NewCache_def)
qed (rule cache_ok_step)

text \<open>A revoked client reaches nothing.\<close>

lemma rpc_revoked: "Cl_revoked (C_clients s ! c) \<Longrightarrow> rpc http ctx c meth params s = (Inl ErrRevoked, s)"
  by (simp add: rpc_def guard_def Revoked_def bindM_def gets_def raise_def)

lemma only_current_live:
  "cache_ok s \<Longrightarrow> c < length (C_clients s) \<Longrightarrow> \<forall>env e. C_entries s env = Some e \<longrightarrow> CE_client e \<noteq> c \<Longrightarrow>
    Cl_revoked (C_clients s ! c)"
  using cache_okD(3) by blast

text \<open>
  Dropping an entry also forgets its epoch: after an invalidation a request with any epoch, an
  older one included, makes a live client with the token it brings.
\<close>

lemma resurrected:
  "\<exists>c s'. bindM (Invalidate env) (\<lambda>_. Cache_Client env epoch endpoint token) s = (Inr c, s') \<and>
    C_clients s' ! c = NewClient endpoint token"
  by (auto simp: Invalidate_def Cache_Client_def new_entry_def Revoke_def bindM_def gets_def modifyM_def ret_def nth_append
      split: option.split)

end
