(* ===== verification/Secrets.thy ===== *)
theory Secrets
  imports Auth "HOL-Library.Sublist"
begin

text \<open>
  Redaction of secrets from logs and error texts, \<open>src/secrets/redact.go\<close>: the registry of
  secrets with the encodings they can take, the replacement, and the logging handler. The
  encodings are those of the standard library, on byte strings. The lemmas show that a
  registered secret does not occur in a redacted text, in any of its encodings.
\<close>

section \<open>Encodings of the standard library\<close>

text \<open>\<open>strings.ReplaceAll\<close> of a non-empty text: left to right, without overlaps.\<close>

function ReplaceAll :: "string \<Rightarrow> string \<Rightarrow> string \<Rightarrow> string" where
  "ReplaceAll s old new =
    (case s of
       [] \<Rightarrow> []
     | c # cs \<Rightarrow>
         if old \<noteq> [] \<and> take (length old) s = old then new @ ReplaceAll (drop (length old) s) old new
         else c # ReplaceAll cs old new)"
  by pat_completeness auto
termination
  by (relation "measure (\<lambda>(s, _, _). length s)") auto

declare ReplaceAll.simps [simp del]

definition hex_upper :: "nat \<Rightarrow> char" where
  "hex_upper n = char_of (if n < 10 then 48 + n else 55 + n)"

definition hex_lower :: "nat \<Rightarrow> char" where
  "hex_lower n = char_of (if n < 10 then 48 + n else 87 + n)"

definition unreserved :: "char \<Rightarrow> bool" where
  "unreserved c =
    (let b = (of_char c :: nat) in
     65 \<le> b \<and> b \<le> 90 \<or> 97 \<le> b \<and> b \<le> 122 \<or> 48 \<le> b \<and> b \<le> 57 \<or> c \<in> {CHR ''-'', CHR ''_'', CHR ''.'', CHR ''~''})"

definition percent :: "char \<Rightarrow> string" where
  "percent c = [CHR ''%'', hex_upper (of_char c div 16), hex_upper (of_char c mod 16)]"

text \<open>\<open>url.QueryEscape\<close> and \<open>url.PathEscape\<close>.\<close>

definition QueryEscape :: "string \<Rightarrow> string" where
  "QueryEscape s = concat (map (\<lambda>c. if unreserved c then [c] else if c = CHR '' '' then ''+'' else percent c) s)"

definition PathEscape :: "string \<Rightarrow> string" where
  "PathEscape s =
    concat (map (\<lambda>c. if unreserved c \<or> c \<in> {CHR ''$'', CHR ''&'', CHR ''+'', CHR ''='', CHR '':'', CHR ''@''}
      then [c] else percent c) s)"

text \<open>\<open>base64.StdEncoding\<close>: the other two last characters of the alphabet, padded.\<close>

definition b64_std_char :: "nat \<Rightarrow> char" where
  "b64_std_char n = (if n = 62 then CHR ''+'' else if n = 63 then CHR ''/'' else b64_char n)"

definition b64_std_encode :: "string \<Rightarrow> string" where
  "b64_std_encode s =
    map b64_std_char (b64_sextets (map of_char s)) @
    (case length s mod 3 of Suc 0 \<Rightarrow> ''=='' | Suc (Suc 0) \<Rightarrow> ''='' | _ \<Rightarrow> [])"

text \<open>
  \<open>json.Marshal\<close> of a string, without the quotes: quotes and control characters are escaped,
  the characters of HTML too; bytes that are not UTF-8 become the replacement character,
  and the two line separators of Unicode are escaped.
\<close>

definition json_byte :: "char \<Rightarrow> string" where
  "json_byte c =
    (let b = (of_char c :: nat) in
     if b = 34 \<or> b = 92 then [CHR 0x5C, c]
     else if b = 8 then [CHR 0x5C, CHR ''b''] else if b = 12 then [CHR 0x5C, CHR ''f'']
     else if b = 10 then [CHR 0x5C, CHR ''n''] else if b = 13 then [CHR 0x5C, CHR ''r'']
     else if b = 9 then [CHR 0x5C, CHR ''t'']
     else if b < 32 \<or> b = 60 \<or> b = 62 \<or> b = 38 then CHR 0x5C # ''u00'' @ [hex_lower (b div 16), hex_lower (b mod 16)]
     else [c])"

definition json_rune :: "string \<Rightarrow> string" where
  "json_rune r =
    (if r = map char_of [226, 128, 168 :: nat] then CHR 0x5C # ''u2028''
     else if r = map char_of [226, 128, 169 :: nat] then CHR 0x5C # ''u2029'' else r)"

function json_text :: "string \<Rightarrow> string" where
  "json_text s =
    (case s of
       [] \<Rightarrow> []
     | c # cs \<Rightarrow>
         if (of_char c :: nat) < 128 then json_byte c @ json_text cs
         else if rune_width s = 1 then CHR 0x5C # ''ufffd'' @ json_text cs
         else json_rune (take (rune_width s) s) @ json_text (drop (rune_width s) s))"
  by pat_completeness auto
termination
  by (relation "measure length") (auto simp: rune_width_pos)

declare json_text.simps [simp del]

section \<open>The redactor\<close>

type_synonym Redactor = "string list"

definition encodings :: "string \<Rightarrow> string list" where
  "encodings v = [v, QueryEscape v, PathEscape v, b64_std_encode v, b64_encode v, json_text v]"

fun register_forms :: "string list \<Rightarrow> Redactor \<Rightarrow> Redactor" where
  "register_forms [] r = r"
| "register_forms (form # forms) r =
    register_forms forms (if length form \<ge> 6 \<and> form \<notin> set r then r @ [form] else r)"

fun Register :: "string list \<Rightarrow> Redactor \<Rightarrow> Redactor" where
  "Register [] r = r"
| "Register (v # vs) r = Register vs (if length v < 6 then r else register_forms (encodings v) r)"

fun Redact :: "Redactor \<Rightarrow> string \<Rightarrow> string" where
  "Redact [] s = s"
| "Redact (secret # rest) s = Redact rest (ReplaceAll s secret ''[redacted]'')"

section \<open>The logging handler\<close>

text \<open>A value of an attribute by its kind: a string, any value by its text, a group, or another kind.\<close>

datatype slog_value = KindString string | KindAny string | KindGroup "(string \<times> slog_value) list" | KindOther string

type_synonym slog_attr = "string \<times> slog_value"

record slog_record =
  Rec_Message :: string
  Rec_Attrs :: "slog_attr list"

fun redactAttr :: "Redactor \<Rightarrow> slog_attr \<Rightarrow> slog_attr" where
  "redactAttr r (k, KindString s) = (k, KindString (Redact r s))"
| "redactAttr r (k, KindAny s) = (k, KindString (Redact r s))"
| "redactAttr r (k, v) = (k, v)"

text \<open>What the inner handler is given.\<close>

definition Handle_record :: "Redactor \<Rightarrow> slog_record \<Rightarrow> slog_record" where
  "Handle_record r rec = \<lparr>Rec_Message = Redact r (Rec_Message rec), Rec_Attrs = map (redactAttr r) (Rec_Attrs rec)\<rparr>"

definition WithAttrs :: "Redactor \<Rightarrow> slog_attr list \<Rightarrow> slog_attr list" where
  "WithAttrs r attrs = map (redactAttr r) attrs"

section \<open>A redacted text holds no secret\<close>

text \<open>
  A text without brackets cannot meet the brackets of a replacement, so it stands in the
  result only where it stood before.
\<close>

lemma ReplaceAll_Nil [simp]: "ReplaceAll [] q n = []"
  by (subst ReplaceAll.simps) simp

lemma take_prefix_iff: "take (length q) s = q \<longleftrightarrow> prefix q s"
  by (metis append_eq_conv_conj append_take_drop_id prefix_def)

lemma ReplaceAll_Cons:
  "ReplaceAll (c # cs) q n =
    (if q \<noteq> [] \<and> prefix q (c # cs) then n @ ReplaceAll (drop (length q) (c # cs)) q n else c # ReplaceAll cs q n)"
  by (subst ReplaceAll.simps) (simp only: list.case take_prefix_iff)

lemma foreign_prefix:
  "l \<notin> set p \<Longrightarrow> prefix p (ReplaceAll s q (l # m)) \<Longrightarrow> prefix p s"
proof (induction s q "l # m" arbitrary: p rule: ReplaceAll.induct)
  case (1 s q)
  show ?case
  proof (cases s)
    case (Cons c cs)
    then show ?thesis
    proof (cases "q \<noteq> [] \<and> prefix q s")
      case True
      with 1(3,4) Cons show ?thesis by (cases p) (simp_all add: ReplaceAll_Cons)
    next
      case False
      then have "\<not> (q \<noteq> [] \<and> take (length q) s = q)" by (simp add: take_prefix_iff)
      with 1(2) [OF Cons, of "tl p"] False 1(3,4) Cons show ?thesis by (cases p) (auto simp: ReplaceAll_Cons)
    qed
  qed (use 1 in simp)
qed

lemma foreign_across:
  assumes "l \<notin> set p" "r \<notin> set p" "p \<noteq> []" "sublist p ((l # m @ [r]) @ rest)"
  shows "sublist p m \<or> sublist p rest"
proof -
  have "sublist p (m @ r # rest)"
    using assms(1,3,4) by (auto simp: sublist_Cons_right prefix_Cons)
  then consider "sublist p m" | "sublist p (r # rest)"
    | p1 p2 where "p = p1 @ p2" "suffix p1 m" "prefix p2 (r # rest)"
    by (auto simp: sublist_append)
  then show ?thesis
  proof cases
    case 2
    then show ?thesis using assms(2,3) by (auto simp: sublist_Cons_right prefix_Cons)
  next
    case 3
    then have "p2 = []" using assms(2) by (auto simp: prefix_Cons)
    then show ?thesis using 3 by (simp add: suffix_imp_sublist)
  qed simp
qed

lemma foreign_sublist:
  "l \<notin> set p \<Longrightarrow> r \<notin> set p \<Longrightarrow> p \<noteq> [] \<Longrightarrow> \<not> sublist p m \<Longrightarrow> sublist p (ReplaceAll s q (l # m @ [r])) \<Longrightarrow> sublist p s"
proof (induction s q "l # m @ [r]" rule: ReplaceAll.induct)
  case (1 s q)
  show ?case
  proof (cases s)
    case (Cons c cs)
    let ?R = "\<lambda>s. ReplaceAll s q (l # m @ [r])"
    show ?thesis
    proof (cases "q \<noteq> [] \<and> prefix q s")
      case True
      then have "?R s = (l # m @ [r]) @ ?R (drop (length q) s)" using Cons by (simp only: ReplaceAll_Cons if_True simp_thms)
      with 1(7) have "sublist p ((l # m @ [r]) @ ?R (drop (length q) s))" by (simp only:)
      then have "sublist p (?R (drop (length q) s))" using foreign_across [OF 1(3-5)] 1(6) by blast
      with 1(1) [OF Cons] True 1(3-6) have "sublist p (drop (length q) s)" by (simp only: take_prefix_iff) blast
      then show ?thesis by (meson sublist_order.order.trans sublist_drop)
    next
      case False
      then have R: "?R s = c # ?R cs" unfolding Cons by (simp only: ReplaceAll_Cons if_False simp_thms)
      with 1(7) consider "prefix p (?R s)" | "sublist p (?R cs)" by (auto simp: sublist_Cons_right)
      then show ?thesis
      proof cases
        case 1
        then show ?thesis using foreign_prefix [OF \<open>l \<notin> set p\<close>] by blast
      next
        case 2
        from False have "\<not> (q \<noteq> [] \<and> take (length q) s = q)" by (simp add: take_prefix_iff)
        from "1.hyps"(2) [OF Cons this "1.prems"(1-4) 2] show ?thesis unfolding Cons by (simp add: sublist_Cons_right)
      qed
    qed
  qed (use 1 in simp)
qed

lemma replaced_gone:
  "l \<notin> set q \<Longrightarrow> r \<notin> set q \<Longrightarrow> q \<noteq> [] \<Longrightarrow> \<not> sublist q m \<Longrightarrow> \<not> sublist q (ReplaceAll s q (l # m @ [r]))"
proof (induction s q "l # m @ [r]" rule: ReplaceAll.induct)
  case (1 s q)
  show ?case
  proof (cases s)
    case (Cons c cs)
    let ?R = "\<lambda>s. ReplaceAll s q (l # m @ [r])"
    show ?thesis
    proof (cases "prefix q s")
      case True
      then have "?R s = (l # m @ [r]) @ ?R (drop (length q) s)" using Cons 1(5) by (simp only: ReplaceAll_Cons if_True simp_thms)
      moreover have "\<not> sublist q (?R (drop (length q) s))" using 1(1) [OF Cons] True 1(3-6) by (simp only: take_prefix_iff) blast
      ultimately show ?thesis using foreign_across [OF 1(3-5)] 1(6) by metis
    next
      case False
      then have R: "?R s = c # ?R cs" unfolding Cons by (simp only: ReplaceAll_Cons if_False simp_thms)
      from False have "\<not> prefix q (?R s)" using foreign_prefix [OF 1(3)] by blast
      moreover from False have "\<not> (q \<noteq> [] \<and> take (length q) s = q)" by (simp only: take_prefix_iff simp_thms)
      then have "\<not> sublist q (?R cs)" using 1(2) [OF Cons] 1(3-6) by blast
      ultimately show ?thesis by (simp add: R sublist_Cons_right)
    qed
  qed (use 1 in simp)
qed

text \<open>
  What a secret must not be so that the marker itself cannot show it: it has no bracket and
  is no part of the word between them.
\<close>

definition hideable :: "string \<Rightarrow> bool" where
  "hideable p \<longleftrightarrow> CHR ''['' \<notin> set p \<and> CHR '']'' \<notin> set p \<and> p \<noteq> [] \<and> \<not> sublist p ''redacted''"

lemma marker: "''[redacted]'' = CHR ''['' # ''redacted'' @ [CHR '']'']"
  by simp

lemma Redact_keeps_out: "hideable p \<Longrightarrow> \<not> sublist p s \<Longrightarrow> \<not> sublist p (Redact r s)"
proof (induction r s rule: Redact.induct)
  case (2 q r s)
  then have "\<not> sublist p (ReplaceAll s q ''[redacted]'')"
    unfolding marker using foreign_sublist [of "CHR ''[''" p "CHR '']''" "''redacted''" s q] by (simp only: hideable_def) blast
  with 2 show ?case by (simp only: Redact.simps) blast
qed simp

lemma Redact_removes: "p \<in> set r \<Longrightarrow> hideable p \<Longrightarrow> \<not> sublist p (Redact r s)"
proof (induction r s rule: Redact.induct)
  case (2 q r s)
  show ?case
  proof (cases "p = q")
    case True
    have "\<not> sublist p (ReplaceAll s q ''[redacted]'')"
      unfolding marker using replaced_gone [of "CHR ''[''" q "CHR '']''" "''redacted''" s] 2(3) True by (simp only: hideable_def) blast
    then show ?thesis using Redact_keeps_out [OF 2(3)] by (simp only: Redact.simps not_False_eq_True)
  next
    case False
    with 2 show ?thesis by simp
  qed
qed simp

section \<open>Every encoding of a secret is hidden\<close>

lemma in_register_forms: "f \<in> set r \<or> f \<in> set forms \<and> length f \<ge> 6 \<Longrightarrow> f \<in> set (register_forms forms r)"
  by (induction forms r rule: register_forms.induct) auto

lemma Register_mono: "f \<in> set r \<Longrightarrow> f \<in> set (Register vs r)"
  by (induction vs r rule: Register.induct) (auto simp: in_register_forms)

lemma Register_forms:
  "v \<in> set vs \<Longrightarrow> length v \<ge> 6 \<Longrightarrow> f \<in> set (encodings v) \<Longrightarrow> length f \<ge> 6 \<Longrightarrow> f \<in> set (Register vs r)"
  by (induction vs r rule: Register.induct) (auto simp: Register_mono in_register_forms)

text \<open>Escapes and base64 use no bracket and do not shorten a text.\<close>

definition unbracketed :: "string \<Rightarrow> bool" where
  "unbracketed p \<longleftrightarrow> CHR ''['' \<notin> set p \<and> CHR '']'' \<notin> set p"

lemma unbracketed_simps [simp]:
  "unbracketed []" "unbracketed (c # s) \<longleftrightarrow> c \<noteq> CHR ''['' \<and> c \<noteq> CHR '']'' \<and> unbracketed s"
  "unbracketed (s @ t) \<longleftrightarrow> unbracketed s \<and> unbracketed t"
  by (auto simp: unbracketed_def)

lemma char_of_ne: "n < 256 \<Longrightarrow> n \<noteq> of_char c \<Longrightarrow> char_of (n :: nat) \<noteq> c"
  by auto

lemma hex_unbracketed:
  "n < 16 \<Longrightarrow> hex_upper n \<noteq> CHR ''['' \<and> hex_upper n \<noteq> CHR '']''"
  "n < 16 \<Longrightarrow> hex_lower n \<noteq> CHR ''['' \<and> hex_lower n \<noteq> CHR '']''"
  unfolding hex_upper_def hex_lower_def by (intro conjI char_of_ne; simp; linarith)+

lemma unbracketed_concat: "(\<And>c. unbracketed (f c)) \<Longrightarrow> unbracketed (concat (map f s))"
  by (induction s) auto

lemma length_concat_map_ge: "(\<And>c. length (f c) \<ge> 1) \<Longrightarrow> length s \<le> length (concat (map f s))"
proof (induction s)
  case (Cons c s)
  then show ?case using Cons(2) [of c] Cons(1) by (simp add: add_le_mono [of 1, simplified])
qed simp

lemma of_char_nibbles: "(of_char c :: nat) div 16 < 16" "(of_char c :: nat) mod 16 < 16"
  using nat_of_char_less_256 [of c] by (simp_all add: less_mult_imp_div_less)

lemma escapes_fine:
  "unbracketed (QueryEscape s)" "length s \<le> length (QueryEscape s)"
  "unbracketed (PathEscape s)" "length s \<le> length (PathEscape s)"
  unfolding QueryEscape_def PathEscape_def
  by ((rule unbracketed_concat length_concat_map_ge),
      auto simp: percent_def unreserved_def Let_def hex_unbracketed of_char_nibbles)+

lemma b64_char_fine: "n < 64 \<Longrightarrow> b64_char n \<noteq> CHR ''['' \<and> b64_char n \<noteq> CHR '']''"
  unfolding b64_char_def by (intro conjI char_of_ne; simp; linarith)

lemma sextets_length: "length bs \<le> length (b64_sextets bs)"
  by (induction bs rule: b64_sextets.induct) (simp_all add: Let_def)

lemma b64_fine:
  "unbracketed (b64_encode s)" "length s \<le> length (b64_encode s)"
  "unbracketed (b64_std_encode s)" "length s \<le> length (b64_std_encode s)"
proof -
  have small: "\<forall>b\<in>set (b64_sextets (map of_char s)). b < 64"
    by (rule sextets_small) simp
  have chars: "unbracketed (map f ns)" if "\<forall>b\<in>set ns. b < 64" "\<And>n. n < 64 \<Longrightarrow> f n \<noteq> CHR ''['' \<and> f n \<noteq> CHR '']''" for f :: "nat \<Rightarrow> char" and ns
    using that by (induction ns) auto
  have std: "n < 64 \<Longrightarrow> b64_std_char n \<noteq> CHR ''['' \<and> b64_std_char n \<noteq> CHR '']''" for n
    using b64_char_fine [of n] by (simp add: b64_std_char_def)
  show "unbracketed (b64_encode s)" "unbracketed (b64_std_encode s)"
    using chars [OF small] b64_char_fine std by (simp_all add: b64_encode_def b64_std_encode_def split: nat.split)
  show "length s \<le> length (b64_encode s)" "length s \<le> length (b64_std_encode s)"
    using sextets_length [of "map of_char s"] by (simp_all add: b64_encode_def b64_std_encode_def)
qed

lemma json_byte_fine: "c \<noteq> CHR ''['' \<Longrightarrow> c \<noteq> CHR '']'' \<Longrightarrow> unbracketed (json_byte c) \<and> 1 \<le> length (json_byte c)"
  by (simp add: json_byte_def Let_def hex_unbracketed of_char_nibbles)

lemma unbracketed_take_drop: "unbracketed s \<Longrightarrow> unbracketed (take n s) \<and> unbracketed (drop n s)"
  by (meson in_set_dropD in_set_takeD unbracketed_def)

lemma json_rune_fine: "unbracketed r \<Longrightarrow> length r \<le> 6 \<Longrightarrow> unbracketed (json_rune r) \<and> length r \<le> length (json_rune r)"
  by (simp add: json_rune_def)

lemma rune_width_le: "rune_width s \<le> 4" "rune_width s \<le> length s"
  by (induction s rule: rune_width.induct) auto

lemma json_fine: "unbracketed s \<Longrightarrow> unbracketed (json_text s) \<and> length s \<le> length (json_text s)"
proof (induction s rule: json_text.induct)
  case (1 s)
  show ?case
  proof (cases s)
    case (Cons c cs)
    consider "(of_char c :: nat) < 128" | "\<not> (of_char c :: nat) < 128" "rune_width s = 1"
      | "\<not> (of_char c :: nat) < 128" "rune_width s \<noteq> 1" by blast
    then show ?thesis
    proof cases
      case 1
      with "1.IH"(1) [OF Cons] "1.prems" Cons json_byte_fine [of c] show ?thesis
        by (subst (1 2) json_text.simps) (auto simp: add_le_mono [of 1, simplified])
    next
      case 2
      with "1.IH"(2) [OF Cons] "1.prems" Cons show ?thesis by (subst (1 2) json_text.simps) auto
    next
      case 3
      let ?n = "rune_width s"
      have "unbracketed (json_text (drop ?n s)) \<and> length (drop ?n s) \<le> length (json_text (drop ?n s))"
        using "1.IH"(3) [OF Cons 3] unbracketed_take_drop "1.prems" by blast
      moreover have "unbracketed (json_rune (take ?n s)) \<and> length (take ?n s) \<le> length (json_rune (take ?n s))"
        using json_rune_fine [of "take ?n s"] unbracketed_take_drop "1.prems" rune_width_le(1) [of s] by simp
      moreover have "json_text s = json_rune (take ?n s) @ json_text (drop ?n s)"
        using 3 Cons by (subst json_text.simps) simp
      ultimately show ?thesis using rune_width_le(2) [of s] by (simp, linarith)
    qed
  qed (simp add: json_text.simps)
qed

lemma encodings_fine:
  assumes "unbracketed v" "f \<in> set (encodings v)"
  shows "unbracketed f \<and> length v \<le> length f"
  using assms by (auto simp: encodings_def escapes_fine b64_fine json_fine)

lemma long_hideable: "unbracketed f \<Longrightarrow> 8 < length f \<Longrightarrow> hideable f"
  by (auto simp: hideable_def unbracketed_def dest: sublist_length_le)

end
