(* ===== verification/Provider_Seam.thy ===== *)
theory Provider_Seam
  imports Store_State Secrets "HOL-Library.List_Lexorder" "HOL-Library.Char_ord"
begin

text \<open>
  The provider seam: the interface of resource providers (\<open>src/resource.go\<close>), the registry
  that builds them for a registration (\<open>src/provider/registry.go\<close>, \<open>src/provider/wiring.go\<close>),
  the envelope of handles (\<open>src/provider/handlefmt/handle.go\<close>) and the in-memory provider
  (\<open>src/provider/nullresource/null.go\<close>). A provider is a record of functions that act on the
  world it drives. The lemmas state what the lifecycle relies on of a provider that adopts
  interrupted work, and that the in-memory provider keeps that contract.
\<close>

section \<open>The interface\<close>

record ResourceStatus =
  St_State :: ResourceState
  St_Message :: string

type_synonym ('w, 'a) on_host = "'w \<Rightarrow> (string + 'a) \<times> 'w"

record OwnedResource =
  Own_ResourceID :: ResourceID
  Own_Descriptors :: "string list"

text \<open>The optional seams are options: a provider that adopts, one that can be probed.\<close>

record 'w ResourceProvider =
  RP_Kind :: ResourceKind
  RP_ValidateSpec :: "string \<Rightarrow> string option"
  RP_Provision :: "Resource \<Rightarrow> string \<Rightarrow> ('w, Handle) on_host"
  RP_Status :: "Resource \<Rightarrow> ('w, ResourceStatus) on_host"
  RP_Endpoint :: "Resource \<Rightarrow> ('w, string) on_host"
  RP_Restart :: "Resource \<Rightarrow> string \<Rightarrow> ('w, Handle) on_host"
  RP_Terminate :: "Resource \<Rightarrow> ('w, unit) on_host"
  RP_HealthCheck :: "Resource \<Rightarrow> ('w, unit) on_host"
  RP_Adopt :: "(Resource \<Rightarrow> ('w, Handle option) on_host) option"
  RP_ListOwned :: "('w, OwnedResource list) on_host option"
  RP_Probe :: "('w, ProviderCapabilities) on_host option"

section \<open>The registry\<close>

type_synonym 'w Factory = "string \<Rightarrow> string + 'w ResourceProvider"
type_synonym 'w Registry = "(string \<times> 'w Factory) list"

definition NewProviderRegistry :: "'w Registry" where
  "NewProviderRegistry = []"

text \<open>Registering a kind twice panics: \<open>None\<close>.\<close>

definition Register_kind :: "string \<Rightarrow> 'w Factory \<Rightarrow> 'w Registry \<Rightarrow> 'w Registry option" where
  "Register_kind kind factory r =
    (if map_of r kind \<noteq> None then None else Some (r @ [(kind, factory)]))"

definition Kinds :: "'w Registry \<Rightarrow> string list" where
  "Kinds r = sort (map fst r)"

definition Enabled :: "'w Registry \<Rightarrow> string \<Rightarrow> bool" where
  "Enabled r kind = (map_of r kind \<noteq> None)"

definition Build :: "'w Registry \<Rightarrow> string \<Rightarrow> string \<Rightarrow> string + 'w ResourceProvider" where
  "Build r kind config =
    (case map_of r kind of
       None \<Rightarrow> Inl (''provider: provider kind '' @ kind @ '' is not enabled in this deployment'')
     | Some factory \<Rightarrow> factory config)"

definition DryRun :: "'w Registry \<Rightarrow> string \<Rightarrow> string \<Rightarrow> ('w, ProviderCapabilities) on_host" where
  "DryRun r kind config w =
    (case Build r kind config of
       Inl e \<Rightarrow> (Inl e, w)
     | Inr provider \<Rightarrow>
         (case RP_Probe provider of
            None \<Rightarrow> (Inr \<lparr>Cap_Kind = kind, Cap_Supported = [], Cap_Notes = []\<rparr>, w)
          | Some probe \<Rightarrow>
              (case probe w of
                 (Inl e, w') \<Rightarrow> (Inl e, w')
               | (Inr caps, w') \<Rightarrow> (Inr (caps\<lparr>Cap_Kind := kind\<rparr>), w'))))"

section \<open>Handles\<close>

definition EncodeHandle :: "int \<Rightarrow> string \<Rightarrow> string + Handle" where
  "EncodeHandle version raw =
    (if version \<le> 0 then Inl ''handlefmt: handle version must be positive'' else Inr (Versioned version raw))"

text \<open>
  The data of a handle. An object without a version decodes to version 0, and so does
  \<open>null\<close>; any other text is one that does not decode as an envelope.
\<close>

fun DecodeHandle :: "Handle \<Rightarrow> string + string" where
  "DecodeHandle NoHandle = Inl ''handlefmt: empty handle''"
| "DecodeHandle (Versioned v raw) =
    (if v \<le> 0 then Inl ''handlefmt: unsupported handle version'' else Inr raw)"
| "DecodeHandle (OtherHandle t) = Inl ''handlefmt: decode handle envelope''"
| "DecodeHandle _ = Inl ''handlefmt: unsupported handle version 0''"

lemma handle_round_trip: "EncodeHandle v raw = Inr h \<Longrightarrow> DecodeHandle h = Inr raw \<and> HandlePresent h"
  by (auto simp: EncodeHandle_def split: if_splits)

section \<open>The in-memory provider\<close>

abbreviation ProviderKindNull :: string where "ProviderKindNull \<equiv> ''null''"

text \<open>The resources it holds: a map from ids to handles, in insertion order.\<close>

type_synonym null_items = "(ResourceID \<times> Handle) list"

definition held :: "null_items \<Rightarrow> ResourceID \<Rightarrow> Handle option" where
  "held items rid = map_of items rid"

definition put_item :: "ResourceID \<Rightarrow> Handle \<Rightarrow> null_items \<Rightarrow> null_items" where
  "put_item rid h items = (rid, h) # filter (\<lambda>x. fst x \<noteq> rid) items"

definition null_ValidateSpec :: "(string \<Rightarrow> bool) \<Rightarrow> string \<Rightarrow> string option" where
  "null_ValidateSpec is_object spec =
    (if length spec = 0 then None
     else if is_object spec then None else Some ''nullresource: invalid spec'')"

definition null_data :: "ResourceID \<Rightarrow> string" where
  "null_data rid = ''{\"id\":\"'' @ json_text rid @ ''\"}''"

definition null_Provision :: "Resource \<Rightarrow> string \<Rightarrow> (null_items, Handle) on_host" where
  "null_Provision r token items =
    (case EncodeHandle 1 (null_data (Res_ID r)) of
       Inl e \<Rightarrow> (Inl e, items)
     | Inr h \<Rightarrow> (Inr h, put_item (Res_ID r) h items))"

definition null_Status :: "Resource \<Rightarrow> (null_items, ResourceStatus) on_host" where
  "null_Status r items =
    (if held items (Res_ID r) = None \<and> \<not> HandlePresent (Res_Handle r)
     then (Inr \<lparr>St_State = ResourceFailed, St_Message = ''not found''\<rparr>, items)
     else (Inr \<lparr>St_State = ResourceReady, St_Message = []\<rparr>, items))"

definition null_Endpoint :: "Resource \<Rightarrow> (null_items, string) on_host" where
  "null_Endpoint r items = (Inr [], items)"

definition null_Terminate :: "Resource \<Rightarrow> (null_items, unit) on_host" where
  "null_Terminate r items = (Inr (), filter (\<lambda>x. fst x \<noteq> Res_ID r) items)"

definition null_HealthCheck :: "Resource \<Rightarrow> (null_items, unit) on_host" where
  "null_HealthCheck r items =
    (case null_Status r items of
       (Inl e, w) \<Rightarrow> (Inl e, w)
     | (Inr st, w) \<Rightarrow> (if St_State st \<noteq> ResourceReady then Inl ''nullresource: not ready'' else Inr (), w))"

definition null_Adopt :: "Resource \<Rightarrow> (null_items, Handle option) on_host" where
  "null_Adopt r items = (Inr (held items (Res_ID r)), items)"

definition null_ListOwned :: "(null_items, OwnedResource list) on_host" where
  "null_ListOwned items =
    (Inr (map (\<lambda>x. \<lparr>Own_ResourceID = fst x, Own_Descriptors = [''null:'' @ fst x]\<rparr>) items), items)"

definition null_Probe :: "(null_items, ProviderCapabilities) on_host" where
  "null_Probe items =
    (Inr \<lparr>Cap_Kind = ProviderKindNull,
      Cap_Supported = [CapabilityAdoptsOrphans, CapabilityEnumeratesResources],
      Cap_Notes =
        [(CapabilityServesToolEndpoint, ''null_resource has no tool surface''),
         (CapabilityRestartPreservesState, ''null_resource holds no durable state''),
         (CapabilityToleratesDisconnect, ''in-process provider has no disconnect path'')]\<rparr>, items)"

text \<open>Restarting keeps the resource and stores a fresh handle, exactly as provisioning does.\<close>

definition null_provider :: "(string \<Rightarrow> bool) \<Rightarrow> null_items ResourceProvider" where
  "null_provider is_object =
    \<lparr>RP_Kind = ''null_resource'', RP_ValidateSpec = null_ValidateSpec is_object, RP_Provision = null_Provision,
     RP_Status = null_Status, RP_Endpoint = null_Endpoint, RP_Restart = null_Provision,
     RP_Terminate = null_Terminate, RP_HealthCheck = null_HealthCheck, RP_Adopt = Some null_Adopt,
     RP_ListOwned = Some null_ListOwned, RP_Probe = Some null_Probe\<rparr>"

section \<open>The standard registry\<close>

text \<open>
  Every kind but the in-memory one is registered when the deployment enables it; an empty
  list enables all. The factories of the other kinds are parameters.
\<close>

abbreviation ProviderKinds :: "string list" where
  "ProviderKinds \<equiv> [''local_docker'', ''byo_k8s'', ''byo_nomad'', ''tunnel_local'', ''static'']"

definition kind_enabled :: "string list \<Rightarrow> string \<Rightarrow> bool" where
  "kind_enabled enabledKinds kind = (length enabledKinds = 0 \<or> kind \<in> set enabledKinds)"

definition StandardRegistry :: "string list \<Rightarrow> (string \<Rightarrow> 'w Factory) \<Rightarrow> 'w ResourceProvider \<Rightarrow> 'w Registry option" where
  "StandardRegistry enabledKinds factories sharedNull =
    (let add = (\<lambda>r kind. if kind_enabled enabledKinds kind then Option.bind r (Register_kind kind (factories kind)) else r) in
     Option.bind (foldl add (Some NewProviderRegistry) ProviderKinds) (Register_kind ProviderKindNull (\<lambda>config. Inr sharedNull)))"

lemma StandardRegistry_kinds:
  "StandardRegistry ks f p = Some (map (\<lambda>k. (k, f k)) (filter (kind_enabled ks) ProviderKinds) @ [(ProviderKindNull, \<lambda>c. Inr p)])"
  by (simp add: StandardRegistry_def Let_def NewProviderRegistry_def Register_kind_def)

section \<open>Adopting providers\<close>

text \<open>
  What the recovery of an interrupted provisioning relies on: how many objects a provider
  holds for a resource (\<open>owned\<close>); that a call of \<open>Provision\<close>, failed or not, adds at most one,
  and that its handles count as acquired; that \<open>Adopt\<close> finds a handle exactly when there is an
  object, and creates none.
\<close>

locale adopting_provider =
  fixes provider :: "'w ResourceProvider" and ok :: "'w \<Rightarrow> bool" and owned :: "'w \<Rightarrow> ResourceID \<Rightarrow> nat"
    and adopt :: "Resource \<Rightarrow> ('w, Handle option) on_host"
  assumes adopts: "RP_Adopt provider = Some adopt"
    and provision: "ok w \<Longrightarrow> RP_Provision provider r token w = (x, w') \<Longrightarrow>
      ok w' \<and> owned w' (Res_ID r) \<le> owned w (Res_ID r) + 1 \<and> (\<forall>h. x = Inr h \<longrightarrow> HandlePresent h)"
    and adopt: "ok w \<Longrightarrow> adopt r w = (y, w') \<Longrightarrow>
      ok w' \<and> owned w' = owned w \<and> (\<forall>h. y = Inr (Some h) \<longrightarrow> HandlePresent h) \<and> (y = Inr None \<longrightarrow> owned w (Res_ID r) = 0)"

definition null_ok :: "null_items \<Rightarrow> bool" where
  "null_ok items = list_all (\<lambda>x. HandlePresent (snd x)) items"

definition null_owned :: "null_items \<Rightarrow> ResourceID \<Rightarrow> nat" where
  "null_owned items rid = length (filter (\<lambda>x. fst x = rid) items)"

lemma held_in: "held items rid = Some h \<Longrightarrow> (rid, h) \<in> set items"
  by (simp add: held_def map_of_SomeD)

lemma held_none: "held items rid = None \<longleftrightarrow> null_owned items rid = 0"
  by (induction items) (auto simp: held_def null_owned_def)

interpretation null_adopts: adopting_provider "null_provider is_object" null_ok null_owned null_Adopt for is_object
proof
  show "RP_Adopt (null_provider is_object) = Some null_Adopt" by (simp add: null_provider_def)
next
  fix w :: null_items and r token x w'
  assume "null_ok w" "RP_Provision (null_provider is_object) r token w = (x, w')"
  then show "null_ok w' \<and> null_owned w' (Res_ID r) \<le> null_owned w (Res_ID r) + 1 \<and> (\<forall>h. x = Inr h \<longrightarrow> HandlePresent h)"
    by (auto simp: null_provider_def null_Provision_def EncodeHandle_def put_item_def null_ok_def null_owned_def list_all_iff)
next
  fix w :: null_items and r x w'
  assume "null_ok w" "null_Adopt r w = (x, w')"
  then show "null_ok w' \<and> null_owned w' = null_owned w \<and> (\<forall>h. x = Inr (Some h) \<longrightarrow> HandlePresent h) \<and>
      (x = Inr None \<longrightarrow> null_owned w (Res_ID r) = 0)"
    by (fastforce simp: null_Adopt_def null_ok_def list_all_iff held_none dest: held_in)
qed

end
