(* ===== verification/Resource_Work.thy ===== *)
theory Resource_Work
  imports Store_Resources Tool_Cache Provider_Seam
begin

text \<open>
  The resource lifecycle, \<open>src/resourcework/resourcework.go\<close>: requesting a resource, the
  workers that provision, restart, terminate and reconcile it, and tool calls against it. The
  state is the database, the cache of tool clients with the world the providers and the
  network act on, the redactor, and whether the context of the job is done; a store call
  with a done context fails. Random tokens and fresh identifiers are arguments; the keyring,
  the digest, the provider registry, the network and the decoding of spec names are
  parameters of the service.
\<close>

section \<open>The service and its state\<close>

record 'w svc =
  Svc_db :: db
  Svc_cache :: "'w Cache"
  Svc_redactor :: Redactor
  Svc_done :: bool

type_synonym ('w, 'a) svcm = "('w svc, Err, 'a) comp"

record 'w Service =
  S_Encrypt :: "string \<Rightarrow> Err + string"
  S_Decrypt :: "string \<Rightarrow> Err + string"
  S_Providers :: "(string \<Rightarrow> string \<Rightarrow> string + 'w ResourceProvider) option"
  S_ReconcileInterval :: Duration
  S_ProvisionTimeout :: Duration
  S_http :: "'w round_trip"
  S_sha256 :: "string \<Rightarrow> string"
  S_devEnvName :: "string \<Rightarrow> string option"
  S_probeName :: "string \<Rightarrow> string"
  S_errText :: "Err \<Rightarrow> string"
  S_validJSON :: "string \<Rightarrow> bool"

definition interval :: "'w Service \<Rightarrow> Duration" where
  "interval s = (if S_ReconcileInterval s > 0 then S_ReconcileInterval s else 5000000000)"

definition provisionTimeout :: "'w Service \<Rightarrow> Duration" where
  "provisionTimeout s = (if S_ProvisionTimeout s > 0 then S_ProvisionTimeout s else 60000000000)"

abbreviation errDone :: Err where "errDone \<equiv> ErrOther ''context canceled''"

definition on_db :: "'a dbm \<Rightarrow> ('w, 'a) svcm" where
  "on_db m = (\<lambda>s. if Svc_done s then (Inl errDone, s) else case m (Svc_db s) of (r, d) \<Rightarrow> (r, s\<lparr>Svc_db := d\<rparr>))"

definition on_cache :: "('w, 'a) mcpm \<Rightarrow> ('w, 'a) svcm" where
  "on_cache m = (\<lambda>s. case m (Svc_cache s) of
    (Inl e, c) \<Rightarrow> (Inl (ErrOther ''mcp''), s\<lparr>Svc_cache := c\<rparr>) | (Inr a, c) \<Rightarrow> (Inr a, s\<lparr>Svc_cache := c\<rparr>))"

definition on_world :: "('w, 'a) on_host \<Rightarrow> ('w, 'a) svcm" where
  "on_world m = (\<lambda>s. case m (C_world (Svc_cache s)) of
    (Inl e, w) \<Rightarrow> (Inl (ErrOther e), s\<lparr>Svc_cache := (Svc_cache s)\<lparr>C_world := w\<rparr>\<rparr>)
  | (Inr a, w) \<Rightarrow> (Inr a, s\<lparr>Svc_cache := (Svc_cache s)\<lparr>C_world := w\<rparr>\<rparr>))"

definition Now :: "('w, Time) svcm" where
  "Now = gets (\<lambda>s. db_now (Svc_db s))"

definition register_secret :: "string \<Rightarrow> ('w, unit) svcm" where
  "register_secret clear = modifyM (\<lambda>s. s\<lparr>Svc_redactor := Register [clear] (Svc_redactor s)\<rparr>)"

text \<open>The cleartext of a token is the hexadecimal text of 32 random bytes.\<close>

definition hex_text :: "string \<Rightarrow> string" where
  "hex_text b = concat (map (\<lambda>c. [hex_lower (of_char c div 16), hex_lower (of_char c mod 16)]) b)"

definition newToken :: "'w Service \<Rightarrow> string \<Rightarrow> string \<times> string" where
  "newToken svc random = (hex_text random, S_sha256 svc (hex_text random))"

definition resourceName :: "'w Service \<Rightarrow> Resource \<Rightarrow> string" where
  "resourceName svc r =
    (let probe = S_probeName svc (Res_Spec r) in
     if Res_Kind r = ResourceKindDevEnv \<or> Res_Kind r = [] then
       (case S_devEnvName svc (Res_Spec r) of Some name \<Rightarrow> name | None \<Rightarrow> probe)
     else probe)"

definition eventPayload :: "'w Service \<Rightarrow> Resource \<Rightarrow> string \<Rightarrow> Payload" where
  "eventPayload svc r message =
    ResourceEventPayload
      \<lparr>RE_ResourceID = Res_ID r, RE_Kind = Res_Kind r, RE_Name = resourceName svc r,
       RE_ProviderInstanceID = Res_ProviderInstanceID r, RE_Endpoint = Res_Endpoint r,
       RE_Message = message, RE_Epoch = Res_Epoch r\<rparr>"

abbreviation systemEvent :: "TenantID \<Rightarrow> SessionID \<Rightarrow> EventKind \<Rightarrow> Payload \<Rightarrow> int dbm" where
  "systemEvent org sid kind p \<equiv> Events_Append org sid ActorSystem kind p"

section \<open>Requests\<close>

definition request_tx :: "'w Service \<Rightarrow> TenantID \<Rightarrow> Resource \<Rightarrow> int dbm" where
  "request_tx svc org r = tx (
    bindM (Resources_Create org r) (\<lambda>_.
    bindM (systemEvent org (Res_SessionID r) EventKindResourceRequested (eventPayload svc r [])) (\<lambda>seq.
    bindM (EnqueueInTx (ProvisionJob org (Res_ID r))) (\<lambda>_.
    bindM (gets db_now) (\<lambda>now.
    bindM (EnqueueInTxAt (ReconcileJob org (Res_ID r)) (now + provisionTimeout svc)) (\<lambda>_.
    ret seq))))))"

text \<open>The kind of the resource: the adapter's, which must agree with the one asked for.\<close>

definition resolve_kind :: "ResourceKind \<Rightarrow> ResourceKind \<Rightarrow> ResourceKind option" where
  "resolve_kind k kind =
    (if k \<noteq> [] then (if kind \<noteq> [] \<and> kind \<noteq> k then None else Some k)
     else if kind = [] then Some ResourceKindDevEnv else Some kind)"

text \<open>A service without a registry has none to call here, which is a panic.\<close>

definition Request :: "'w Service \<Rightarrow> TenantID \<Rightarrow> SessionID \<Rightarrow> ResourceKind \<Rightarrow> string \<Rightarrow> string \<Rightarrow> RunID option \<Rightarrow>
    string \<Rightarrow> ResourceID \<Rightarrow> ('w, Resource \<times> int) svcm" where
  "Request svc org session kind spec providerName createdBy random newID =
    bindM (on_db (Providers_GetByName org (if providerName = [] then ''default'' else providerName))) (\<lambda>instance.
    case S_Providers svc of None \<Rightarrow> raise (ErrOther ''panic: nil provider registry'')
    | Some build \<Rightarrow>
      (case build (Prov_Kind instance) (Prov_Config instance) of
         Inl e \<Rightarrow> raise (ErrOther (''resourcework: build provider for '' @ Prov_Name instance @ '': '' @ e))
       | Inr provider \<Rightarrow>
         (case RP_ValidateSpec provider spec of
            Some e \<Rightarrow> raise (ErrOther (''resourcework: invalid spec: '' @ e))
          | None \<Rightarrow>
            (case resolve_kind (RP_Kind provider) kind of
               None \<Rightarrow> raise (ErrOther (''resourcework: provider '' @ Prov_Name instance @ '' hosts kind '' @ RP_Kind provider @ '', not '' @ kind))
             | Some k \<Rightarrow>
               (case newToken svc random of (clear, hash) \<Rightarrow>
                (case S_Encrypt svc clear of
                   Inl e \<Rightarrow> raise e
                 | Inr enc \<Rightarrow>
                   bindM (register_secret clear) (\<lambda>_.
                   let r = \<lparr>Res_ID = newID, Res_TenantID = org, Res_SessionID = session, Res_Kind = k,
                       Res_ProviderInstanceID = Prov_ID instance, Res_State = ResourceRequested, Res_Spec = spec,
                       Res_Handle = NoHandle, Res_Endpoint = [], Res_TokenHash = hash, Res_TokenEnc = enc,
                       Res_Epoch = 1, Res_FailureMessage = [], Res_CreatedByRunID = createdBy,
                       Res_CreatedAt = 0, Res_UpdatedAt = 0, Res_ReadyAt = None, Res_TerminatedAt = None\<rparr> in
                   bindM (on_db (request_tx svc org r)) (\<lambda>seq. ret (r, seq)))))))))"

definition RequestTerminate :: "'w Service \<Rightarrow> TenantID \<Rightarrow> ResourceID \<Rightarrow> unit dbm" where
  "RequestTerminate svc org rid = tx (
    bindM (Resources_GetForUpdate org rid) (\<lambda>r.
    if Res_State r = ResourceTerminated then ret ()
    else bindM (Resources_SetTerminating org rid) (\<lambda>_.
      bindM (systemEvent org (Res_SessionID r) EventKindResourceTerminating (eventPayload svc r [])) (\<lambda>_.
      EnqueueInTx (TerminateJob org rid)))))"

definition RequestRestart :: "'w Service \<Rightarrow> TenantID \<Rightarrow> ResourceID \<Rightarrow> int dbm" where
  "RequestRestart svc org rid = tx (
    bindM (Resources_GetForUpdate org rid) (\<lambda>r.
    if ResourceState_Terminal (Res_State r) \<or> Res_State r = ResourceTerminating
    then raise (ErrOther ''resourcework: resource cannot restart'')
    else bindM (Resources_SetProvisioning org rid) (\<lambda>_.
      bindM (systemEvent org (Res_SessionID r) EventKindResourceProvisioning
        (eventPayload svc (r\<lparr>Res_State := ResourceProvisioning\<rparr>) ''restart requested'')) (\<lambda>seq.
      bindM (EnqueueInTx (RestartJob org rid)) (\<lambda>_.
      ret seq)))))"

section \<open>Helpers of the workers\<close>

definition providerFor :: "'w Service \<Rightarrow> TenantID \<Rightarrow> Resource \<Rightarrow> ('w, 'w ResourceProvider \<times> ProviderInstance) svcm" where
  "providerFor svc org r =
    bindM (on_db (Providers_Get org (Res_ProviderInstanceID r))) (\<lambda>instance.
    case S_Providers svc of None \<Rightarrow> raise (ErrOther ''resourcework: no provider registry is configured'')
    | Some build \<Rightarrow>
      (case build (Prov_Kind instance) (Prov_Config instance) of
         Inl e \<Rightarrow> raise (ErrOther (''resourcework: build provider for '' @ Prov_Name instance @ '': '' @ e))
       | Inr p \<Rightarrow> ret (p, instance)))"

definition clearToken :: "'w Service \<Rightarrow> Resource \<Rightarrow> ('w, string) svcm" where
  "clearToken svc r =
    (case S_Decrypt svc (Res_TokenEnc r) of
       Inl e \<Rightarrow> raise e
     | Inr clear \<Rightarrow> bindM (register_secret clear) (\<lambda>_. ret clear))"

definition acquire :: "'w ResourceProvider \<Rightarrow> Resource \<Rightarrow> string \<Rightarrow> ('w, Handle) svcm" where
  "acquire p r clear =
    (if HandlePresent (Res_Handle r) then ret (Res_Handle r)
     else bindM (case RP_Adopt p of None \<Rightarrow> ret None | Some adopt \<Rightarrow> on_world (adopt r)) (\<lambda>adopted.
       case adopted of
         Some handle \<Rightarrow> ret handle
       | None \<Rightarrow> on_world (RP_Provision p r clear)))"

definition InvalidateToolClients :: "ResourceID \<Rightarrow> ('w, unit) svcm" where
  "InvalidateToolClients rid = on_cache (Invalidate rid)"

definition fail_tx :: "'w Service \<Rightarrow> TenantID \<Rightarrow> Resource \<Rightarrow> string \<Rightarrow> unit dbm" where
  "fail_tx svc org r message = tx (
    bindM (Resources_SetFailed org (Res_ID r) message) (\<lambda>_.
    bindM (systemEvent org (Res_SessionID r) EventKindResourceFailed (eventPayload svc r message)) (\<lambda>_.
    ret ())))"

definition fail :: "'w Service \<Rightarrow> TenantID \<Rightarrow> Resource \<Rightarrow> string \<Rightarrow> ('w, unit) svcm" where
  "fail svc org r message =
    bindM (InvalidateToolClients (Res_ID r)) (\<lambda>_. on_db (fail_tx svc org r message))"

definition rearm_tx :: "TenantID \<Rightarrow> ResourceID \<Rightarrow> Duration \<Rightarrow> unit dbm" where
  "rearm_tx org rid delay = tx (
    bindM (gets db_now) (\<lambda>now. EnqueueInTxAt (ReconcileJob org rid) (now + delay)))"

definition rearmReconcile :: "'w Service \<Rightarrow> TenantID \<Rightarrow> ResourceID \<Rightarrow> ('w, unit) svcm" where
  "rearmReconcile svc org rid = on_db (rearm_tx org rid (interval svc))"

section \<open>Waiting for health\<close>

text \<open>
  One poll: the endpoint when the provider reports ready and, for a registration that serves
  tools, the endpoint answers its health check. Polls that fail change nothing but the world.
\<close>

definition healthy_at :: "'w Service \<Rightarrow> string \<Rightarrow> ('w, bool) svcm" where
  "healthy_at svc endpoint = (\<lambda>s.
    case Healthy (S_http svc) endpoint (C_world (Svc_cache s)) of
      (e, w) \<Rightarrow> (Inr (e = None), s\<lparr>Svc_cache := (Svc_cache s)\<lparr>C_world := w\<rparr>\<rparr>))"

definition poll_healthy :: "'w Service \<Rightarrow> 'w ResourceProvider \<Rightarrow> Resource \<Rightarrow> bool \<Rightarrow> ('w, string option) svcm" where
  "poll_healthy svc p r servesTools =
    tryM (on_world (RP_Status p r)) (\<lambda>st.
    case st of
      Inr status \<Rightarrow>
        if St_State status = ResourceReady then
          tryM (on_world (RP_Endpoint p r)) (\<lambda>ep.
          case ep of
            Inl _ \<Rightarrow> ret None
          | Inr endpoint \<Rightarrow>
              if servesTools \<and> endpoint \<noteq> [] then
                bindM (healthy_at svc endpoint) (\<lambda>ok. ret (if ok then Some endpoint else None))
              else ret (Some endpoint))
        else ret None
    | Inl _ \<Rightarrow> ret None)"

text \<open>A call that acts on the world only.\<close>

definition world_only :: "('w, 'a) svcm \<Rightarrow> bool" where
  "world_only m \<longleftrightarrow> (\<forall>s. \<exists>w. snd (m s) = s\<lparr>Svc_cache := (Svc_cache s)\<lparr>C_world := w\<rparr>\<rparr>)"

lemma world_onlyD: "world_only m \<Longrightarrow> \<exists>w. snd (m s) = s\<lparr>Svc_cache := (Svc_cache s)\<lparr>C_world := w\<rparr>\<rparr>"
  by (simp add: world_only_def)

lemma same_world: "\<exists>w. s = s\<lparr>Svc_cache := (Svc_cache s)\<lparr>C_world := w\<rparr>\<rparr>"
  by (rule exI [of _ "C_world (Svc_cache s)"]) simp

lemma world_only_ret: "world_only (ret a)"
  by (simp add: world_only_def ret_def same_world)

lemma world_only_host: "world_only (on_world m)"
  unfolding world_only_def on_world_def by (auto split: prod.split sum.split)

lemma world_only_healthy: "world_only (healthy_at svc e)"
  unfolding world_only_def healthy_at_def by (auto split: prod.split)

lemma world_only_try:
  assumes "world_only m" "\<And>x. world_only (h x)"
  shows "world_only (tryM m h)"
  unfolding world_only_def
proof
  fix s
  obtain x s1 where m: "m s = (x, s1)" by (cases "m s")
  with world_onlyD [OF assms(1), of s] obtain w where "s1 = s\<lparr>Svc_cache := (Svc_cache s)\<lparr>C_world := w\<rparr>\<rparr>" by auto
  with world_onlyD [OF assms(2), of x s1] m show "\<exists>w. snd (tryM m h s) = s\<lparr>Svc_cache := (Svc_cache s)\<lparr>C_world := w\<rparr>\<rparr>"
    by (auto simp: tryM_def)
qed

lemma world_only_bind: "world_only m \<Longrightarrow> (\<And>x. world_only (f x)) \<Longrightarrow> world_only (bindM m f)"
proof -
  have "bindM m f = tryM m (\<lambda>x. case x of Inl e \<Rightarrow> (\<lambda>s. (Inl e, s)) | Inr a \<Rightarrow> f a)"
    by (auto simp: bindM_def tryM_def fun_eq_iff split: prod.split sum.split)
  moreover have "world_only (\<lambda>s. (Inl e, s))" for e :: Err
    by (simp add: world_only_def same_world)
  ultimately show "world_only m \<Longrightarrow> (\<And>x. world_only (f x)) \<Longrightarrow> world_only (bindM m f)"
    by (auto intro!: world_only_try split: sum.split)
qed

lemma world_only_poll: "world_only (poll_healthy svc p r b)"
  unfolding poll_healthy_def
  by (auto intro!: world_only_try world_only_bind world_only_host world_only_healthy world_only_ret split: sum.split)

lemma poll_clock: "(x, s1) = poll_healthy svc p r b s \<Longrightarrow> db_now (Svc_db s1) = db_now (Svc_db s)"
  using world_onlyD [OF world_only_poll, of svc p r b s] by (auto dest: sym)

datatype await_error = AwaitDone | AwaitTimeout

text \<open>
  The loop polls until its deadline. The k-th pause takes at least 200 ms; how much longer it
  takes and whether the context is done during it is what \<open>pauses k\<close> says.
\<close>

definition pass_time :: "nat \<Rightarrow> 'w svc \<Rightarrow> 'w svc" where
  "pass_time extra s = s\<lparr>Svc_db := (Svc_db s)\<lparr>db_now := db_now (Svc_db s) + 200000000 + int extra\<rparr>\<rparr>"

function await_loop :: "'w Service \<Rightarrow> 'w ResourceProvider \<Rightarrow> Resource \<Rightarrow> bool \<Rightarrow> Time \<Rightarrow> (nat \<Rightarrow> nat \<times> bool) \<Rightarrow> nat \<Rightarrow>
    'w svc \<Rightarrow> (await_error + string) \<times> 'w svc" where
  "await_loop svc p r servesTools deadline pauses k s =
    (if \<not> db_now (Svc_db s) < deadline then (Inl AwaitTimeout, s)
     else case poll_healthy svc p r servesTools s of
       (Inr (Some endpoint), s1) \<Rightarrow> (Inr endpoint, s1)
     | (_, s1) \<Rightarrow>
         if snd (pauses k) then (Inl AwaitDone, s1\<lparr>Svc_done := True\<rparr>)
         else await_loop svc p r servesTools deadline pauses (Suc k) (pass_time (fst (pauses k)) s1))"
  by pat_completeness auto
termination
  by (relation "measure (\<lambda>(svc, p, r, b, deadline, pauses, k, s). nat (deadline - db_now (Svc_db s)))")
    (auto simp: pass_time_def dest!: poll_clock)

declare await_loop.simps [simp del]

definition awaitHealthy :: "'w Service \<Rightarrow> 'w ResourceProvider \<Rightarrow> Resource \<Rightarrow> ProviderCapabilities \<Rightarrow> (nat \<Rightarrow> nat \<times> bool) \<Rightarrow>
    ('w, await_error + string) svcm" where
  "awaitHealthy svc p r caps pauses =
    bindM Now (\<lambda>now. \<lambda>s.
      case await_loop svc p r (Has caps CapabilityServesToolEndpoint) (now + provisionTimeout svc) pauses 0 s of
        (x, s') \<Rightarrow> (Inr x, s'))"

section \<open>The workers\<close>

text \<open>The last transaction of a provisioning: only a resource that still is provisioning becomes ready.\<close>

definition provision_ready_tx :: "'w Service \<Rightarrow> TenantID \<Rightarrow> Resource \<Rightarrow> Handle \<Rightarrow> string \<Rightarrow> Time \<Rightarrow> unit dbm" where
  "provision_ready_tx svc org r handle endpoint now = tx (
    bindM (Resources_GetForUpdate org (Res_ID r)) (\<lambda>locked.
    if Res_State locked \<noteq> ResourceProvisioning then ret ()
    else bindM (Resources_SetReady org (Res_ID r) handle endpoint) (\<lambda>_.
      bindM (systemEvent org (Res_SessionID r) EventKindResourceReady
        (eventPayload svc (locked\<lparr>Res_Handle := handle, Res_Endpoint := endpoint, Res_State := ResourceReady\<rparr>) [])) (\<lambda>_.
      EnqueueInTxAt (ReconcileJob org (Res_ID r)) (now + interval svc)))))"

text \<open>What \<open>Provision\<close> does once it has the handle, and once it has read a resource to provision.\<close>

definition provision_await :: "'w Service \<Rightarrow> TenantID \<Rightarrow> Resource \<Rightarrow> 'w ResourceProvider \<Rightarrow> ProviderInstance \<Rightarrow> Handle \<Rightarrow>
    (nat \<Rightarrow> nat \<times> bool) \<Rightarrow> ('w, unit) svcm" where
  "provision_await svc org r p instance handle pauses =
    bindM (on_db (Resources_SetHandle org (Res_ID r) handle)) (\<lambda>_.
    let r = r\<lparr>Res_Handle := handle\<rparr> in
    bindM (awaitHealthy svc p r (Prov_Capabilities instance) pauses) (\<lambda>x.
    case x of
      Inl AwaitDone \<Rightarrow> raise errDone
    | Inl AwaitTimeout \<Rightarrow>
        tryM (on_world (RP_Terminate p r)) (\<lambda>_. fail svc org r ''resource did not become healthy'')
    | Inr endpoint \<Rightarrow> bindM Now (\<lambda>now. on_db (provision_ready_tx svc org r handle endpoint now))))"

definition provision_from :: "'w Service \<Rightarrow> TenantID \<Rightarrow> Resource \<Rightarrow> (nat \<Rightarrow> nat \<times> bool) \<Rightarrow> ('w, unit) svcm" where
  "provision_from svc org r pauses =
    bindM (on_db (Resources_SetProvisioning org (Res_ID r))) (\<lambda>_.
    tryM (on_db (systemEvent org (Res_SessionID r) EventKindResourceProvisioning (eventPayload svc r []))) (\<lambda>_.
    tryM (providerFor svc org r) (\<lambda>x.
    case x of
      Inl e \<Rightarrow> fail svc org r (S_errText svc e)
    | Inr (p, instance) \<Rightarrow>
        bindM (clearToken svc r) (\<lambda>clear.
        tryM (acquire p r clear) (\<lambda>y.
        case y of
          Inl _ \<Rightarrow> fail svc org r ''resource provisioning failed''
        | Inr handle \<Rightarrow> provision_await svc org r p instance handle pauses)))))"

definition Provision :: "'w Service \<Rightarrow> TenantID \<Rightarrow> ResourceID \<Rightarrow> (nat \<Rightarrow> nat \<times> bool) \<Rightarrow> ('w, unit) svcm" where
  "Provision svc org rid pauses =
    bindM (on_db (Resources_Get org rid)) (\<lambda>r.
    if Res_State r = ResourceReady \<or> ResourceState_Terminal (Res_State r) then ret ()
    else provision_from svc org r pauses)"

definition restart_ready_tx :: "'w Service \<Rightarrow> TenantID \<Rightarrow> ResourceID \<Rightarrow> Handle \<Rightarrow> string \<Rightarrow> Time \<Rightarrow> unit dbm" where
  "restart_ready_tx svc org rid handle endpoint now = tx (
    bindM (Resources_GetForUpdate org rid) (\<lambda>locked.
    if ResourceState_Terminal (Res_State locked) then ret ()
    else bindM (Resources_SetReady org rid handle endpoint) (\<lambda>_.
      bindM (systemEvent org (Res_SessionID locked) EventKindResourceReady
        (eventPayload svc (locked\<lparr>Res_Handle := handle, Res_Endpoint := endpoint, Res_State := ResourceReady\<rparr>) ''restarted'')) (\<lambda>_.
      EnqueueInTxAt (ReconcileJob org rid) (now + interval svc)))))"

definition restart_with :: "'w Service \<Rightarrow> TenantID \<Rightarrow> Resource \<Rightarrow> 'w ResourceProvider \<Rightarrow> ProviderInstance \<Rightarrow> string \<Rightarrow>
    (nat \<Rightarrow> nat \<times> bool) \<Rightarrow> ('w, unit) svcm" where
  "restart_with svc org r p instance clear pauses =
    tryM (on_world (RP_Restart p r clear)) (\<lambda>y.
    case y of
      Inl _ \<Rightarrow> fail svc org r ''resource restart failed''
    | Inr handle \<Rightarrow>
        bindM (awaitHealthy svc p (r\<lparr>Res_Handle := handle\<rparr>) (Prov_Capabilities instance) pauses) (\<lambda>x.
        case x of
          Inl _ \<Rightarrow>
            tryM (on_world (RP_Terminate p (r\<lparr>Res_Handle := handle\<rparr>))) (\<lambda>_.
            fail svc org r ''resource did not become healthy after restart'')
        | Inr endpoint \<Rightarrow> bindM Now (\<lambda>now. on_db (restart_ready_tx svc org (Res_ID r) handle endpoint now))))"

definition Restart :: "'w Service \<Rightarrow> TenantID \<Rightarrow> ResourceID \<Rightarrow> string \<Rightarrow> (nat \<Rightarrow> nat \<times> bool) \<Rightarrow> ('w, unit) svcm" where
  "Restart svc org rid random pauses =
    bindM (on_db (Resources_Get org rid)) (\<lambda>r.
    if ResourceState_Terminal (Res_State r) then ret ()
    else tryM (providerFor svc org r) (\<lambda>x.
      case x of
        Inl e \<Rightarrow> fail svc org r (S_errText svc e)
      | Inr (p, instance) \<Rightarrow>
          (case newToken svc random of (clear, hash) \<Rightarrow>
           (case S_Encrypt svc clear of
              Inl e \<Rightarrow> raise e
            | Inr enc \<Rightarrow>
                bindM (register_secret clear) (\<lambda>_.
                bindM (on_db (Resources_RotateToken org rid hash enc)) (\<lambda>_.
                bindM (InvalidateToolClients rid) (\<lambda>_.
                restart_with svc org r p instance clear pauses)))))))"

definition suspend_tx :: "'w Service \<Rightarrow> TenantID \<Rightarrow> Resource \<Rightarrow> string \<Rightarrow> unit dbm" where
  "suspend_tx svc org r message = tx (
    bindM (Resources_GetForUpdate org (Res_ID r)) (\<lambda>locked.
    if Res_State locked \<noteq> ResourceReady then ret ()
    else bindM (Resources_SetSuspended org (Res_ID r) message) (\<lambda>_.
      bindM (systemEvent org (Res_SessionID r) EventKindResourceSuspended
        (eventPayload svc (r\<lparr>Res_State := ResourceSuspended\<rparr>) message)) (\<lambda>_.
      ret ()))))"

definition suspend :: "'w Service \<Rightarrow> TenantID \<Rightarrow> Resource \<Rightarrow> string \<Rightarrow> ('w, unit) svcm" where
  "suspend svc org r message =
    bindM (InvalidateToolClients (Res_ID r)) (\<lambda>_.
    bindM (on_db (suspend_tx svc org r (if message = [] then ''the resource host is unreachable'' else message))) (\<lambda>_.
    rearmReconcile svc org (Res_ID r)))"

text \<open>Whether a resource answers: the provider says ready and, where tools are served, so does its endpoint.\<close>

definition still_healthy :: "'w Service \<Rightarrow> ProviderInstance \<Rightarrow> Resource \<Rightarrow> Err + ResourceStatus \<Rightarrow> ('w, bool) svcm" where
  "still_healthy svc instance r st =
    (let healthy = (case st of Inl _ \<Rightarrow> False | Inr status \<Rightarrow> St_State status = ResourceReady) in
     if healthy \<and> Has (Prov_Capabilities instance) CapabilityServesToolEndpoint \<and> Res_Endpoint r \<noteq> []
     then healthy_at svc (Res_Endpoint r) else ret healthy)"

definition resume_tx :: "'w Service \<Rightarrow> TenantID \<Rightarrow> Resource \<Rightarrow> Time \<Rightarrow> unit dbm" where
  "resume_tx svc org r now = tx (
    bindM (Resources_GetForUpdate org (Res_ID r)) (\<lambda>locked.
    if Res_State locked \<noteq> ResourceSuspended then ret ()
    else bindM (Resources_SetReady org (Res_ID r) (Res_Handle locked) (Res_Endpoint locked)) (\<lambda>_.
      bindM (systemEvent org (Res_SessionID r) EventKindResourceReady
        (eventPayload svc (locked\<lparr>Res_State := ResourceReady\<rparr>) ''resumed'')) (\<lambda>_.
      EnqueueInTxAt (ReconcileJob org (Res_ID r)) (now + interval svc)))))"

definition reconcileSuspended :: "'w Service \<Rightarrow> TenantID \<Rightarrow> Resource \<Rightarrow> ('w, unit) svcm" where
  "reconcileSuspended svc org r =
    tryM (providerFor svc org r) (\<lambda>x.
    case x of
      Inl _ \<Rightarrow> rearmReconcile svc org (Res_ID r)
    | Inr (p, instance) \<Rightarrow>
        tryM (on_world (RP_Status p r)) (\<lambda>st.
        bindM (still_healthy svc instance r st) (\<lambda>healthy.
        if \<not> healthy then
          (case st of
             Inr status \<Rightarrow>
               if ResourceState_Terminal (St_State status) then fail svc org r ''resource is no longer healthy''
               else rearmReconcile svc org (Res_ID r)
           | Inl _ \<Rightarrow> rearmReconcile svc org (Res_ID r))
        else bindM Now (\<lambda>now. on_db (resume_tx svc org r now)))))"

definition terminated_tx :: "'w Service \<Rightarrow> TenantID \<Rightarrow> Resource \<Rightarrow> unit dbm" where
  "terminated_tx svc org r = tx (
    bindM (Resources_SetTerminated org (Res_ID r)) (\<lambda>_.
    bindM (systemEvent org (Res_SessionID r) EventKindResourceTerminated (eventPayload svc r [])) (\<lambda>_.
    ret ())))"

definition Terminate :: "'w Service \<Rightarrow> TenantID \<Rightarrow> ResourceID \<Rightarrow> ('w, unit) svcm" where
  "Terminate svc org rid =
    bindM (on_db (Resources_Get org rid)) (\<lambda>r.
    if Res_State r = ResourceTerminated then ret ()
    else bindM (providerFor svc org r) (\<lambda>x.
      case x of (p, instance) \<Rightarrow>
        bindM (InvalidateToolClients rid) (\<lambda>_.
        bindM (if HandlePresent (Res_Handle r) then on_world (RP_Terminate p r) else ret ()) (\<lambda>_.
        on_db (terminated_tx svc org r)))))"

definition redrive_tx :: "TenantID \<Rightarrow> ResourceID \<Rightarrow> Duration \<Rightarrow> unit dbm" where
  "redrive_tx org rid timeout = tx (
    bindM (Resources_GetForUpdate org rid) (\<lambda>locked.
    if Res_State locked \<noteq> ResourceRequested \<and> Res_State locked \<noteq> ResourceProvisioning then ret ()
    else bindM (EnqueueInTx (ProvisionJob org rid)) (\<lambda>_.
      bindM (gets db_now) (\<lambda>now.
      EnqueueInTxAt (ReconcileJob org rid) (now + timeout)))))"

definition recoverProvisioning :: "'w Service \<Rightarrow> TenantID \<Rightarrow> Resource \<Rightarrow> ('w, unit) svcm" where
  "recoverProvisioning svc org r =
    (let timeout = provisionTimeout svc in
     bindM Now (\<lambda>now.
     let stalled = now - Res_UpdatedAt r in
     if stalled < timeout then on_db (rearm_tx org (Res_ID r) timeout)
     else if stalled > 10 * timeout then fail svc org r ''resource provisioning did not converge''
     else on_db (redrive_tx org (Res_ID r) timeout)))"

definition observed_tx :: "'w Service \<Rightarrow> TenantID \<Rightarrow> Resource \<Rightarrow> Time \<Rightarrow> unit dbm" where
  "observed_tx svc org r now = tx (
    bindM (Resources_GetForUpdate org (Res_ID r)) (\<lambda>locked.
    if Res_State locked \<noteq> ResourceReady then ret ()
    else tryM (Providers_MarkHealthy org (Res_ProviderInstanceID r)) (\<lambda>_.
      EnqueueInTxAt (ReconcileJob org (Res_ID r)) (now + interval svc))))"

definition reconcileReady :: "'w Service \<Rightarrow> TenantID \<Rightarrow> Resource \<Rightarrow> ('w, unit) svcm" where
  "reconcileReady svc org r =
    bindM (providerFor svc org r) (\<lambda>x.
    case x of (p, instance) \<Rightarrow>
      tryM (on_world (RP_Status p r)) (\<lambda>st.
      if (case st of Inl _ \<Rightarrow> False | Inr status \<Rightarrow> St_State status = ResourceSuspended)
      then suspend svc org r (case st of Inl _ \<Rightarrow> [] | Inr status \<Rightarrow> St_Message status)
      else bindM (still_healthy svc instance r st) (\<lambda>healthy.
        if \<not> healthy then fail svc org r ''resource is no longer healthy''
        else bindM Now (\<lambda>now. on_db (observed_tx svc org r now)))))"

definition Reconcile :: "'w Service \<Rightarrow> TenantID \<Rightarrow> ResourceID \<Rightarrow> ('w, unit) svcm" where
  "Reconcile svc org rid =
    tryM (on_db (Resources_Get org rid)) (\<lambda>x.
    case x of
      Inl e \<Rightarrow> if e = ErrNotFound then ret () else raise e
    | Inr r \<Rightarrow>
        if Res_State r = ResourceRequested \<or> Res_State r = ResourceProvisioning then recoverProvisioning svc org r
        else if Res_State r = ResourceSuspended then reconcileSuspended svc org r
        else if Res_State r \<noteq> ResourceReady then ret ()
        else reconcileReady svc org r)"

section \<open>Tools\<close>

definition ToolClient :: "'w Service \<Rightarrow> string option \<Rightarrow> Resource \<Rightarrow> ('w, nat) svcm" where
  "ToolClient svc ctx r =
    bindM (clearToken svc r) (\<lambda>clear.
    bindM (on_cache (Cache_Client (Res_ID r) (Res_Epoch r) (Res_Endpoint r) clear)) (\<lambda>client.
    bindM (on_cache (Initialize (S_http svc) ctx client)) (\<lambda>_.
    ret client)))"

definition Exec :: "'w Service \<Rightarrow> string option \<Rightarrow> TenantID \<Rightarrow> ResourceID \<Rightarrow> string \<Rightarrow> string \<Rightarrow> ('w, mcp_result) svcm" where
  "Exec svc ctx org rid name args =
    bindM (on_db (Resources_Get org rid)) (\<lambda>r.
    if Res_State r \<noteq> ResourceReady then raise (ErrOther ''resource is not ready'')
    else bindM (ToolClient svc ctx r) (\<lambda>client.
      on_cache (Call (S_http svc) (S_validJSON svc) ctx client name args)))"

end
