(* ===== verification/Resource_Paths.thy ===== *)
theory Resource_Paths
  imports Resource_Work Executions
begin

text \<open>
  What the resource lifecycle does to the database: the contract of the store calls it makes,
  as an interface, and every worker and request as a client of it. One instance shows that
  each of them is a sequence of transactions of the system, so that whatever holds of all
  reachable states also holds with resources in play; another that none of them touches the
  resources of another tenant.
\<close>

section \<open>Weakest preconditions\<close>

lemma wp_on_db [wp_simps]:
  "wp (on_db m) Q E s = (if Svc_done s then E errDone s
    else wp m (\<lambda>a d. Q a (s\<lparr>Svc_db := d\<rparr>)) (\<lambda>e d. E e (s\<lparr>Svc_db := d\<rparr>)) (Svc_db s))"
  by (simp add: wp_def on_db_def split: prod.split sum.split)

lemma wp_on_cache [wp_simps]:
  "wp (on_cache m) Q E s =
    wp m (\<lambda>a c. Q a (s\<lparr>Svc_cache := c\<rparr>)) (\<lambda>e c. E (ErrOther ''mcp'') (s\<lparr>Svc_cache := c\<rparr>)) (Svc_cache s)"
  by (simp add: wp_def on_cache_def split: prod.split sum.split)

lemma wp_Now [wp_simps]: "wp Now Q E s = Q (db_now (Svc_db s)) s"
  by (simp add: Now_def wp_simps)

lemma wp_register_secret [wp_simps]:
  "wp (register_secret c) Q E s = Q () (s\<lparr>Svc_redactor := Register [c] (Svc_redactor s)\<rparr>)"
  by (simp add: register_secret_def wp_simps)

text \<open>Waiting for health only lets time pass.\<close>

lemma await_loop_keeps:
  assumes "\<And>d now'. I d \<Longrightarrow> db_now d \<le> now' \<Longrightarrow> I (d\<lparr>db_now := now'\<rparr>)"
  shows "I (Svc_db s) \<Longrightarrow> I (Svc_db (snd (await_loop svc p r b deadline pauses k s)))"
proof (induction svc p r b deadline pauses k s rule: await_loop.induct)
  case (1 svc p r b deadline pauses k s)
  show ?case
  proof (cases "db_now (Svc_db s) < deadline")
    case True
    obtain x s1 where poll: "poll_healthy svc p r b s = (x, s1)" by (cases "poll_healthy svc p r b s")
    then have s1: "Svc_db s1 = Svc_db s" using world_onlyD [OF world_only_poll, of svc p r b s] by auto
    have on: "I (Svc_db (pass_time n s1))" for n
      using assms [of "Svc_db s1" "db_now (Svc_db s1) + 200000000 + int n"] 1(3) s1 by (simp add: pass_time_def)
    show ?thesis
      using 1(1) [OF _ poll [symmetric]] 1(2) [OF _ poll [symmetric]] True on 1(3) s1
      by (subst await_loop.simps) (auto simp: poll split: sum.split option.split)
  qed (use 1(3) in \<open>simp add: await_loop.simps\<close>)
qed

section \<open>The interface of the lifecycle to the store\<close>

text \<open>
  \<open>I\<close> is a property of the database and \<open>T\<close> the tenants that the callers act for. Time only
  moves forward.
\<close>

locale resource_frame =
  fixes I :: "db \<Rightarrow> bool" and T :: "TenantID \<Rightarrow> bool"
  assumes Append: "T t \<Longrightarrow> preserves I (Events_Append t sid a k p)"
    and Create: "T t \<Longrightarrow> preserves I (Resources_Create t r)"
    and SetProvisioning: "T t \<Longrightarrow> preserves I (Resources_SetProvisioning t rid)"
    and SetHandle: "T t \<Longrightarrow> preserves I (Resources_SetHandle t rid h)"
    and SetReady: "T t \<Longrightarrow> preserves I (Resources_SetReady t rid h e)"
    and SetFailed: "T t \<Longrightarrow> preserves I (Resources_SetFailed t rid msg)"
    and SetTerminating: "T t \<Longrightarrow> preserves I (Resources_SetTerminating t rid)"
    and SetTerminated: "T t \<Longrightarrow> preserves I (Resources_SetTerminated t rid)"
    and RotateToken: "T t \<Longrightarrow> preserves I (Resources_RotateToken t rid hash enc)"
    and SetSuspended: "T t \<Longrightarrow> preserves I (Resources_SetSuspended t rid msg)"
    and MarkHealthy: "T t \<Longrightarrow> preserves I (Providers_MarkHealthy t pid)"
    and Enqueue: "\<not> is_StepJob job \<Longrightarrow> preserves I (EnqueueInTx job)"
    and EnqueueAt: "\<not> is_StepJob job \<Longrightarrow> preserves I (EnqueueInTxAt job at)"
    and later: "I d \<Longrightarrow> db_now d \<le> now' \<Longrightarrow> I (d\<lparr>db_now := now'\<rparr>)"
begin

abbreviation holds :: "'w svc \<Rightarrow> bool" where
  "holds s \<equiv> I (Svc_db s)"

lemma reads_pres:
  "preserves I (Resources_Get t rid)" "preserves I (Resources_GetForUpdate t rid)"
  "preserves I (Providers_Get t pid)" "preserves I (Providers_GetByName t name)"
  unfolding Resources_Get_def Resources_GetForUpdate_def Providers_Get_def Providers_GetByName_def by (rule preserves_find_row)+

lemma jobs_pres:
  "preserves I (EnqueueInTx (ProvisionJob t rid))" "preserves I (EnqueueInTx (TerminateJob t rid))"
  "preserves I (EnqueueInTx (RestartJob t rid))" "preserves I (EnqueueInTxAt (ReconcileJob t rid) at)"
  by (simp_all add: Enqueue EnqueueAt)

lemmas store_pres = Append Create SetProvisioning SetHandle SetReady SetFailed SetTerminating SetTerminated RotateToken
  SetSuspended MarkHealthy reads_pres jobs_pres

lemma on_db_pres: "preserves I m \<Longrightarrow> preserves holds (on_db m)"
  by (auto simp: preserves_wp wp_simps intro: wp_mono)

lemma aside_pres:
  "preserves holds (on_world h)" "preserves holds (on_cache c)" "preserves holds (register_secret x)" "preserves holds Now"
  "preserves holds (healthy_at svc e)"
  by (auto simp: preserves_def on_world_def on_cache_def register_secret_def Now_def healthy_at_def modifyM_def gets_def
      split: prod.split sum.split)

lemma await_loop_pres: "I (Svc_db s) \<Longrightarrow> I (Svc_db (snd (await_loop svc p r b deadline pauses k s)))"
  by (rule await_loop_keeps) (auto intro: later)

lemma awaitHealthy_pres: "preserves holds (awaitHealthy (svc :: 'w Service) p r caps pauses)"
  unfolding preserves_def
proof (intro allI impI)
  fix s :: "'w svc" assume "holds s"
  then show "holds (snd (awaitHealthy svc p r caps pauses s))"
    using await_loop_pres [of s svc p r "Has caps CapabilityServesToolEndpoint" "db_now (Svc_db s) + provisionTimeout svc" pauses 0]
    by (simp add: awaitHealthy_def bindM_def Now_def gets_def case_prod_beta)
qed

text \<open>The transactions.\<close>

lemma resource_txs_pres:
  assumes "T org"
  shows "preserves I (request_tx svc org r)" "preserves I (RequestTerminate svc org rid)" "preserves I (RequestRestart svc org rid)"
    "preserves I (fail_tx svc org r msg)" "preserves I (rearm_tx org rid delay)"
    "preserves I (provision_ready_tx svc org r h e now)" "preserves I (restart_ready_tx svc org rid h e now)"
    "preserves I (suspend_tx svc org r msg)" "preserves I (resume_tx svc org r now)" "preserves I (terminated_tx svc org r)"
    "preserves I (redrive_tx org rid delay)" "preserves I (observed_tx svc org r now)"
  unfolding request_tx_def RequestTerminate_def RequestRestart_def fail_tx_def rearm_tx_def provision_ready_tx_def
    restart_ready_tx_def suspend_tx_def resume_tx_def terminated_tx_def redrive_tx_def observed_tx_def
  by (intro pres_intros store_pres assms)+

lemmas worker_parts = aside_pres on_db_pres awaitHealthy_pres resource_txs_pres store_pres

lemma helpers_pres:
  assumes "T org"
  shows "preserves holds (providerFor svc org r)" "preserves holds (clearToken svc r)" "preserves holds (acquire p r c)"
    "preserves holds (InvalidateToolClients rid)" "preserves holds (fail svc org r msg)"
    "preserves holds (rearmReconcile svc org rid)" "preserves holds (still_healthy svc instance r st)"
    "preserves holds (suspend svc org r msg)"
  unfolding providerFor_def clearToken_def acquire_def InvalidateToolClients_def fail_def rearmReconcile_def still_healthy_def
    suspend_def Let_def
  by (intro pres_intros worker_parts assms)+

lemma workers_pres:
  assumes "T org"
  shows "preserves holds (Request svc org sid kind spec name by random newID)"
    "preserves holds (Provision svc org rid pauses)" "preserves holds (Restart svc org rid random pauses)"
    "preserves holds (Terminate svc org rid)" "preserves holds (Reconcile svc org rid)"
    "preserves holds (Exec svc ctx org rid tool args)"
  unfolding Request_def Provision_def provision_from_def provision_await_def Restart_def restart_with_def Terminate_def
    Reconcile_def recoverProvisioning_def reconcileSuspended_def reconcileReady_def Exec_def ToolClient_def Let_def
  by (auto intro!: pres_intros worker_parts helpers_pres assms split: sum.split await_error.split option.split prod.split)

end

section \<open>The store keeps the contract\<close>

text \<open>A write to the tables of resources and providers is a write aside of everything else.\<close>

lemma aside_writes:
  assumes "\<And>rs ps pp. preserves I (aside rs ps pp)"
  shows "preserves I (modifyM (\<lambda>d. d\<lparr>resources := f d\<rparr>) :: unit dbm)" "preserves I (modifyM (\<lambda>d. d\<lparr>provider_instances := g d\<rparr>) :: unit dbm)"
    "preserves I (modifyM (\<lambda>d. d\<lparr>periodic_prompts := h d\<rparr>) :: unit dbm)"
  using assms [of f provider_instances periodic_prompts] assms [of resources g periodic_prompts]
    assms [of resources provider_instances h]
  by (simp_all add: aside_def)

lemma aside_calls:
  assumes "\<And>rs ps pp. preserves I (aside rs ps pp)"
  shows "preserves I (Resources_Create t r)" "preserves I (Resources_update t rid f)"
    "preserves I (Resources_SetSuspended t rid msg)" "preserves I (Providers_MarkHealthy t pid)"
    "preserves I (Providers_Create t p)" "preserves I (Providers_Delete t pid)"
    "preserves I (Periodic_Create t q)" "preserves I (Periodic_SetEnabled t qid v)" "preserves I (Periodic_SetNext t qid at)"
  unfolding Resources_Create_def Resources_update_def Resources_SetSuspended_def Providers_MarkHealthy_def Let_def
    Providers_Create_def Providers_Delete_def Periodic_Create_def Periodic_SetEnabled_def Periodic_SetNext_def Resources_Get_def
  by (intro pres_intros aside_writes assms)+

sublocale store_frame \<subseteq> life: resource_frame I T
proof
  show "preserves I (EnqueueInTx job)" "preserves I (EnqueueInTxAt job at)" if "\<not> is_StepJob job" for job "at"
    using that by (rule EnqueueOther, rule EnqueueOtherAt)
qed (simp_all add: resource_writes Append aside_calls Aside tick)

section \<open>Workers are paths of the system\<close>

lemma onward_resources:
  "preserves (onward sha d0 job run) (aside rs ps pp)"
  "\<not> is_StepJob j \<Longrightarrow> preserves (onward sha d0 job run) (EnqueueInTx j)"
  "\<not> is_StepJob j \<Longrightarrow> preserves (onward sha d0 job run) (EnqueueInTxAt j at)"
  by (rule onward_step, erule sys_step.intros | rule onward_step, rule sys_step.intros)+

interpretation onward_life: resource_frame "onward sha d0 job run" "\<lambda>_. True" for sha d0 job run
proof
  fix d now' assume "onward sha d0 job run d" "db_now d \<le> now'"
  then show "onward sha d0 job run (d\<lparr>db_now := now'\<rparr>)"
    using sys_step.tick [of d now' sha] known_step [of job run d sha] rtranclp.rtrancl_into_rtrancl [of "sys_step sha" d0 d]
    by (auto simp: onward_def)
qed (auto simp: resource_writes intro: onward_free onward_resources aside_calls)

lemma workers_path:
  assumes "preserves (\<lambda>s. onward sha (Svc_db s0) None None (Svc_db s)) m"
  shows "sys_path sha (Svc_db s0) (Svc_db (snd (m s0)))"
  using preservesD [OF assms, of s0] by (simp add: onward_def known_def)

section \<open>The resources of other tenants\<close>

definition resources_of :: "TenantID \<Rightarrow> db \<Rightarrow> Resource list" where
  "resources_of u d = filter (\<lambda>r. Res_TenantID r = u) (resources d)"

lemma resources_of_frame [simp]:
  "resources_of u (d\<lparr>db_now := x1\<rparr>) = resources_of u d" "resources_of u (d\<lparr>jobs := x2\<rparr>) = resources_of u d"
  "resources_of u (d\<lparr>provider_instances := x3\<rparr>) = resources_of u d"
  "resources_of u (logged d t sid a k p n) = resources_of u d"
  by (simp_all add: resources_of_def logged_def)

lemma resources_of_update:
  assumes "t \<noteq> u" "\<And>r. Res_TenantID (f r) = Res_TenantID r" "\<And>r. p r \<Longrightarrow> Res_TenantID r = t"
  shows "resources_of u (d\<lparr>resources := upd_where p f (resources d)\<rparr>) = resources_of u d"
proof -
  have "filter (\<lambda>r. Res_TenantID r = u) (upd_where p f rs) = filter (\<lambda>r. Res_TenantID r = u) rs" for rs
    using assms by (induction rs) auto
  then show ?thesis by (simp add: resources_of_def)
qed

lemma apart_update:
  "t \<noteq> u \<Longrightarrow> (\<And>now r. Res_TenantID (f now r) = Res_TenantID r) \<Longrightarrow>
    preserves (\<lambda>d. resources_of u d = v) (Resources_update t rid f)"
  by (intro preservesI) (simp add: wp_simps resources_of_update)

interpretation apart_life: resource_frame "\<lambda>d. resources_of u d = v" "\<lambda>t. t \<noteq> u" for u v
proof
  fix t sid a k p assume "t \<noteq> u"
  show "preserves (\<lambda>d. resources_of u d = v) (Events_Append t sid a k p)"
    by (rule preservesI) (auto simp: wp_simps split: option.split)
next
  fix t r assume "t \<noteq> u"
  then show "preserves (\<lambda>d. resources_of u d = v) (Resources_Create t r)"
    by (intro preservesI) (auto simp: Resources_Create_def wp_simps resources_of_def created_resource_def split: option.split)
next
  fix t rid msg assume "t \<noteq> u"
  then show "preserves (\<lambda>d. resources_of u d = v) (Resources_SetSuspended t rid msg)"
    by (intro preservesI) (simp add: Resources_SetSuspended_def Let_def wp_simps resources_of_update split: option.split)
next
  show "preserves (\<lambda>d. resources_of u d = v) (Providers_MarkHealthy t pid)" for t pid
    by (rule preservesI) (simp add: Providers_MarkHealthy_def wp_simps)
  show "preserves (\<lambda>d. resources_of u d = v) (EnqueueInTx job)" "preserves (\<lambda>d. resources_of u d = v) (EnqueueInTxAt job at)" for job "at"
    by (rule preservesI, simp add: wp_simps)+
qed (simp_all add: resource_writes apart_update)

section \<open>The shape of resource rows\<close>

text \<open>
  What the columns of a row promise its readers: an epoch and a kind, a stored handle, the time
  of readiness of a resource that is ready or suspended, no failure message on a ready one,
  and the time of the end of a finished one.
\<close>

definition resource_typed :: "Resource \<Rightarrow> bool" where
  "resource_typed r \<longleftrightarrow>
    Res_Epoch r \<ge> 1 \<and> Res_Kind r \<noteq> [] \<and> Res_Spec r \<noteq> [] \<and> Res_Handle r \<noteq> NoHandle \<and>
    (Res_State r = ResourceReady \<or> Res_State r = ResourceSuspended \<longrightarrow> Res_ReadyAt r \<noteq> None) \<and>
    (Res_State r = ResourceReady \<longrightarrow> Res_FailureMessage r = []) \<and>
    (ResourceState_Terminal (Res_State r) \<longrightarrow> Res_TerminatedAt r \<noteq> None)"

definition resources_typed :: "db \<Rightarrow> bool" where
  "resources_typed d = list_all resource_typed (resources d)"

lemma resources_typed_frame [simp]:
  "resources_typed (d\<lparr>db_now := x1\<rparr>) = resources_typed d" "resources_typed (d\<lparr>jobs := x2\<rparr>) = resources_typed d"
  "resources_typed (d\<lparr>provider_instances := x3\<rparr>) = resources_typed d"
  "resources_typed (logged d t sid a k p n) = resources_typed d"
  by (simp_all add: resources_typed_def logged_def)

lemma typed_update:
  "(\<And>now r. resource_typed r \<Longrightarrow> resource_typed (f now r)) \<Longrightarrow> preserves resources_typed (Resources_update t rid f)"
  by (intro preservesI) (auto simp: wp_simps resources_typed_def list_all_iff set_upd_where)

interpretation typed_life: resource_frame resources_typed "\<lambda>_. True"
proof
  show "preserves resources_typed (Resources_Create t r)" for t r
    by (rule preservesI) (auto simp: Resources_Create_def wp_simps resources_typed_def resource_typed_def created_resource_def
        split: option.split)
  show "preserves resources_typed (Resources_SetSuspended t rid msg)" for t rid msg
    by (rule preservesI)
      (auto simp: Resources_SetSuspended_def Let_def wp_simps resources_typed_def list_all_iff set_upd_where resource_typed_def
        split: option.split)
  show "preserves resources_typed (Providers_MarkHealthy t pid)" for t pid
    by (rule preservesI) (simp add: Providers_MarkHealthy_def wp_simps)
  show "preserves resources_typed (Events_Append t sid a k p)" for t sid a k p
    by (rule preservesI) (auto simp: wp_simps split: option.split)
  show "preserves resources_typed (EnqueueInTx job)" "preserves resources_typed (EnqueueInTxAt job at)" for job "at"
    by (rule preservesI, simp add: wp_simps)+
qed (auto simp: resource_writes resource_typed_def stored_handle_def intro!: typed_update split: option.split)

end
