(* ===== verification/Resource_Life.thy ===== *)
theory Resource_Life
  imports Resource_Paths
begin

text \<open>
  What an acknowledged job of the resource lifecycle has achieved: a reconciled resource stays
  under observation or is failed, a provisioned one is ready and observed, or failed; a
  restart cuts every holder of the old token off; and interrupted provisionings never leave
  two objects at a provider that adopts.
\<close>

section \<open>Outcomes in the database\<close>

definition res_in_state :: "TenantID \<Rightarrow> ResourceID \<Rightarrow> ResourceState set \<Rightarrow> db \<Rightarrow> bool" where
  "res_in_state org rid S d \<longleftrightarrow> (\<exists>r. find (resource_in org rid) (resources d) = Some r \<and> Res_State r \<in> S)"

text \<open>A reconcile job that was not in the queue before.\<close>

definition armed :: "QueuedJob list \<Rightarrow> TenantID \<Rightarrow> ResourceID \<Rightarrow> db \<Rightarrow> bool" where
  "armed js org rid d \<longleftrightarrow>
    (\<exists>at. \<lparr>Job_Args = ReconcileJob org rid, Job_ScheduledAt = Some at\<rparr> \<in> set (drop (length js) (jobs d)))"

lemma armed_snoc: "jobs d = js \<Longrightarrow>
    armed js org rid (d\<lparr>jobs := js @ [\<lparr>Job_Args = ReconcileJob org rid, Job_ScheduledAt = Some at\<rparr>]\<rparr>)"
  by (auto simp: armed_def)

lemma res_in_state_frame [simp]:
  "res_in_state org rid S (logged d t sid a k p n) = res_in_state org rid S d" "res_in_state org rid S (d\<lparr>jobs := x\<rparr>) = res_in_state org rid S d"
  "res_in_state org rid S (d\<lparr>provider_instances := y\<rparr>) = res_in_state org rid S d"
  by (simp_all add: res_in_state_def logged_def)

lemma jobs_logged [simp]: "jobs (logged d t sid a k p n) = jobs d" "resources (logged d t sid a k p n) = resources d"
  by (simp_all add: logged_def)

lemma res_in_state_update:
  assumes "find (resource_in org rid) (resources d) = Some r" "Res_State (f r) \<in> S"
    "\<And>r. Res_ID (f r) = Res_ID r" "\<And>r. Res_TenantID (f r) = Res_TenantID r"
  shows "res_in_state org rid S (d\<lparr>resources := upd_where (resource_in org rid) f (resources d)\<rparr>)"
  using assms find_SomeD [OF assms(1)] by (simp add: res_in_state_def find_upd_where)

lemma fail_fails: "wp (fail_tx svc org r msg) (\<lambda>_. res_in_state org (Res_ID r) {ResourceFailed}) (\<lambda>_ _. True) d"
  by (auto simp: fail_tx_def wp_simps resource_writes split: option.split intro!: res_in_state_update)

lemma rearm_arms: "wp (rearm_tx org rid delay) (\<lambda>_. armed (jobs d) org rid) (\<lambda>_ _. True) d"
  by (simp add: rearm_tx_def wp_simps armed_snoc)

text \<open>What the last transactions do to a resource in the state they expect.\<close>

lemma ready_txs:
  assumes "find (resource_in org rid) (resources d) = Some r" "Res_ID r0 = rid"
  shows "Res_State r = ResourceProvisioning \<Longrightarrow>
      wp (provision_ready_tx svc org r0 h e now) (\<lambda>_ d'. res_in_state org rid {ResourceReady} d' \<and> armed (jobs d) org rid d') (\<lambda>_ _. True) d"
    "\<not> ResourceState_Terminal (Res_State r) \<Longrightarrow>
      wp (restart_ready_tx svc org rid h e now) (\<lambda>_ d'. res_in_state org rid {ResourceReady} d' \<and> armed (jobs d) org rid d') (\<lambda>_ _. True) d"
    "Res_State r = ResourceSuspended \<Longrightarrow>
      wp (resume_tx svc org r0 now) (\<lambda>_ d'. res_in_state org rid {ResourceReady} d' \<and> armed (jobs d) org rid d') (\<lambda>_ _. True) d"
    "Res_State r = ResourceReady \<Longrightarrow> wp (observed_tx svc org r0 now) (\<lambda>_. armed (jobs d) org rid) (\<lambda>_ _. True) d"
    "Res_State r = ResourceRequested \<or> Res_State r = ResourceProvisioning \<Longrightarrow>
      wp (redrive_tx org rid delay) (\<lambda>_. armed (jobs d) org rid) (\<lambda>_ _. True) d"
proof -
  show "Res_State r = ResourceProvisioning \<Longrightarrow>
      wp (provision_ready_tx svc org r0 h e now) (\<lambda>_ d'. res_in_state org rid {ResourceReady} d' \<and> armed (jobs d) org rid d') (\<lambda>_ _. True) d"
    using assms
    by (auto simp: provision_ready_tx_def wp_simps resource_writes armed_def split: option.split intro!: res_in_state_update)
  show "\<not> ResourceState_Terminal (Res_State r) \<Longrightarrow>
      wp (restart_ready_tx svc org rid h e now) (\<lambda>_ d'. res_in_state org rid {ResourceReady} d' \<and> armed (jobs d) org rid d') (\<lambda>_ _. True) d"
    using assms
    by (auto simp: restart_ready_tx_def wp_simps resource_writes armed_def split: option.split intro!: res_in_state_update)
  show "Res_State r = ResourceSuspended \<Longrightarrow>
      wp (resume_tx svc org r0 now) (\<lambda>_ d'. res_in_state org rid {ResourceReady} d' \<and> armed (jobs d) org rid d') (\<lambda>_ _. True) d"
    using assms
    by (auto simp: resume_tx_def wp_simps resource_writes armed_def split: option.split intro!: res_in_state_update)
  show "Res_State r = ResourceReady \<Longrightarrow> wp (observed_tx svc org r0 now) (\<lambda>_. armed (jobs d) org rid) (\<lambda>_ _. True) d"
    using assms by (auto simp: observed_tx_def Providers_MarkHealthy_def wp_simps armed_def)
  show "Res_State r = ResourceRequested \<or> Res_State r = ResourceProvisioning \<Longrightarrow>
      wp (redrive_tx org rid delay) (\<lambda>_. armed (jobs d) org rid) (\<lambda>_ _. True) d"
    using assms by (auto simp: redrive_tx_def wp_simps armed_def)
qed

section \<open>Calls that leave the rows and the queue alone\<close>

definition idle :: "('w, 'a) svcm \<Rightarrow> bool" where
  "idle m \<longleftrightarrow> (\<forall>rs js. preserves (\<lambda>s. resources (Svc_db s) = rs \<and> jobs (Svc_db s) = js) m)"

lemma wp_idle:
  assumes "idle m"
    "\<And>a s'. resources (Svc_db s') = resources (Svc_db s) \<Longrightarrow> jobs (Svc_db s') = jobs (Svc_db s) \<Longrightarrow> Q a s'"
    "\<And>e s'. resources (Svc_db s') = resources (Svc_db s) \<Longrightarrow> jobs (Svc_db s') = jobs (Svc_db s) \<Longrightarrow> E e s'"
  shows "wp m Q E s"
proof -
  have "wp m (\<lambda>_ s'. resources (Svc_db s') = resources (Svc_db s) \<and> jobs (Svc_db s') = jobs (Svc_db s))
      (\<lambda>_ s'. resources (Svc_db s') = resources (Svc_db s) \<and> jobs (Svc_db s') = jobs (Svc_db s)) s"
    using assms(1) by (simp add: idle_def preserves_wp)
  then show ?thesis by (rule wp_mono) (use assms(2,3) in auto)
qed

lemma idle_parts:
  "idle (on_world h)" "idle (on_cache c)" "idle (register_secret x)" "idle Now" "idle (healthy_at svc e)" "idle (ret a)" "idle (raise er)"
  by (auto simp: idle_def preserves_def on_world_def on_cache_def register_secret_def Now_def healthy_at_def modifyM_def gets_def
      ret_def raise_def split: prod.split sum.split)

lemma idle_bind: "idle m \<Longrightarrow> (\<And>a. idle (f a)) \<Longrightarrow> idle (bindM m f)"
  by (simp add: idle_def preserves_bindM)

lemma idle_helpers:
  "idle (providerFor svc org r)" "idle (clearToken svc r)" "idle (acquire p r c)" "idle (InvalidateToolClients rid)"
  "idle (still_healthy svc instance r st)"
proof -
  have "idle (on_db (Providers_Get org pid))" for pid
    by (simp add: idle_def preserves_wp wp_simps split: option.split)
  then show "idle (providerFor svc org r)"
    unfolding providerFor_def by (intro idle_bind) (auto intro: idle_parts split: option.split sum.split)
  show "idle (clearToken svc r)" "idle (acquire p r c)" "idle (InvalidateToolClients rid)" "idle (still_healthy svc instance r st)"
    unfolding clearToken_def acquire_def InvalidateToolClients_def still_healthy_def Let_def
    by (auto intro!: idle_bind idle_parts split: option.split sum.split)
qed

lemma wp_fail: "wp (fail svc org r msg) (\<lambda>_ s'. res_in_state org (Res_ID r) {ResourceFailed} (Svc_db s')) (\<lambda>_ _. True) s"
  unfolding fail_def wp_simps
  by (rule wp_idle [OF idle_helpers(4)]) (auto simp: wp_simps intro: wp_mono [OF fail_fails])

lemma wp_rearm: "jobs (Svc_db s) = js \<Longrightarrow> wp (rearmReconcile svc org rid) (\<lambda>_ s'. armed js org rid (Svc_db s')) (\<lambda>_ _. True) s"
  unfolding rearmReconcile_def wp_simps by (auto intro: wp_mono [OF rearm_arms])

section \<open>A reconciled resource stays observed\<close>

abbreviation watched :: "QueuedJob list \<Rightarrow> TenantID \<Rightarrow> ResourceID \<Rightarrow> db \<Rightarrow> bool" where
  "watched js org rid d \<equiv> armed js org rid d \<or> res_in_state org rid {ResourceFailed} d"

lemma wp_fail_watched:
  "Res_ID r = rid \<Longrightarrow> wp (fail svc org r msg) (\<lambda>_ s'. watched js org rid (Svc_db s')) (\<lambda>_ _. True) s"
  by (rule wp_mono [OF wp_fail]) auto

lemma wp_rearm_watched:
  "jobs (Svc_db s) = js \<Longrightarrow> wp (rearmReconcile svc org rid) (\<lambda>_ s'. watched js org rid (Svc_db s')) (\<lambda>_ _. True) s"
  by (rule wp_mono [OF wp_rearm]) auto

lemma wp_tx_watched:
  "wp m (\<lambda>_ d'. armed js org rid d') (\<lambda>_ _. True) (Svc_db s) \<Longrightarrow>
    wp (on_db m) (\<lambda>_ s'. watched js org rid (Svc_db s')) (\<lambda>_ _. True) s"
  by (auto simp: wp_simps elim: wp_mono)

lemma wp_suspend_watched:
  assumes "jobs (Svc_db s) = js" "Res_ID r = rid"
  shows "wp (suspend svc org r msg) (\<lambda>_ s'. watched js org rid (Svc_db s')) (\<lambda>_ _. True) s"
proof -
  have quiet: "wp (suspend_tx svc org r m) (\<lambda>_ d'. jobs d' = jobs d) (\<lambda>_ _. True) d" for m d
    by (auto simp: suspend_tx_def Resources_SetSuspended_def Let_def wp_simps split: option.split)
  show ?thesis
    unfolding suspend_def wp_simps
    by (rule wp_idle [OF idle_helpers(4)])
      (auto simp: wp_simps assms intro!: wp_mono [OF quiet] wp_rearm_watched)
qed

lemma wp_recover_watched:
  assumes "find (resource_in org rid) (resources (Svc_db s)) = Some r"
    "Res_State r = ResourceRequested \<or> Res_State r = ResourceProvisioning"
  shows "wp (recoverProvisioning svc org r) (\<lambda>_ s'. watched (jobs (Svc_db s)) org rid (Svc_db s')) (\<lambda>_ _. True) s"
proof -
  have rid: "Res_ID r = rid" using find_SomeD [OF assms(1)] by simp
  show ?thesis
    unfolding recoverProvisioning_def Let_def wp_bindM wp_Now wp_if
    using wp_fail_watched [OF rid] wp_tx_watched [OF rearm_arms] wp_tx_watched [OF ready_txs(5) [OF assms(1) rid assms(2)]] rid by auto
qed

lemma wp_suspended_watched:
  assumes "find (resource_in org rid) (resources (Svc_db s)) = Some r" "Res_State r = ResourceSuspended"
  shows "wp (reconcileSuspended svc org r) (\<lambda>_ s'. watched (jobs (Svc_db s)) org rid (Svc_db s')) (\<lambda>_ _. True) s"
proof -
  have rid: "Res_ID r = rid" using find_SomeD [OF assms(1)] by simp
  let ?Q = "\<lambda>_ s'. watched (jobs (Svc_db s)) org rid (Svc_db s')"
  have resume: "wp (on_db (resume_tx svc org r now)) ?Q (\<lambda>_ _. True) s'"
    if "resources (Svc_db s') = resources (Svc_db s)" "jobs (Svc_db s') = jobs (Svc_db s)" for now s'
    by (rule wp_tx_watched, rule wp_mono [OF ready_txs(3) [where org = org and rid = rid and d = "Svc_db s'" and r = r and ?r0.0 = r]])
      (use that assms rid in auto)
  have probe: "wp (bindM (still_healthy svc inst r st) (\<lambda>healthy.
      if \<not> healthy then
        (case st of
           Inr status \<Rightarrow>
             if ResourceState_Terminal (St_State status) then fail svc org r ''resource is no longer healthy''
             else rearmReconcile svc org (Res_ID r)
         | Inl _ \<Rightarrow> rearmReconcile svc org (Res_ID r))
      else bindM Now (\<lambda>now. on_db (resume_tx svc org r now)))) ?Q (\<lambda>_ _. True) s2"
    if "resources (Svc_db s2) = resources (Svc_db s)" "jobs (Svc_db s2) = jobs (Svc_db s)" for inst st s2
    unfolding wp_bindM
    by (rule wp_idle [OF idle_helpers(5)])
      (use that in \<open>auto simp: wp_bindM wp_Now rid split: sum.split intro!: wp_fail_watched wp_rearm_watched resume\<close>)
  show ?thesis
    unfolding reconcileSuspended_def wp_tryM
  proof (rule wp_idle [OF idle_helpers(1)], goal_cases)
    case (1 a s1)
    then show ?case by (cases a) (auto simp only: sum.case prod.case wp_tryM intro!: wp_idle [OF idle_parts(1)]
          probe [of _ _ "Inr _", unfolded sum.case] probe [of _ _ "Inl _", unfolded sum.case])
  qed (use rid in \<open>auto intro: wp_rearm_watched\<close>)
qed

lemma wp_ready_watched:
  assumes "find (resource_in org rid) (resources (Svc_db s)) = Some r" "Res_State r = ResourceReady"
  shows "wp (reconcileReady svc org r) (\<lambda>_ s'. watched (jobs (Svc_db s)) org rid (Svc_db s')) (\<lambda>_ _. True) s"
proof -
  have rid: "Res_ID r = rid" using find_SomeD [OF assms(1)] by simp
  let ?Q = "\<lambda>_ s'. watched (jobs (Svc_db s)) org rid (Svc_db s')"
  have observed: "wp (on_db (observed_tx svc org r now)) ?Q (\<lambda>_ _. True) s'"
    if "resources (Svc_db s') = resources (Svc_db s)" "jobs (Svc_db s') = jobs (Svc_db s)" for now s'
    by (rule wp_tx_watched, rule wp_mono [OF ready_txs(4) [where org = org and rid = rid and d = "Svc_db s'" and r = r and ?r0.0 = r]])
      (use that assms rid in auto)
  have probe: "wp (if b then suspend svc org r m
      else bindM (still_healthy svc inst r st) (\<lambda>healthy.
        if \<not> healthy then fail svc org r ''resource is no longer healthy''
        else bindM Now (\<lambda>now. on_db (observed_tx svc org r now)))) ?Q (\<lambda>_ _. True) s2"
    if "resources (Svc_db s2) = resources (Svc_db s)" "jobs (Svc_db s2) = jobs (Svc_db s)" for b m inst st s2
    unfolding wp_if wp_bindM
    using that
    by (auto simp: wp_bindM wp_Now rid intro!: wp_suspend_watched wp_idle [OF idle_helpers(5)] wp_fail_watched observed)
  show ?thesis
    unfolding reconcileReady_def wp_bindM
  proof (rule wp_idle [OF idle_helpers(1)], goal_cases)
    case (1 a s1)
    then show ?case by (cases a) (auto simp only: prod.case wp_tryM intro!: wp_idle [OF idle_parts(1)] probe)
  qed simp
qed

text \<open>
  Whatever the provider and the network answer, an acknowledged reconciliation of a resource
  in a state under observation has armed the next one or has failed the resource.
\<close>

lemma Reconcile_watches:
  assumes "find (resource_in org rid) (resources (Svc_db s)) = Some r"
    "Res_State r \<in> {ResourceRequested, ResourceProvisioning, ResourceReady, ResourceSuspended}"
  shows "wp (Reconcile svc org rid) (\<lambda>_ s'. watched (jobs (Svc_db s)) org rid (Svc_db s')) (\<lambda>_ _. True) s"
  using assms wp_recover_watched [OF assms(1)] wp_suspended_watched [OF assms(1)] wp_ready_watched [OF assms(1)]
  by (auto simp: Reconcile_def wp_tryM wp_on_db wp_Resources_Get wp_raise)

section \<open>An acknowledged provisioning is settled\<close>

lemma idle_await: "idle (awaitHealthy svc p r caps pauses)"
  unfolding idle_def preserves_def
proof (intro allI impI)
  fix rs js and s :: "'a svc"
  let ?I = "\<lambda>d. resources d = rs \<and> jobs d = js"
  assume "?I (Svc_db s)"
  then have "?I (Svc_db (snd (await_loop svc p r b dl pauses k s)))" for b dl k
    by (intro await_loop_keeps [where I = ?I]) auto
  then show "?I (Svc_db (snd (awaitHealthy svc p r caps pauses s)))"
    by (simp add: awaitHealthy_def bindM_def Now_def gets_def case_prod_beta)
qed

text \<open>The row a worker acts on: its state and whatever else the worker has written to it.\<close>

definition row_is :: "TenantID \<Rightarrow> ResourceID \<Rightarrow> (Resource \<Rightarrow> bool) \<Rightarrow> db \<Rightarrow> bool" where
  "row_is org rid P d \<longleftrightarrow> (\<exists>r. find (resource_in org rid) (resources d) = Some r \<and> P r)"

lemma row_is_update:
  assumes "row_is org rid P d" "\<And>r. P r \<Longrightarrow> P' (f r)" "\<And>r. Res_ID (f r) = Res_ID r" "\<And>r. Res_TenantID (f r) = Res_TenantID r"
  shows "row_is org rid P' (d\<lparr>resources := upd_where (resource_in org rid) f (resources d)\<rparr>)"
proof -
  obtain r where r: "find (resource_in org rid) (resources d) = Some r" "P r" using assms(1) by (auto simp: row_is_def)
  then show ?thesis using find_SomeD [OF r(1)] assms(2-) by (simp add: row_is_def find_upd_where)
qed

lemma row_is_logged [simp]: "row_is org rid P (logged d t sid a k p n) = row_is org rid P d"
  by (simp add: row_is_def)

abbreviation settled_as :: "QueuedJob list \<Rightarrow> TenantID \<Rightarrow> ResourceID \<Rightarrow> db \<Rightarrow> bool" where
  "settled_as js org rid d \<equiv> res_in_state org rid {ResourceFailed} d \<or> res_in_state org rid {ResourceReady} d \<and> armed js org rid d"

lemma wp_fail_settled:
  "Res_ID r = rid \<Longrightarrow> wp (fail svc org r msg) (\<lambda>_ s'. settled_as js org rid (Svc_db s')) (\<lambda>_ _. True) s"
  by (rule wp_mono [OF wp_fail]) auto

lemma wp_tx_settled:
  "wp m (\<lambda>_ d'. res_in_state org rid {ResourceReady} d' \<and> armed js org rid d') (\<lambda>_ _. True) (Svc_db s) \<Longrightarrow>
    wp (on_db m) (\<lambda>_ s'. settled_as js org rid (Svc_db s')) (\<lambda>_ _. True) s"
  by (auto simp: wp_simps elim: wp_mono)

lemma row_is_same: "row_is org rid P d \<Longrightarrow> resources d' = resources d \<Longrightarrow> row_is org rid P d'"
  by (simp add: row_is_def)

lemma wp_provision_await:
  assumes "row_is org rid (\<lambda>r. Res_State r = ResourceProvisioning) (Svc_db s)" "Res_ID r = rid" "jobs (Svc_db s) = js"
  shows "wp (provision_await svc org r p inst h pauses) (\<lambda>_ s'. settled_as js org rid (Svc_db s')) (\<lambda>_ _. True) s"
  unfolding assms(3) [symmetric]
proof -
  let ?r = "r\<lparr>Res_Handle := h\<rparr>" and ?Q = "\<lambda>_ s'. settled_as (jobs (Svc_db s)) org rid (Svc_db s')"
  have ready: "wp (on_db (provision_ready_tx svc org ?r h e now)) ?Q (\<lambda>_ _. True) s'"
    if row: "row_is org rid (\<lambda>r. Res_State r = ResourceProvisioning) (Svc_db s')" and js: "jobs (Svc_db s') = jobs (Svc_db s)" for e now s'
  proof -
    obtain x where x: "find (resource_in org rid) (resources (Svc_db s')) = Some x" "Res_State x = ResourceProvisioning"
      using row by (auto simp: row_is_def)
    have "wp (provision_ready_tx svc org ?r h e now)
        (\<lambda>_ d'. res_in_state org rid {ResourceReady} d' \<and> armed (jobs (Svc_db s')) org rid d') (\<lambda>_ _. True) (Svc_db s')"
      by (rule ready_txs(1) [OF x(1) _ x(2)]) (simp add: assms(2))
    then show ?thesis unfolding js by (rule wp_tx_settled)
  qed
  have await: "wp (awaitHealthy svc p ?r (Prov_Capabilities inst) pauses) (\<lambda>x. wp (case x of
      Inl AwaitDone \<Rightarrow> raise errDone
    | Inl AwaitTimeout \<Rightarrow> tryM (on_world (RP_Terminate p ?r)) (\<lambda>_. fail svc org ?r ''resource did not become healthy'')
    | Inr endpoint \<Rightarrow> bindM Now (\<lambda>now. on_db (provision_ready_tx svc org ?r h endpoint now))) ?Q (\<lambda>_ _. True)) (\<lambda>_ _. True) s'"
    if "row_is org rid (\<lambda>r. Res_State r = ResourceProvisioning) (Svc_db s')" "jobs (Svc_db s') = jobs (Svc_db s)" for s'
    by (rule wp_idle [OF idle_await])
      (auto simp: wp_raise wp_bindM wp_Now wp_tryM assms(2) that(2) split: sum.split await_error.split
        intro!: ready wp_idle [OF idle_parts(1)] wp_fail_settled row_is_same [OF that(1)])
  have "row_is org rid (\<lambda>r. Res_State r = ResourceProvisioning)
      (Svc_db s\<lparr>resources := upd_where (resource_in org rid) (\<lambda>r. r\<lparr>Res_Handle := stored_handle h, Res_UpdatedAt := db_now (Svc_db s)\<rparr>)
        (resources (Svc_db s))\<rparr>)"
    by (rule row_is_update [OF assms(1)]) auto
  then show "wp (provision_await svc org r p inst h pauses) ?Q (\<lambda>_ _. True) s"
    unfolding provision_await_def Let_def wp_bindM wp_on_db Resources_SetHandle_def wp_Resources_update
    using await [of "s\<lparr>Svc_db := _\<rparr>"] assms(2,3) by auto
qed

lemma wp_provision_from:
  assumes "row_is org rid P (Svc_db s)" "Res_ID r = rid" "jobs (Svc_db s) = js"
  shows "wp (provision_from svc org r pauses) (\<lambda>_ s'. settled_as js org rid (Svc_db s')) (\<lambda>_ _. True) s"
  unfolding assms(3) [symmetric]
proof -
  let ?Q = "\<lambda>_ s'. settled_as (jobs (Svc_db s)) org rid (Svc_db s')" and ?P = "row_is org rid (\<lambda>r. Res_State r = ResourceProvisioning)"
  have acquired: "wp (tryM (acquire p r c) (\<lambda>y. case y of Inl _ \<Rightarrow> fail svc org r ''resource provisioning failed''
      | Inr handle \<Rightarrow> provision_await svc org r p inst handle pauses)) ?Q (\<lambda>_ _. True) s'"
    if "?P (Svc_db s')" "jobs (Svc_db s') = jobs (Svc_db s)" for p c inst s'
    unfolding wp_tryM
    by (rule wp_idle [OF idle_helpers(3)]) (auto simp: assms(2) that(2) intro!: wp_fail_settled wp_provision_await row_is_same [OF that(1)])
  have built: "wp (tryM (providerFor svc org r) (\<lambda>x. case x of Inl e \<Rightarrow> fail svc org r (S_errText svc e)
      | Inr (p, inst) \<Rightarrow> bindM (clearToken svc r) (\<lambda>clear. tryM (acquire p r clear) (\<lambda>y. case y of
          Inl _ \<Rightarrow> fail svc org r ''resource provisioning failed''
        | Inr handle \<Rightarrow> provision_await svc org r p inst handle pauses)))) ?Q (\<lambda>_ _. True) s'"
    if "?P (Svc_db s')" "jobs (Svc_db s') = jobs (Svc_db s)" for s'
    unfolding wp_tryM
    by (rule wp_idle [OF idle_helpers(1)])
      (auto simp: wp_bindM assms(2) that(2) intro!: wp_fail_settled wp_idle [OF idle_helpers(2)] acquired row_is_same [OF that(1)])
  have "?P (Svc_db s\<lparr>resources := upd_where (resource_in org rid) (\<lambda>r. r\<lparr>Res_State := ResourceProvisioning, Res_UpdatedAt := db_now (Svc_db s)\<rparr>)
      (resources (Svc_db s))\<rparr>)"
    by (rule row_is_update [OF assms(1)]) auto
  then show "wp (provision_from svc org r pauses) ?Q (\<lambda>_ _. True) s"
    unfolding provision_from_def wp_bindM wp_on_db Resources_SetProvisioning_def wp_Resources_update wp_tryM [of "on_db _"]
    using assms(2,3) built [of "s\<lparr>Svc_db := _\<rparr>"]
    by (auto simp: wp_on_db wp_Events_Append split: option.split)
qed

lemma Provision_settles:
  assumes "find (resource_in org rid) (resources (Svc_db s)) = Some r"
    "Res_State r \<noteq> ResourceReady" "\<not> ResourceState_Terminal (Res_State r)"
  shows "wp (Provision svc org rid pauses) (\<lambda>_ s'. settled_as (jobs (Svc_db s)) org rid (Svc_db s')) (\<lambda>_ _. True) s"
  using assms wp_provision_from [of org rid "\<lambda>_. True" s r] find_SomeD [OF assms(1)]
  by (auto simp: Provision_def wp_bindM wp_on_db wp_Resources_Get row_is_def)

section \<open>A restart cuts old clients off\<close>

text \<open>
  No client of the resource is cached, the one that was is revoked, and the row has the
  next epoch.
\<close>

definition cut_off :: "TenantID \<Rightarrow> ResourceID \<Rightarrow> cacheEntry option \<Rightarrow> int \<Rightarrow> 'w svc \<Rightarrow> bool" where
  "cut_off org rid old epoch s \<longleftrightarrow>
    C_entries (Svc_cache s) rid = None \<and>
    (\<forall>e. old = Some e \<longrightarrow> CE_client e < length (C_clients (Svc_cache s)) \<longrightarrow> Cl_revoked (C_clients (Svc_cache s) ! CE_client e)) \<and>
    row_is org rid (\<lambda>r. Res_Epoch r = epoch) (Svc_db s)"

lemma epoch_update:
  "(\<And>now r. Res_ID (f now r) = Res_ID r \<and> Res_TenantID (f now r) = Res_TenantID r \<and> Res_Epoch (f now r) = Res_Epoch r) \<Longrightarrow>
    preserves (row_is org rid (\<lambda>r. Res_Epoch r = n)) (Resources_update org rid f)"
  by (intro preservesI) (auto simp: wp_simps intro!: row_is_update)

lemma epoch_parts:
  "preserves (row_is org rid (\<lambda>r. Res_Epoch r = n)) (Resources_SetReady org rid h e)"
  "preserves (row_is org rid (\<lambda>r. Res_Epoch r = n)) (Resources_SetFailed org rid msg)"
  "preserves (row_is org rid (\<lambda>r. Res_Epoch r = n)) (Events_Append t sid a k p)"
  "preserves (row_is org rid (\<lambda>r. Res_Epoch r = n)) (EnqueueInTxAt j at)"
  unfolding resource_writes
  by (rule epoch_update, simp | rule preservesI, simp add: wp_simps row_is_def split: option.split)+

lemma epoch_kept:
  "Res_ID r = rid \<Longrightarrow> preserves (row_is org rid (\<lambda>r. Res_Epoch r = n)) (fail_tx svc org r msg)"
  "preserves (row_is org rid (\<lambda>r. Res_Epoch r = n)) (restart_ready_tx svc org rid h e now)"
  unfolding fail_tx_def restart_ready_tx_def Resources_GetForUpdate_def by (auto intro!: pres_intros epoch_parts)

lemma cut_off_db: "preserves (row_is org rid (\<lambda>r. Res_Epoch r = n)) m \<Longrightarrow> preserves (cut_off org rid old n) (on_db m)"
  by (rule preservesI) (auto simp: wp_simps preserves_wp cut_off_def elim!: allE impE intro: wp_mono)

lemma cut_off_rest:
  "preserves (cut_off org rid old n) (on_world h)" "preserves (cut_off org rid old n) (InvalidateToolClients rid)"
  "preserves (cut_off org rid old n) Now"
  by (auto simp: preserves_def cut_off_def on_world_def InvalidateToolClients_def on_cache_def Invalidate_def Now_def gets_def bindM_def
      ret_def split: prod.split sum.split)

lemma cut_off_await: "preserves (cut_off org rid old n) (awaitHealthy svc p r caps pauses)"
proof -
  have "cut_off org rid old n s \<Longrightarrow> cut_off org rid old n (snd (await_loop svc p r b dl pauses k s))" for b dl k s
  proof (induction svc p r b dl pauses k s rule: await_loop.induct)
    case (1 svc p r b dl pauses k s)
    show ?case
    proof (cases "db_now (Svc_db s) < dl")
      case True
      obtain x s1 where poll: "poll_healthy svc p r b s = (x, s1)" by (cases "poll_healthy svc p r b s")
      then obtain w where s1: "s1 = s\<lparr>Svc_cache := (Svc_cache s)\<lparr>C_world := w\<rparr>\<rparr>"
        using world_onlyD [OF world_only_poll, of svc p r b s] by auto
      have on: "cut_off org rid old n s1" "cut_off org rid old n (pass_time m s1)" for m
        using 1(3) by (simp_all add: s1 cut_off_def pass_time_def row_is_def)
      show ?thesis
        using 1(1) [OF _ poll [symmetric]] 1(2) [OF _ poll [symmetric]] True on
        by (subst await_loop.simps) (auto simp: poll cut_off_def split: sum.split option.split)
    qed (use 1(3) in \<open>simp add: await_loop.simps\<close>)
  qed
  then show ?thesis
    by (simp add: preserves_def awaitHealthy_def bindM_def Now_def gets_def case_prod_beta)
qed

lemma restart_cut_off:
  assumes "Res_ID r = rid"
  shows "preserves (cut_off org rid old n) (restart_with svc org r p inst clear pauses)"
proof -
  have "preserves (cut_off org rid old n) (fail svc org r msg)" for msg
    unfolding fail_def assms by (intro pres_intros cut_off_rest cut_off_db epoch_kept assms)
  then show ?thesis
    unfolding restart_with_def assms
    by (intro pres_intros cut_off_rest cut_off_await cut_off_db epoch_kept assms)
qed

text \<open>Once the new token is minted and stored, whatever happens then, the old clients stay cut off.\<close>

lemma Restart_cuts_off:
  assumes "find (resource_in org rid) (resources (Svc_db s)) = Some r" "\<not> ResourceState_Terminal (Res_State r)" "\<not> Svc_done s"
    and "find (provider_in org (Res_ProviderInstanceID r)) (provider_instances (Svc_db s)) = Some inst"
    and "S_Providers svc = Some build" "build (Prov_Kind inst) (Prov_Config inst) = Inr p"
    and "S_Encrypt svc (hex_text random) = Inr enc"
  shows "cut_off org rid (C_entries (Svc_cache s) rid) (Res_Epoch r + 1) (snd (Restart svc org rid random pauses s))"
proof -
  have rid: "Res_ID r = rid" using find_SomeD [OF assms(1)] by simp
  let ?C = "cut_off org rid (C_entries (Svc_cache s) rid) (Res_Epoch r + 1)"
  have row: "row_is org rid (\<lambda>x. Res_Epoch x = Res_Epoch r + 1) (Svc_db s\<lparr>resources := upd_where (resource_in org rid)
      (\<lambda>x. x\<lparr>Res_TokenHash := S_sha256 svc (hex_text random), Res_TokenEnc := enc, Res_Epoch := Res_Epoch x + 1,
        Res_UpdatedAt := db_now (Svc_db s)\<rparr>) (resources (Svc_db s))\<rparr>)"
    by (rule row_is_update [of _ _ "\<lambda>x. x = r"]) (use assms(1) in \<open>auto simp: row_is_def\<close>)
  have rest: "wp (restart_with svc org r p inst clear pauses) (\<lambda>_. cut_off org rid old (Res_Epoch r + 1))
      (\<lambda>_. cut_off org rid old (Res_Epoch r + 1)) s'" if "cut_off org rid old (Res_Epoch r + 1) s'" for clear old s'
    using restart_cut_off [OF rid, of org old "Res_Epoch r + 1" svc p inst clear pauses] that unfolding preserves_wp by blast
  have "wp (Restart svc org rid random pauses) (\<lambda>_. ?C) (\<lambda>_. ?C) s"
    using assms row
    by (auto simp: Restart_def providerFor_def newToken_def resource_writes wp_simps InvalidateToolClients_def Invalidate_def
        split: option.split intro!: rest simp del: Register.simps)
      (auto simp: cut_off_def nth_list_update)
  then show ?thesis by (simp add: wp_final)
qed

section \<open>Interrupted provisionings leave one object\<close>

lemma wp_on_world [wp_simps]:
  "wp (on_world h) Q E s = (case h (C_world (Svc_cache s)) of
    (Inl e, w) \<Rightarrow> E (ErrOther e) (s\<lparr>Svc_cache := (Svc_cache s)\<lparr>C_world := w\<rparr>\<rparr>)
  | (Inr a, w) \<Rightarrow> Q a (s\<lparr>Svc_cache := (Svc_cache s)\<lparr>C_world := w\<rparr>\<rparr>))"
  by (simp add: wp_def on_world_def split: prod.split sum.split)

definition single_object :: "('w \<Rightarrow> bool) \<Rightarrow> ('w \<Rightarrow> ResourceID \<Rightarrow> nat) \<Rightarrow> ResourceID \<Rightarrow> 'w svc \<Rightarrow> bool" where
  "single_object ok owned rid s \<longleftrightarrow> ok (C_world (Svc_cache s)) \<and> owned (C_world (Svc_cache s)) rid \<le> 1"

text \<open>
  The host of an adopting provider: observing it, terminating and health checks create
  nothing either.
\<close>

locale adopting_host = adopting_provider provider ok owned adopt
  for provider :: "'w ResourceProvider" and ok owned adopt +
  fixes http :: "'w round_trip"
  assumes status: "ok w \<Longrightarrow> ok (snd (RP_Status provider r w)) \<and> owned (snd (RP_Status provider r w)) rid \<le> owned w rid"
    and endpoint: "ok w \<Longrightarrow> ok (snd (RP_Endpoint provider r w)) \<and> owned (snd (RP_Endpoint provider r w)) rid \<le> owned w rid"
    and terminate: "ok w \<Longrightarrow> ok (snd (RP_Terminate provider r w)) \<and> owned (snd (RP_Terminate provider r w)) rid \<le> owned w rid"
    and request: "ok w \<Longrightarrow> ok (snd (http req w)) \<and> owned (snd (http req w)) rid \<le> owned w rid"
begin

abbreviation single :: "ResourceID \<Rightarrow> 'w svc \<Rightarrow> bool" where
  "single \<equiv> single_object ok owned"

lemmas single_def = single_object_def [of ok owned]

lemma single_host:
  assumes "\<And>w. ok w \<Longrightarrow> ok (snd (h w)) \<and> owned (snd (h w)) rid \<le> owned w rid"
  shows "preserves (single rid) (on_world h)"
  unfolding preserves_def
proof (intro allI impI)
  fix s assume "single rid s"
  then show "single rid (snd (on_world h s))"
    using assms [of "C_world (Svc_cache s)"]
    by (auto simp: single_def on_world_def split: prod.split sum.split)
qed

lemma single_healthy:
  assumes "S_http svc = http"
  shows "preserves (single rid) (healthy_at svc e)"
  unfolding preserves_def
proof (intro allI impI)
  fix s assume "single rid s"
  then show "single rid (snd (healthy_at svc e s))"
    using request [of "C_world (Svc_cache s)" "\<lparr>HR_Method = ''GET'', HR_URL = health_url e, HR_Headers = [], HR_Body = None\<rparr>" rid]
    by (auto simp: single_def healthy_at_def Healthy_def assms split: prod.split sum.split)
qed

lemma single_parts:
  "preserves (single rid) (on_db m)" "preserves (single rid) Now" "preserves (single rid) (register_secret x)"
  "preserves (single rid) (InvalidateToolClients rid')"
  by (auto simp: preserves_def single_def on_db_def Now_def register_secret_def InvalidateToolClients_def on_cache_def Invalidate_def
      Revoke_def gets_def modifyM_def bindM_def ret_def split: prod.split sum.split option.split)

lemma single_calls:
  "preserves (single rid) (on_world (RP_Status provider r))" "preserves (single rid) (on_world (RP_Endpoint provider r))"
  "preserves (single rid) (on_world (RP_Terminate provider r))"
  by (rule single_host, rule status endpoint terminate, assumption)+

lemma single_acquire: "Res_ID r = rid \<Longrightarrow> preserves (single rid) (acquire provider r clear)"
proof (rule preservesI)
  fix s assume r: "Res_ID r = rid" and s: "single rid s"
  let ?w = "C_world (Svc_cache s)"
  obtain y w1 where a: "adopt r ?w = (y, w1)" by (cases "adopt r ?w")
  obtain x w2 where p: "RP_Provision provider r clear w1 = (x, w2)" by (cases "RP_Provision provider r clear w1")
  have w1: "ok w1" "owned w1 = owned ?w" "y = Inr None \<Longrightarrow> owned ?w rid = 0" using adopt [OF _ a] s r by (auto simp: single_def)
  have w2: "ok w2" "owned w2 rid \<le> owned w1 rid + 1" using provision [OF w1(1) p] r by auto
  show "wp (acquire provider r clear) (\<lambda>_. single rid) (\<lambda>_. single rid) s"
    using s w1 w2
    by (auto simp: acquire_def adopts wp_simps single_def a p split: sum.split option.split)
qed

lemma single_await:
  assumes "S_http svc = http"
  shows "preserves (single rid) (awaitHealthy svc provider r caps pauses)"
proof -
  have poll: "preserves (single rid) (poll_healthy svc provider r b)" for b
    unfolding poll_healthy_def by (intro pres_intros single_calls single_healthy assms)
  have "single rid s \<Longrightarrow> single rid (snd (await_loop svc provider r b dl pauses k s))" for b dl k s
  proof (induction "nat (dl - db_now (Svc_db s))" arbitrary: k s rule: less_induct)
    case less
    obtain x s1 where x: "poll_healthy svc provider r b s = (x, s1)" by (cases "poll_healthy svc provider r b s")
    have s1: "single rid s1" "single rid (pass_time n s1)" for n
      using preservesD [OF poll [of b] less.prems] x by (auto simp: single_def pass_time_def)
    have "single rid (snd (await_loop svc provider r b dl pauses (Suc k) (pass_time n s1)))" if "db_now (Svc_db s) < dl" for n
      by (rule less.hyps) (use that s1 poll_clock [OF x [symmetric]] in \<open>auto simp: pass_time_def\<close>)
    then show ?case
      using s1(1) less.prems
      by (subst await_loop.simps) (auto simp: x single_def split: sum.split option.split)
  qed
  then show ?thesis by (simp add: preserves_def awaitHealthy_def bindM_def Now_def gets_def case_prod_beta)
qed

text \<open>
  A provisioning, of a row that may or may not know of an earlier attempt, ends with at most
  one object at the host.
\<close>

lemma Provision_single:
  assumes "S_http svc = http" "\<And>build kind config p. S_Providers svc = Some build \<Longrightarrow> build kind config = Inr p \<Longrightarrow> p = provider"
  shows "preserves (single rid) (Provision svc org rid pauses)"
proof -
  have fail: "preserves (single rid) (fail svc org r msg)" for r msg
    unfolding fail_def by (intro pres_intros single_parts)
  have built: "preserves (single rid) (bindM (clearToken svc r) (\<lambda>clear. tryM (acquire p r clear) (\<lambda>y. case y of
      Inl _ \<Rightarrow> fail svc org r ''resource provisioning failed''
    | Inr handle \<Rightarrow> provision_await svc org r p inst handle pauses)))" if "Res_ID r = rid" "p = provider" for r p inst
    unfolding clearToken_def provision_await_def Let_def that(2)
    by (auto intro!: pres_intros single_parts single_acquire single_await single_calls fail that(1) assms(1)
        split: sum.split await_error.split)
  have "preserves (single rid) (provision_from svc org r pauses)" if "Res_ID r = rid" for r
  proof -
    let ?built = "tryM (providerFor svc org r) (\<lambda>x. case x of Inl e \<Rightarrow> fail svc org r (S_errText svc e)
        | Inr (p, inst) \<Rightarrow> bindM (clearToken svc r) (\<lambda>clear. tryM (acquire p r clear) (\<lambda>y. case y of
            Inl _ \<Rightarrow> fail svc org r ''resource provisioning failed''
          | Inr handle \<Rightarrow> provision_await svc org r p inst handle pauses)))"
    have "wp ?built (\<lambda>_. single rid) (\<lambda>_. single rid) s"
      if "single rid s" for s
    proof -
      have "wp (providerFor svc org r) (\<lambda>(p, inst) s'. p = provider \<and> s' = s) (\<lambda>_ s'. s' = s) s"
        using assms(2) by (auto simp: providerFor_def wp_simps split: option.split sum.split)
      then show ?thesis
        unfolding wp_tryM
        by (rule wp_mono) (use fail built [OF \<open>Res_ID r = rid\<close>] that in \<open>auto simp: preserves_wp\<close>)
    qed
    then have "preserves (single rid) ?built" by (rule preservesI)
    then show ?thesis
      unfolding provision_from_def by (intro preserves_bindM [OF single_parts(1)] preserves_tryM [OF single_parts(1)])
  qed
  then have from_row: "wp (provision_from svc org r pauses) (\<lambda>_. single rid) (\<lambda>_. single rid) s"
    if "single rid s" "Res_ID r = rid" for r s using that by (simp add: preserves_wp)
  have key: "find (resource_in org rid) rs = Some r \<Longrightarrow> Res_ID r = rid" for rs r
    using find_SomeD [of "resource_in org rid"] by blast
  show ?thesis
    by (rule preservesI) (auto simp: Provision_def wp_simps split: option.split intro!: from_row intro: key)
qed

end

lemma length_filter_conj: "length (filter (\<lambda>x. P x \<and> Q x) xs) \<le> length (filter Q xs)"
  by (induction xs) auto

interpretation null_host: adopting_host "null_provider is_object" null_ok null_owned null_Adopt "\<lambda>req w. (Inl [], w)" for is_object
  by unfold_locales
    (auto simp: null_provider_def null_Status_def null_Endpoint_def null_Terminate_def null_ok_def null_owned_def list_all_iff
      length_filter_conj)

end
