(* ===== verification/Examples.thy ===== *)
theory Examples
  imports Invariants
begin

text \<open>
  A concrete execution of the system, transaction by transaction: a tenant, a session, a run
  that spawns a child and waits for it, the child's completion, which resumes the parent.
  The states are evaluated by rewriting where a theorem is applied to them.
\<close>

text \<open>Bounds on lengths are evaluated with binary numbers.\<close>

lemma length_bound_code [code_unfold]:
  "nat_of_num k < length xs \<longleftrightarrow> Int.Pos k < int (length xs)"
  "nat_of_num k \<le> length xs \<longleftrightarrow> Int.Pos k \<le> int (length xs)"
  by (simp_all add: nat_of_num_numeral)

definition demo_sha :: "string \<Rightarrow> string \<Rightarrow> string" where
  "demo_sha ns name = name"

definition demo_tenant :: db where
  "demo_tenant = snd (Tenants_Create \<lparr>Tenant_ID = ''t1'', Tenant_Name = ''acme'', Tenant_CreatedAt = 0\<rparr> (empty_db 0))"

definition demo_session :: db where
  "demo_session = snd (Sessions_Create ''t1''
    \<lparr>Sess_ID = ''s1'', Sess_TenantID = [], Sess_Title = ''demo'', Sess_Labels = [], Sess_CreatedAt = 0,
     Sess_ArchivedAt = None, Sess_last_seq = 0\<rparr> demo_tenant)"

definition demo_request :: StartRunRequest where
  "demo_request = \<lparr>SRR_SessionID = ''s1'', SRR_Prompt = ''plan'', SRR_ModelConfig = None, SRR_Policy = None\<rparr>"

definition demo_model :: ModelConfig where
  "demo_model = ModelConfig ''anthropic'' ''m'' ''default'' []"

definition demo_row :: AgentRun where
  "demo_row = start_run_row None demo_model demo_request ''t1'' ''r1''"

definition demo_started :: db where
  "demo_started = snd (start_run_tx ''t1'' demo_row demo_session)"

abbreviation demo_job :: Job where "demo_job \<equiv> StepJob ''r1'' ''t1'' ''s1'' 0"

definition demo_claimed :: db where
  "demo_claimed = snd (claim demo_job demo_started)"

definition demo_spec :: spawnRequest where
  "demo_spec = \<lparr>Req_spec = \<lparr>Spec_Prompt = ''help'', Spec_Tools = Some [''post_event''], Spec_Policy = None\<rparr>,
    Req_toolCallID = ''call'', Req_cohortID = [], Req_ordinal = 0\<rparr>"

definition demo_child_policy :: RunPolicy where
  "demo_child_policy = DefaultRunPolicy\<lparr>AllowTools := [''post_event'']\<rparr>"

definition demo_child :: AgentRun where
  "demo_child = new_child demo_row demo_job demo_spec demo_child_policy ''c1''"

definition demo_spawned :: db where
  "demo_spawned = snd (spawn_tx demo_row demo_job demo_child demo_claimed)"

definition demo_step :: "FinishReason \<Rightarrow> StepResult" where
  "demo_step reason = \<lparr>SR_Messages = [], SR_InputTokens = 3, SR_OutputTokens = 4, SR_FinishReason = reason\<rparr>"

definition demo_result :: "StepResult \<Rightarrow> AgentResult" where
  "demo_result st = \<lparr>AR_Steps = [st], AR_Content = [TextContent ''done'']\<rparr>"

definition demo_recorder :: stepRecorder where
  "demo_recorder = new_recorder\<lparr>rec_waitRunIDs := [''c1''], rec_waitToolCallID := ''w'',
    rec_waitTimeout := 10, rec_waitKind := WaitKindWait, rec_waitPolicy := TimeoutPolicyResolve\<rparr>"

definition demo_parked :: db where
  "demo_parked = snd (commit_tx demo_sha demo_job 1 (InitialEnvelope ''plan'') (demo_step FinishReasonToolCalls)
    (demo_result (demo_step FinishReasonToolCalls)) demo_recorder demo_spawned)"

text \<open>The parent is parked on the wait, the child is pending.\<close>

lemma demo_parked_eval [code]: "demo_parked =
  \<lparr>db_now = 0,
      tenants =
        [\<lparr>Tenant_ID = ''t1'', Tenant_Name = ''acme'', Tenant_CreatedAt = 0\<rparr>],
      api_keys = [],
      sessions =
        [\<lparr>Sess_ID = ''s1'', Sess_TenantID = ''t1'', Sess_Title = ''demo'',
            Sess_Labels = [], Sess_CreatedAt = 0, Sess_ArchivedAt = None,
            Sess_last_seq = 5\<rparr>],
      session_events =
        [\<lparr>Ev_SessionID = ''s1'', Ev_Seq = 1, Ev_TS = 0,
            Ev_Actor =
              \<lparr>Actor_Kind = ''agent'', Actor_ID = ''r1'', Actor_Display = []\<rparr>,
            Ev_Kind = EventKindRunStarted,
            Ev_Payload = RunStartedPayload ''r1'' ''plan''\<rparr>,
         \<lparr>Ev_SessionID = ''s1'', Ev_Seq = 2, Ev_TS = 0,
            Ev_Actor =
              \<lparr>Actor_Kind = ''agent'', Actor_ID = ''r1'', Actor_Display = []\<rparr>,
            Ev_Kind = EventKindRunSpawned,
            Ev_Payload = RunSpawnedPayload ''r1'' ''c1''\<rparr>,
         \<lparr>Ev_SessionID = ''s1'', Ev_Seq = 3, Ev_TS = 0,
            Ev_Actor =
              \<lparr>Actor_Kind = ''system'', Actor_ID = ''core'',
                 Actor_Display = []\<rparr>,
            Ev_Kind = EventKindHookFired,
            Ev_Payload = HookFiredPayload ''cost-accounting'' ''r1''\<rparr>,
         \<lparr>Ev_SessionID = ''s1'', Ev_Seq = 4, Ev_TS = 0,
            Ev_Actor =
              \<lparr>Actor_Kind = ''agent'', Actor_ID = ''r1'', Actor_Display = []\<rparr>,
            Ev_Kind = EventKindStepFinished,
            Ev_Payload =
              StepFinishedPayload ''r1'' 0 3 4 FinishReasonToolCalls\<rparr>,
         \<lparr>Ev_SessionID = ''s1'', Ev_Seq = 5, Ev_TS = 0,
            Ev_Actor =
              \<lparr>Actor_Kind = ''agent'', Actor_ID = ''r1'', Actor_Display = []\<rparr>,
            Ev_Kind = EventKindRunAwaiting,
            Ev_Payload =
              RunAwaitingPayload ''r1''
               \<lparr>Q_Text = ''Waiting for child agents'', Q_Choices = []\<rparr>\<rparr>],
      credentials = [],
      agent_runs =
        [\<lparr>Run_ID = ''r1'', Run_SessionID = ''s1'', Run_TenantID = ''t1'',
            Run_ParentRunID = None, Run_SpawnKey = [], Run_CohortID = [],
            Run_CohortOrdinal = 0,
            Run_Policy =
              \<lparr>AllowTools = [''*''], DenyTools = [], ResourceKinds = [''*''],
                 MaxChildren = 16, ChildInherit = False\<rparr>,
            Run_Actor = \<lparr>Actor_Kind = [], Actor_ID = [], Actor_Display = []\<rparr>,
            Run_Result = None, Run_State = RunAwaiting,
            Run_LoopKind = ''default'',
            Run_LoopVersion = 1,
            Run_ModelConfig =
              ModelConfig ''anthropic'' ''m'' ''default'' [],
            Run_Prompt = ''plan'',
            Run_History =
              EncodedEnvelope
               \<lparr>Env_V = 1,
                  Env_Messages = [UserMessage ''plan''],
                  Env_Compactions = []\<rparr>,
            Run_FailureReason = [], Run_FailureMessage = [],
            Run_CancelRequestedAt = None, Run_CreatedAt = 0,
            Run_UpdatedAt = 0\<rparr>,
         \<lparr>Run_ID = ''c1'', Run_SessionID = ''s1'', Run_TenantID = ''t1'',
            Run_ParentRunID = Some ''r1'', Run_SpawnKey = ''r1:0:call'',
            Run_CohortID = [], Run_CohortOrdinal = 0,
            Run_Policy =
              \<lparr>AllowTools = [''post_event''], DenyTools = [],
                 ResourceKinds = [''*''], MaxChildren = 16,
                 ChildInherit = False\<rparr>,
            Run_Actor = \<lparr>Actor_Kind = [], Actor_ID = [], Actor_Display = []\<rparr>,
            Run_Result = None, Run_State = RunPending,
            Run_LoopKind = ''default'',
            Run_LoopVersion = 1,
            Run_ModelConfig =
              ModelConfig ''anthropic'' ''m'' ''default'' [],
            Run_Prompt = ''help'',
            Run_History =
              EncodedEnvelope
               \<lparr>Env_V = 1,
                  Env_Messages = [UserMessage ''help''],
                  Env_Compactions = []\<rparr>,
            Run_FailureReason = [], Run_FailureMessage = [],
            Run_CancelRequestedAt = None, Run_CreatedAt = 0,
            Run_UpdatedAt = 0\<rparr>],
      agent_run_steps =
        [\<lparr>Step_RunID = ''r1'', Step_StepIndex = 0,
            Step_Attempt = 1, Step_TokensIn = 3,
            Step_TokensOut = 4, Step_FinishReason = FinishReasonToolCalls,
            Step_CreatedAt = 0\<rparr>],
      provider_instances = [], resources = [],
      session_memory =
        [\<lparr>Mem_SessionID = ''s1'', Mem_Key = ''system.cost.latest'',
            Mem_Value =
              [CHR ''{'', CHR 0x22, CHR ''i'', CHR ''n'', CHR ''p'',
               CHR ''u'', CHR ''t'', CHR ''_'', CHR ''t'', CHR ''o'',
               CHR ''k'', CHR ''e'', CHR ''n'', CHR ''s'', CHR 0x22,
               CHR '':'', CHR ''3'', CHR '','', CHR 0x22, CHR ''o'',
               CHR ''u'', CHR ''t'', CHR ''p'', CHR ''u'', CHR ''t'',
               CHR ''_'', CHR ''t'', CHR ''o'', CHR ''k'', CHR ''e'',
               CHR ''n'', CHR ''s'', CHR 0x22, CHR '':'', CHR ''4'',
               CHR ''}''],
            Mem_UpdatedBy =
              \<lparr>Actor_Kind = ''system'', Actor_ID = ''core'',
                 Actor_Display = []\<rparr>,
            Mem_UpdatedAt = 0\<rparr>],
      run_waits =
        [\<lparr>Wait_ID = ''r1:0:w'', Wait_ParentRunID = ''r1'', Wait_StepIndex = 0,
            Wait_ToolCallID = ''w'', Wait_Kind = WaitKindWait,
            Wait_State = WaitOpen, Wait_TimeoutPolicy = TimeoutPolicyResolve,
            Wait_Deadline = 10, Wait_Result = None, Wait_ResumedAt = None\<rparr>],
      run_wait_members =
        [\<lparr>Member_WaitID = ''r1:0:w'', Member_RunID = ''c1'',
            Member_Ordinal = 0\<rparr>],
      periodic_prompts = [],
      jobs =
        [\<lparr>Job_Args = demo_job, Job_ScheduledAt = None\<rparr>,
         \<lparr>Job_Args = StepJob ''c1'' ''t1'' ''s1'' 0, Job_ScheduledAt = None\<rparr>,
         \<lparr>Job_Args = WaitTimeoutJob ''t1'',
            Job_ScheduledAt = Some 250000010\<rparr>],
      notifications =
        [(''s1'', 1), (''s1'', 2), (''s1'', 3), (''s1'', 4),
         (''s1'', 5)]\<rparr>"
  by code_simp

abbreviation demo_child_job :: Job where "demo_child_job \<equiv> StepJob ''c1'' ''t1'' ''s1'' 0"

definition demo_child_claimed :: db where
  "demo_child_claimed = snd (claim demo_child_job demo_parked)"

definition demo_resumed :: db where
  "demo_resumed = snd (commit_tx demo_sha demo_child_job 1 (InitialEnvelope ''help'')
    (demo_step (OtherFinishReason ''stop'')) (demo_result (demo_step (OtherFinishReason ''stop''))) new_recorder
    demo_child_claimed)"

text \<open>The child has completed and its parent runs again.\<close>

lemma demo_resumed_eval [code]: "demo_resumed =
  \<lparr>db_now = 0,
    tenants =
      [\<lparr>Tenant_ID = ''t1'', Tenant_Name = ''acme'', Tenant_CreatedAt = 0\<rparr>],
    api_keys = [],
    sessions =
      [\<lparr>Sess_ID = ''s1'', Sess_TenantID = ''t1'', Sess_Title = ''demo'',
          Sess_Labels = [], Sess_CreatedAt = 0, Sess_ArchivedAt = None,
          Sess_last_seq = 9\<rparr>],
    session_events =
      [\<lparr>Ev_SessionID = ''s1'', Ev_Seq = 1, Ev_TS = 0,
          Ev_Actor =
            \<lparr>Actor_Kind = ''agent'', Actor_ID = ''r1'', Actor_Display = []\<rparr>,
          Ev_Kind = EventKindRunStarted,
          Ev_Payload = RunStartedPayload ''r1'' ''plan''\<rparr>,
       \<lparr>Ev_SessionID = ''s1'', Ev_Seq = 2, Ev_TS = 0,
          Ev_Actor =
            \<lparr>Actor_Kind = ''agent'', Actor_ID = ''r1'', Actor_Display = []\<rparr>,
          Ev_Kind = EventKindRunSpawned,
          Ev_Payload = RunSpawnedPayload ''r1'' ''c1''\<rparr>,
       \<lparr>Ev_SessionID = ''s1'', Ev_Seq = 3, Ev_TS = 0,
          Ev_Actor =
            \<lparr>Actor_Kind = ''system'', Actor_ID = ''core'',
               Actor_Display = []\<rparr>,
          Ev_Kind = EventKindHookFired,
          Ev_Payload = HookFiredPayload ''cost-accounting'' ''r1''\<rparr>,
       \<lparr>Ev_SessionID = ''s1'', Ev_Seq = 4, Ev_TS = 0,
          Ev_Actor =
            \<lparr>Actor_Kind = ''agent'', Actor_ID = ''r1'', Actor_Display = []\<rparr>,
          Ev_Kind = EventKindStepFinished,
          Ev_Payload =
            StepFinishedPayload ''r1'' 0 3 4 FinishReasonToolCalls\<rparr>,
       \<lparr>Ev_SessionID = ''s1'', Ev_Seq = 5, Ev_TS = 0,
          Ev_Actor =
            \<lparr>Actor_Kind = ''agent'', Actor_ID = ''r1'', Actor_Display = []\<rparr>,
          Ev_Kind = EventKindRunAwaiting,
          Ev_Payload =
            RunAwaitingPayload ''r1''
             \<lparr>Q_Text = ''Waiting for child agents'', Q_Choices = []\<rparr>\<rparr>,
       \<lparr>Ev_SessionID = ''s1'', Ev_Seq = 6, Ev_TS = 0,
          Ev_Actor =
            \<lparr>Actor_Kind = ''system'', Actor_ID = ''core'',
               Actor_Display = []\<rparr>,
          Ev_Kind = EventKindHookFired,
          Ev_Payload = HookFiredPayload ''cost-accounting'' ''c1''\<rparr>,
       \<lparr>Ev_SessionID = ''s1'', Ev_Seq = 7, Ev_TS = 0,
          Ev_Actor =
            \<lparr>Actor_Kind = ''agent'', Actor_ID = ''c1'', Actor_Display = []\<rparr>,
          Ev_Kind = EventKindStepFinished,
          Ev_Payload =
            StepFinishedPayload ''c1'' 0 3 4 (OtherFinishReason ''stop'')\<rparr>,
       \<lparr>Ev_SessionID = ''s1'', Ev_Seq = 8, Ev_TS = 0,
          Ev_Actor =
            \<lparr>Actor_Kind = ''agent'', Actor_ID = ''c1'', Actor_Display = []\<rparr>,
          Ev_Kind = EventKindRunCompleted,
          Ev_Payload = RunCompletedPayload ''c1'' ''done''\<rparr>,
       \<lparr>Ev_SessionID = ''s1'', Ev_Seq = 9, Ev_TS = 0,
          Ev_Actor =
            \<lparr>Actor_Kind = ''system'', Actor_ID = ''core'',
               Actor_Display = []\<rparr>,
          Ev_Kind = EventKindToolResult,
          Ev_Payload =
            ToolResultPayload ''r1'' 0 ''w'' ''wait_for_agents''
             (EncodedOutcome
               \<lparr>WO_WaitID = ''r1:0:w'', WO_Kind = WaitKindWait,
                  WO_State = WaitResolved, WO_TimedOut = False,
                  WO_Members =
                    [\<lparr>WMR_Ordinal = 0, WMR_RunID = ''c1'',
                        WMR_State = RunCompleted,
                        WMR_Result = Some (FinalText ''done''),
                        WMR_FailureReason = [], WMR_FailureMessage = []\<rparr>],
                  WO_Completed = 1, WO_Failed = 0,
                  WO_Cancelled = 0, WO_Pending = 0\<rparr>)
             False\<rparr>],
    credentials = [],
    agent_runs =
      [\<lparr>Run_ID = ''r1'', Run_SessionID = ''s1'', Run_TenantID = ''t1'',
          Run_ParentRunID = None, Run_SpawnKey = [], Run_CohortID = [],
          Run_CohortOrdinal = 0,
          Run_Policy =
            \<lparr>AllowTools = [''*''], DenyTools = [], ResourceKinds = [''*''],
               MaxChildren = 16, ChildInherit = False\<rparr>,
          Run_Actor = \<lparr>Actor_Kind = [], Actor_ID = [], Actor_Display = []\<rparr>,
          Run_Result = None, Run_State = RunRunning,
          Run_LoopKind = ''default'',
          Run_LoopVersion = 1,
          Run_ModelConfig =
            ModelConfig ''anthropic'' ''m'' ''default'' [],
          Run_Prompt = ''plan'',
          Run_History =
            EncodedEnvelope
             \<lparr>Env_V = 1,
                Env_Messages =
                  [UserMessage ''plan'',
                   ToolMessage ''w''
                    (OutputText
                      (EncodedOutcome
                        \<lparr>WO_WaitID = ''r1:0:w'', WO_Kind = WaitKindWait,
                           WO_State = WaitResolved, WO_TimedOut = False,
                           WO_Members =
                             [\<lparr>WMR_Ordinal = 0, WMR_RunID = ''c1'',
                                 WMR_State = RunCompleted,
                                 WMR_Result = Some (FinalText ''done''),
                                 WMR_FailureReason = [],
                                 WMR_FailureMessage = []\<rparr>],
                           WO_Completed = 1, WO_Failed = 0,
                           WO_Cancelled = 0, WO_Pending = 0\<rparr>))],
                Env_Compactions = []\<rparr>,
          Run_FailureReason = [], Run_FailureMessage = [],
          Run_CancelRequestedAt = None, Run_CreatedAt = 0,
          Run_UpdatedAt = 0\<rparr>,
       \<lparr>Run_ID = ''c1'', Run_SessionID = ''s1'', Run_TenantID = ''t1'',
          Run_ParentRunID = Some ''r1'', Run_SpawnKey = ''r1:0:call'',
          Run_CohortID = [], Run_CohortOrdinal = 0,
          Run_Policy =
            \<lparr>AllowTools = [''post_event''], DenyTools = [],
               ResourceKinds = [''*''], MaxChildren = 16,
               ChildInherit = False\<rparr>,
          Run_Actor = \<lparr>Actor_Kind = [], Actor_ID = [], Actor_Display = []\<rparr>,
          Run_Result = Some (FinalText ''done''), Run_State = RunCompleted,
          Run_LoopKind = ''default'',
          Run_LoopVersion = 1,
          Run_ModelConfig =
            ModelConfig ''anthropic'' ''m'' ''default'' [],
          Run_Prompt = ''help'',
          Run_History =
            EncodedEnvelope
             \<lparr>Env_V = 1,
                Env_Messages = [UserMessage ''help''],
                Env_Compactions = []\<rparr>,
          Run_FailureReason = [], Run_FailureMessage = [],
          Run_CancelRequestedAt = None, Run_CreatedAt = 0,
          Run_UpdatedAt = 0\<rparr>],
    agent_run_steps =
      [\<lparr>Step_RunID = ''r1'', Step_StepIndex = 0,
          Step_Attempt = 1, Step_TokensIn = 3,
          Step_TokensOut = 4, Step_FinishReason = FinishReasonToolCalls,
          Step_CreatedAt = 0\<rparr>,
       \<lparr>Step_RunID = ''c1'', Step_StepIndex = 0,
          Step_Attempt = 1, Step_TokensIn = 3,
          Step_TokensOut = 4,
          Step_FinishReason = OtherFinishReason ''stop'',
          Step_CreatedAt = 0\<rparr>],
    provider_instances = [], resources = [],
    session_memory =
      [\<lparr>Mem_SessionID = ''s1'', Mem_Key = ''system.cost.latest'',
          Mem_Value =
            [CHR ''{'', CHR 0x22, CHR ''i'', CHR ''n'', CHR ''p'',
             CHR ''u'', CHR ''t'', CHR ''_'', CHR ''t'', CHR ''o'',
             CHR ''k'', CHR ''e'', CHR ''n'', CHR ''s'', CHR 0x22,
             CHR '':'', CHR ''3'', CHR '','', CHR 0x22, CHR ''o'',
             CHR ''u'', CHR ''t'', CHR ''p'', CHR ''u'', CHR ''t'',
             CHR ''_'', CHR ''t'', CHR ''o'', CHR ''k'', CHR ''e'',
             CHR ''n'', CHR ''s'', CHR 0x22, CHR '':'', CHR ''4'',
             CHR ''}''],
          Mem_UpdatedBy =
            \<lparr>Actor_Kind = ''system'', Actor_ID = ''core'',
               Actor_Display = []\<rparr>,
          Mem_UpdatedAt = 0\<rparr>],
    run_waits =
      [\<lparr>Wait_ID = ''r1:0:w'', Wait_ParentRunID = ''r1'', Wait_StepIndex = 0,
          Wait_ToolCallID = ''w'', Wait_Kind = WaitKindWait,
          Wait_State = WaitResolved,
          Wait_TimeoutPolicy = TimeoutPolicyResolve, Wait_Deadline = 10,
          Wait_Result =
            Some
             \<lparr>WO_WaitID = ''r1:0:w'', WO_Kind = WaitKindWait,
                WO_State = WaitResolved, WO_TimedOut = False,
                WO_Members =
                  [\<lparr>WMR_Ordinal = 0, WMR_RunID = ''c1'',
                      WMR_State = RunCompleted,
                      WMR_Result = Some (FinalText ''done''),
                      WMR_FailureReason = [], WMR_FailureMessage = []\<rparr>],
                WO_Completed = 1, WO_Failed = 0,
                WO_Cancelled = 0, WO_Pending = 0\<rparr>,
          Wait_ResumedAt = Some 0\<rparr>],
    run_wait_members =
      [\<lparr>Member_WaitID = ''r1:0:w'', Member_RunID = ''c1'',
          Member_Ordinal = 0\<rparr>],
    periodic_prompts = [],
    jobs =
      [\<lparr>Job_Args = demo_job, Job_ScheduledAt = None\<rparr>,
       \<lparr>Job_Args = demo_child_job, Job_ScheduledAt = None\<rparr>,
       \<lparr>Job_Args = WaitTimeoutJob ''t1'', Job_ScheduledAt = Some 250000010\<rparr>,
       \<lparr>Job_Args = StepJob ''r1'' ''t1'' ''s1'' 1,
          Job_ScheduledAt = None\<rparr>],
    notifications =
      [(''s1'', 1), (''s1'', 2), (''s1'', 3), (''s1'', 4),
       (''s1'', 5), (''s1'', 6), (''s1'', 7), (''s1'', 8), (''s1'', 9)]\<rparr>"
  by code_simp

section \<open>The states are reachable\<close>

lemma demo_session_reachable: "reachable sha demo_session"
proof -
  have "reachable sha (empty_db 0)" by (auto simp: reachable_def)
  then have "reachable sha demo_tenant"
    unfolding demo_tenant_def by (rule reachable_step) (rule sys_step.tenant_create)
  then show ?thesis
    unfolding demo_session_def by (rule reachable_step) (rule sys_step.session_create)
qed

lemma demo_started_reachable: "reachable sha demo_started"
  unfolding demo_started_def demo_row_def
  by (rule reachable_step [OF demo_session_reachable]) (rule sys_step.start_run, simp add: id_text_def)

lemma demo_claimed_reachable: "reachable sha demo_claimed"
proof -
  have "enqueued demo_started demo_job" by code_simp
  then show ?thesis
    unfolding demo_claimed_def by (rule reachable_step [OF demo_started_reachable sys_step.claim])
qed

lemma demo_spawned_reachable: "reachable sha demo_spawned"
proof -
  have "enqueued demo_claimed demo_job" by code_simp
  moreover have "snapshot demo_claimed demo_row" by code_simp
  moreover have "resolvePolicy (Req_spec demo_spec) (Run_Policy demo_row) = Inr demo_child_policy" by code_simp
  moreover have "Run_ID demo_row = ''r1''" "Run_TenantID demo_row = ''t1''" by code_simp+
  ultimately have "sys_step sha demo_claimed demo_spawned"
    unfolding demo_spawned_def demo_child_def
    using sys_step.spawn [of "''c1''" demo_claimed demo_row "''s1''" 0 demo_spec demo_child_policy sha] by (simp add: id_text_def)
  with demo_claimed_reachable show ?thesis by (rule reachable_step)
qed

lemma demo_parked_reachable: "reachable demo_sha demo_parked"
proof -
  have "enqueued demo_spawned demo_job" by code_simp
  then show ?thesis
    unfolding demo_parked_def by (rule reachable_step [OF demo_spawned_reachable sys_step.commit])
qed

lemma demo_child_claimed_reachable: "reachable demo_sha demo_child_claimed"
proof -
  have "enqueued demo_parked demo_child_job" by code_simp
  then show ?thesis
    unfolding demo_child_claimed_def by (rule reachable_step [OF demo_parked_reachable sys_step.claim])
qed

lemma demo_resumed_reachable: "reachable demo_sha demo_resumed"
proof -
  have "enqueued demo_child_claimed demo_child_job" by code_simp
  then show ?thesis
    unfolding demo_resumed_def by (rule reachable_step [OF demo_child_claimed_reachable sys_step.commit])
qed

lemma demo_states:
  "map Run_State (agent_runs demo_parked) = [RunAwaiting, RunPending]"
  "map Run_State (agent_runs demo_resumed) = [RunRunning, RunCompleted]"
  "map Job_Args (jobs demo_resumed) = [demo_job, demo_child_job, WaitTimeoutJob ''t1'', StepJob ''r1'' ''t1'' ''s1'' 1]"
  "map Wait_State (run_waits demo_resumed) = [WaitResolved]"
  by code_simp+

text \<open>From the parked parent to the resumed one.\<close>

lemma demo_parked_resumed: "sys_path demo_sha demo_parked demo_resumed"
proof -
  have "enqueued demo_parked demo_child_job" "enqueued demo_child_claimed demo_child_job" by code_simp+
  then have "sys_step demo_sha demo_parked demo_child_claimed" "sys_step demo_sha demo_child_claimed demo_resumed"
    unfolding demo_child_claimed_def demo_resumed_def by (blast intro: sys_step.intros)+
  then show ?thesis by (meson converse_rtranclp_into_rtranclp r_into_rtranclp)
qed

text \<open>A worker whose model call returns a final answer without calling a tool.\<close>

definition demo_world :: StepWorld where
  "demo_world = \<lparr>W_decrypt = Some, W_build = (\<lambda>_ _ _. True), W_NewSHA1 = demo_sha, W_history_len = (\<lambda>_. 0),
    W_dynamic = Some [], W_stream = [], W_result = Inr (demo_result (demo_step (OtherFinishReason ''stop''))),
    W_fallback_stream = [], W_fallback_result = Inr (demo_result (demo_step (OtherFinishReason ''stop''))),
    W_cancelled = False, W_interrupted = False, W_flush_interval = 1, W_flush_bytes = 1\<rparr>"

definition demo_ctx :: authContext where
  "demo_ctx = \<lparr>Ctx_Identity = \<lparr>Auth_TenantID = ''t1'', Auth_KeyID = ''k1'', Auth_Scope = KeyScopeAdmin\<rparr>,
    Ctx_Actor = \<lparr>Actor_Kind = ''user'', Actor_ID = ''u'', Actor_Display = []\<rparr>\<rparr>"

end
