(* ===== verification/Resource_Examples.thy ===== *)
theory Resource_Examples
  imports Resource_Life Examples
begin

text \<open>
  A concrete life of a resource on the in-memory provider, as the code runs it: requested,
  provisioned, reconciled, and a tool cache with two epochs.
\<close>

definition demo_registry :: "null_items Registry" where
  "demo_registry = [(ProviderKindNull, \<lambda>config. Inr (null_provider (\<lambda>s. True)))]"

definition demo_service :: "null_items Service" where
  "demo_service =
    \<lparr>S_Encrypt = (\<lambda>s. Inr s), S_Decrypt = (\<lambda>s. Inr s), S_Providers = Some (Build demo_registry),
     S_ReconcileInterval = 0, S_ProvisionTimeout = 0, S_http = (\<lambda>req w. (Inl [], w)), S_sha256 = (\<lambda>s. s),
     S_devEnvName = (\<lambda>s. None), S_probeName = (\<lambda>s. []), S_errText = (\<lambda>e. ''error''), S_validJSON = (\<lambda>s. True)\<rparr>"

definition demo_instance :: ProviderInstance where
  "demo_instance =
    \<lparr>Prov_ID = ''p1'', Prov_TenantID = ''t1'', Prov_Kind = ProviderKindNull, Prov_Name = ''default'', Prov_Config = ''{}'',
     Prov_State = ''ready'', Prov_Capabilities = \<lparr>Cap_Kind = ProviderKindNull, Cap_Supported = [], Cap_Notes = []\<rparr>,
     Prov_LastHealthyAt = None, Prov_CreatedAt = 0\<rparr>"

definition demo_registered :: "null_items svc" where
  "demo_registered = \<lparr>Svc_db = snd (Providers_Create ''t1'' demo_instance demo_session), Svc_cache = NewCache [],
     Svc_redactor = [], Svc_done = False\<rparr>"

abbreviation no_pause :: "nat \<Rightarrow> nat \<times> bool" where
  "no_pause \<equiv> \<lambda>k. (0, False)"

definition demo_requested :: "null_items svc" where
  "demo_requested =
  \<lparr>Svc_db =
    \<lparr>db_now = 0,
       tenants =
         [\<lparr>Tenant_ID = ''t1'', Tenant_Name = ''acme'',
             Tenant_CreatedAt = 0\<rparr>],
       api_keys = [],
       sessions =
         [\<lparr>Sess_ID = ''s1'', Sess_TenantID = ''t1'', Sess_Title = ''demo'',
             Sess_Labels = [], Sess_CreatedAt = 0, Sess_ArchivedAt = None,
             Sess_last_seq = 1\<rparr>],
       session_events =
         [\<lparr>Ev_SessionID = ''s1'', Ev_Seq = 1, Ev_TS = 0,
             Ev_Actor =
               \<lparr>Actor_Kind = ''system'', Actor_ID = ''core'',
                  Actor_Display = []\<rparr>,
             Ev_Kind = EventKindResourceRequested,
             Ev_Payload =
               ResourceEventPayload
                \<lparr>RE_ResourceID = ''x1'', RE_Kind = ResourceKindNullResource,
                   RE_Name = [], RE_ProviderInstanceID = ''p1'',
                   RE_Endpoint = [], RE_Message = [],
                   RE_Epoch = 1\<rparr>\<rparr>],
       credentials = [], agent_runs = [], agent_run_steps = [],
       provider_instances =
         [\<lparr>Prov_ID = ''p1'', Prov_TenantID = ''t1'',
             Prov_Kind = ProviderKindNull, Prov_Name = ''default'',
             Prov_Config = ''{}'', Prov_State = ''ready'',
             Prov_Capabilities =
               \<lparr>Cap_Kind = ProviderKindNull, Cap_Supported = [],
                  Cap_Notes = []\<rparr>,
             Prov_LastHealthyAt = None, Prov_CreatedAt = 0\<rparr>],
       resources =
         [\<lparr>Res_ID = ''x1'', Res_TenantID = ''t1'', Res_SessionID = ''s1'',
             Res_Kind = ResourceKindNullResource,
             Res_ProviderInstanceID = ''p1'', Res_State = ResourceRequested,
             Res_Spec = ''{}'', Res_Handle = Versioned 0 ''null'',
             Res_Endpoint = [], Res_TokenHash = ''6b'',
             Res_TokenEnc = ''6b'', Res_Epoch = 1,
             Res_FailureMessage = [], Res_CreatedByRunID = None,
             Res_CreatedAt = 0, Res_UpdatedAt = 0, Res_ReadyAt = None,
             Res_TerminatedAt = None\<rparr>],
       session_memory = [], run_waits = [], run_wait_members = [],
       periodic_prompts = [],
       jobs =
         [\<lparr>Job_Args = ProvisionJob ''t1'' ''x1'', Job_ScheduledAt = None\<rparr>,
          \<lparr>Job_Args = ReconcileJob ''t1'' ''x1'',
             Job_ScheduledAt = Some 60000000000\<rparr>],
       notifications = [(''s1'', 1)]\<rparr>,
    Svc_cache =
      \<lparr>C_entries = (\<lambda>_. None), C_lastTools = (\<lambda>_. None), C_clients = [],
         C_world = []\<rparr>,
    Svc_redactor = [], Svc_done = False\<rparr>"

definition demo_provisioned :: "null_items svc" where
  "demo_provisioned =
  \<lparr>Svc_db =
    \<lparr>db_now = 0,
       tenants =
         [\<lparr>Tenant_ID = ''t1'', Tenant_Name = ''acme'',
             Tenant_CreatedAt = 0\<rparr>],
       api_keys = [],
       sessions =
         [\<lparr>Sess_ID = ''s1'', Sess_TenantID = ''t1'', Sess_Title = ''demo'',
             Sess_Labels = [], Sess_CreatedAt = 0, Sess_ArchivedAt = None,
             Sess_last_seq = 3\<rparr>],
       session_events =
         [\<lparr>Ev_SessionID = ''s1'', Ev_Seq = 1, Ev_TS = 0,
             Ev_Actor =
               \<lparr>Actor_Kind = ''system'', Actor_ID = ''core'',
                  Actor_Display = []\<rparr>,
             Ev_Kind = EventKindResourceRequested,
             Ev_Payload =
               ResourceEventPayload
                \<lparr>RE_ResourceID = ''x1'', RE_Kind = ResourceKindNullResource,
                   RE_Name = [], RE_ProviderInstanceID = ''p1'',
                   RE_Endpoint = [], RE_Message = [],
                   RE_Epoch = 1\<rparr>\<rparr>,
          \<lparr>Ev_SessionID = ''s1'', Ev_Seq = 2, Ev_TS = 0,
             Ev_Actor =
               \<lparr>Actor_Kind = ''system'', Actor_ID = ''core'',
                  Actor_Display = []\<rparr>,
             Ev_Kind = EventKindResourceProvisioning,
             Ev_Payload =
               ResourceEventPayload
                \<lparr>RE_ResourceID = ''x1'', RE_Kind = ResourceKindNullResource,
                   RE_Name = [], RE_ProviderInstanceID = ''p1'',
                   RE_Endpoint = [], RE_Message = [],
                   RE_Epoch = 1\<rparr>\<rparr>,
          \<lparr>Ev_SessionID = ''s1'', Ev_Seq = 3, Ev_TS = 0,
             Ev_Actor =
               \<lparr>Actor_Kind = ''system'', Actor_ID = ''core'',
                  Actor_Display = []\<rparr>,
             Ev_Kind = EventKindResourceReady,
             Ev_Payload =
               ResourceEventPayload
                \<lparr>RE_ResourceID = ''x1'', RE_Kind = ResourceKindNullResource,
                   RE_Name = [], RE_ProviderInstanceID = ''p1'',
                   RE_Endpoint = [], RE_Message = [],
                   RE_Epoch = 1\<rparr>\<rparr>],
       credentials = [], agent_runs = [], agent_run_steps = [],
       provider_instances =
         [\<lparr>Prov_ID = ''p1'', Prov_TenantID = ''t1'',
             Prov_Kind = ProviderKindNull, Prov_Name = ''default'',
             Prov_Config = ''{}'', Prov_State = ''ready'',
             Prov_Capabilities =
               \<lparr>Cap_Kind = ProviderKindNull, Cap_Supported = [],
                  Cap_Notes = []\<rparr>,
             Prov_LastHealthyAt = None, Prov_CreatedAt = 0\<rparr>],
       resources =
         [\<lparr>Res_ID = ''x1'', Res_TenantID = ''t1'', Res_SessionID = ''s1'',
             Res_Kind = ResourceKindNullResource,
             Res_ProviderInstanceID = ''p1'', Res_State = ResourceReady,
             Res_Spec = ''{}'',
             Res_Handle =
               Versioned 1
                [CHR ''{'', CHR 0x22, CHR ''i'', CHR ''d'', CHR 0x22,
                 CHR '':'', CHR 0x22, CHR ''x'', CHR ''1'', CHR 0x22,
                 CHR ''}''],
             Res_Endpoint = [], Res_TokenHash = ''6b'',
             Res_TokenEnc = ''6b'', Res_Epoch = 1,
             Res_FailureMessage = [], Res_CreatedByRunID = None,
             Res_CreatedAt = 0, Res_UpdatedAt = 0, Res_ReadyAt = Some 0,
             Res_TerminatedAt = None\<rparr>],
       session_memory = [], run_waits = [], run_wait_members = [],
       periodic_prompts = [],
       jobs =
         [\<lparr>Job_Args = ProvisionJob ''t1'' ''x1'', Job_ScheduledAt = None\<rparr>,
          \<lparr>Job_Args = ReconcileJob ''t1'' ''x1'',
             Job_ScheduledAt = Some 60000000000\<rparr>,
          \<lparr>Job_Args = ReconcileJob ''t1'' ''x1'',
             Job_ScheduledAt = Some 5000000000\<rparr>],
       notifications =
         [(''s1'', 1), (''s1'', 2), (''s1'', 3)]\<rparr>,
    Svc_cache =
      \<lparr>C_entries = (\<lambda>_. None), C_lastTools = (\<lambda>_. None), C_clients = [],
         C_world =
           [(''x1'',
             Versioned 1
              [CHR ''{'', CHR 0x22, CHR ''i'', CHR ''d'', CHR 0x22,
               CHR '':'', CHR 0x22, CHR ''x'', CHR ''1'', CHR 0x22,
               CHR ''}''])]\<rparr>,
    Svc_redactor = [], Svc_done = False\<rparr>"

text \<open>These are the states the code reaches.\<close>

lemma demo_request_ok:
  "case Request demo_service ''t1'' ''s1'' [] ''{}'' [] None ''k'' ''x1'' demo_registered of
    (x, s) \<Rightarrow> \<not> isl x \<and> Svc_db s = Svc_db demo_requested"
  by code_simp

lemma demo_provision_ok:
  "case Provision demo_service ''t1'' ''x1'' no_pause demo_requested of
    (x, s) \<Rightarrow> x = Inr () \<and> Svc_db s = Svc_db demo_provisioned \<and> C_world (Svc_cache s) = C_world (Svc_cache demo_provisioned)"
  by code_simp

end
