(* ===== verification/Spec2Isabelle.thy ===== *)
theory Spec2Isabelle
  imports Delivery Isolation Fan_In Resource_Examples
begin

text \<open>
  A verification development of ultracore, a durable multi-tenant agent runtime in Go.

  \<^bold>\<open>The program.\<close> Clients call an HTTP API (\<open>src/http\<close>) with the key of a tenant. Sessions own an append-only
  event log; runs of an agent belong to a session and advance step by step. A step is a job of a queue that delivers at
  least once; its worker (\<open>src/loop\<close>) claims the step, runs the model and its tools, and commits the outcome in one
  transaction. A run may spawn children and park on a wait until they finish or a deadline passes; the transaction that
  ends the last child, or the timeout sweeper, resumes it. Resources (\<open>src/resourcework\<close>) are provisioned, watched,
  restarted and terminated by jobs of their own through provider adapters (\<open>src/provider\<close>); their tools are called
  through a cache of MCP clients (\<open>src/mcp\<close>). All durable state is in PostgreSQL (\<open>src/postgres\<close>).

  \<^bold>\<open>How it is modelled.\<close> A store call or handler is a computation over the database that returns a value or an error
  (\<open>Prelude\<close>: the monad, its weakest preconditions \<open>wp\<close>, and \<open>preserves\<close> for invariants). A table is the list of its rows;
  unique indexes and foreign keys are conditions of the inserts; a transaction is atomic and rolls back on an error.
  Values stored as JSON are represented by the encoded value. Time is a number of nanoseconds that the database carries.
  Concurrency is the interleaving of transactions: the relation \<open>sys_step\<close> (\<open>System\<close>) has one rule per transaction, with
  arguments as arbitrary as the code allows, and jobs are never removed from the queue, so that every redelivery is covered.

  \<^item> \<open>Policy\<close>, \<open>Core_Types\<close>, \<open>Store_State\<close>: \<open>src/policy.go\<close>, the domain types of the root package, the tables.
  \<^item> \<open>Go_Lib\<close>: the functions of Go's standard library that the program uses on byte strings.
  \<^item> \<open>Store_Sessions\<close>, \<open>Store_Runs\<close>, \<open>Store_Waits\<close>, \<open>Store_Memory\<close>, \<open>Store_Resources\<close>: the stores of \<open>src/postgres\<close>.
  \<^item> \<open>Event_Log\<close>: the log invariant and the subscription loop of \<open>src/postgres/eventbus.go\<close>.
  \<^item> \<open>Loop_Delta\<close>, \<open>Loop_Spawn\<close>, \<open>Loop_Waits\<close>, \<open>Loop_Step\<close>: delta batching, spawning, waits, the step worker (\<open>src/loop\<close>).
  \<^item> \<open>Auth\<close>, \<open>Http_Handlers\<close>: \<open>src/auth.go\<close>, \<open>src/http/auth.go\<close>, the run, session, memory and event handlers.
  \<^item> \<open>Tool_Cache\<close>, \<open>Secrets\<close>: \<open>src/mcp\<close> and \<open>src/secrets/redact.go\<close>.
  \<^item> \<open>Provider_Seam\<close>: the provider interface, registry, handles and the in-memory provider (\<open>src/provider\<close>).
  \<^item> \<open>Resource_Work\<close>: the resource lifecycle of \<open>src/resourcework/resourcework.go\<close>.

  \<^bold>\<open>What is shown.\<close> The locales \<open>store_frame\<close>, \<open>store_resume\<close>, \<open>store_invariant\<close> and \<open>store_invariant_create\<close>
  (\<open>Store_Invariant\<close>) say what a property must satisfy on the store calls so that every transaction keeps it; \<open>Invariants\<close>,
  \<open>Spawning\<close>, \<open>Run_States\<close>, \<open>Schedule\<close> and \<open>Progress\<close> interpret them: keys and logs are sane, the tree of runs stays
  confined and capped, runs follow their state machine, and the job of the next step of each active run is enqueued.
  \<open>Executions\<close> shows that a worker's delivery and the handlers are sequences of transactions of the system, so that the
  invariants hold of the real code paths. \<open>Delivery\<close> shows what an acknowledged job has achieved, \<open>Fan_In\<close> how waits close
  and resume once, \<open>Isolation\<close> that the tenants do not touch each other's rows. The locale \<open>resource_frame\<close>
  (\<open>Resource_Paths\<close>) does for the resource lifecycle what \<open>store_frame\<close> does for runs: it is interpreted to show that
  the lifecycle consists of transactions of the system, keeps the rows well formed and stays within its tenant;
  \<open>Resource_Life\<close> shows what its acknowledged jobs have achieved, and with \<open>adopting_provider\<close> and \<open>adopting_host\<close> that
  interrupted provisionings leave one object. \<open>Examples\<close> and \<open>Resource_Examples\<close> are concrete executions, on which the
  theorems below are applied.

  \<^bold>\<open>Bounds.\<close> The only fuel is that of \<open>duration_terms\<close>, the number of bytes left, each term taking at least one. All other
  loops are total functions: the subscription loop ends because the log is finite, the wait for a healthy resource because
  each pause takes at least 200 ms and the deadline is fixed when it starts.

  \<^bold>\<open>Parameters.\<close> The model and its tools' answers, SHA digests, encryption, fresh identifiers and tokens, provider adapters
  other than the in-memory one, and the network are arguments; the theorems hold for all of them unless a hypothesis says
  otherwise.

  \<^bold>\<open>Not modelled.\<close> The tenant, credential, provider and resource handlers of the API, the tool resolver of
  \<open>src/loop/resourcetools.go\<close>, and the admin plane (\<open>src/admin\<close>, \<open>src/adminhttp\<close>), a separate service with its own query
  language; provider adapters for Nomad, Kubernetes, Docker, local processes and the tunnel, which are clients of
  external systems; the queue implementations, whose at-least-once delivery the system relation assumes; connection
  handling, notification wake-ups and migrations; the SDK and the command-line programs; JSON and protobuf text.
\<close>

section \<open>The session event log\<close>

lemma reachable_sane:
  assumes "reachable sha d"
  shows "keys_ok d" "log_ok d" "memory_ok d"
proof -
  have "keys_ok (empty_db t)" "log_ok (empty_db t)" "memory_ok (empty_db t)" for t
    by (simp_all add: keys_ok_def log_ok_def memory_ok_def empty_db_def)
  then show "keys_ok d" "log_ok d" "memory_ok d"
    using keys_inv.reachable_inv [OF TrueI assms] log_inv.reachable_inv [OF TrueI assms]
      memory_inv.reachable_inv [OF TrueI assms] by blast+
qed

lemma log_grows:
  assumes "sys_path sha d d'"
  shows "\<exists>new. log_of d' sid = log_of d sid @ new"
  using log_extends_inv.sys_path_inv [OF TrueI assms, of sid "log_of d sid"] by (simp add: log_extends_def)

text \<open>
  C1. In every reachable state the log of every session holds exactly the sequence
  numbers 1 to its \<open>last_seq\<close>, each once and in order: whatever transactions ran before, no event
  is lost, duplicated or renumbered.
\<close>
theorem log_gapless:
  assumes "reachable sha d" "s \<in> set (sessions d)"
  shows "map Ev_Seq (log_of d (Sess_ID s)) = [1..Sess_last_seq s]"
proof -
  have "log_ok (empty_db t)" for t by (simp add: log_ok_def empty_db_def)
  then have "log_ok d" using log_inv.reachable_inv [OF _ assms(1)] by simp
  then show ?thesis using log_okD(3) assms(2) by blast
qed

theorem log_gapless_witness:
  "hd (sessions demo_resumed) \<in> set (sessions demo_resumed) \<and>
   map Ev_Seq (log_of demo_resumed ''s1'') = [1..Sess_last_seq (hd (sessions demo_resumed))] \<and>
   Sess_last_seq (hd (sessions demo_resumed)) = 9"
proof -
  have h: "hd (sessions demo_resumed) \<in> set (sessions demo_resumed)" by code_simp
  moreover have "Sess_ID (hd (sessions demo_resumed)) = ''s1''" "Sess_last_seq (hd (sessions demo_resumed)) = 9"
    by code_simp+
  ultimately show ?thesis using log_gapless [OF demo_resumed_reachable h] by simp
qed

text \<open>
  C3. Whatever the system does, the log of a session only grows at its end: the events
  that a reader has seen stay as they were and where they were.
\<close>
theorem log_append_only:
  assumes "sys_path sha d d'"
  shows "\<exists>new. log_of d' sid = log_of d sid @ new"
  by (rule log_grows [OF assms])

theorem log_append_only_witness:
  "(\<exists>new. log_of demo_resumed ''s1'' = log_of demo_parked ''s1'' @ new) \<and>
   length (log_of demo_parked ''s1'') = 5 \<and> length (log_of demo_resumed ''s1'') = 9"
proof -
  have "length (log_of demo_parked ''s1'') = 5" "length (log_of demo_resumed ''s1'') = 9" by code_simp+
  then show ?thesis using log_append_only [OF demo_parked_resumed] by blast
qed

section \<open>Runs and their steps\<close>

text \<open>
  C4. No run is ever forgotten: in every reachable state the queue has been given the job for the
  next step of every run that is pending or running, that is, for the first step that is not recorded.
  It is assumed that the SHA-1 UUIDs of the wait namespace do not collide.
\<close>
theorem no_run_stranded:
  assumes "reachable sha d" "inj (sha waitNamespace)" "r \<in> set (agent_runs d)"
    "Run_State r = RunPending \<or> Run_State r = RunRunning"
  shows "enqueued d (StepJob (Run_ID r) (Run_TenantID r) (Run_SessionID r) (step_count d (Run_ID r)))"
  using reachable_tracked [OF assms(1,2), of "Run_ID r"] assms(3,4) by (auto simp: tracked_def working_def active_def)

theorem no_run_stranded_witness:
  "Run_State (hd (agent_runs demo_resumed)) = RunRunning \<and> enqueued demo_resumed (StepJob ''r1'' ''t1'' ''s1'' 1)"
proof -
  have h: "hd (agent_runs demo_resumed) \<in> set (agent_runs demo_resumed)" "Run_State (hd (agent_runs demo_resumed)) = RunRunning"
    by code_simp+
  have i: "Run_ID (hd (agent_runs demo_resumed)) = ''r1''" "Run_TenantID (hd (agent_runs demo_resumed)) = ''t1''"
    "Run_SessionID (hd (agent_runs demo_resumed)) = ''s1''" "step_count demo_resumed ''r1'' = 1"
    by code_simp+
  have "inj (demo_sha waitNamespace)" by (simp add: inj_def demo_sha_def)
  then show ?thesis using no_run_stranded [OF demo_resumed_reachable _ h(1)] h(2) i by simp
qed

text \<open>
  C5. The recorded steps of a run are numbered 0, 1, 2 and so on, each number once, and every step job
  that was ever enqueued is for a step that is recorded or is the next one.
\<close>
theorem steps_numbered:
  assumes "reachable sha d" "inj (sha waitNamespace)"
  shows "bij_betw Step_StepIndex (set (filter (\<lambda>s. Step_RunID s = rid) (agent_run_steps d))) {0..<step_count d rid} \<and>
    (enqueued d (StepJob rid t sid i) \<longrightarrow> 0 \<le> i \<and> i \<le> step_count d rid)"
proof -
  have "based d" using reachable_tracked [OF assms, of rid] by (simp add: tracked_def)
  then have s: "sched d" and k: "key_unique (\<lambda>s. (Step_RunID s, Step_StepIndex s)) (agent_run_steps d)"
    by (simp_all add: based_def keys_ok_def)
  have "inj_on Step_StepIndex (set (filter (\<lambda>s. Step_RunID s = rid) (agent_run_steps d)))"
    using key_uniqueD [OF k] by (auto intro!: inj_onI)
  then show ?thesis using s unfolding sched_def bij_betw_def by blast
qed

theorem steps_numbered_witness:
  "enqueued demo_resumed (StepJob ''r1'' ''t1'' ''s1'' 1) \<and> step_count demo_resumed ''r1'' = 1 \<and>
   bij_betw Step_StepIndex (set (filter (\<lambda>s. Step_RunID s = ''r1'') (agent_run_steps demo_resumed))) {0..<1}"
proof -
  have "enqueued demo_resumed (StepJob ''r1'' ''t1'' ''s1'' 1)" "step_count demo_resumed ''r1'' = 1" by code_simp+
  moreover have "inj (demo_sha waitNamespace)" by (simp add: inj_def demo_sha_def)
  ultimately show ?thesis using steps_numbered [OF demo_resumed_reachable, of "''r1''"] by simp
qed



text \<open>
  C7. A cancelled run stays cancelled, whatever arrives later: answers, redelivered steps, waits that
  close and timeouts leave its state alone.
\<close>
theorem cancelled_forever:
  assumes "reachable sha d" "sys_path sha d d'" "r \<in> set (agent_runs d)" "Run_State r = RunCancelled"
    "r' \<in> set (agent_runs d')" "Run_ID r' = Run_ID r"
  shows "Run_State r' = RunCancelled"
proof -
  have "moved (Run_ID r) (Run_State r) d'"
    using moved_path [OF assms(2) moved_self [OF _ assms(3)]] reachable_tree_ok [OF assms(1)] by blast
  then show ?thesis using assms(4-6) cancelled_final by (auto simp: moved_def)
qed

text \<open>The parked parent of the example, cancelled through the API.\<close>

definition demo_cancelled :: db where
  "demo_cancelled = snd (cancel_tx demo_row demo_parked)"

lemma demo_cancelled_path: "sys_path demo_sha demo_parked demo_cancelled"
proof -
  have "snapshot demo_parked demo_row" by code_simp
  then show ?thesis unfolding demo_cancelled_def by (blast intro: sys_step.cancel)
qed

lemma demo_cancelled_reachable: "reachable demo_sha demo_cancelled"
  using demo_parked_reachable demo_cancelled_path unfolding reachable_def by (meson rtranclp_trans)

definition demo_cancelled_late :: db where
  "demo_cancelled_late = snd (claim demo_job demo_cancelled)"

theorem cancelled_forever_witness:
  "Run_State (hd (agent_runs demo_cancelled)) = RunCancelled \<and>
   Run_State (hd (agent_runs demo_cancelled_late)) = RunCancelled"
proof -
  have e: "enqueued demo_cancelled demo_job" "hd (agent_runs demo_cancelled) \<in> set (agent_runs demo_cancelled)"
    "hd (agent_runs demo_cancelled_late) \<in> set (agent_runs demo_cancelled_late)"
    "Run_ID (hd (agent_runs demo_cancelled_late)) = Run_ID (hd (agent_runs demo_cancelled))"
    "Run_State (hd (agent_runs demo_cancelled)) = RunCancelled"
    by code_simp+
  then have "sys_path demo_sha demo_cancelled demo_cancelled_late"
    unfolding demo_cancelled_late_def by (blast intro: sys_step.claim)
  then show ?thesis using cancelled_forever [OF demo_cancelled_reachable _ e(2,5,3,4)] e(5) by blast
qed

section \<open>Handlers and workers are sequences of transactions\<close>





section \<open>Deliveries\<close>

text \<open>
  C28. A step job is acknowledged only when nothing is left to do for its step: after a delivery that
  returns without an error the step is recorded, or its run is gone, is no longer active or has been told to
  stop. Every other outcome is an error, on which the queue delivers the job again; together with the jobs of
  all active runs being enqueued, no step is lost to a crash, an interruption or a failing transaction.
\<close>
theorem delivery_settles:
  assumes "reachable sha d" "fresh_world w" "enqueued d (StepJob rid t sid i)"
    "Work w (StepJob rid t sid i) d = (Inr (), d')"
  shows "recorded_step d' rid i \<or> (\<forall>r\<in>set (agent_runs d'). Run_ID r = rid \<and> Run_TenantID r = t \<longrightarrow>
    \<not> active (Run_State r) \<or> Run_CancelRequestedAt r \<noteq> None)"
  using wp_ok [OF Work_settles [OF reachable_sane(1) [OF assms(1)] assms(2,3)] assms(4)] by (simp add: settled_def)

theorem delivery_settles_witness:
  "fst (Work demo_world demo_child_job demo_parked) = Inr () \<and>
   (if active (Run_State (agent_runs (snd (Work demo_world demo_child_job demo_parked)) ! 1))
    then recorded_step (snd (Work demo_world demo_child_job demo_parked)) ''c1'' 0 else True)"
proof -
  have e: "fresh_world demo_world" "enqueued demo_parked demo_child_job" by code_simp+
  obtain x d where w: "Work demo_world demo_child_job demo_parked = (x, d)" by (cases "Work demo_world demo_child_job demo_parked")
  have "case Work demo_world demo_child_job demo_parked of (x, d) \<Rightarrow> x = Inr () \<and> agent_runs d ! 1 \<in> set (agent_runs d) \<and>
    Run_ID (agent_runs d ! 1) = ''c1'' \<and> Run_TenantID (agent_runs d ! 1) = ''t1'' \<and>
    Run_CancelRequestedAt (agent_runs d ! 1) = None"
    by code_simp
  then have x: "x = Inr ()" and f: "agent_runs d ! 1 \<in> set (agent_runs d)"
    "Run_ID (agent_runs d ! 1) = ''c1'' \<and> Run_TenantID (agent_runs d ! 1) = ''t1''" "Run_CancelRequestedAt (agent_runs d ! 1) = None"
    by (simp_all add: w)
  from delivery_settles [OF demo_parked_reachable e w [unfolded x]] f
  have "active (Run_State (agent_runs d ! 1)) \<Longrightarrow> recorded_step d ''c1'' 0" by blast
  then show ?thesis by (simp add: w x)
qed

text \<open>
  C29. A delivery that comes again, for a step that is recorded or for a run that is not active, is
  acknowledged and changes nothing: no event, no attempt, no model call.
\<close>
theorem redelivery_noop:
  assumes "find (run_in t rid) (agent_runs d) = Some run"
    "\<not> active (Run_State run) \<or> Run_CancelRequestedAt run = None \<and> recorded_step d rid i"
  shows "Work w (StepJob rid t sid i) d = (Inr (), d)"
  by (rule Work_stale, rule claim_stale) (use assms in simp_all)

theorem redelivery_noop_witness:
  "recorded_step demo_resumed ''r1'' 0 \<and> Work demo_world demo_job demo_resumed = (Inr (), demo_resumed)"
proof -
  have "find (run_in ''t1'' ''r1'') (agent_runs demo_resumed) = Some (hd (agent_runs demo_resumed))"
    "Run_CancelRequestedAt (hd (agent_runs demo_resumed)) = None" "recorded_step demo_resumed ''r1'' 0"
    by code_simp+
  then show ?thesis using redelivery_noop by blast
qed

text \<open>
  C30. The number that a claim gives to an attempt is one more than the number of times the session log
  says the step was started, however many batches the log takes to read.
\<close>
theorem attempts_counted:
  assumes "reachable sha d" "session_visible d (t, sid)" "claim (StepJob rid t sid i) d = (Inr (run, n), d')"
  shows "n = int (length (filter (attempt_event (StepJob rid t sid i)) (log_of d sid))) + 1"
  using claim_attempt [OF reachable_sane(2) [OF assms(1)] _ assms(3)] assms(2) by simp

theorem attempts_counted_witness:
  "session_visible demo_parked (''t1'', ''s1'') \<and> snd (projr (fst (claim demo_child_job demo_parked))) = 1"
proof -
  have v: "session_visible demo_parked (''t1'', ''s1'')" by code_simp
  have "isl (fst (claim demo_child_job demo_parked)) = False"
    "filter (attempt_event demo_child_job) (log_of demo_parked ''s1'') = []"
    by code_simp+
  then obtain run n d' where c: "claim demo_child_job demo_parked = (Inr (run, n), d')"
    by (cases "claim demo_child_job demo_parked"; cases "fst (claim demo_child_job demo_parked)") auto
  have "n = int (length (filter (attempt_event demo_child_job) (log_of demo_parked ''s1''))) + 1"
    by (rule attempts_counted [OF demo_parked_reachable v c])
  with c v \<open>filter _ _ = []\<close> show ?thesis by simp
qed

section \<open>Tenants are isolated\<close>

text \<open>
  C10. A worker that handles a step of one tenant leaves every row of every other tenant as it was: its
  sessions, events, memory, runs, steps and waits.
\<close>
theorem work_isolated:
  assumes "reachable sha d" "t \<noteq> u"
  shows "tenant_view u (snd (Work w (StepJob rid t sid i) d)) = tenant_view u d"
proof (rule view_kept)
  show "preserves (view_is u v) (Work w (StepJob rid t sid i))" for v
    using isolated.Work_pres [OF refl, where job = "StepJob rid t sid i" and u = u and w = w and v = v] assms(2) by simp
qed (use reachable_sane [OF assms(1)] in auto)

theorem work_isolated_witness:
  "tenant_view ''t2'' (snd (Work demo_world demo_child_job demo_parked)) = tenant_view ''t2'' demo_parked \<and>
   tenant_view ''t1'' (snd (Work demo_world demo_child_job demo_parked)) \<noteq> tenant_view ''t1'' demo_parked"
proof -
  have "TV_runs (tenant_view ''t1'' (snd (Work demo_world demo_child_job demo_parked))) \<noteq> TV_runs (tenant_view ''t1'' demo_parked)"
    by code_simp
  then show ?thesis using work_isolated [OF demo_parked_reachable, of "''t1''" "''t2''" demo_world] by auto
qed

text \<open>
  C11. A call of the API made with the key of one tenant leaves every row of every other tenant as it
  was, whatever identifiers the request names.
\<close>
theorem handlers_isolated:
  assumes "reachable sha d" "Auth_TenantID (Ctx_Identity a) \<noteq> u"
  shows "tenant_view u (snd (StartRun dm (Some a) req newID d)) = tenant_view u d \<and>
    tenant_view u (snd (AnswerRun (Some a) rid msg d)) = tenant_view u d \<and>
    tenant_view u (snd (CancelRun (Some a) rid d)) = tenant_view u d \<and>
    tenant_view u (snd (CreateSession (Some a) t title labels newSID d)) = tenant_view u d \<and>
    tenant_view u (snd (UpdateSessionLabels (Some a) sid labels d)) = tenant_view u d \<and>
    tenant_view u (snd (ArchiveSession (Some a) sid d)) = tenant_view u d \<and>
    tenant_view u (snd (SetMemory valid (Some a) sid key val d)) = tenant_view u d \<and>
    tenant_view u (snd (DeleteMemory (Some a) sid key d)) = tenant_view u d \<and>
    tenant_view u (snd (AppendEvent (Some a) sid p d)) = tenant_view u d"
  using reachable_sane [OF assms(1)] assms(2)
  by (intro conjI view_kept isolated.handlers_pres) auto

theorem handlers_isolated_witness:
  "tenant_view ''t2'' (snd (CancelRun (Some demo_ctx) ''r1'' demo_parked)) = tenant_view ''t2'' demo_parked \<and>
   map Run_State (agent_runs (snd (CancelRun (Some demo_ctx) ''r1'' demo_parked))) = [RunCancelled, RunPending]"
proof -
  have "map Run_State (agent_runs (snd (CancelRun (Some demo_ctx) ''r1'' demo_parked))) = [RunCancelled, RunPending]"
    by code_simp
  moreover have "Auth_TenantID (Ctx_Identity demo_ctx) \<noteq> ''t2''" by code_simp
  ultimately show ?thesis using handlers_isolated [OF demo_parked_reachable, of demo_ctx "''t2''"] by blast
qed

section \<open>Spawning\<close>

text \<open>
  C12. Spawning is idempotent: when a tool call has spawned a child and the step is delivered again, at
  any later time and after anything else, the same call returns the same child, marked as adopted, and changes
  nothing.
\<close>
theorem spawn_idempotent:
  assumes "reachable sha d" "spawnChild run job req newID d = (Inr (c, a), d1)" "sys_path sha d1 d2"
  shows "\<exists>c'. Run_ID c' = Run_ID c \<and> spawnChild run job req newID' d2 = (Inr (c', True), d2)"
  by (rule spawnChild_repeated [OF reachable_sane(1) [OF assms(1)] assms(2,3)])

theorem spawn_idempotent_witness:
  "Run_ID demo_child = ''c1'' \<and>
   (\<exists>c'. Run_ID c' = ''c1'' \<and> spawnChild demo_row demo_job demo_spec ''c9'' demo_parked = (Inr (c', True), demo_parked))"
proof -
  have "spawnChild demo_row demo_job demo_spec ''c1'' demo_claimed = (Inr (demo_child, False), demo_spawned)" by code_simp
  note s = spawn_idempotent [OF demo_claimed_reachable this]
  have "enqueued demo_spawned demo_job" by code_simp
  then have "sys_path demo_sha demo_spawned demo_parked" unfolding demo_parked_def by (blast intro: sys_step.commit)
  moreover have "Run_ID demo_child = ''c1''" by code_simp
  ultimately show ?thesis using s by simp
qed

text \<open>
  C13. Privileges only shrink down the tree: every descendant of a run belongs to the tenant and the
  session of that run, may use only tools and resource kinds that the run may use, and may spawn no more
  children.
\<close>
theorem descendants_confined:
  assumes "reachable sha d" "descends d c p"
  shows "Run_TenantID c = Run_TenantID p \<and> Run_SessionID c = Run_SessionID p \<and>
    MaxChildren (Run_Policy c) \<le> MaxChildren (Run_Policy p) \<and>
    (\<forall>tool. AllowsTool (Run_Policy c) tool \<longrightarrow> AllowsTool (Run_Policy p) tool) \<and>
    (\<forall>kind. AllowsResourceKind (Run_Policy c) kind \<longrightarrow> AllowsResourceKind (Run_Policy p) kind)"
  using descends_fits [OF assms(2)] reachable_tree_ok [OF assms(1)] by (simp add: child_fits_def policy_le_def)

theorem descendants_confined_witness:
  "descends demo_parked (agent_runs demo_parked ! 1) (agent_runs demo_parked ! 0) \<and>
   AllowsTool (Run_Policy (agent_runs demo_parked ! 1)) ''post_event'' \<and>
   AllowsTool (Run_Policy (agent_runs demo_parked ! 0)) ''post_event''"
proof -
  have "agent_runs demo_parked ! 1 \<in> set (agent_runs demo_parked)" "agent_runs demo_parked ! 0 \<in> set (agent_runs demo_parked)"
    "Run_ParentRunID (agent_runs demo_parked ! 1) = Some (Run_ID (agent_runs demo_parked ! 0))"
    by code_simp+
  then have s: "descends demo_parked (agent_runs demo_parked ! 1) (agent_runs demo_parked ! 0)" by (rule descends.child)
  moreover have "AllowsTool (Run_Policy (agent_runs demo_parked ! 1)) ''post_event''" by code_simp
  ultimately show ?thesis using descendants_confined [OF demo_parked_reachable s] by blast
qed

text \<open>
  C14. A run never has more children than its policy permits, however often its steps are delivered and
  whichever spawns race.
\<close>
theorem children_capped:
  assumes "reachable sha d" "p \<in> set (agent_runs d)"
  shows "int (length (children_of d (Run_TenantID p) (Run_ID p))) \<le> max 0 (MaxChildren (Run_Policy p))"
  using reachable_tree_ok [OF assms(1)] assms(2) by (simp add: tree_ok_def)

theorem children_capped_witness:
  "length (children_of demo_parked ''t1'' ''r1'') = 1 \<and> int (length (children_of demo_parked ''t1'' ''r1'')) \<le> max 0 16"
proof -
  have "hd (agent_runs demo_parked) \<in> set (agent_runs demo_parked)" by code_simp
  note c = children_capped [OF demo_parked_reachable this]
  have "Run_TenantID (hd (agent_runs demo_parked)) = ''t1''" "Run_ID (hd (agent_runs demo_parked)) = ''r1''"
    "MaxChildren (Run_Policy (hd (agent_runs demo_parked))) = 16" "length (children_of demo_parked ''t1'' ''r1'') = 1"
    by code_simp+
  then show ?thesis using c by simp
qed

section \<open>Waiting for children\<close>

text \<open>
  C15. A run is parked on at most one open wait, and identifiers of waits are unique.
\<close>
theorem one_open_wait:
  assumes "reachable sha d" "v \<in> set (run_waits d)" "w \<in> set (run_waits d)"
    "Wait_ID v = Wait_ID w \<or>
     Wait_State v = WaitOpen \<and> Wait_State w = WaitOpen \<and> Wait_ParentRunID v = Wait_ParentRunID w"
  shows "v = w"
proof -
  have k: "key_unique Wait_ID (run_waits d)"
    "key_unique Wait_ParentRunID (filter (\<lambda>w. Wait_State w = WaitOpen) (run_waits d))"
    using reachable_sane(1) [OF assms(1)] by (simp_all add: keys_ok_def)
  show ?thesis using assms(4) key_uniqueD [OF k(1) assms(2,3)] key_uniqueD [OF k(2), of v w] assms(2,3) by auto
qed

theorem one_open_wait_witness:
  "hd (run_waits demo_parked) = last (run_waits demo_parked) \<and> Wait_State (hd (run_waits demo_parked)) = WaitOpen"
proof -
  have "hd (run_waits demo_parked) \<in> set (run_waits demo_parked)" "last (run_waits demo_parked) \<in> set (run_waits demo_parked)"
    "Wait_ID (hd (run_waits demo_parked)) = Wait_ID (last (run_waits demo_parked))"
    "Wait_State (hd (run_waits demo_parked)) = WaitOpen"
    by code_simp+
  then show ?thesis using one_open_wait [OF demo_parked_reachable] by blast
qed

text \<open>
  C16. A wait resumes its parent at most once: when closing a wait has resumed the parent, no later
  attempt, by the last child, by the sweeper or by a redelivered job, resumes it again or touches a run, a step,
  the event log or the queue.
\<close>
theorem resumed_at_most_once:
  assumes "reachable sha d" "tryCloseWait org wid reason d = (Inr True, d1)" "sys_path sha d1 d2"
  shows "fst (tryCloseWait org' wid reason' d2) \<noteq> Inr True \<and> untouched d2 (snd (tryCloseWait org' wid reason' d2))"
  using resumed_once [OF reachable_sane(1) [OF assms(1)] assms(2,3)] by blast

theorem resumed_at_most_once_witness:
  "fst (tryCloseWait ''t1'' ''r1:0:w'' closeReasonTimeout demo_parked) = Inr True \<and>
   fst (tryCloseWait ''t1'' ''r1:0:w'' closeReasonChild (snd (tryCloseWait ''t1'' ''r1:0:w'' closeReasonTimeout demo_parked))) \<noteq>
     Inr True"
proof -
  have f: "fst (tryCloseWait ''t1'' ''r1:0:w'' closeReasonTimeout demo_parked) = Inr True" by code_simp
  then have "tryCloseWait ''t1'' ''r1:0:w'' closeReasonTimeout demo_parked =
    (Inr True, snd (tryCloseWait ''t1'' ''r1:0:w'' closeReasonTimeout demo_parked))"
    by (metis prod.collapse)
  from resumed_at_most_once [OF demo_parked_reachable this rtranclp.rtrancl_refl] f show ?thesis by blast
qed

text \<open>
  C17. The outcome of a wait is what its definition says: the finished members in their order, each with its
  result or failure, the numbers of completed, failed and cancelled members, which add up to the finished ones,
  and as pending the members that have not finished.
\<close>
theorem fan_in_summary:
  assumes "\<forall>m\<in>set ms. member_run d org m \<noteq> None"
  shows "collect_members org ms out n d =
      (Inr (summary (finished d org ms) out, n + int (length ms - length (finished d org ms))), d) \<and>
    in_state RunCompleted (finished d org ms) + in_state RunFailed (finished d org ms) +
      in_state RunCancelled (finished d org ms) = int (length (finished d org ms))"
  using collect_members_summary [OF assms] in_state_total by blast

theorem fan_in_summary_witness:
  "(\<forall>out n. collect_members ''t1'' (run_wait_members demo_resumed) out n demo_resumed =
     (Inr (summary (finished demo_resumed ''t1'' (run_wait_members demo_resumed)) out, n), demo_resumed)) \<and>
   length (finished demo_resumed ''t1'' (run_wait_members demo_resumed)) = 1"
proof -
  have "\<forall>m\<in>set (run_wait_members demo_resumed). member_run demo_resumed ''t1'' m \<noteq> None"
    "length (finished demo_resumed ''t1'' (run_wait_members demo_resumed)) = 1" "length (run_wait_members demo_resumed) = 1"
    by code_simp+
  then show ?thesis using fan_in_summary [of "run_wait_members demo_resumed" demo_resumed "''t1''"] by simp
qed

text \<open>
  C18. A wait that a sweep has claimed is out of sight from then on: nothing that happens later makes
  a sweep find it due again or a finished child find it open. When the sweep fails or stops between the claim
  and the close, which are separate transactions, the parent of the wait is therefore never resumed by either.
\<close>
theorem claimed_wait_forgotten:
  assumes "reachable sha d" "Waits_ClaimDue t now lim d = (Inr due, d1)" "w \<in> set due" "sys_path sha d1 d2"
  shows "Wait_ID w \<notin> Wait_ID ` set (Waits_due d2 u n k) \<and>
    (\<forall>open. Waits_ListOpenForChild u child d2 = (Inr open, d2) \<longrightarrow> Wait_ID w \<notin> Wait_ID ` set open)"
proof -
  have "wait_closed (Wait_ID w) d1" using ClaimDue_closed [OF assms(2,3)] .
  then have "wait_closed (Wait_ID w) d2" using wait_closed_inv.sys_path_inv [OF TrueI assms(4)] by blast
  then show ?thesis using closed_not_selected by blast
qed

text \<open>The parked parent of the example after its deadline, claimed by a sweep that stops there.\<close>

definition demo_claimed_due :: db where
  "demo_claimed_due = snd (Waits_ClaimDue ''t1'' 20 32 demo_parked)"

theorem claimed_wait_forgotten_witness:
  "Wait_ResumedAt (hd (run_waits demo_claimed_due)) = None \<and>
   ''r1:0:w'' \<notin> Wait_ID ` set (Waits_due demo_claimed_due ''t1'' 100 32)"
proof -
  have f: "fst (Waits_ClaimDue ''t1'' 20 32 demo_parked) =
      Inr [(hd (run_waits demo_parked))\<lparr>Wait_State := WaitTimedOut\<rparr>]"
    "Wait_ID ((hd (run_waits demo_parked))\<lparr>Wait_State := WaitTimedOut\<rparr>) = ''r1:0:w''"
    "Wait_ResumedAt (hd (run_waits demo_claimed_due)) = None"
    by code_simp+
  then have "Waits_ClaimDue ''t1'' 20 32 demo_parked =
      (Inr [(hd (run_waits demo_parked))\<lparr>Wait_State := WaitTimedOut\<rparr>], demo_claimed_due)"
    unfolding demo_claimed_due_def by (metis prod.collapse)
  from claimed_wait_forgotten [OF demo_parked_reachable this _ rtranclp.rtrancl_refl] f show ?thesis by auto
qed

text \<open>
  C27. Cancelling a run through the API leaves the waits of all other runs as they are, also those the
  cancelled run is a member of, and gives the queue nothing to do: unlike completion, failure and cancellation by
  the worker it does not settle the parent, which stays parked until the deadline of its wait.
\<close>
theorem cancel_tells_no_parent:
  assumes "reachable sha d" "w \<in> set (run_waits d)" "Wait_ParentRunID w \<noteq> Run_ID run"
  shows "w \<in> set (run_waits (snd (cancel_tx run d))) \<and> jobs (snd (cancel_tx run d)) = jobs d"
proof -
  let ?p = "\<lambda>w. Wait_ParentRunID w \<noteq> Run_ID run"
  have k: "others_kept (Run_ID run) {} d (snd (cancel_tx run d))"
    by (rule cancel_others [OF reachable_sane(1) [OF assms(1)]])
  have "w \<in> set (filter ?p (run_waits d))" using assms(2,3) by simp
  also have "filter ?p (run_waits d) = filter ?p (run_waits (snd (cancel_tx run d)))" using k by (simp add: others_kept_def)
  finally show ?thesis using k by (simp add: others_kept_def)
qed

text \<open>The child of the example asks a question and is then cancelled; it was the only member of the open wait.\<close>

definition demo_asking :: db where
  "demo_asking = snd (commit_tx demo_sha demo_child_job 1 (InitialEnvelope ''help'') (demo_step FinishReasonToolCalls)
    (demo_result (demo_step FinishReasonToolCalls))
    (new_recorder\<lparr>rec_question := Some \<lparr>Q_Text = ''which'', Q_Choices = []\<rparr>\<rparr>) demo_child_claimed)"

lemma demo_asking_reachable: "reachable demo_sha demo_asking"
proof -
  have "enqueued demo_child_claimed demo_child_job" by code_simp
  then show ?thesis
    unfolding demo_asking_def by (rule reachable_step [OF demo_child_claimed_reachable sys_step.commit])
qed

theorem cancel_tells_no_parent_witness:
  "map Run_State (agent_runs (snd (cancel_tx demo_child demo_asking))) = [RunAwaiting, RunCancelled] \<and>
   hd (run_waits demo_asking) \<in> set (run_waits (snd (cancel_tx demo_child demo_asking))) \<and>
   Wait_State (hd (run_waits demo_asking)) = WaitOpen"
proof -
  have "map Run_State (agent_runs (snd (cancel_tx demo_child demo_asking))) = [RunAwaiting, RunCancelled]"
    "hd (run_waits demo_asking) \<in> set (run_waits demo_asking)" "Wait_ParentRunID (hd (run_waits demo_asking)) \<noteq> Run_ID demo_child"
    "Wait_State (hd (run_waits demo_asking)) = WaitOpen"
    by code_simp+
  then show ?thesis using cancel_tells_no_parent [OF demo_asking_reachable] by blast
qed

section \<open>Subscribers\<close>

text \<open>
  C19. A subscriber that started after sequence number \<open>from\<close> and has read one batch from each of a
  sequence of states of the running system has received the events right after \<open>from\<close>, each once, in order and
  without a gap, however the log grew between the reads.
\<close>
theorem subscriber_exact:
  assumes "\<forall>d\<in>set ds. reachable sha d \<and> session_visible d (t, sid)" "sorted_wrt (sys_path sha) (d0 # ds)" "0 \<le> from"
    "out = snd (foldl (\<lambda>st d. subscribe_batch t sid d st) (from, []) ds)"
  shows "out = take (length out) (drop (nat from) (log_of (last (d0 # ds)) sid))"
proof -
  have grow: "sorted_wrt (\<lambda>d d'. \<exists>es. log_of d' sid = log_of d sid @ es) (d0 # ds)"
    by (rule sorted_wrt_mono_rel [OF _ assms(2)]) (rule log_grows)
  show ?thesis
    using sub_inv_batches [OF _ grow assms(3) sub_inv_init] assms(1,4) reachable_sane(2) by (fastforce simp: sub_inv_def)
qed

theorem subscriber_exact_witness:
  "length (snd (foldl (\<lambda>st d. subscribe_batch ''t1'' ''s1'' d st) (2, []) [demo_parked, demo_resumed])) = 7 \<and>
   snd (foldl (\<lambda>st d. subscribe_batch ''t1'' ''s1'' d st) (2, []) [demo_parked, demo_resumed]) =
     take 7 (drop 2 (log_of demo_resumed ''s1''))"
proof -
  have v: "session_visible demo_parked (''t1'', ''s1'')" "session_visible demo_resumed (''t1'', ''s1'')"
    "length (snd (foldl (\<lambda>st d. subscribe_batch ''t1'' ''s1'' d st) (2, []) [demo_parked, demo_resumed])) = 7"
    by code_simp+
  have "sorted_wrt (sys_path demo_sha) [demo_parked, demo_parked, demo_resumed]" using demo_parked_resumed by simp
  from subscriber_exact [OF _ this _ refl, of "''t1''" "''s1''" 2] demo_parked_reachable demo_resumed_reachable v
  show ?thesis by simp
qed

text \<open>
  C20. The read loop of a subscriber ends on every state of the database, and has then delivered exactly the
  rest of the log, however many batches that takes.
\<close>
theorem subscriber_drains:
  assumes "reachable sha d" "session_visible d (t, sid)" "0 \<le> from"
  shows "\<exists>next. subscribe_drain t sid d (from, []) = Some (next, drop (nat from) (log_of d sid))"
  by (rule drain_complete [OF reachable_sane(2) [OF assms(1)] assms(2,3) sub_inv_init])

theorem subscriber_drains_witness:
  "session_visible demo_resumed (''t1'', ''s1'') \<and>
   (\<exists>next. subscribe_drain ''t1'' ''s1'' demo_resumed (4, []) = Some (next, drop 4 (log_of demo_resumed ''s1'')))"
proof -
  have v: "session_visible demo_resumed (''t1'', ''s1'')" by code_simp
  then show ?thesis using subscriber_drains [OF demo_resumed_reachable v, of 4] by simp
qed

section \<open>Session memory\<close>






text \<open>
  C23. The loop that checks a memory key accepts exactly the keys of at most 256 bytes whose parts between
  dots are non-empty and consist of letters, digits, underscores and hyphens.
\<close>
theorem memory_key_syntax:
  "ValidMemoryKey key \<longleftrightarrow> length key \<le> MaxMemoryKeyBytes \<and>
    (\<forall>s\<in>set (segments key). s \<noteq> [] \<and> list_all key_char s)"
  by (rule ValidMemoryKey_segments)

theorem memory_key_syntax_witness:
  "ValidMemoryKey ''a.b-1'' \<and> list_all (list_all key_char) (segments ''a.b-1'') \<and> \<not> ValidMemoryKey ''a..b''"
proof -
  have "ValidMemoryKey ''a.b-1''" "\<not> ValidMemoryKey ''a..b''" by code_simp+
  then show ?thesis using memory_key_syntax [of "''a.b-1''"] by (simp add: list_all_iff)
qed

section \<open>Authentication\<close>

text \<open>
  C24. A token is accepted only if it is not empty and a key row holds its hash and is not revoked; the
  identity is that of the row, and nothing is written. Any other token is denied.
\<close>
theorem authentication_sound:
  assumes "Authenticate sha256 token d = (Inr ident, d')"
  shows "d' = d \<and> token \<noteq> [] \<and> (\<exists>k\<in>set (api_keys d). Key_Hash k = sha256 token \<and> Key_RevokedAt k = None \<and>
    Auth_TenantID ident = Key_TenantID k \<and> Auth_KeyID ident = Key_ID k \<and> Auth_Scope ident = Key_Scope k)"
  by (rule Authenticate_ok [OF assms])

definition demo_key :: APIKey where
  "demo_key = \<lparr>Key_ID = ''k1'', Key_TenantID = ''t1'', Key_Name = ''ci'', Key_Scope = KeyScopeSessions, Key_Prefix = ''uck_'',
    Key_Hash = ''secret'', Key_Enc = [], Key_CreatedAt = 0, Key_RevokedAt = None\<rparr>"

theorem authentication_sound_witness:
  "fst (Authenticate (\<lambda>s. s) ''secret'' (demo_tenant\<lparr>api_keys := [demo_key]\<rparr>)) =
     Inr \<lparr>Auth_TenantID = ''t1'', Auth_KeyID = ''k1'', Auth_Scope = KeyScopeSessions\<rparr> \<and>
   (\<exists>k\<in>set (api_keys (demo_tenant\<lparr>api_keys := [demo_key]\<rparr>)). Key_Hash k = ''secret'' \<and> Key_RevokedAt k = None)"
proof -
  let ?d = "demo_tenant\<lparr>api_keys := [demo_key]\<rparr>"
  have f: "fst (Authenticate (\<lambda>s. s) ''secret'' ?d) =
      Inr \<lparr>Auth_TenantID = ''t1'', Auth_KeyID = ''k1'', Auth_Scope = KeyScopeSessions\<rparr>" by code_simp
  then have "Authenticate (\<lambda>s. s) ''secret'' ?d =
      (Inr \<lparr>Auth_TenantID = ''t1'', Auth_KeyID = ''k1'', Auth_Scope = KeyScopeSessions\<rparr>,
       snd (Authenticate (\<lambda>s. s) ''secret'' ?d))"
    by (metis prod.collapse)
  from authentication_sound [OF this] f show ?thesis by blast
qed

text \<open>
  C25. An actor survives the request header: parsing the encoded header gives the actor back, for every
  display name, as long as kind and id contain no slash.
\<close>
theorem actor_round_trip:
  assumes "CHR ''/'' \<notin> set (Actor_Kind a)" "CHR ''/'' \<notin> set (Actor_ID a)"
  shows "ParseActorHeader (EncodeActorHeader a) = a"
  by (rule actor_header_round_trip [OF assms])

theorem actor_round_trip_witness:
  "ParseActorHeader (EncodeActorHeader \<lparr>Actor_Kind = ''user'', Actor_ID = ''u1'', Actor_Display = ''A/B''\<rparr>) =
     \<lparr>Actor_Kind = ''user'', Actor_ID = ''u1'', Actor_Display = ''A/B''\<rparr>"
  by (rule actor_round_trip) simp_all

section \<open>Streaming\<close>

text \<open>
  C26. The delta batcher loses, repeats and reorders nothing: after any sequence of deltas, timer flushes and
  explicit flushes, the text and the reasoning of the emitted events followed by the buffered rest are what was streamed,
  the events are numbered consecutively from zero, and less than the limit is held back.
\<close>
theorem deltas_lossless:
  assumes "batch_run ops (newDeltaBatcher rid i attempt period maxBytes) = (b, es)"
  shows "emitted_text es @ b_textBuf b = concat (map op_text ops) \<and>
    emitted_reason es @ b_reasonBuf b = concat (map op_reason ops) \<and>
    emitted_indices es = [0..b_deltaIndex b - 1] \<and>
    int (length (b_textBuf b) + length (b_reasonBuf b)) < (if maxBytes \<le> 0 then 512 else maxBytes)"
  using batch_run_ok [of ops "newDeltaBatcher rid i attempt period maxBytes"]
    batch_run_bound [of "newDeltaBatcher rid i attempt period maxBytes" ops] assms
  by (simp add: step_ok_def newDeltaBatcher_def buffered_def split: if_splits)

theorem deltas_lossless_witness:
  "emitted_text (snd (batch_run [AddText ''ab'', AddReasoning ''c'', AddText ''d''] (newDeltaBatcher ''r'' 0 1 0 3))) = ''ab'' \<and>
   emitted_text (snd (batch_run [AddText ''ab'', AddReasoning ''c'', AddText ''d''] (newDeltaBatcher ''r'' 0 1 0 3))) @
     b_textBuf (fst (batch_run [AddText ''ab'', AddReasoning ''c'', AddText ''d''] (newDeltaBatcher ''r'' 0 1 0 3))) = ''abd''"
proof -
  have "emitted_text (snd (batch_run [AddText ''ab'', AddReasoning ''c'', AddText ''d''] (newDeltaBatcher ''r'' 0 1 0 3))) = ''ab''"
    by code_simp
  then show ?thesis
    using deltas_lossless [of "[AddText ''ab'', AddReasoning ''c'', AddText ''d'']" "''r''" 0 1 0 3
      "fst (batch_run [AddText ''ab'', AddReasoning ''c'', AddText ''d''] (newDeltaBatcher ''r'' 0 1 0 3))"
      "snd (batch_run [AddText ''ab'', AddReasoning ''c'', AddText ''d''] (newDeltaBatcher ''r'' 0 1 0 3))"]
    by simp
qed

section \<open>Resources\<close>


text \<open>
  C32. A resource does not fall out of observation: an acknowledged reconciliation of a resource that is
  requested, provisioning, ready or suspended has enqueued the next one, or the resource is failed.
\<close>
theorem reconcile_watches:
  assumes "find (resource_in org rid) (resources (Svc_db s)) = Some r"
    "Res_State r \<in> {ResourceRequested, ResourceProvisioning, ResourceReady, ResourceSuspended}"
    "Reconcile svc org rid s = (Inr (), s')"
  shows "armed (jobs (Svc_db s)) org rid (Svc_db s') \<or> res_in_state org rid {ResourceFailed} (Svc_db s')"
  using wp_ok [OF Reconcile_watches [OF assms(1,2)] assms(3)] .

theorem reconcile_watches_witness:
  "fst (Reconcile demo_service ''t1'' ''x1'' demo_provisioned) = Inr () \<and>
   (armed (jobs (Svc_db demo_provisioned)) ''t1'' ''x1'' (Svc_db (snd (Reconcile demo_service ''t1'' ''x1'' demo_provisioned))) \<or>
    res_in_state ''t1'' ''x1'' {ResourceFailed} (Svc_db (snd (Reconcile demo_service ''t1'' ''x1'' demo_provisioned))))"
proof -
  obtain x s' where w: "Reconcile demo_service ''t1'' ''x1'' demo_provisioned = (x, s')"
    by (cases "Reconcile demo_service ''t1'' ''x1'' demo_provisioned")
  have "fst (Reconcile demo_service ''t1'' ''x1'' demo_provisioned) = Inr ()" by code_simp
  with w have x: "x = Inr ()" by simp
  have "find (resource_in ''t1'' ''x1'') (resources (Svc_db demo_provisioned)) = Some (hd (resources (Svc_db demo_provisioned)))"
    "Res_State (hd (resources (Svc_db demo_provisioned))) = ResourceReady"
    by code_simp+
  then show ?thesis using reconcile_watches [OF _ _ w [unfolded x]] w x by simp
qed



text \<open>
  C34. At a provider that adopts what an interrupted attempt has left, a provisioning ends with at most
  one object for the resource, whether or not the row knows of an earlier attempt, and however the attempt ends.
\<close>
theorem provision_single:
  assumes "adopting_host provider ok owned adopt http" "S_http svc = http"
    "\<forall>build kind config p. S_Providers svc = Some build \<longrightarrow> build kind config = Inr p \<longrightarrow> p = provider"
    "single_object ok owned rid s"
  shows "single_object ok owned rid (snd (Provision svc org rid pauses s))"
  using preservesD [OF adopting_host.Provision_single [OF assms(1,2)] assms(4)] assms(3) by blast

theorem provision_single_witness:
  "single_object null_ok null_owned ''x1'' (snd (Provision demo_service ''t1'' ''x1'' no_pause demo_requested)) \<and>
   null_owned (C_world (Svc_cache demo_provisioned)) ''x1'' = 1"
proof -
  have "\<forall>build kind config p. S_Providers demo_service = Some build \<longrightarrow> build kind config = Inr p \<longrightarrow> p = null_provider (\<lambda>s. True)"
    by (auto simp: demo_service_def demo_registry_def Build_def split: option.splits if_splits)
  moreover have "S_http demo_service = (\<lambda>req w. (Inl [], w))" by (simp add: demo_service_def)
  moreover have "single_object null_ok null_owned ''x1'' demo_requested" by code_simp
  moreover have "null_owned (C_world (Svc_cache demo_provisioned)) ''x1'' = 1" by code_simp
  ultimately show ?thesis using provision_single [OF null_host.adopting_host_axioms] by blast
qed

text \<open>
  C35. A restart that gets as far as minting the new token leaves the row at the next epoch, no cached tool
  client for the resource, and the client that was cached revoked, whatever the provider and the database do afterwards.
\<close>
theorem restart_cuts_off:
  assumes "find (resource_in org rid) (resources (Svc_db s)) = Some r" "\<not> ResourceState_Terminal (Res_State r)" "\<not> Svc_done s"
    and "find (provider_in org (Res_ProviderInstanceID r)) (provider_instances (Svc_db s)) = Some inst"
    and "S_Providers svc = Some build" "build (Prov_Kind inst) (Prov_Config inst) = Inr p"
    and "S_Encrypt svc (hex_text random) = Inr enc"
    and "s' = snd (Restart svc org rid random pauses s)"
  shows "C_entries (Svc_cache s') rid = None \<and>
    (\<forall>e. C_entries (Svc_cache s) rid = Some e \<longrightarrow> CE_client e < length (C_clients (Svc_cache s')) \<longrightarrow>
      Cl_revoked (C_clients (Svc_cache s') ! CE_client e)) \<and>
    row_is org rid (\<lambda>r'. Res_Epoch r' = Res_Epoch r + 1) (Svc_db s')"
  using Restart_cuts_off [OF assms(1-7), of pauses] unfolding cut_off_def assms(8) .

theorem restart_cuts_off_witness:
  "row_is ''t1'' ''x1'' (\<lambda>r'. Res_Epoch r' = 2) (Svc_db (snd (Restart demo_service ''t1'' ''x1'' ''n'' no_pause
     (snd (on_cache (Cache_Client ''x1'' 1 ''http://h/mcp'' ''6b'') demo_provisioned))))) \<and>
   C_entries (Svc_cache (snd (on_cache (Cache_Client ''x1'' 1 ''http://h/mcp'' ''6b'') demo_provisioned))) ''x1'' =
     Some \<lparr>CE_epoch = 1, CE_client = 0\<rparr>"
proof -
  let ?s = "snd (on_cache (Cache_Client ''x1'' 1 ''http://h/mcp'' ''6b'') demo_provisioned)"
  have c: "C_entries (Svc_cache ?s) ''x1'' = Some \<lparr>CE_epoch = 1, CE_client = 0\<rparr>" by code_simp
  let ?r = "hd (resources (Svc_db demo_provisioned))"
  have f: "find (resource_in ''t1'' ''x1'') (resources (Svc_db ?s)) = Some ?r"
    "\<not> ResourceState_Terminal (Res_State ?r)" "\<not> Svc_done ?s"
    "find (provider_in ''t1'' (Res_ProviderInstanceID ?r)) (provider_instances (Svc_db ?s)) = Some demo_instance"
    by code_simp+
  have g: "S_Providers demo_service = Some (Build demo_registry)"
    "Build demo_registry (Prov_Kind demo_instance) (Prov_Config demo_instance) = Inr (null_provider (\<lambda>s. True))"
    "S_Encrypt demo_service (hex_text ''n'') = Inr (hex_text ''n'')"
    by (simp_all add: demo_service_def demo_registry_def Build_def demo_instance_def)
  have "row_is ''t1'' ''x1'' (\<lambda>r'. Res_Epoch r' = Res_Epoch ?r + 1)
      (Svc_db (snd (Restart demo_service ''t1'' ''x1'' ''n'' no_pause ?s)))"
    by (rule restart_cuts_off [OF f g refl, THEN conjunct2, THEN conjunct2])
  moreover have "Res_Epoch ?r + 1 = 2" by code_simp
  ultimately show ?thesis using c by (simp only: simp_thms)
qed

text \<open>
  C36. Requests, workers and tool calls made for one tenant leave the resources of every other tenant as
  they are.
\<close>
theorem resources_apart:
  assumes "org \<noteq> u"
  shows "resources_of u (Svc_db (snd (Request svc org sid kind spec name created random newID s))) = resources_of u (Svc_db s) \<and>
    resources_of u (Svc_db (snd (Provision svc org rid pauses s))) = resources_of u (Svc_db s) \<and>
    resources_of u (Svc_db (snd (Restart svc org rid random pauses s))) = resources_of u (Svc_db s) \<and>
    resources_of u (Svc_db (snd (Terminate svc org rid s))) = resources_of u (Svc_db s) \<and>
    resources_of u (Svc_db (snd (Reconcile svc org rid s))) = resources_of u (Svc_db s) \<and>
    resources_of u (snd (RequestTerminate svc org rid d)) = resources_of u d \<and>
    resources_of u (snd (RequestRestart svc org rid d)) = resources_of u d"
  by (intro conjI; rule preservesD [OF apart_life.workers_pres(1) [OF assms]] preservesD [OF apart_life.workers_pres(2) [OF assms]]
      preservesD [OF apart_life.workers_pres(3) [OF assms]] preservesD [OF apart_life.workers_pres(4) [OF assms]]
      preservesD [OF apart_life.workers_pres(5) [OF assms]] preservesD [OF apart_life.resource_txs_pres(2) [OF assms]]
      preservesD [OF apart_life.resource_txs_pres(3) [OF assms]]; rule refl)

theorem resources_apart_witness:
  "resources_of ''t2'' (Svc_db (snd (Provision demo_service ''t1'' ''x1'' no_pause demo_requested))) = resources_of ''t2'' (Svc_db demo_requested) \<and>
   length (resources_of ''t1'' (Svc_db demo_requested)) = 1"
proof -
  have "length (resources_of ''t1'' (Svc_db demo_requested)) = 1" by code_simp
  moreover have "resources_of ''t2'' (Svc_db (snd (Provision demo_service ''t1'' ''x1'' no_pause demo_requested))) =
      resources_of ''t2'' (Svc_db demo_requested)"
    by (rule resources_apart [THEN conjunct2, THEN conjunct1]) simp
  ultimately show ?thesis by blast
qed

text \<open>
  C37. The shape of resource rows is kept by every request and worker: an epoch of at least one, a kind, a spec
  and a stored handle; the time of readiness on every ready or suspended resource, no failure message on a ready
  one, and the time of its end on every finished one.
\<close>
theorem resource_rows_typed:
  assumes "resources_typed (Svc_db s)" "resources_typed d"
  shows "resources_typed (Svc_db (snd (Request svc org sid kind spec name created random newID s))) \<and>
    resources_typed (Svc_db (snd (Provision svc org rid pauses s))) \<and>
    resources_typed (Svc_db (snd (Restart svc org rid random pauses s))) \<and>
    resources_typed (Svc_db (snd (Terminate svc org rid s))) \<and>
    resources_typed (Svc_db (snd (Reconcile svc org rid s))) \<and>
    resources_typed (snd (RequestTerminate svc org rid d)) \<and> resources_typed (snd (RequestRestart svc org rid d))"
  by (intro conjI preservesD [where I = "\<lambda>s. resources_typed (Svc_db s)"] preservesD [where I = resources_typed]
      typed_life.workers_pres typed_life.resource_txs_pres TrueI assms)

theorem resource_rows_typed_witness:
  "resources_typed (Svc_db demo_requested) \<and>
   resources_typed (Svc_db (snd (Provision demo_service ''t1'' ''x1'' no_pause demo_requested)))"
proof -
  have t: "resources_typed (Svc_db demo_requested)" by code_simp
  then have "resources_typed (Svc_db (snd (Provision demo_service ''t1'' ''x1'' no_pause demo_requested)))"
    by (rule resource_rows_typed [THEN conjunct2, THEN conjunct1]) (rule t)
  with t show ?thesis by blast
qed

text \<open>
  C38. Only the first read of a provisioning looks at the state of the resource. A provisioning that read the
  resource before it was terminated and goes on afterwards takes it out of the terminated state: once it is
  acknowledged the resource is ready again, or failed.
\<close>
theorem termination_undone:
  assumes "find (resource_in org (Res_ID r)) (resources (Svc_db s)) = Some now_row" "Res_State now_row = ResourceTerminated"
    "provision_from svc org r pauses s = (Inr (), s')"
  shows "res_in_state org (Res_ID r) {ResourceFailed} (Svc_db s') \<or> res_in_state org (Res_ID r) {ResourceReady} (Svc_db s')"
proof -
  have "row_is org (Res_ID r) (\<lambda>x. x = now_row) (Svc_db s)" using assms(1) by (simp add: row_is_def)
  from wp_ok [OF wp_provision_from [OF this refl refl] assms(3)] show ?thesis by blast
qed

theorem termination_undone_witness:
  "res_in_state ''t1'' ''x1'' {ResourceTerminated} (Svc_db (snd (on_db (Resources_SetTerminated ''t1'' ''x1'') demo_requested))) \<and>
   res_in_state ''t1'' ''x1'' {ResourceReady} (Svc_db (snd (provision_from demo_service ''t1'' (hd (resources (Svc_db demo_requested))) no_pause
     (snd (on_db (Resources_SetTerminated ''t1'' ''x1'') demo_requested)))))"
proof -
  let ?r = "hd (resources (Svc_db demo_requested))"
  define s where "s = snd (on_db (Resources_SetTerminated ''t1'' ''x1'') demo_requested)"
  obtain x s' where w: "provision_from demo_service ''t1'' ?r no_pause s = (x, s')"
    by (cases "provision_from demo_service ''t1'' ?r no_pause s")
  have "case provision_from demo_service ''t1'' ?r no_pause s of (x, s') \<Rightarrow> x = Inr () \<and> map Res_State (resources (Svc_db s')) = [ResourceReady]"
    unfolding s_def by code_simp
  then have x: "x = Inr ()" "map Res_State (resources (Svc_db s')) = [ResourceReady]" by (simp_all add: w)
  have r: "Res_ID ?r = ''x1''" by code_simp
  have s: "find (resource_in ''t1'' ''x1'') (resources (Svc_db s)) = Some (hd (resources (Svc_db s)))"
    "Res_State (hd (resources (Svc_db s))) = ResourceTerminated"
    unfolding s_def by code_simp+
  have "res_in_state ''t1'' ''x1'' {ResourceFailed} (Svc_db s') \<or> res_in_state ''t1'' ''x1'' {ResourceReady} (Svc_db s')"
    by (rule termination_undone [where org = "''t1''" and r = ?r and s = s, unfolded r, OF s w [unfolded x(1)]])
  moreover have "\<not> res_in_state ''t1'' ''x1'' {ResourceFailed} (Svc_db s')"
    using x(2) by (auto simp: res_in_state_def dest!: find_SomeD)
  moreover have "res_in_state ''t1'' ''x1'' {ResourceTerminated} (Svc_db s)" using s by (auto simp only: res_in_state_def insert_iff)
  ultimately show ?thesis by (simp add: w flip: s_def)
qed

section \<open>Tool clients and secrets\<close>

text \<open>
  C39. In every history of the client cache, a client that is not the current one of an environment reaches
  nothing: whoever still holds it, each of its calls fails with \<open>ErrRevoked\<close> and sends no request.
\<close>
theorem stale_clients_cut_off:
  assumes "cache_path http (NewCache w) s" "c < length (C_clients s)"
    "\<forall>env e. C_entries s env = Some e \<longrightarrow> CE_client e \<noteq> c"
  shows "rpc http ctx c meth params s = (Inl ErrRevoked, s)"
  by (rule rpc_revoked, rule only_current_live [OF cache_ok_path [OF assms(1)] assms(2,3)])

theorem stale_clients_cut_off_witness:
  "fst (rpc (\<lambda>req (w :: unit). (Inl [], w)) None 0 ''tools/list'' NoParams
     (snd (Cache_Client ''env'' 2 ''e'' ''new'' (snd (Cache_Client ''env'' 1 ''e'' ''old'' (NewCache ())))))) = Inl ErrRevoked"
proof -
  let ?http = "\<lambda>(req :: http_request) (w :: unit). (Inl [] :: string + http_response, w)"
  let ?s1 = "snd (Cache_Client ''env'' 1 ''e'' ''old'' (NewCache ()))"
  let ?s2 = "snd (Cache_Client ''env'' 2 ''e'' ''new'' ?s1)"
  have "cache_path ?http (NewCache ()) ?s2"
    by (rule converse_rtranclp_into_rtranclp, rule cache_step.client, rule r_into_rtranclp, rule cache_step.client)
  moreover have "C_entries ?s2 = (\<lambda>_. None)(''env'' \<mapsto> \<lparr>CE_epoch = 2, CE_client = 1\<rparr>)" "length (C_clients ?s2) = 2"
    by (simp_all add: Cache_Client_def NewCache_def new_entry_def Revoked_def Revoke_def NewClient_def bindM_def gets_def modifyM_def ret_def)
  ultimately show ?thesis using stale_clients_cut_off [of ?http "()" ?s2 0] by (simp del: fun_upd_apply) (simp add: fun_upd_apply)
qed

text \<open>
  C40. Once a secret is registered, no redacted text shows it, neither as it is nor in any of the encodings the
  redactor knows (URL, base64, JSON), provided that it has no brackets and is longer than the word the redactor puts
  in its place; tokens and API keys are such secrets.
\<close>
theorem secret_hidden:
  assumes "v \<in> set vs" "unbracketed v" "8 < length v" "f \<in> set (encodings v)"
  shows "\<not> sublist f (Redact (Register vs r) s)"
proof -
  have f: "unbracketed f" "8 < length f" using encodings_fine [OF assms(2,4)] assms(3) by auto
  then have "f \<in> set (Register vs r)" using assms by (intro Register_forms) auto
  then show ?thesis by (rule Redact_removes) (rule long_hideable [OF f])
qed

theorem secret_hidden_witness:
  "\<not> sublist ''0123456789'' (Redact (Register [''0123456789''] []) ''token=0123456789'')"
  by (rule secret_hidden [of "''0123456789''"]) (simp_all add: encodings_def)

section \<open>Policies\<close>

text \<open>
  C2. The subset check on policies is exact: it accepts a child policy if and only if
  the child's spawn cap is no larger and every tool and every resource kind the child
  permits is permitted by the parent.
\<close>
theorem policy_subset_exact:
  "IsSubset p parent \<longleftrightarrow>
    MaxChildren p \<le> MaxChildren parent \<and>
    (\<forall>t. AllowsTool p t \<longrightarrow> AllowsTool parent t) \<and>
    (\<forall>k. AllowsResourceKind p k \<longrightarrow> AllowsResourceKind parent k)"
  by (simp add: IsSubset_policy_le policy_le_def)

theorem policy_subset_exact_witness:
  "IsSubset (DefaultRunPolicy\<lparr>AllowTools := [''bash'']\<rparr>) DefaultRunPolicy \<and>
   AllowsTool (DefaultRunPolicy\<lparr>AllowTools := [''bash'']\<rparr>) ''bash'' \<and> AllowsTool DefaultRunPolicy ''bash''"
  using policy_subset_exact [of "DefaultRunPolicy\<lparr>AllowTools := [''bash'']\<rparr>" DefaultRunPolicy]
  by (auto simp: DefaultRunPolicy_def AllowsTool_iff AllowsResourceKind_iff)

end
